(* ===== verification/Prelude.thy ===== *)
theory Prelude
  imports Main "HOL-Library.Word" "HOL-Library.AList"
begin

text \<open>
  Shared vocabulary of the MarsPro development: the Python values the integration
  passes around (JSON payloads, keyword arguments, dictionaries keyed by device id),
  Python's dictionary semantics (key equality through hashing, insertion order,
  unhashable keys), the exceptions the code raises or lets through, bytes as
  lists of 8-bit words, and a small exception-and-state combinator set in which
  every \<open>async def\<close> of the sources is written: an operation takes the state and
  returns either the exception it raises (\<open>Inl\<close>) or its value (\<open>Inr\<close>), with the
  state it leaves behind.
\<close>

section \<open>Bytes\<close>

type_synonym u8 = "8 word"
type_synonym bytes = "u8 list"

section \<open>Python floats\<close>

text \<open>
  A Python float is an IEEE double: a value \<open>m * 2 ^ e\<close> for integers \<open>m\<close>, \<open>e\<close>.
  \<open>Flt m e\<close> is that value; the literals of the sources (25.5, 1.2, 1013.25) are
  written as the doubles they denote.  Infinities and NaN do not occur in the code
  paths modelled here.
\<close>

datatype flt = Flt int int

function strip2 :: "int \<Rightarrow> int \<Rightarrow> int \<times> int" where
  "strip2 m e = (if m \<noteq> 0 \<and> even m \<and> e < 0 then strip2 (m div 2) (e + 1) else (m, e))"
  by pat_completeness auto
termination
  by (relation "measure (\<lambda>(m, e). nat (- e))") auto

declare strip2.simps [simp del]

section \<open>Python values\<close>

text \<open>
  The values that flow through the integration: \<open>None\<close>, booleans, integers
  (unbounded, as in Python), floats, strings, lists and dictionaries.  A
  dictionary is its list of entries in insertion order; its keys are kept distinct
  under Python's key equality, which identifies \<open>True\<close> with \<open>1\<close> and \<open>2.0\<close>
  with \<open>2\<close>.
\<close>

datatype pyval =
    PNone
  | PBool bool
  | PInt int
  | PFloat flt
  | PStr string
  | PList "pyval list"
  | PDict "(pyval \<times> pyval) list"

type_synonym pydict = "(pyval \<times> pyval) list"

text \<open>The hash classes of hashable values: equal keys are the values with equal class.\<close>

datatype pykey = KNone | KInt int | KFlt int int | KStr string

fun flt_key :: "flt \<Rightarrow> pykey" where
  "flt_key (Flt m e) =
     (if m = 0 then KInt 0
      else if 0 \<le> e then KInt (m * 2 ^ nat e)
      else (case strip2 m e of (m', e') \<Rightarrow> if 0 \<le> e' then KInt m' else KFlt m' e'))"

fun py_hash_key :: "pyval \<Rightarrow> pykey option" where
  "py_hash_key PNone = Some KNone"
| "py_hash_key (PBool b) = Some (KInt (if b then 1 else 0))"
| "py_hash_key (PInt i) = Some (KInt i)"
| "py_hash_key (PFloat f) = Some (flt_key f)"
| "py_hash_key (PStr s) = Some (KStr s)"
| "py_hash_key (PList _) = None"
| "py_hash_key (PDict _) = None"

definition py_hashable :: "pyval \<Rightarrow> bool" where
  "py_hashable v \<longleftrightarrow> py_hash_key v \<noteq> None"

text \<open>Truthiness, as \<open>if x:\<close> and \<open>not x\<close> read a value.\<close>

fun py_truthy :: "pyval \<Rightarrow> bool" where
  "py_truthy PNone = False"
| "py_truthy (PBool b) = b"
| "py_truthy (PInt i) = (i \<noteq> 0)"
| "py_truthy (PFloat (Flt m e)) = (m \<noteq> 0)"
| "py_truthy (PStr s) = (s \<noteq> [])"
| "py_truthy (PList xs) = (xs \<noteq> [])"
| "py_truthy (PDict d) = (d \<noteq> [])"

section \<open>Exceptions\<close>

text \<open>
  The exceptions of the sources: those the code raises itself, with its message,
  and those a library raises into it (aiohttp, bleak, struct, the event loop),
  whose message is the library's.
\<close>

datatype exn =
    ValueError string
  | TypeError string
  | AttributeError string
  | IndexError string
  | KeyError string
  | RuntimeError string
  | ImportError string
  | StructError string
  | OverflowError string
  | BleakError string
  | ClientError string
  | ContentTypeError string
  | TimeoutError
  | UpdateFailed string
  | ZeroDivisionError string
  | ConfigEntryNotReady string
  | OSError string
  | GenericException string
  | FileNotFoundError string

text \<open>\<open>str(ex)\<close>: the message an exception carries.\<close>

fun exn_msg :: "exn \<Rightarrow> string" where
  "exn_msg (ValueError m) = m"
| "exn_msg (TypeError m) = m"
| "exn_msg (AttributeError m) = m"
| "exn_msg (IndexError m) = m"
| "exn_msg (KeyError m) = m"
| "exn_msg (RuntimeError m) = m"
| "exn_msg (ImportError m) = m"
| "exn_msg (StructError m) = m"
| "exn_msg (OverflowError m) = m"
| "exn_msg (BleakError m) = m"
| "exn_msg (ClientError m) = m"
| "exn_msg (ContentTypeError m) = m"
| "exn_msg TimeoutError = []"
| "exn_msg (UpdateFailed m) = m"
| "exn_msg (ZeroDivisionError m) = m"
| "exn_msg (ConfigEntryNotReady m) = m"
| "exn_msg (OSError m) = m"
| "exn_msg (GenericException m) = m"
| "exn_msg (FileNotFoundError m) = m"

section \<open>Dictionaries\<close>

text \<open>
  \<open>d.get(k, default)\<close>, \<open>k in d\<close>, \<open>d[k] = v\<close> (an existing key keeps its place
  and its original key object, a new key goes last) and \<open>d.update(x)\<close>.  Using an
  unhashable key raises \<open>TypeError\<close>.
\<close>

definition key_eq :: "pyval \<Rightarrow> pyval \<Rightarrow> bool" where
  "key_eq a b \<longleftrightarrow> py_hash_key a = py_hash_key b"

fun dict_lookup :: "pydict \<Rightarrow> pykey \<Rightarrow> pyval option" where
  "dict_lookup [] k = None"
| "dict_lookup ((a, v) # d) k = (if py_hash_key a = Some k then Some v else dict_lookup d k)"

fun dict_store :: "pydict \<Rightarrow> pykey \<Rightarrow> pyval \<Rightarrow> pyval \<Rightarrow> pydict" where
  "dict_store [] k a v = [(a, v)]"
| "dict_store ((b, w) # d) k a v =
     (if py_hash_key b = Some k then (b, v) # d else (b, w) # dict_store d k a v)"

definition py_dict_get :: "pydict \<Rightarrow> pyval \<Rightarrow> pyval \<Rightarrow> exn + pyval" where
  "py_dict_get d a dflt =
     (case py_hash_key a of
        None \<Rightarrow> Inl (TypeError ''unhashable type'')
      | Some k \<Rightarrow> Inr (case dict_lookup d k of None \<Rightarrow> dflt | Some v \<Rightarrow> v))"

definition py_dict_contains :: "pydict \<Rightarrow> pyval \<Rightarrow> exn + bool" where
  "py_dict_contains d a =
     (case py_hash_key a of
        None \<Rightarrow> Inl (TypeError ''unhashable type'')
      | Some k \<Rightarrow> Inr (dict_lookup d k \<noteq> None))"

definition py_dict_set :: "pydict \<Rightarrow> pyval \<Rightarrow> pyval \<Rightarrow> exn + pydict" where
  "py_dict_set d a v =
     (case py_hash_key a of
        None \<Rightarrow> Inl (TypeError ''unhashable type'')
      | Some k \<Rightarrow> Inr (dict_store d k a v))"

text \<open>\<open>d.get(''key'', default)\<close> with a string literal as key, which cannot raise.\<close>

definition dict_get_or :: "pydict \<Rightarrow> string \<Rightarrow> pyval \<Rightarrow> pyval" where
  "dict_get_or d k dflt = (case dict_lookup d (KStr k) of None \<Rightarrow> dflt | Some v \<Rightarrow> v)"

text \<open>\<open>dict.get\<close> on a value that is not a dictionary is an \<open>AttributeError\<close>.\<close>

fun py_get :: "pyval \<Rightarrow> pyval \<Rightarrow> pyval \<Rightarrow> exn + pyval" where
  "py_get (PDict d) a dflt = py_dict_get d a dflt"
| "py_get _ a dflt = Inl (AttributeError ''object has no attribute get'')"

text \<open>
  Iteration (\<open>for x in v\<close>): a list yields its items, a dictionary its keys, a
  string its characters; anything else is not iterable.
\<close>

fun py_iter :: "pyval \<Rightarrow> exn + pyval list" where
  "py_iter (PList xs) = Inr xs"
| "py_iter (PDict d) = Inr (map fst d)"
| "py_iter (PStr s) = Inr (map (\<lambda>c. PStr [c]) s)"
| "py_iter _ = Inl (TypeError ''object is not iterable'')"

text \<open>
  \<open>d.update(x)\<close>: from a dictionary, its entries in order; from any other iterable,
  each item must itself be a two-element sequence (key, value).  Entries are merged
  one at a time, so an item that is not a pair stops the merge with the entries
  before it already stored, as CPython does.
\<close>

fun py_pair :: "pyval \<Rightarrow> (pyval \<times> pyval) option" where
  "py_pair (PList [a, b]) = Some (a, b)"
| "py_pair (PStr [a, b]) = Some (PStr [a], PStr [b])"
| "py_pair (PDict [(a, _), (b, _)]) = Some (a, b)"
| "py_pair _ = None"

fun dict_merge :: "pydict \<Rightarrow> (pyval \<times> pyval) list \<Rightarrow> exn option \<times> pydict" where
  "dict_merge d [] = (None, d)"
| "dict_merge d ((a, v) # kvs) =
     (case py_dict_set d a v of Inl e \<Rightarrow> (Some e, d) | Inr d' \<Rightarrow> dict_merge d' kvs)"

fun dict_merge_seq :: "pydict \<Rightarrow> pyval list \<Rightarrow> exn option \<times> pydict" where
  "dict_merge_seq d [] = (None, d)"
| "dict_merge_seq d (x # xs) =
     (case py_pair x of
        None \<Rightarrow> (Some (ValueError ''dictionary update sequence element has wrong length''), d)
      | Some (a, v) \<Rightarrow>
          (case py_dict_set d a v of Inl e \<Rightarrow> (Some e, d) | Inr d' \<Rightarrow> dict_merge_seq d' xs))"

fun py_dict_update :: "pydict \<Rightarrow> pyval \<Rightarrow> exn option \<times> pydict" where
  "py_dict_update d (PDict e) = dict_merge d e"
| "py_dict_update d v =
     (case py_iter v of Inl e \<Rightarrow> (Some e, d) | Inr xs \<Rightarrow> dict_merge_seq d xs)"

text \<open>A well-formed dictionary: every key hashable, no two keys equal.\<close>

definition wf_dict :: "pydict \<Rightarrow> bool" where
  "wf_dict d \<longleftrightarrow> (\<forall>a \<in> fst ` set d. py_hashable a) \<and> distinct (map (py_hash_key \<circ> fst) d)"

text \<open>\<open>str(n)\<close> of a natural number, as it appears in the code's messages.\<close>

fun nat_str :: "nat \<Rightarrow> string" where
  "nat_str n = (if n < 10 then [''0123456789'' ! n] else nat_str (n div 10) @ [''0123456789'' ! (n mod 10)])"

declare nat_str.simps [simp del]

text \<open>\<open>str(i)\<close> of an integer.\<close>

definition int_str :: "int \<Rightarrow> string" where
  "int_str i = (if i < 0 then ''-'' @ nat_str (nat (- i)) else nat_str (nat i))"

text \<open>
  A formatted string kept as its parts: literal text, \<open>str(v)\<close> of a value
  (an f-string field), \<open>repr()\<close> of the string the parts form, and
  \<open>format(v, spec)\<close> of a value with a format specification (an f-string field
  \<open>{v:spec}\<close>).  The messages and titles the code formats are these parts;
  rendering \<open>str\<close> of an arbitrary value (floats included) is left to Python.
\<close>

datatype fpart = FLit string | FVal pyval | FRepr "fpart list" | FFmt string pyval

section \<open>Processes\<close>

text \<open>
  The outcome of \<open>subprocess.run\<close>: the process ran to its end, with its exit
  code, standard output and standard error (empty when not captured); a
  \<open>TimeoutExpired\<close>; a \<open>FileNotFoundError\<close> (the program is not installed); any
  other \<open>OSError\<close>, with its message.
\<close>

datatype proc_result = ProcExit int string string | ProcTimeout | ProcNotFound | ProcError string

section \<open>Strings\<close>

text \<open>
  \<open>str.lower\<close> on the code points a \<open>char\<close> holds (0 to 255): ASCII capitals and the
  Latin-1 capitals \<open>0xC0..0xDE\<close> except the multiplication sign move up by 32.
\<close>

definition py_lower_char :: "char \<Rightarrow> char" where
  "py_lower_char c =
     (let n = of_char c :: nat
      in if (65 \<le> n \<and> n \<le> 90) \<or> (192 \<le> n \<and> n \<le> 222 \<and> n \<noteq> 215) then char_of (n + 32) else c)"

definition py_lower :: "string \<Rightarrow> string" where
  "py_lower s = map py_lower_char s"

text \<open>\<open>p in s\<close> for strings.\<close>

fun str_contains :: "string \<Rightarrow> string \<Rightarrow> bool" where
  "str_contains p [] = (p = [])"
| "str_contains p (c # cs) = (take (length p) (c # cs) = p \<or> str_contains p cs)"

text \<open>A newline, and the text of lines each ended by one (a file's contents).\<close>

abbreviation NL :: string where
  "NL \<equiv> [CHR 0x0A]"

text \<open>The quote characters and the backslash, as one-character strings.\<close>

abbreviation SQ :: string where
  "SQ \<equiv> [CHR 0x27]"

abbreviation DQ :: string where
  "DQ \<equiv> [CHR 0x22]"

abbreviation BSL :: string where
  "BSL \<equiv> [CHR 0x5C]"

definition unlines :: "string list \<Rightarrow> string" where
  "unlines ls = concat (map (\<lambda>l. l @ NL) ls)"

text \<open>
  \<open>os.path.join(a, b)\<close> for a relative \<open>b\<close> (and pathlib's \<open>a / b\<close>, with POSIX
  separators).
\<close>

definition path_join :: "string \<Rightarrow> string \<Rightarrow> string" where
  "path_join a b = (if a = [] then b else if last a = CHR ''/'' then a @ b else a @ ''/'' @ b)"

section \<open>Operations with exceptions and state\<close>

text \<open>
  An \<open>async def\<close> method of the sources becomes an operation on the object's state:
  it returns the exception it raises or its value, and the state it leaves (the
  assignments made before a raise stay made, as in Python).
\<close>

type_synonym ('s, 'a) pyop = "'s \<Rightarrow> (exn + 'a) \<times> 's"

definition ret :: "'a \<Rightarrow> ('s, 'a) pyop" where
  "ret x s = (Inr x, s)"

definition throw :: "exn \<Rightarrow> ('s, 'a) pyop" where
  "throw e s = (Inl e, s)"

definition liftE :: "exn + 'a \<Rightarrow> ('s, 'a) pyop" where
  "liftE r s = (r, s)"

definition bindE :: "('s, 'a) pyop \<Rightarrow> ('a \<Rightarrow> ('s, 'b) pyop) \<Rightarrow> ('s, 'b) pyop" where
  "bindE m f s = (case m s of (Inl e, s') \<Rightarrow> (Inl e, s') | (Inr x, s') \<Rightarrow> f x s')"

text \<open>\<open>try: m except Exception as e: h(e)\<close>.\<close>

definition catchE :: "('s, 'a) pyop \<Rightarrow> (exn \<Rightarrow> ('s, 'a) pyop) \<Rightarrow> ('s, 'a) pyop" where
  "catchE m h s = (case m s of (Inl e, s') \<Rightarrow> h e s' | (Inr x, s') \<Rightarrow> (Inr x, s'))"

definition modify :: "('s \<Rightarrow> 's) \<Rightarrow> ('s, unit) pyop" where
  "modify f s = (Inr (), f s)"

definition gets :: "('s \<Rightarrow> 'a) \<Rightarrow> ('s, 'a) pyop" where
  "gets f s = (Inr (f s), s)"

text \<open>Running an operation of a part of the state (the coordinator calling its API object).\<close>

definition on_part :: "('t \<Rightarrow> 's) \<Rightarrow> ('s \<Rightarrow> 't \<Rightarrow> 't) \<Rightarrow> ('s, 'a) pyop \<Rightarrow> ('t, 'a) pyop" where
  "on_part get put m t = (case m (get t) of (r, s') \<Rightarrow> (r, put s' t))"

named_theorems pyop_simps "unfolding rules of the exception-and-state combinators"

declare ret_def [pyop_simps] throw_def [pyop_simps] liftE_def [pyop_simps]
  bindE_def [pyop_simps] catchE_def [pyop_simps] modify_def [pyop_simps]
  gets_def [pyop_simps] on_part_def [pyop_simps]

section \<open>Shared lemmas\<close>

named_theorems dict_simps "lookup and store laws of Python dictionaries"

lemma dict_lookup_store [simp, dict_simps]:
  "py_hash_key a = Some k \<Longrightarrow>
     dict_lookup (dict_store d k a v) k' = (if k' = k then Some v else dict_lookup d k')"
  by (induction d) auto

lemma dict_keys_store:
  "py_hash_key a = Some k \<Longrightarrow>
     (py_hash_key \<circ> fst) ` set (dict_store d k a v) = insert (Some k) ((py_hash_key \<circ> fst) ` set d)"
proof (induction d)
  case Nil
  then show ?case by simp
next
  case (Cons e d)
  then show ?case by (cases e) (simp add: insert_commute)
qed

lemma dict_lookup_None_iff:
  "dict_lookup d k = None \<longleftrightarrow> (\<forall>e \<in> set d. py_hash_key (fst e) \<noteq> Some k)"
  by (induction d) (auto split: if_splits)

lemma wf_dict_Nil [simp, intro]: "wf_dict []"
  by (simp add: wf_dict_def)

lemma wf_dict_store [intro]:
  assumes "wf_dict d" and "py_hash_key a = Some k"
  shows "wf_dict (dict_store d k a v)"
  using assms
proof (induction d)
  case Nil
  then show ?case by (simp add: wf_dict_def py_hashable_def)
next
  case (Cons e d)
  obtain b w where e: "e = (b, w)" by (cases e)
  from Cons.prems have wfd: "wf_dict d" by (simp add: wf_dict_def)
  show ?case
  proof (cases "py_hash_key b = Some k")
    case True
    with Cons.prems e show ?thesis by (simp add: wf_dict_def)
  next
    case False
    from Cons.IH [OF wfd Cons.prems(2)] have "wf_dict (dict_store d k a v)" .
    moreover have "py_hash_key b \<notin> (py_hash_key \<circ> fst) ` set (dict_store d k a v)"
    proof -
      have "py_hash_key b \<notin> (py_hash_key \<circ> fst) ` set d"
        using Cons.prems(1) e by (simp add: wf_dict_def)
      with False show ?thesis by (simp only: dict_keys_store [OF Cons.prems(2)]) simp
    qed
    ultimately show ?thesis using Cons.prems e False by (simp add: wf_dict_def)
  qed
qed

lemma py_dict_set_wf:
  "wf_dict d \<Longrightarrow> py_dict_set d a v = Inr d' \<Longrightarrow> wf_dict d'"
  by (auto simp: py_dict_set_def split: option.splits)

lemma py_dict_set_get:
  "py_dict_set d a v = Inr d' \<Longrightarrow> py_dict_get d' a x = Inr v"
  by (auto simp: py_dict_set_def py_dict_get_def split: option.splits)

lemma py_dict_set_hashable:
  "py_dict_set d a v = Inl e \<longleftrightarrow> \<not> py_hashable a \<and> e = TypeError ''unhashable type''"
  by (auto simp: py_dict_set_def py_hashable_def split: option.splits)

lemma dict_merge_wf:
  "wf_dict d \<Longrightarrow> wf_dict (snd (dict_merge d kvs))"
  by (induction d kvs rule: dict_merge.induct)
     (auto split: sum.splits dest: py_dict_set_wf)

lemma dict_merge_seq_wf:
  "wf_dict d \<Longrightarrow> wf_dict (snd (dict_merge_seq d xs))"
  by (induction d xs rule: dict_merge_seq.induct)
     (auto split: option.splits sum.splits prod.splits dest: py_dict_set_wf)

lemma py_dict_update_wf:
  "wf_dict d \<Longrightarrow> wf_dict (snd (py_dict_update d v))"
  by (cases v) (auto simp: dict_merge_wf dict_merge_seq_wf split: sum.splits)

lemma dict_merge_hashable:
  "\<forall>a \<in> fst ` set kvs. py_hashable a \<Longrightarrow> fst (dict_merge d kvs) = None"
  by (induction d kvs rule: dict_merge.induct)
     (auto simp: py_dict_set_def py_hashable_def split: option.splits)

lemma dict_merge_lookup_other:
  "\<forall>a \<in> fst ` set kvs. py_hash_key a \<noteq> Some k \<Longrightarrow> dict_lookup (snd (dict_merge d kvs)) k = dict_lookup d k"
  by (induction d kvs rule: dict_merge.induct) (auto simp: py_dict_set_def split: option.splits)

lemma dict_store_keys: "fst ` set (dict_store d k a v) \<subseteq> insert a (fst ` set d)"
  by (induction d k a v rule: dict_store.induct) auto

lemma py_dict_get_str [simp]:
  "py_dict_get d (PStr k) dflt = Inr (dict_get_or d k dflt)"
  by (simp add: py_dict_get_def dict_get_or_def)

lemma map_sum_Inr_iff [simp]:
  "map_sum f g x = Inr y \<longleftrightarrow> (\<exists>z. x = Inr z \<and> y = g z)"
  by (cases x) auto

lemma map_sum_Inl_iff [simp]:
  "map_sum f g x = Inl y \<longleftrightarrow> (\<exists>z. x = Inl z \<and> y = f z)"
  by (cases x) auto

lemma int_div_bounds:
  "0 < (d::int) \<Longrightarrow> x div d * d \<le> x \<and> x < x div d * d + d"
  using div_mult_mod_eq [of x d] pos_mod_bound [of d x] pos_mod_sign [of d x] by linarith

lemma str_contains_append: "str_contains (p @ q) s \<Longrightarrow> str_contains p s"
proof (induction s)
  case Nil
  then show ?case by simp
next
  case (Cons c cs)
  then show ?case
  proof (cases "take (length (p @ q)) (c # cs) = p @ q")
    case True
    then have "take (length p) (take (length (p @ q)) (c # cs)) = p" by simp
    then show ?thesis by (simp add: min_def)
  qed (use Cons in auto)
qed

lemma str_contains_Nil [simp]: "str_contains [] s"
  by (cases s) simp_all

lemma str_contains_prefix: "str_contains p s \<Longrightarrow> str_contains p (s @ t)"
proof (induction s)
  case Nil
  then show ?case by simp
next
  case (Cons c cs)
  show ?case
  proof (cases "take (length p) (c # cs) = p")
    case True
    then have "length p \<le> length (c # cs)" by (metis length_take min.absorb_iff2 nat_le_linear take_all)
    then have "take (length p) ((c # cs) @ t) = p" using True by (simp del: append_Cons add: take_append)
    then show ?thesis by simp
  next
    case False
    then show ?thesis using Cons by simp
  qed
qed

lemmas py_lower_eval = py_lower_def py_lower_char_def char_of_def bit_0

lemma bindE_ret [simp]: "bindE (ret x) f = f x"
  by (rule ext) (simp add: bindE_def ret_def)

lemma bindE_throw [simp]: "bindE (throw e) f = throw e"
  by (rule ext) (simp add: bindE_def throw_def)

lemma bindE_assoc: "bindE (bindE m f) g = bindE m (\<lambda>x. bindE (f x) g)"
  by (rule ext) (simp add: bindE_def split: prod.splits sum.splits)

lemma bindE_InrE:
  assumes "bindE m f s = (Inr y, s')"
  obtains x s1 where "m s = (Inr x, s1)" "f x s1 = (Inr y, s')"
  using assms by (auto simp: bindE_def split: prod.splits sum.splits)

lemma modify_Inr: "modify g s = (Inr x, s') \<longleftrightarrow> s' = g s"
  by (auto simp: modify_def)

end
