(* ===== verification/PyStruct.thy ===== *)
theory PyStruct
  imports Prelude
begin

text \<open>
  The two conversions of Python's \<open>struct\<close> module the BLE packet builder calls
  (\<open>ble_client_standalone.py\<close>, \<open>_build_command_packet\<close>): \<open>struct.pack('B', v)\<close>, one
  unsigned byte, and \<open>struct.pack('f', v)\<close>, an IEEE-754 single in the machine's
  (little-endian) byte order.  The value of a single is rounded to nearest, ties to
  even, from the double (or the integer, through a double); a value too large for a
  single raises \<open>OverflowError\<close>.  These are library behaviour, modelled as CPython
  implements it (\<open>_struct.c\<close>, \<open>PyFloat_Pack4\<close>), so that the packet builder can be
  run on concrete inputs.
\<close>

section \<open>Unsigned byte\<close>

fun struct_pack_B :: "pyval \<Rightarrow> exn + bytes" where
  "struct_pack_B (PInt i) =
     (if 0 \<le> i \<and> i \<le> 255 then Inr [word_of_int i]
      else Inl (StructError ''ubyte format requires 0 <= number <= 255''))"
| "struct_pack_B (PBool b) = Inr [if b then 1 else 0]"
| "struct_pack_B _ = Inl (StructError ''required argument is not an integer'')"

section \<open>Binary rounding\<close>

fun bitlen :: "nat \<Rightarrow> nat" where
  "bitlen n = (if n = 0 then 0 else Suc (bitlen (n div 2)))"

declare bitlen.simps [simp del]

text \<open>\<open>n / 2 ^ k\<close> rounded to nearest, ties to even.\<close>

definition round_shift :: "nat \<Rightarrow> nat \<Rightarrow> nat" where
  "round_shift n k =
     (if k = 0 then n
      else (let q = n div 2 ^ k; r = n mod 2 ^ k; h = 2 ^ (k - 1)
            in if h < r \<or> (r = h \<and> odd q) then q + 1 else q))"

text \<open>\<open>n * 2 ^ j\<close> for an integer \<open>j\<close>, rounded as above when \<open>j\<close> is negative.\<close>

definition scale2 :: "nat \<Rightarrow> int \<Rightarrow> nat" where
  "scale2 n j = (if 0 \<le> j then n * 2 ^ nat j else round_shift n (nat (- j)))"

text \<open>\<open>float(i)\<close> for a Python integer: rounded to 53 bits.\<close>

definition int_to_double :: "int \<Rightarrow> exn + flt" where
  "int_to_double i =
     (let n = nat \<bar>i\<bar>; k = bitlen n - 53; m = round_shift n k
      in if 1024 < bitlen m + k then Inl (OverflowError ''int too large to convert to float'')
         else Inr (Flt (sgn i * int m) (int k)))"

section \<open>IEEE single\<close>

text \<open>
  The bit pattern of the single nearest to \<open>m * 2 ^ e\<close>: sign bit, 8-bit biased
  exponent, 23-bit fraction.  Below \<open>2 ^ -126\<close> the value is subnormal and counts in
  units of \<open>2 ^ -149\<close>; a subnormal that rounds up to \<open>2 ^ 23\<close> units is the least
  normal, whose pattern is the same sum.
\<close>

definition f32_bits :: "flt \<Rightarrow> exn + nat" where
  "f32_bits x =
     (case x of Flt m e \<Rightarrow>
       if m = 0 then Inr 0
       else
         (let s = (if m < 0 then 2 ^ 31 else 0 :: nat); n = nat \<bar>m\<bar>;
              ex = int (bitlen n) - 1 + e
          in if ex < -126 then Inr (s + scale2 n (e + 149))
             else
               (let mm = scale2 n (24 - int (bitlen n));
                    (ex', mm') = (if mm = 2 ^ 24 then (ex + 1, 2 ^ 23) else (ex, mm))
                in if 127 < ex' then Inl (OverflowError ''float too large to pack with f format'')
                   else Inr (s + nat (ex' + 127) * 2 ^ 23 + (mm' - 2 ^ 23)))))"

definition le32 :: "nat \<Rightarrow> bytes" where
  "le32 b = map (\<lambda>i. of_nat (b div 2 ^ (8 * i))) [0..<4]"

fun struct_pack_f :: "pyval \<Rightarrow> exn + bytes" where
  "struct_pack_f (PFloat x) = map_sum id le32 (f32_bits x)"
| "struct_pack_f (PInt i) =
     (case int_to_double i of Inl e \<Rightarrow> Inl e | Inr x \<Rightarrow> map_sum id le32 (f32_bits x))"
| "struct_pack_f (PBool b) = map_sum id le32 (f32_bits (Flt (if b then 1 else 0) 0))"
| "struct_pack_f _ = Inl (StructError ''required argument is not a float'')"

section \<open>Lemmas\<close>

lemma length_le32 [simp]: "length (le32 b) = 4"
  by (simp add: le32_def)

lemma struct_pack_B_length: "struct_pack_B v = Inr bs \<Longrightarrow> length bs = 1"
  by (cases v) (auto split: if_splits)

lemma struct_pack_f_length: "struct_pack_f v = Inr bs \<Longrightarrow> length bs = 4"
  by (cases v) (auto split: sum.splits)

lemma bitlen_0 [simp]: "bitlen 0 = 0"
  by (subst bitlen.simps) simp

text \<open>\<open>bitlen\<close> on binary numerals, one digit per step.\<close>

lemma bitlen_Suc0 [simp]: "bitlen (Suc 0) = 1"
  by (subst bitlen.simps) simp

lemma bitlen_num1 [simp]: "bitlen (numeral Num.One) = 1"
  by (subst bitlen.simps) simp

lemma bitlen_bit0 [simp]: "bitlen (numeral (Num.Bit0 n)) = Suc (bitlen (numeral n))"
  by (subst bitlen.simps) simp

lemma bitlen_bit1 [simp]: "bitlen (numeral (Num.Bit1 n)) = Suc (bitlen (numeral n))"
  by (subst bitlen.simps) simp

lemma int_to_double_0: "int_to_double 0 = Inr (Flt 0 0)"
  by (simp add: int_to_double_def round_shift_def)

text \<open>\<open>struct.pack('f', 0)\<close>: the missing-field default of the packet builder.\<close>

lemma struct_pack_f_zero: "struct_pack_f (PInt 0) = Inr [0, 0, 0, 0]"
  by (simp add: int_to_double_0 f32_bits_def le32_def upt_rec)

lemmas struct_eval = f32_bits_def bitlen.simps scale2_def round_shift_def le32_def
  upt_rec Let_def int_to_double_def

lemma struct_pack_B_int:
  "0 \<le> i \<Longrightarrow> i \<le> 255 \<Longrightarrow> struct_pack_B (PInt i) = Inr [word_of_int i]"
  by simp

end
