(* ===== verification/Const.thy ===== *)
theory Const
  imports Prelude
begin

text \<open>
  The constants of \<open>src/marspro/const.py\<close> that the modelled code reads: the
  integration's domain, the poll interval and request timeout, the BLE characteristic
  the API client reads and writes, the cloud endpoint, the device type the light
  platform selects, the command names the entities send, and the power states the
  status dictionaries carry, the configuration keys of an entry and the platform
  list the setup forwards.  The file's other constants (the scan-interval key,
  the retry count, the service UUID, the endpoint paths, the fan and sensor names,
  the error messages and the logger name) are defined here too: no code of the
  integration reads them, and \<open>Api.request_url\<close> shows that the URLs the API
  client requests are not the endpoint paths declared here.
\<close>

definition DOMAIN :: string where
  "DOMAIN = ''marspro''"

definition CONF_EMAIL :: string where
  "CONF_EMAIL = ''email''"

definition CONF_PASSWORD :: string where
  "CONF_PASSWORD = ''password''"

definition CONF_USE_CLOUD :: string where
  "CONF_USE_CLOUD = ''use_cloud''"

definition CONF_BLE_MAC :: string where
  "CONF_BLE_MAC = ''ble_mac''"

datatype platform = LIGHT | FAN | SENSOR

definition PLATFORMS :: "platform list" where
  "PLATFORMS = [LIGHT, FAN, SENSOR]"

definition DEFAULT_SCAN_INTERVAL :: nat where
  "DEFAULT_SCAN_INTERVAL = 30"

definition DEFAULT_TIMEOUT :: nat where
  "DEFAULT_TIMEOUT = 10"

definition BLE_CHARACTERISTIC_UUID :: string where
  "BLE_CHARACTERISTIC_UUID = ''0000ffe1-0000-1000-8000-00805f9b34fb''"

definition API_BASE_URL :: string where
  "API_BASE_URL = ''https://api.marspro.com''"

definition API_VERSION :: string where
  "API_VERSION = ''v1''"

definition DEVICE_TYPE_LIGHT :: string where
  "DEVICE_TYPE_LIGHT = ''light''"

definition CMD_POWER_ON :: string where
  "CMD_POWER_ON = ''power_on''"

definition CMD_POWER_OFF :: string where
  "CMD_POWER_OFF = ''power_off''"

definition CMD_SET_BRIGHTNESS :: string where
  "CMD_SET_BRIGHTNESS = ''set_brightness''"

definition CMD_SET_COLOR :: string where
  "CMD_SET_COLOR = ''set_color''"

definition STATUS_ON :: string where
  "STATUS_ON = ''on''"

definition STATUS_OFF :: string where
  "STATUS_OFF = ''off''"

definition CONF_SCAN_INTERVAL :: string where
  "CONF_SCAN_INTERVAL = ''scan_interval''"

definition DEFAULT_RETRY_ATTEMPTS :: nat where
  "DEFAULT_RETRY_ATTEMPTS = 3"

definition BLE_SERVICE_UUID :: string where
  "BLE_SERVICE_UUID = ''0000ffe0-0000-1000-8000-00805f9b34fb''"

definition API_LOGIN_ENDPOINT :: string where
  "API_LOGIN_ENDPOINT = ''/api/v1/login''"

definition API_DEVICES_ENDPOINT :: string where
  "API_DEVICES_ENDPOINT = ''/api/v1/devices''"

definition API_CONTROL_ENDPOINT :: string where
  "API_CONTROL_ENDPOINT = ''/api/v1/control''"

definition DEVICE_TYPE_FAN :: string where
  "DEVICE_TYPE_FAN = ''fan''"

definition DEVICE_TYPE_SENSOR :: string where
  "DEVICE_TYPE_SENSOR = ''sensor''"

definition CMD_SET_FAN_SPEED :: string where
  "CMD_SET_FAN_SPEED = ''set_fan_speed''"

definition CMD_GET_STATUS :: string where
  "CMD_GET_STATUS = ''get_status''"

definition STATUS_UNKNOWN :: string where
  "STATUS_UNKNOWN = ''unknown''"

definition ERROR_CONNECTION_FAILED :: string where
  "ERROR_CONNECTION_FAILED = ''Connection to MarsPro failed''"

definition ERROR_AUTHENTICATION_FAILED :: string where
  "ERROR_AUTHENTICATION_FAILED = ''Authentication failed''"

definition ERROR_DEVICE_NOT_FOUND :: string where
  "ERROR_DEVICE_NOT_FOUND = ''Device not found''"

definition ERROR_COMMAND_FAILED :: string where
  "ERROR_COMMAND_FAILED = ''Command failed''"

definition LOGGER_NAME :: string where
  "LOGGER_NAME = ''custom_components.marspro''"

lemmas const_defs = DOMAIN_def CONF_EMAIL_def CONF_PASSWORD_def CONF_USE_CLOUD_def
  CONF_BLE_MAC_def PLATFORMS_def DEFAULT_SCAN_INTERVAL_def DEFAULT_TIMEOUT_def
  BLE_CHARACTERISTIC_UUID_def API_BASE_URL_def API_VERSION_def DEVICE_TYPE_LIGHT_def
  CMD_POWER_ON_def CMD_POWER_OFF_def CMD_SET_BRIGHTNESS_def CMD_SET_COLOR_def
  STATUS_ON_def STATUS_OFF_def

end
