(* ===== verification/Codec.thy ===== *)
theory Codec
  imports PyStruct Const
begin

text \<open>
  The command codec: the pure functions that turn a command into the bytes written
  to the device and the bytes read back into values.  There are two codecs in the
  sources, one per BLE client:
  \<^item> \<open>MarsProAPI._build_ble_command\<close> (\<open>src/marspro/api.py\<close>), the command frames of
    the Home Assistant transport: \<open>power_on\<close>, \<open>power_off\<close>, \<open>set_brightness\<close>; and
    the status decoding inside \<open>_get_device_status_ble\<close>;
  \<^item> \<open>MarsProBLEClient._build_command_packet\<close> (\<open>src/marspro/ble_client_standalone.py\<close>),
    one opcode byte from the opcode table followed by the packed parameter, and
    \<open>_parse_sensor_data\<close>, the (placeholder) sensor decoder.
  The decoders \<open>decode_ble_command\<close> and \<open>decode_light_packet\<close> are not code of the
  repository: they state what the frames mean (the protocol of the spec) and serve
  the round-trip theorems.
\<close>

section \<open>Frames of the API client\<close>

text \<open>\<open>bytes([x, y])\<close>: every item an integer in \<open>range(0, 256)\<close>.\<close>

fun py_byte :: "pyval \<Rightarrow> exn + u8" where
  "py_byte (PInt i) =
     (if 0 \<le> i \<and> i < 256 then Inr (word_of_int i)
      else Inl (ValueError ''bytes must be in range(0, 256)''))"
| "py_byte (PBool b) = Inr (if b then 1 else 0)"
| "py_byte _ = Inl (TypeError ''object cannot be interpreted as an integer'')"

definition build_ble_command :: "string \<Rightarrow> pydict \<Rightarrow> exn + bytes" where
  "build_ble_command command kwargs =
     (if command = ''power_on'' then Inr [1, 1]
      else if command = ''power_off'' then Inr [1, 0]
      else if command = ''set_brightness'' then
        (let brightness = dict_get_or kwargs ''brightness'' (PInt 100)
         in map_sum id (\<lambda>b. [2, b]) (py_byte brightness))
      else Inl (ValueError (''Unknown command: '' @ command)))"

text \<open>
  The status dictionary \<open>_get_device_status_ble\<close> builds from the bytes it reads:
  power is \<open>on\<close> when the first byte is 1, brightness is the second byte, 100 when
  there is none; an empty read fails on \<open>status_data[0]\<close>.
\<close>

definition parse_ble_status :: "bytes \<Rightarrow> exn + pyval" where
  "parse_ble_status status_data =
     (case status_data of
        [] \<Rightarrow> Inl (IndexError ''index out of range'')
      | b0 # rest \<Rightarrow>
          Inr (PDict
            [(PStr ''power'', PStr (if b0 = 1 then ''on'' else ''off'')),
             (PStr ''brightness'', PInt (if 1 < length status_data then uint (hd rest) else 100)),
             (PStr ''online'', PBool True)]))"

section \<open>Opcode table and packets of the standalone client\<close>

definition CMD_GET_DEVICE_INFO :: int where "CMD_GET_DEVICE_INFO = 1"
definition CMD_GET_SENSOR_DATA :: int where "CMD_GET_SENSOR_DATA = 2"
definition CMD_SET_LIGHT :: int where "CMD_SET_LIGHT = 16"
definition CMD_SET_UV_LIGHT :: int where "CMD_SET_UV_LIGHT = 17"
definition CMD_SET_VEGE_LIGHT :: int where "CMD_SET_VEGE_LIGHT = 18"
definition CMD_SET_PPFD :: int where "CMD_SET_PPFD = 19"
definition CMD_SET_TEMPERATURE :: int where "CMD_SET_TEMPERATURE = 32"
definition CMD_SET_HUMIDITY :: int where "CMD_SET_HUMIDITY = 33"
definition CMD_SET_CO2 :: int where "CMD_SET_CO2 = 34"
definition CMD_SET_FAN :: int where "CMD_SET_FAN = 48"
definition CMD_SET_WIND :: int where "CMD_SET_WIND = 49"
definition CMD_SET_DRIP :: int where "CMD_SET_DRIP = 64"
definition CMD_SET_HEATING_PAD :: int where "CMD_SET_HEATING_PAD = 80"
definition CMD_SET_SOCKET :: int where "CMD_SET_SOCKET = 96"
definition CMD_SET_AUTO_MODE :: int where "CMD_SET_AUTO_MODE = 112"
definition CMD_SET_TIMER :: int where "CMD_SET_TIMER = 128"

definition opcode_table :: "int list" where
  "opcode_table =
     [CMD_GET_DEVICE_INFO, CMD_GET_SENSOR_DATA, CMD_SET_LIGHT, CMD_SET_UV_LIGHT,
      CMD_SET_VEGE_LIGHT, CMD_SET_PPFD, CMD_SET_TEMPERATURE, CMD_SET_HUMIDITY, CMD_SET_CO2,
      CMD_SET_FAN, CMD_SET_WIND, CMD_SET_DRIP, CMD_SET_HEATING_PAD, CMD_SET_SOCKET,
      CMD_SET_AUTO_MODE, CMD_SET_TIMER]"

lemmas opcode_defs = CMD_GET_DEVICE_INFO_def CMD_GET_SENSOR_DATA_def CMD_SET_LIGHT_def
  CMD_SET_UV_LIGHT_def CMD_SET_VEGE_LIGHT_def CMD_SET_PPFD_def CMD_SET_TEMPERATURE_def
  CMD_SET_HUMIDITY_def CMD_SET_CO2_def CMD_SET_FAN_def CMD_SET_WIND_def CMD_SET_DRIP_def
  CMD_SET_HEATING_PAD_def CMD_SET_SOCKET_def CMD_SET_AUTO_MODE_def CMD_SET_TIMER_def

text \<open>
  \<open>_build_command_packet\<close>: \<open>bytearray.append(command_type)\<close> (an integer outside
  \<open>range(0, 256)\<close> is a \<open>ValueError\<close>), then the opcode's parameter packed with
  \<open>struct\<close>: the light intensity as one byte, temperature and humidity as a single.
  Every other opcode gets no parameter bytes.
\<close>

definition build_command_packet :: "int \<Rightarrow> pydict \<Rightarrow> exn + bytes" where
  "build_command_packet command_type data =
     (if \<not> (0 \<le> command_type \<and> command_type < 256)
      then Inl (ValueError ''byte must be in range(0, 256)'')
      else
        (let packet = [word_of_int command_type :: u8]
         in if command_type = CMD_SET_LIGHT then
              map_sum id (\<lambda>b. packet @ b) (struct_pack_B (dict_get_or data ''intensity'' (PInt 0)))
            else if command_type = CMD_SET_TEMPERATURE then
              map_sum id (\<lambda>b. packet @ b) (struct_pack_f (dict_get_or data ''temperature'' (PInt 0)))
            else if command_type = CMD_SET_HUMIDITY then
              map_sum id (\<lambda>b. packet @ b) (struct_pack_f (dict_get_or data ''humidity'' (PInt 0)))
            else Inr packet))"

section \<open>Sensor data\<close>

record sensor_data =
  temperature :: "flt option"
  humidity :: "flt option"
  co2 :: "flt option"
  vpd :: "flt option"
  ppfd :: "flt option"
  wind_speed :: "flt option"
  wind_pressure :: "flt option"
  air_volume :: "flt option"
  timestamp :: "flt option"

text \<open>
  \<open>_parse_sensor_data\<close> is a placeholder in the sources: it ignores the bytes and
  returns fixed readings (25.5, 60.0, 400.0, 1.2, 500.0, 2.5, 1013.25, 100.0) stamped
  with the event loop's clock \<open>now\<close>.  The floats are the doubles the literals denote.
\<close>

definition parse_sensor_data :: "flt \<Rightarrow> bytes \<Rightarrow> sensor_data" where
  "parse_sensor_data now data =
     \<lparr>temperature = Some (Flt 51 (-1)), humidity = Some (Flt 60 0), co2 = Some (Flt 400 0),
      vpd = Some (Flt 5404319552844595 (-52)), ppfd = Some (Flt 500 0),
      wind_speed = Some (Flt 5 (-1)), wind_pressure = Some (Flt 4053 (-2)),
      air_volume = Some (Flt 100 0), timestamp = Some now\<rparr>"

section \<open>What the frames mean\<close>

text \<open>
  The protocol read of the API client's frames: opcode 1 with 1 or 0 is power on or
  off, opcode 2 carries the brightness.  A frame of any other shape means nothing.
\<close>

fun decode_ble_command :: "bytes \<Rightarrow> (string \<times> int option) option" where
  "decode_ble_command [op, arg] =
     (if op = 1 \<and> arg = 1 then Some (''power_on'', None)
      else if op = 1 \<and> arg = 0 then Some (''power_off'', None)
      else if op = 2 then Some (''set_brightness'', Some (uint arg))
      else None)"
| "decode_ble_command _ = None"

text \<open>The integer a \<open>bytes([...])\<close> item stands for (\<open>True\<close> is 1).\<close>

fun py_int_value :: "pyval \<Rightarrow> int option" where
  "py_int_value (PInt i) = Some i"
| "py_int_value (PBool b) = Some (if b then 1 else 0)"
| "py_int_value _ = None"

fun decode_light_packet :: "bytes \<Rightarrow> int option" where
  "decode_light_packet [op, b] = (if uint op = CMD_SET_LIGHT then Some (uint b) else None)"
| "decode_light_packet _ = None"

text \<open>The width of a packet per opcode, as the protocol lays it out.\<close>

definition packet_width :: "int \<Rightarrow> nat" where
  "packet_width c =
     (if c = CMD_SET_LIGHT then 2
      else if c = CMD_SET_TEMPERATURE \<or> c = CMD_SET_HUMIDITY then 5
      else 1)"

section \<open>Lemmas\<close>

lemma uint_word_of_int_byte:
  "0 \<le> i \<Longrightarrow> i < 256 \<Longrightarrow> uint (word_of_int i :: u8) = i"
  by (simp add: uint_word_of_int_eq take_bit_int_eq_self)

lemma uint_byte_le [simp]: "uint (b :: u8) \<le> 255"
proof -
  have "uint b < 2 ^ LENGTH(8)" by (rule uint_lt2p)
  then show ?thesis by simp
qed

lemma py_byte_value:
  "py_byte v = Inr b \<Longrightarrow> py_int_value v = Some (uint b)"
  by (cases v) (auto simp: uint_word_of_int_byte split: if_splits)

lemma struct_pack_B_value:
  "struct_pack_B v = Inr bs \<Longrightarrow> \<exists>b. bs = [b] \<and> py_int_value v = Some (uint b)"
  by (cases v) (auto simp: uint_word_of_int_byte split: if_splits)

lemma build_command_packet_header:
  assumes "build_command_packet c data = Inr bs"
  shows "bs \<noteq> [] \<and> uint (hd bs) = c"
proof -
  from assms have c: "0 \<le> c \<and> c < 256"
    by (auto simp: build_command_packet_def split: if_splits)
  with assms have "\<exists>rest. bs = word_of_int c # rest"
    by (auto simp: build_command_packet_def Let_def split: if_splits)
  with c show ?thesis by (auto simp: uint_word_of_int_byte)
qed

lemma build_command_packet_length:
  "build_command_packet c data = Inr bs \<Longrightarrow> length bs = packet_width c"
  by (auto simp: build_command_packet_def packet_width_def Let_def opcode_defs
      dest: struct_pack_B_length struct_pack_f_length split: if_splits)

lemma build_ble_command_cases:
  "build_ble_command c kw = Inr bs \<Longrightarrow>
     (c = ''power_on'' \<and> bs = [1, 1]) \<or> (c = ''power_off'' \<and> bs = [1, 0]) \<or>
     (c = ''set_brightness'' \<and>
        (\<exists>b. bs = [2, b] \<and> py_byte (dict_get_or kw ''brightness'' (PInt 100)) = Inr b))"
  by (auto simp: build_ble_command_def Let_def split: if_splits)

section \<open>Properties of the codec\<close>

text \<open>
  Scenario A of the spec.  Setting the light to intensity 50 gives the frame
  \<open>[0x10, 0x32]\<close>: the \<open>CMD_SET_LIGHT\<close> opcode, then the intensity as one byte.
\<close>

theorem light_packet_scenario:
  "build_command_packet CMD_SET_LIGHT [(PStr ''intensity'', PInt 50)] = Inr [0x10, 0x32]"
  by (simp add: build_command_packet_def CMD_SET_LIGHT_def dict_get_or_def)

text \<open>
  C14: Round trip of the light packet.  For every intensity in \<open>0..255\<close> the packet
  builder succeeds and the protocol decoder reads the same intensity back.
\<close>

theorem light_packet_roundtrip:
  assumes "0 \<le> i" and "i \<le> 255" and "dict_get_or data ''intensity'' (PInt 0) = PInt i"
  shows "\<exists>bs. build_command_packet CMD_SET_LIGHT data = Inr bs \<and> decode_light_packet bs = Some i"
  using assms
  by (simp add: build_command_packet_def CMD_SET_LIGHT_def uint_word_of_int_byte)

theorem light_packet_roundtrip_witness:
  "\<exists>bs. build_command_packet CMD_SET_LIGHT [(PStr ''intensity'', PInt 200)] = Inr bs
     \<and> decode_light_packet bs = Some 200"
  by (rule light_packet_roundtrip) (simp_all add: dict_get_or_def)

text \<open>
  An intensity outside \<open>0..255\<close> is rejected by the encoder with
  \<open>struct.error\<close>; no packet is produced.
\<close>

theorem light_packet_range_error:
  assumes "i < 0 \<or> 255 < i" and "dict_get_or data ''intensity'' (PInt 0) = PInt i"
  shows "build_command_packet CMD_SET_LIGHT data =
           Inl (StructError ''ubyte format requires 0 <= number <= 255'')"
  using assms by (auto simp: build_command_packet_def CMD_SET_LIGHT_def)

theorem light_packet_range_error_witness:
  "build_command_packet CMD_SET_LIGHT [(PStr ''intensity'', PInt 300)] =
     Inl (StructError ''ubyte format requires 0 <= number <= 255'')"
  by (rule light_packet_range_error) (simp_all add: dict_get_or_def)

text \<open>
  C13: Layout of every packet the standalone client builds: its first byte is the
  opcode and its length is fixed by the opcode (2 for the light, 5 for temperature
  and humidity, 1 otherwise).
\<close>

theorem packet_layout:
  assumes "build_command_packet c data = Inr bs"
  shows "uint (hd bs) = c \<and> length bs = packet_width c"
  using build_command_packet_header [OF assms] build_command_packet_length [OF assms] by simp

theorem packet_layout_witness:
  "uint (hd [0x20, 0, 0, 0xCC, 0x41 :: u8]) = CMD_SET_TEMPERATURE
   \<and> length [0x20, 0, 0, 0xCC, 0x41 :: u8] = packet_width CMD_SET_TEMPERATURE"
proof (rule packet_layout)
  show "build_command_packet CMD_SET_TEMPERATURE [(PStr ''temperature'', PFloat (Flt 51 (-1)))] =
          Inr [0x20, 0, 0, 0xCC, 0x41]"
    by (simp add: build_command_packet_def opcode_defs dict_get_or_def struct_eval)
qed

text \<open>
  C15: Round trip of the API client's command frames.  Whatever frame
  \<open>_build_ble_command\<close> produces decodes to the command it was asked for, and for
  \<open>set_brightness\<close> to the brightness passed (100 when none is given).
\<close>

theorem ble_command_roundtrip:
  assumes "build_ble_command c kw = Inr bs"
  shows "decode_ble_command bs =
           Some (c, if c = ''set_brightness''
                    then py_int_value (dict_get_or kw ''brightness'' (PInt 100)) else None)"
  using build_ble_command_cases [OF assms] by (auto dest: py_byte_value)

theorem ble_command_roundtrip_witness:
  "decode_ble_command [2, 80] = Some (''set_brightness'', py_int_value (PInt 80))"
proof -
  have "build_ble_command ''set_brightness'' [(PStr ''brightness'', PInt 80)] = Inr [2, 80]"
    by (simp add: build_ble_command_def dict_get_or_def)
  from ble_command_roundtrip [OF this] show ?thesis by (simp add: dict_get_or_def)
qed

text \<open>
  A command the codec does not know is rejected with
  \<open>ValueError("Unknown command: ...")\<close>.  This includes \<open>set_color\<close>, which the light
  entity sends (\<open>CMD_SET_COLOR\<close>).
\<close>

theorem ble_command_unknown:
  assumes "c \<notin> {''power_on'', ''power_off'', ''set_brightness''}"
  shows "build_ble_command c kw = Inl (ValueError (''Unknown command: '' @ c))"
  using assms by (simp add: build_ble_command_def)

theorem ble_command_unknown_witness:
  "build_ble_command CMD_SET_COLOR [] = Inl (ValueError (''Unknown command: '' @ CMD_SET_COLOR))"
  by (rule ble_command_unknown) (simp add: CMD_SET_COLOR_def)

text \<open>
  The status the BLE transport reports: power is on exactly when the first
  byte is 1, and the brightness is the second byte as read, anywhere in \<open>0..255\<close>
  (100 when the device sends one byte); it is not clamped to a percentage.  An
  empty read raises \<open>IndexError\<close>.
\<close>

theorem parse_ble_status_fields:
  "parse_ble_status (b0 # rest) =
     Inr (PDict [(PStr ''power'', PStr (if b0 = 1 then ''on'' else ''off'')),
                 (PStr ''brightness'', PInt (case rest of [] \<Rightarrow> 100 | b1 # _ \<Rightarrow> uint b1)),
                 (PStr ''online'', PBool True)])
   \<and> (case rest of [] \<Rightarrow> True | b1 # _ \<Rightarrow> 0 \<le> uint b1 \<and> uint b1 \<le> 255)
   \<and> parse_ble_status [] = Inl (IndexError ''index out of range'')"
  by (cases rest) (auto simp: parse_ble_status_def)

text \<open>
  The sensor decoder of the standalone client ignores the frame: every payload,
  of any length, decodes to the same readings.  No frame is ever a parse error.
\<close>

theorem parse_sensor_data_ignores_frame:
  "parse_sensor_data now a = parse_sensor_data now b"
  by (simp add: parse_sensor_data_def)

end
