(* ===== verification/Api.thy ===== *)
theory Api
  imports Codec
begin

text \<open>
  The transport facade \<open>MarsProAPI\<close> of \<open>src/marspro/api.py\<close>.  One object serves both
  transports, chosen once by \<open>use_cloud\<close>: the cloud link (an aiohttp session and a
  bearer token obtained lazily from \<open>/auth/login\<close>) and the BLE link (one
  \<open>BleakClient\<close> on \<open>ble_mac\<close>, connected on demand).  Every public method
  (\<open>get_devices\<close>, \<open>get_device_status\<close>, \<open>send_command\<close>, \<open>test_connection\<close>,
  \<open>disconnect\<close>) dispatches on \<open>use_cloud\<close>.

  The network and the radio are the world: \<open>api_world\<close> answers each request (an HTTP
  status and body, or the exception aiohttp raises; the outcome of a BLE connect, read,
  write or disconnect).  Each request the object issues is appended to \<open>api_trace\<close>, so
  that which I/O happens, and in which order, is part of the state the theorems speak
  of.  The object's fields are those of \<open>__init__\<close>; \<open>session\<close> records whether a
  \<open>ClientSession\<close> is open, \<open>ble_client\<close> whether a \<open>BleakClient\<close> exists and whether
  it is connected.  The unused \<open>self.devices\<close> dictionary is left out.
\<close>

section \<open>Requests, world, state\<close>

datatype request =
    PostLogin pyval pyval
  | GetDevicesReq pyval
  | GetStatusReq pyval pyval
  | PostControl pyval pydict pyval
  | BleConnect string
  | BleRead string
  | BleWrite string bytes
  | BleDisconnect
  | SessionClose

record api_world =
  http :: "request \<Rightarrow> exn + (nat \<times> pyval option)"
  ble_connect :: "string \<Rightarrow> exn option"
  ble_read :: "string \<Rightarrow> exn + bytes"
  ble_write :: "string \<Rightarrow> bytes \<Rightarrow> exn option"
  ble_disconnect :: "exn option"

record api_state =
  email :: pyval
  password :: pyval
  use_cloud :: bool
  ble_mac :: "string option"
  session :: bool
  ble_client :: "bool option"
  auth_token :: pyval
  api_trace :: "request list"

definition api_init :: "pyval \<Rightarrow> pyval \<Rightarrow> bool \<Rightarrow> string option \<Rightarrow> api_state" where
  "api_init e p c m =
     \<lparr>email = e, password = p, use_cloud = c, ble_mac = m, session = False,
      ble_client = None, auth_token = PNone, api_trace = []\<rparr>"

section \<open>I/O primitives\<close>

definition io_http :: "api_world \<Rightarrow> request \<Rightarrow> (api_state, nat \<times> pyval option) pyop" where
  "io_http w r s = (http w r, s\<lparr>api_trace := api_trace s @ [r]\<rparr>)"

text \<open>\<open>await response.json()\<close>: a body that is not JSON raises.\<close>

definition response_json :: "pyval option \<Rightarrow> exn + pyval" where
  "response_json b = (case b of None \<Rightarrow> Inl (ContentTypeError ''not JSON'') | Some v \<Rightarrow> Inr v)"

definition io_ble_read :: "api_world \<Rightarrow> string \<Rightarrow> (api_state, bytes) pyop" where
  "io_ble_read w u s = (ble_read w u, s\<lparr>api_trace := api_trace s @ [BleRead u]\<rparr>)"

definition io_ble_write :: "api_world \<Rightarrow> string \<Rightarrow> bytes \<Rightarrow> (api_state, unit) pyop" where
  "io_ble_write w u d s =
     ((case ble_write w u d of None \<Rightarrow> Inr () | Some e \<Rightarrow> Inl e),
      s\<lparr>api_trace := api_trace s @ [BleWrite u d]\<rparr>)"

section \<open>Cloud link\<close>

text \<open>
  \<open>_authenticate\<close>: with no session it raises \<open>RuntimeError\<close>; otherwise it posts the
  credentials.  On 200 the token of the body is stored, whatever it is, and a falsy
  token then raises; any other status raises without touching the token.
\<close>

definition authenticate :: "api_world \<Rightarrow> (api_state, unit) pyop" where
  "authenticate w s =
     (if \<not> session s then (Inl (RuntimeError ''Session not initialized''), s)
      else bindE (io_http w (PostLogin (email s) (password s)))
        (\<lambda>(status, body).
           if status = 200 then
             bindE (liftE (response_json body)) (\<lambda>data.
             bindE (liftE (py_get data (PStr ''token'') PNone)) (\<lambda>tok.
             bindE (modify (\<lambda>s. s\<lparr>auth_token := tok\<rparr>)) (\<lambda>_.
             if \<not> py_truthy tok then throw (ValueError ''No auth token in response'')
             else ret ())))
           else throw (ValueError (''Authentication failed: '' @ nat_str status))) s)"

text \<open>The guard each cloud call starts with: \<open>if not self.session or not self.auth_token\<close>.\<close>

definition ensure_auth :: "api_world \<Rightarrow> (api_state, unit) pyop" where
  "ensure_auth w s =
     (if \<not> session s \<or> \<not> py_truthy (auth_token s) then authenticate w s else (Inr (), s))"

definition get_devices_cloud :: "api_world \<Rightarrow> (api_state, pyval) pyop" where
  "get_devices_cloud w =
     bindE (ensure_auth w) (\<lambda>_ s.
       bindE (io_http w (GetDevicesReq (auth_token s))) (\<lambda>(status, body).
         if status = 200 then
           bindE (liftE (response_json body)) (\<lambda>data. liftE (py_get data (PStr ''devices'') (PList [])))
         else throw (ValueError (''Failed to get devices: '' @ nat_str status))) s)"

definition send_command_cloud :: "api_world \<Rightarrow> pyval \<Rightarrow> string \<Rightarrow> pydict \<Rightarrow> (api_state, pyval) pyop" where
  "send_command_cloud w device_id command kwargs =
     bindE (ensure_auth w) (\<lambda>_ s.
       (let payload = snd (dict_merge [(PStr ''device_id'', device_id), (PStr ''command'', PStr command)] kwargs)
        in bindE (io_http w (PostControl device_id payload (auth_token s))) (\<lambda>(status, body).
             if status = 200 then liftE (response_json body)
             else throw (ValueError (''Command failed: '' @ nat_str status)))) s)"

definition get_device_status_cloud :: "api_world \<Rightarrow> pyval \<Rightarrow> (api_state, pyval) pyop" where
  "get_device_status_cloud w device_id =
     bindE (ensure_auth w) (\<lambda>_ s.
       bindE (io_http w (GetStatusReq device_id (auth_token s))) (\<lambda>(status, body).
         if status = 200 then liftE (response_json body)
         else throw (ValueError (''Failed to get status: '' @ nat_str status))) s)"

section \<open>BLE link\<close>

text \<open>
  \<open>_connect_ble\<close>: a fresh \<open>BleakClient\<close> replaces the old one before it connects,
  so a failed connect leaves an unconnected client.
\<close>

definition connect_ble :: "api_world \<Rightarrow> (api_state, unit) pyop" where
  "connect_ble w s =
     (case ble_mac s of
        None \<Rightarrow> (Inl (ValueError ''BLE MAC address not provided''), s)
      | Some mac \<Rightarrow>
          (let s1 = s\<lparr>ble_client := Some False, api_trace := api_trace s @ [BleConnect mac]\<rparr>
           in case ble_connect w mac of
                Some e \<Rightarrow> (Inl e, s1)
              | None \<Rightarrow> (Inr (), s1\<lparr>ble_client := Some True\<rparr>)))"

text \<open>The guard each BLE call starts with: \<open>if not self.ble_client or not ...is_connected\<close>.\<close>

definition ensure_ble :: "api_world \<Rightarrow> (api_state, unit) pyop" where
  "ensure_ble w s = (if ble_client s \<noteq> Some True then connect_ble w s else (Inr (), s))"

definition mac_value :: "string option \<Rightarrow> pyval" where
  "mac_value m = (case m of None \<Rightarrow> PNone | Some a \<Rightarrow> PStr a)"

definition mac_text :: "string option \<Rightarrow> string" where
  "mac_text m = (case m of None \<Rightarrow> ''None'' | Some a \<Rightarrow> a)"

definition get_devices_ble :: "api_world \<Rightarrow> (api_state, pyval) pyop" where
  "get_devices_ble w =
     bindE (ensure_ble w) (\<lambda>_.
     bindE (io_ble_read w BLE_CHARACTERISTIC_UUID) (\<lambda>device_info s.
       (Inr (PList [PDict
          [(PStr ''id'', mac_value (ble_mac s)),
           (PStr ''name'', PStr (''MarsPro Device ('' @ mac_text (ble_mac s) @ '')'')),
           (PStr ''type'', PStr ''light''),
           (PStr ''status'', PStr ''online''),
           (PStr ''mac'', mac_value (ble_mac s))]]), s)))"

definition send_command_ble :: "api_world \<Rightarrow> pyval \<Rightarrow> string \<Rightarrow> pydict \<Rightarrow> (api_state, pyval) pyop" where
  "send_command_ble w device_id command kwargs =
     bindE (ensure_ble w) (\<lambda>_.
     bindE (liftE (build_ble_command command kwargs)) (\<lambda>payload.
     bindE (io_ble_write w BLE_CHARACTERISTIC_UUID payload) (\<lambda>_.
       ret (PDict [(PStr ''status'', PStr ''success''), (PStr ''command'', PStr command)]))))"

definition get_device_status_ble :: "api_world \<Rightarrow> pyval \<Rightarrow> (api_state, pyval) pyop" where
  "get_device_status_ble w device_id =
     bindE (ensure_ble w) (\<lambda>_.
     bindE (io_ble_read w BLE_CHARACTERISTIC_UUID) (\<lambda>status_data.
       liftE (parse_ble_status status_data)))"

section \<open>The facade\<close>

definition get_devices :: "api_world \<Rightarrow> (api_state, pyval) pyop" where
  "get_devices w s = (if use_cloud s then get_devices_cloud w s else get_devices_ble w s)"

definition send_command :: "api_world \<Rightarrow> pyval \<Rightarrow> string \<Rightarrow> pydict \<Rightarrow> (api_state, pyval) pyop" where
  "send_command w device_id command kwargs s =
     (if use_cloud s then send_command_cloud w device_id command kwargs s
      else send_command_ble w device_id command kwargs s)"

definition get_device_status :: "api_world \<Rightarrow> pyval \<Rightarrow> (api_state, pyval) pyop" where
  "get_device_status w device_id s =
     (if use_cloud s then get_device_status_cloud w device_id s
      else get_device_status_ble w device_id s)"

definition test_cloud_connection :: "api_world \<Rightarrow> (api_state, bool) pyop" where
  "test_cloud_connection w s =
     catchE (bindE (authenticate w) (\<lambda>_. ret True)) (\<lambda>_. ret False)
       (if \<not> session s then s\<lparr>session := True\<rparr> else s)"

definition test_ble_connection :: "api_world \<Rightarrow> (api_state, bool) pyop" where
  "test_ble_connection w s =
     (if ble_mac s = None then (Inr False, s)
      else catchE (bindE (connect_ble w) (\<lambda>_. ret True)) (\<lambda>_. ret False) s)"

definition test_connection :: "api_world \<Rightarrow> (api_state, bool) pyop" where
  "test_connection w s = (if use_cloud s then test_cloud_connection w s else test_ble_connection w s)"

text \<open>
  \<open>disconnect\<close>: closes an open session, then disconnects a connected BLE client
  (a failing disconnect raises with the client kept).  The token is not cleared.
\<close>

definition disconnect :: "api_world \<Rightarrow> (api_state, unit) pyop" where
  "disconnect w s =
     (let s1 = (if session s then s\<lparr>session := False, api_trace := api_trace s @ [SessionClose]\<rparr> else s)
      in if ble_client s1 = Some True then
           (let s2 = s1\<lparr>api_trace := api_trace s1 @ [BleDisconnect]\<rparr>
            in case ble_disconnect w of
                 Some e \<Rightarrow> (Inl e, s2)
               | None \<Rightarrow> (Inr (), s2\<lparr>ble_client := None\<rparr>))
         else (Inr (), s1))"

lemmas api_defs = io_http_def io_ble_read_def io_ble_write_def response_json_def
  authenticate_def ensure_auth_def get_devices_cloud_def send_command_cloud_def
  get_device_status_cloud_def connect_ble_def ensure_ble_def get_devices_ble_def
  send_command_ble_def get_device_status_ble_def get_devices_def send_command_def
  get_device_status_def test_cloud_connection_def test_ble_connection_def
  test_connection_def disconnect_def

section \<open>Calls, reachable states and the transport invariant\<close>

text \<open>The calls the coordinator and the config flow make on the facade.\<close>

datatype api_call =
    CallGetDevices
  | CallGetDeviceStatus pyval
  | CallSendCommand pyval string pydict
  | CallTestConnection
  | CallDisconnect

fun run_call :: "api_world \<Rightarrow> api_call \<Rightarrow> (api_state, pyval) pyop" where
  "run_call w CallGetDevices = get_devices w"
| "run_call w (CallGetDeviceStatus k) = get_device_status w k"
| "run_call w (CallSendCommand k c kw) = send_command w k c kw"
| "run_call w CallTestConnection = bindE (test_connection w) (\<lambda>b. ret (PBool b))"
| "run_call w CallDisconnect = bindE (disconnect w) (\<lambda>_. ret PNone)"

inductive api_reachable :: "api_world \<Rightarrow> api_state \<Rightarrow> bool" for w where
  init: "api_reachable w (api_init e p c m)"
| step: "api_reachable w s \<Longrightarrow> run_call w call s = (r, s') \<Longrightarrow> api_reachable w s'"

fun cloud_request :: "request \<Rightarrow> bool" where
  "cloud_request (PostLogin _ _) = True"
| "cloud_request (GetDevicesReq _) = True"
| "cloud_request (GetStatusReq _ _) = True"
| "cloud_request (PostControl _ _ _) = True"
| "cloud_request SessionClose = True"
| "cloud_request _ = False"

text \<open>
  The URL of each HTTP request, as the f-strings of \<open>_authenticate\<close>,
  \<open>_get_devices_cloud\<close>, \<open>_send_command_cloud\<close> and \<open>_get_device_status_cloud\<close>
  build it from \<open>API_BASE_URL\<close> and \<open>API_VERSION\<close>; the device id is an f-string
  field.  \<open>session.close()\<close> and the BLE operations have none.
\<close>

fun request_url :: "request \<Rightarrow> fpart list option" where
  "request_url (PostLogin _ _) = Some [FLit (API_BASE_URL @ ''/'' @ API_VERSION @ ''/auth/login'')]"
| "request_url (GetDevicesReq _) = Some [FLit (API_BASE_URL @ ''/'' @ API_VERSION @ ''/devices'')]"
| "request_url (PostControl d _ _) =
     Some [FLit (API_BASE_URL @ ''/'' @ API_VERSION @ ''/devices/''), FVal d, FLit ''/control'']"
| "request_url (GetStatusReq d _) =
     Some [FLit (API_BASE_URL @ ''/'' @ API_VERSION @ ''/devices/''), FVal d, FLit ''/status'']"
| "request_url _ = None"

text \<open>
  The transport chosen at construction is the only one ever used: every request of
  the trace belongs to it, a cloud object never creates a BLE client, a BLE object
  never opens a session or holds a token, and a BLE client exists only with a MAC.
\<close>

definition transport_inv :: "api_state \<Rightarrow> bool" where
  "transport_inv s \<longleftrightarrow>
     (\<forall>r \<in> set (api_trace s). cloud_request r = use_cloud s)
     \<and> (use_cloud s \<longrightarrow> ble_client s = None)
     \<and> (\<not> use_cloud s \<longrightarrow> \<not> session s \<and> auth_token s = PNone)
     \<and> (ble_client s \<noteq> None \<longrightarrow> ble_mac s \<noteq> None)"

definition demo_login_world :: api_world where
  "demo_login_world =
     \<lparr>http = (\<lambda>r. Inr (200, Some (PDict [(PStr ''token'', PStr ''t0k'')]))),
      ble_connect = (\<lambda>_. None), ble_read = (\<lambda>_. Inr [1, 80]),
      ble_write = (\<lambda>_ _. None), ble_disconnect = None\<rparr>"

definition demo_401_world :: api_world where
  "demo_401_world =
     \<lparr>http = (\<lambda>r. Inr (401, None)),
      ble_connect = (\<lambda>_. None), ble_read = (\<lambda>_. Inr [1, 80]),
      ble_write = (\<lambda>_ _. None), ble_disconnect = None\<rparr>"

section \<open>Lemmas\<close>

text \<open>
  Every HTTP request the client makes goes to \<open>API_BASE_URL/API_VERSION\<close>, and none
  to the endpoint paths \<open>const.py\<close> declares for login, the device list and
  control (\<open>/api/v1/login\<close>, \<open>/api/v1/devices\<close>, \<open>/api/v1/control\<close>).
\<close>

lemma request_url_endpoints:
  "request_url r = Some u \<Longrightarrow>
     (\<exists>rest. hd u = FLit (API_BASE_URL @ ''/'' @ API_VERSION @ rest))
       \<and> hd u \<noteq> FLit (API_BASE_URL @ API_LOGIN_ENDPOINT)
       \<and> hd u \<noteq> FLit (API_BASE_URL @ API_DEVICES_ENDPOINT)
       \<and> hd u \<noteq> FLit (API_BASE_URL @ API_CONTROL_ENDPOINT)"
  by (cases r) (auto simp: API_VERSION_def API_LOGIN_ENDPOINT_def API_DEVICES_ENDPOINT_def API_CONTROL_ENDPOINT_def)

lemma cloud_request_url: "cloud_request r \<longleftrightarrow> request_url r \<noteq> None \<or> r = SessionClose"
  by (cases r) auto

lemma transport_inv_init [simp]: "transport_inv (api_init e p c m)"
  by (simp add: transport_inv_def api_init_def)

lemma get_devices_inv:
  "transport_inv s \<Longrightarrow> get_devices w s = (r, s') \<Longrightarrow> transport_inv s'"
  by (auto simp: transport_inv_def api_defs pyop_simps Let_def
      split: if_splits prod.splits sum.splits option.splits)

lemma get_device_status_inv:
  "transport_inv s \<Longrightarrow> get_device_status w k s = (r, s') \<Longrightarrow> transport_inv s'"
  by (auto simp: transport_inv_def api_defs pyop_simps Let_def
      split: if_splits prod.splits sum.splits option.splits)

lemma send_command_inv:
  "transport_inv s \<Longrightarrow> send_command w k c kw s = (r, s') \<Longrightarrow> transport_inv s'"
  by (auto simp: transport_inv_def api_defs pyop_simps Let_def
      split: if_splits prod.splits sum.splits option.splits)

lemma test_connection_inv:
  "transport_inv s \<Longrightarrow> test_connection w s = (r, s') \<Longrightarrow> transport_inv s'"
  by (auto simp: transport_inv_def api_defs pyop_simps Let_def
      split: if_splits prod.splits sum.splits option.splits)

lemma disconnect_inv:
  "transport_inv s \<Longrightarrow> disconnect w s = (r, s') \<Longrightarrow> transport_inv s'"
  by (auto simp: transport_inv_def api_defs pyop_simps Let_def
      split: if_splits prod.splits sum.splits option.splits)

lemma run_call_inv:
  assumes "transport_inv s" and "run_call w call s = (r, s')"
  shows "transport_inv s'"
proof (cases call)
  case CallGetDevices
  with assms show ?thesis by (simp add: get_devices_inv)
next
  case (CallGetDeviceStatus k)
  with assms show ?thesis by (simp add: get_device_status_inv)
next
  case (CallSendCommand k c kw)
  with assms show ?thesis by (simp add: send_command_inv)
next
  case CallTestConnection
  obtain r0 s0 where t: "test_connection w s = (r0, s0)" by fastforce
  with assms CallTestConnection have "s' = s0"
    by (auto simp: bindE_def ret_def split: sum.splits)
  with t assms(1) show ?thesis by (simp add: test_connection_inv)
next
  case CallDisconnect
  obtain r0 s0 where t: "disconnect w s = (r0, s0)" by fastforce
  with assms CallDisconnect have "s' = s0"
    by (auto simp: bindE_def ret_def split: sum.splits)
  with t assms(1) show ?thesis by (simp add: disconnect_inv)
qed

text \<open>The result of \<open>test_connection\<close> is always a value: its failures are caught.\<close>

lemma test_connection_Inr: "\<not> isl (fst (test_connection w s))"
  by (auto simp: test_connection_def test_cloud_connection_def test_ble_connection_def pyop_simps
     split: prod.splits sum.splits)

lemma disconnect_closes_session:
  "disconnect w s = (r, s') \<Longrightarrow> \<not> session s' \<and> use_cloud s' = use_cloud s"
  by (auto simp: disconnect_def Let_def split: if_splits option.splits)

lemma cloud_calls_without_session:
  assumes "use_cloud s" and "\<not> session s"
  shows "get_devices w s = (Inl (RuntimeError ''Session not initialized''), s)
       \<and> get_device_status w k s = (Inl (RuntimeError ''Session not initialized''), s)
       \<and> send_command w k c kw s = (Inl (RuntimeError ''Session not initialized''), s)"
  using assms
  by (simp add: get_devices_def get_devices_cloud_def get_device_status_def
      get_device_status_cloud_def send_command_def send_command_cloud_def ensure_auth_def
      authenticate_def pyop_simps)

section \<open>Properties of the transport facade\<close>

text \<open>
  C9: \<open>test_connection\<close> never raises, and its answer is exactly whether the
  transport works: over the cloud it is \<open>True\<close> precisely when the login (on a
  session it opens if needed) returns normally, over BLE precisely when there is a
  MAC and the connect returns normally; every failure becomes \<open>False\<close>.  (Its
  callers in \<open>__init__.py\<close> and \<open>config_flow.py\<close> only react to an exception.)
\<close>

theorem test_connection_total:
  "\<exists>s'. test_connection w s =
     (Inr (if use_cloud s then \<not> isl (fst (authenticate w (s\<lparr>session := True\<rparr>)))
           else ble_mac s \<noteq> None \<and> \<not> isl (fst (connect_ble w s))), s')"
proof (cases "use_cloud s")
  case True
  have e: "(if \<not> session s then s\<lparr>session := True\<rparr> else s) = s\<lparr>session := True\<rparr>" by simp
  show ?thesis using True unfolding test_connection_def test_cloud_connection_def e
    by (auto simp: pyop_simps split: prod.splits sum.splits)
next
  case False
  then show ?thesis
    by (auto simp: test_connection_def test_ble_connection_def pyop_simps split: prod.splits sum.splits)
qed

text \<open>
  C10: Lazy authentication.  A cloud call made with a session but no token first
  posts the credentials, stores the token from the reply, and only then issues the
  request, carrying that token.
\<close>

theorem get_devices_lazy_auth:
  assumes "use_cloud s" and "session s" and "\<not> py_truthy (auth_token s)"
    and "http w (PostLogin (email s) (password s)) = Inr (200, Some (PDict d))"
    and "py_truthy (dict_get_or d ''token'' PNone)"
  shows "\<exists>r. get_devices w s =
           (r, s\<lparr>auth_token := dict_get_or d ''token'' PNone,
                 api_trace := api_trace s @ [PostLogin (email s) (password s),
                                             GetDevicesReq (dict_get_or d ''token'' PNone)]\<rparr>)"
  using assms
  by (auto simp: get_devices_def get_devices_cloud_def ensure_auth_def authenticate_def
      io_http_def response_json_def pyop_simps split: prod.splits sum.splits)

theorem get_devices_lazy_auth_witness:
  "\<exists>r. get_devices demo_login_world ((api_init (PStr ''u@x'') (PStr ''pw'') True None)\<lparr>session := True\<rparr>) =
     (r, (api_init (PStr ''u@x'') (PStr ''pw'') True None)\<lparr>session := True, auth_token := PStr ''t0k'',
           api_trace := [PostLogin (PStr ''u@x'') (PStr ''pw''), GetDevicesReq (PStr ''t0k'')]\<rparr>)"
  using get_devices_lazy_auth [of "(api_init (PStr ''u@x'') (PStr ''pw'') True None)\<lparr>session := True\<rparr>"
      demo_login_world "[(PStr ''token'', PStr ''t0k'')]"]
  by (simp add: api_init_def demo_login_world_def dict_get_or_def)

text \<open>
  C11: No re-authentication.  When the server rejects the stored token (401), the
  call raises \<open>ValueError\<close>, the stale token is kept and no login is attempted; the
  next call sends the same token again.
\<close>

theorem get_devices_401_keeps_token:
  assumes "use_cloud s" and "session s" and "py_truthy (auth_token s)"
    and "http w (GetDevicesReq (auth_token s)) = Inr (401, b)"
  shows "get_devices w s =
           (Inl (ValueError ''Failed to get devices: 401''),
            s\<lparr>api_trace := api_trace s @ [GetDevicesReq (auth_token s)]\<rparr>)"
  using assms
  by (simp add: get_devices_def get_devices_cloud_def ensure_auth_def io_http_def pyop_simps
      nat_str.simps)

theorem get_devices_401_keeps_token_witness:
  "get_devices demo_401_world ((api_init (PStr ''u@x'') (PStr ''pw'') True None)\<lparr>session := True, auth_token := PStr ''old''\<rparr>) =
     (Inl (ValueError ''Failed to get devices: 401''),
      (api_init (PStr ''u@x'') (PStr ''pw'') True None)\<lparr>session := True, auth_token := PStr ''old'',
         api_trace := [GetDevicesReq (PStr ''old'')]\<rparr>)"
  using get_devices_401_keeps_token
    [of "(api_init (PStr ''u@x'') (PStr ''pw'') True None)\<lparr>session := True, auth_token := PStr ''old''\<rparr>"
        demo_401_world None]
  by (simp add: api_init_def demo_401_world_def)

text \<open>
  C12: After \<open>disconnect\<close> a cloud object is unusable: the session is gone, so every
  cloud call raises \<open>RuntimeError("Session not initialized")\<close> before any request,
  and nothing but \<open>test_connection\<close> opens a new session.
\<close>

theorem cloud_dead_after_disconnect:
  assumes "use_cloud s" and "disconnect w s = (Inr (), s')"
  shows "get_devices w s' = (Inl (RuntimeError ''Session not initialized''), s')
       \<and> get_device_status w k s' = (Inl (RuntimeError ''Session not initialized''), s')
       \<and> send_command w k c kw s' = (Inl (RuntimeError ''Session not initialized''), s')"
  using assms disconnect_closes_session [OF assms(2)] by (simp add: cloud_calls_without_session)

theorem cloud_dead_after_disconnect_witness:
  "get_devices demo_login_world ((api_init (PStr ''u@x'') (PStr ''pw'') True None)\<lparr>api_trace := [SessionClose]\<rparr>) =
     (Inl (RuntimeError ''Session not initialized''), (api_init (PStr ''u@x'') (PStr ''pw'') True None)\<lparr>api_trace := [SessionClose]\<rparr>)
   \<and> get_device_status demo_login_world (PStr ''d1'') ((api_init (PStr ''u@x'') (PStr ''pw'') True None)\<lparr>api_trace := [SessionClose]\<rparr>) =
     (Inl (RuntimeError ''Session not initialized''), (api_init (PStr ''u@x'') (PStr ''pw'') True None)\<lparr>api_trace := [SessionClose]\<rparr>)
   \<and> send_command demo_login_world (PStr ''d1'') ''power_on'' [] ((api_init (PStr ''u@x'') (PStr ''pw'') True None)\<lparr>api_trace := [SessionClose]\<rparr>) =
     (Inl (RuntimeError ''Session not initialized''), (api_init (PStr ''u@x'') (PStr ''pw'') True None)\<lparr>api_trace := [SessionClose]\<rparr>)"
proof (rule cloud_dead_after_disconnect)
  show "use_cloud ((api_init (PStr ''u@x'') (PStr ''pw'') True None)\<lparr>session := True\<rparr>)"
    by (simp add: api_init_def)
  show "disconnect demo_login_world ((api_init (PStr ''u@x'') (PStr ''pw'') True None)\<lparr>session := True\<rparr>) =
          (Inr (), (api_init (PStr ''u@x'') (PStr ''pw'') True None)\<lparr>api_trace := [SessionClose]\<rparr>)"
    by (simp add: disconnect_def api_init_def)
qed

text \<open>
  The BLE transport validates a command only after connecting.  An unknown
  command sent while disconnected first opens the BLE connection and only then fails
  with \<open>ValueError("Unknown command: ...")\<close>; the spec requires unknown opcodes to be
  rejected before any I/O.
\<close>

theorem ble_unknown_command_connects_first:
  assumes "\<not> use_cloud s" and "ble_client s \<noteq> Some True" and "ble_mac s = Some m"
    and "ble_connect w m = None" and "c \<notin> {''power_on'', ''power_off'', ''set_brightness''}"
  shows "send_command w k c kw s =
           (Inl (ValueError (''Unknown command: '' @ c)),
            s\<lparr>ble_client := Some True, api_trace := api_trace s @ [BleConnect m]\<rparr>)"
  using assms
  by (simp add: send_command_def send_command_ble_def ensure_ble_def connect_ble_def
      ble_command_unknown pyop_simps)

theorem ble_unknown_command_connects_first_witness:
  "send_command demo_login_world (PStr ''d1'') ''set_color'' [] (api_init (PStr ''u@x'') (PStr ''pw'') False (Some ''AA:BB'')) =
     (Inl (ValueError ''Unknown command: set_color''),
      (api_init (PStr ''u@x'') (PStr ''pw'') False (Some ''AA:BB''))\<lparr>ble_client := Some True,
         api_trace := [BleConnect ''AA:BB'']\<rparr>)"
  using ble_unknown_command_connects_first
    [of "api_init (PStr ''u@x'') (PStr ''pw'') False (Some ''AA:BB'')" "''AA:BB''" demo_login_world
        "''set_color''" "PStr ''d1''" "[]"]
  by (simp add: api_init_def demo_login_world_def)

text \<open>
  A command over BLE writes exactly the frame the codec builds to the command
  characteristic, once, and reports success.  The device id is not used: every id
  addresses the one connected device.
\<close>

theorem ble_send_command_writes_frame:
  assumes "\<not> use_cloud s" and "ble_client s = Some True"
    and "build_ble_command c kw = Inr bs" and "ble_write w BLE_CHARACTERISTIC_UUID bs = None"
  shows "send_command w k c kw s =
           (Inr (PDict [(PStr ''status'', PStr ''success''), (PStr ''command'', PStr c)]),
            s\<lparr>api_trace := api_trace s @ [BleWrite BLE_CHARACTERISTIC_UUID bs]\<rparr>)"
  using assms
  by (simp add: send_command_def send_command_ble_def ensure_ble_def io_ble_write_def pyop_simps)

theorem ble_send_command_writes_frame_witness:
  "send_command demo_login_world (PStr ''any'') ''power_off'' []
      ((api_init (PStr ''u@x'') (PStr ''pw'') False (Some ''AA:BB''))\<lparr>ble_client := Some True\<rparr>) =
     (Inr (PDict [(PStr ''status'', PStr ''success''), (PStr ''command'', PStr ''power_off'')]),
      (api_init (PStr ''u@x'') (PStr ''pw'') False (Some ''AA:BB''))\<lparr>ble_client := Some True,
         api_trace := [BleWrite BLE_CHARACTERISTIC_UUID [1, 0]]\<rparr>)"
  using ble_send_command_writes_frame
    [of "(api_init (PStr ''u@x'') (PStr ''pw'') False (Some ''AA:BB''))\<lparr>ble_client := Some True\<rparr>"
        "''power_off''" "[]" "[1, 0]" demo_login_world "PStr ''any''"]
  by (simp add: api_init_def demo_login_world_def build_ble_command_def)

text \<open>
  C8: The transport chosen at construction is the only one used, in every state
  reachable from \<open>__init__\<close> by any sequence of facade calls: all requests in the trace
  belong to it, a cloud object never has a BLE client, a BLE object never has a
  session or a token, and a BLE client exists only when a MAC address was given.
\<close>

theorem api_reachable_transport_inv:
  "api_reachable w s \<Longrightarrow> transport_inv s"
proof (induction rule: api_reachable.induct)
  case (init e p c m)
  show ?case by simp
next
  case (step s call r s')
  then show ?case by (blast intro: run_call_inv)
qed

theorem api_reachable_transport_inv_witness:
  "transport_inv ((api_init (PStr ''u@x'') (PStr ''pw'') False (Some ''AA:BB''))\<lparr>ble_client := Some False,
      api_trace := [BleConnect ''AA:BB'']\<rparr>)"
proof -
  let ?w = "demo_login_world\<lparr>ble_connect := (\<lambda>_. Some TimeoutError)\<rparr>"
  have "run_call ?w CallTestConnection (api_init (PStr ''u@x'') (PStr ''pw'') False (Some ''AA:BB'')) =
          (Inr (PBool False), (api_init (PStr ''u@x'') (PStr ''pw'') False (Some ''AA:BB''))\<lparr>ble_client := Some False,
             api_trace := [BleConnect ''AA:BB'']\<rparr>)"
    by (simp add: api_init_def test_connection_def test_ble_connection_def connect_ble_def
        demo_login_world_def pyop_simps)
  then have "api_reachable ?w ((api_init (PStr ''u@x'') (PStr ''pw'') False (Some ''AA:BB''))\<lparr>ble_client := Some False,
             api_trace := [BleConnect ''AA:BB'']\<rparr>)"
    by (rule api_reachable.step [OF api_reachable.init])
  then show ?thesis by (rule api_reachable_transport_inv)
qed

end
