(* ===== verification/Coordinator.thy ===== *)
theory Coordinator
  imports Api
begin

text \<open>
  The device coordinator \<open>MarsProDataUpdateCoordinator\<close> of
  \<open>custom_components/marspro/coordinator.py\<close>: it owns the API object and the device
  registry \<open>self.devices\<close> (device id to device dictionary), refreshes the registry
  from the facade, forwards commands and serves read-only views of the registry.

  \<open>_async_update_data\<close> lists the devices, then reads the status of each device with a
  truthy id, inside its own \<open>try\<close>: a device whose status read (or merge) fails keeps
  its previous record, or its listing entry when it had none.  A failure of the
  listing aborts the refresh as \<open>UpdateFailed\<close>, and the registry is assigned only at
  the end, so an aborted refresh never changes it.

  The loop \<open>refresh_loop\<close> is written over the status operation it calls.
  Instantiated with the facade's \<open>get_device_status\<close> it is the code; instantiated
  with a stateless answer function \<open>f\<close> (\<open>refresh_pure\<close>) it is the abstract
  specification of one refresh, on which the keep-last-good contract is proved once
  and transferred to every transport state in which status reads do not depend on
  history (an authenticated cloud session, a connected BLE link).

  \<open>async_refresh\<close> and the fields \<open>data\<close> and \<open>last_update_success\<close> model the
  part of Home Assistant's \<open>DataUpdateCoordinator\<close> the code relies on: a refresh that
  raises \<open>UpdateFailed\<close> only marks the coordinator unsuccessful and keeps the last data.
  Its request debouncer (at most one refresh per cooldown) is not modelled: every
  \<open>async_request_refresh\<close> refreshes.
\<close>

section \<open>State\<close>

record coord_state =
  api :: api_state
  devices :: pydict
  data :: "pyval option"
  last_update_success :: bool

definition coord_init :: "api_state \<Rightarrow> coord_state" where
  "coord_init a = \<lparr>api = a, devices = [], data = None, last_update_success = True\<rparr>"

definition on_api :: "(api_state, 'a) pyop \<Rightarrow> (coord_state, 'a) pyop" where
  "on_api m = on_part api (\<lambda>a s. s\<lparr>api := a\<rparr>) m"

section \<open>One refresh\<close>

text \<open>
  The \<open>except\<close> branch of the per-device \<open>try\<close>: the previous record when the
  registry has one (\<open>device_id in self.devices\<close>, which raises for an unhashable id),
  else the device as listed.
\<close>

definition keep_or_listed :: "pydict \<Rightarrow> pydict \<Rightarrow> pyval \<Rightarrow> pyval \<Rightarrow> exn + pydict" where
  "keep_or_listed old acc device_id device =
     (case py_dict_contains old device_id of
        Inl e \<Rightarrow> Inl e
      | Inr True \<Rightarrow> (case py_dict_get old device_id PNone of
                      Inl e \<Rightarrow> Inl e
                    | Inr v \<Rightarrow> py_dict_set acc device_id v)
      | Inr False \<Rightarrow> py_dict_set acc device_id device)"

fun refresh_loop :: "(pyval \<Rightarrow> ('s, pyval) pyop) \<Rightarrow> pydict \<Rightarrow> pyval list \<Rightarrow> pydict \<Rightarrow> ('s, pydict) pyop" where
  "refresh_loop status old [] acc = ret acc"
| "refresh_loop status old (PDict d # ds) acc =
     (let device_id = dict_get_or d ''id'' PNone
      in if \<not> py_truthy device_id then refresh_loop status old ds acc
         else (\<lambda>s. case status device_id s of
                  (Inr st, s1) \<Rightarrow>
                    (case py_dict_update d st of
                       (None, d') \<Rightarrow>
                         (case py_dict_set acc device_id (PDict d') of
                            Inr acc' \<Rightarrow> refresh_loop status old ds acc' s1
                          | Inl _ \<Rightarrow>
                              (case keep_or_listed old acc device_id (PDict d') of
                                 Inl e \<Rightarrow> (Inl e, s1)
                               | Inr acc' \<Rightarrow> refresh_loop status old ds acc' s1))
                     | (Some _, d') \<Rightarrow>
                         (case keep_or_listed old acc device_id (PDict d') of
                            Inl e \<Rightarrow> (Inl e, s1)
                          | Inr acc' \<Rightarrow> refresh_loop status old ds acc' s1))
                | (Inl _, s1) \<Rightarrow>
                    (case keep_or_listed old acc device_id (PDict d) of
                       Inl e \<Rightarrow> (Inl e, s1)
                     | Inr acc' \<Rightarrow> refresh_loop status old ds acc' s1)))"
| "refresh_loop status old (_ # ds) acc = throw (AttributeError ''object has no attribute get'')"

definition async_update_data :: "api_world \<Rightarrow> flt \<Rightarrow> (coord_state, pyval) pyop" where
  "async_update_data w now =
     catchE
       (bindE (on_api (get_devices w)) (\<lambda>devs.
        bindE (liftE (py_iter devs)) (\<lambda>ds s.
          bindE (on_api (refresh_loop (get_device_status w) (devices s) ds [])) (\<lambda>updated.
          bindE (modify (\<lambda>s. s\<lparr>devices := updated\<rparr>)) (\<lambda>_.
            ret (PDict [(PStr ''devices'', PDict updated), (PStr ''last_update'', PFloat now)]))) s)))
       (\<lambda>ex. throw (UpdateFailed (''Failed to update MarsPro data: '' @ exn_msg ex)))"

text \<open>Home Assistant's \<open>DataUpdateCoordinator.async_refresh\<close>, as the code uses it.\<close>

definition async_refresh :: "api_world \<Rightarrow> flt \<Rightarrow> (coord_state, unit) pyop" where
  "async_refresh w now s =
     (case async_update_data w now s of
        (Inl _, s') \<Rightarrow> (Inr (), s'\<lparr>last_update_success := False\<rparr>)
      | (Inr d, s') \<Rightarrow> (Inr (), s'\<lparr>data := Some d, last_update_success := True\<rparr>))"

section \<open>Commands and views\<close>

definition coord_send_command :: "api_world \<Rightarrow> flt \<Rightarrow> pyval \<Rightarrow> string \<Rightarrow> pydict \<Rightarrow> (coord_state, pyval) pyop" where
  "coord_send_command w now device_id command kwargs =
     bindE (on_api (send_command w device_id command kwargs)) (\<lambda>result.
     bindE (async_refresh w now) (\<lambda>_. ret result))"

definition get_device :: "coord_state \<Rightarrow> pyval \<Rightarrow> exn + pyval" where
  "get_device s device_id = py_dict_get (devices s) device_id (PDict [])"

definition get_devices_list :: "coord_state \<Rightarrow> pyval list" where
  "get_devices_list s = map snd (devices s)"

fun type_matches :: "string \<Rightarrow> pyval \<Rightarrow> exn + bool" where
  "type_matches t (PDict d) = Inr (dict_get_or d ''type'' PNone = PStr t)"
| "type_matches t _ = Inl (AttributeError ''object has no attribute get'')"

fun filter_type :: "string \<Rightarrow> pyval list \<Rightarrow> exn + pyval list" where
  "filter_type t [] = Inr []"
| "filter_type t (v # vs) =
     (case type_matches t v of
        Inl e \<Rightarrow> Inl e
      | Inr b \<Rightarrow> map_sum id (\<lambda>r. if b then v # r else r) (filter_type t vs))"

definition get_devices_by_type :: "coord_state \<Rightarrow> string \<Rightarrow> exn + pyval list" where
  "get_devices_by_type s device_type = filter_type device_type (map snd (devices s))"

section \<open>The abstract refresh\<close>

text \<open>
  One refresh as a function of the status answers: \<open>f k\<close> is what the status read
  of device \<open>k\<close> returns.
\<close>

definition refresh_pure :: "(pyval \<Rightarrow> exn + pyval) \<Rightarrow> pydict \<Rightarrow> pyval list \<Rightarrow> exn + pydict" where
  "refresh_pure f old ds = fst (refresh_loop (\<lambda>k t. (f k, t)) old ds [] ())"

text \<open>The registry entry a listed device gets, by the per-device contract.\<close>

definition entry_after :: "(pyval \<Rightarrow> exn + pyval) \<Rightarrow> pydict \<Rightarrow> pydict \<Rightarrow> pyval" where
  "entry_after f old d =
     (let k = dict_get_or d ''id'' PNone;
          previous = (\<lambda>dev. case py_hash_key k of
                               None \<Rightarrow> dev
                             | Some h \<Rightarrow> (case dict_lookup old h of None \<Rightarrow> dev | Some v \<Rightarrow> v))
      in case f k of
           Inl _ \<Rightarrow> previous (PDict d)
         | Inr st \<Rightarrow> (case py_dict_update d st of
                        (None, d') \<Rightarrow> PDict d'
                      | (Some _, d') \<Rightarrow> previous (PDict d')))"

text \<open>A listing the loop can process: dictionaries with truthy, hashable, distinct ids.\<close>

definition device_key :: "pyval \<Rightarrow> pykey option" where
  "device_key v = (case v of PDict d \<Rightarrow> py_hash_key (dict_get_or d ''id'' PNone) | _ \<Rightarrow> None)"

definition listing_ok :: "pyval list \<Rightarrow> bool" where
  "listing_ok ds \<longleftrightarrow>
     (\<forall>v \<in> set ds. \<exists>d. v = PDict d \<and> py_truthy (dict_get_or d ''id'' PNone)
                         \<and> py_hashable (dict_get_or d ''id'' PNone))
     \<and> distinct (map device_key ds)"

text \<open>The registry is a well-formed dictionary whose values are device dictionaries.\<close>

definition registry_ok :: "pydict \<Rightarrow> bool" where
  "registry_ok r \<longleftrightarrow> wf_dict r \<and> (\<forall>v \<in> snd ` set r. \<exists>d. v = PDict d)"

section \<open>Transport states with stateless status reads\<close>

definition cloud_ready :: "pyval \<Rightarrow> api_state \<Rightarrow> bool" where
  "cloud_ready t a \<longleftrightarrow> use_cloud a \<and> session a \<and> py_truthy t \<and> auth_token a = t"

definition cloud_status_answer :: "api_world \<Rightarrow> pyval \<Rightarrow> pyval \<Rightarrow> exn + pyval" where
  "cloud_status_answer w t k =
     (case http w (GetStatusReq k t) of
        Inl e \<Rightarrow> Inl e
      | Inr (st, body) \<Rightarrow> if st = 200 then response_json body
                         else Inl (ValueError (''Failed to get status: '' @ nat_str st)))"

section \<open>Reachable coordinator states\<close>

inductive coord_reachable :: "api_world \<Rightarrow> coord_state \<Rightarrow> bool" for w where
  init: "coord_reachable w (coord_init a)"
| refresh: "coord_reachable w s \<Longrightarrow> async_refresh w now s = (r, s') \<Longrightarrow> coord_reachable w s'"
| command: "coord_reachable w s \<Longrightarrow> coord_send_command w now k c kw s = (r, s') \<Longrightarrow> coord_reachable w s'"

section \<open>Concrete worlds\<close>

text \<open>
  A server that lists devices \<open>a\<close> and \<open>b\<close>, fails the status read of \<open>a\<close> with 500
  and answers \<open>b\<close>; a server that accepts commands and fails everything else; a
  registry that knows \<open>a\<close> (switched off) and \<open>z\<close>.
\<close>

definition demo_listing :: "pyval list" where
  "demo_listing = [PDict [(PStr ''id'', PStr ''a'')], PDict [(PStr ''id'', PStr ''b'')]]"

definition demo_cloud_world :: api_world where
  "demo_cloud_world =
     \<lparr>http = (\<lambda>r. case r of
                  GetDevicesReq _ \<Rightarrow> Inr (200, Some (PDict [(PStr ''devices'', PList demo_listing)]))
                | GetStatusReq k _ \<Rightarrow>
                    if k = PStr ''a'' then Inr (500, None)
                    else Inr (200, Some (PDict [(PStr ''power'', PStr ''on'')]))
                | PostControl _ _ _ \<Rightarrow> Inr (200, Some (PDict [(PStr ''success'', PBool True)]))
                | _ \<Rightarrow> Inr (503, None)),
      ble_connect = (\<lambda>_. None), ble_read = (\<lambda>_. Inr [1, 80]),
      ble_write = (\<lambda>_ _. None), ble_disconnect = None\<rparr>"

definition demo_outage_world :: api_world where
  "demo_outage_world =
     \<lparr>http = (\<lambda>r. case r of
                  PostControl _ _ _ \<Rightarrow> Inr (200, Some (PDict [(PStr ''success'', PBool True)]))
                | _ \<Rightarrow> Inr (503, None)),
      ble_connect = (\<lambda>_. None), ble_read = (\<lambda>_. Inr [1, 80]),
      ble_write = (\<lambda>_ _. None), ble_disconnect = None\<rparr>"

definition demo_api :: api_state where
  "demo_api = (api_init (PStr ''u@x'') (PStr ''pw'') True None)\<lparr>session := True, auth_token := PStr ''tk''\<rparr>"

definition demo_coord_state :: coord_state where
  "demo_coord_state =
     \<lparr>api = demo_api,
      devices = [(PStr ''a'', PDict [(PStr ''id'', PStr ''a''), (PStr ''power'', PStr ''off'')]),
                 (PStr ''z'', PDict [(PStr ''id'', PStr ''z'')])],
      data = None, last_update_success = True\<rparr>"

section \<open>Lemmas\<close>

lemma keep_or_listed_eq:
  "py_hash_key k = Some h \<Longrightarrow>
     keep_or_listed old acc k dev = Inr (dict_store acc h k (case dict_lookup old h of None \<Rightarrow> dev | Some v \<Rightarrow> v))"
  by (simp add: keep_or_listed_def py_dict_contains_def py_dict_get_def py_dict_set_def
      split: option.splits)

lemma refresh_loop_pure_step:
  assumes "py_truthy (dict_get_or d ''id'' PNone)" and "py_hash_key (dict_get_or d ''id'' PNone) = Some h"
  shows "refresh_loop (\<lambda>k t. (f k, t)) old (PDict d # ds) acc u =
         refresh_loop (\<lambda>k t. (f k, t)) old ds
           (dict_store acc h (dict_get_or d ''id'' PNone) (entry_after f old d)) u"
  using assms
  by (auto simp: entry_after_def keep_or_listed_eq py_dict_set_def Let_def
      split: sum.splits prod.splits option.splits)

lemma refresh_loop_stable:
  assumes H: "\<And>k s. P s \<Longrightarrow> fst (status k s) = f k \<and> P (snd (status k s))"
  shows "P s \<Longrightarrow> fst (refresh_loop status old ds acc s) = fst (refresh_loop (\<lambda>k t. (f k, t)) old ds acc u)"
proof (induction ds arbitrary: acc s)
  case Nil
  then show ?case by (simp add: ret_def)
next
  case (Cons v ds)
  show ?case
  proof (cases v)
    case (PDict d)
    obtain r s1 where st: "status (dict_get_or d ''id'' PNone) s = (r, s1)" by fastforce
    with H [OF Cons.prems] have r: "r = f (dict_get_or d ''id'' PNone)" and p1: "P s1"
      by (metis fst_conv, metis snd_conv)
    show ?thesis using PDict st r Cons.IH [OF p1] Cons.IH [OF Cons.prems]
      by (auto simp: Let_def split: sum.splits prod.splits option.splits)
  qed (simp_all add: throw_def)
qed

lemma listing_ok_Cons:
  "listing_ok (v # ds) \<longleftrightarrow>
     (\<exists>d. v = PDict d \<and> py_truthy (dict_get_or d ''id'' PNone) \<and> py_hashable (dict_get_or d ''id'' PNone))
     \<and> device_key v \<notin> device_key ` set ds \<and> listing_ok ds"
  by (auto simp: listing_ok_def)

lemma refresh_loop_pure:
  assumes "listing_ok ds"
  shows "\<exists>new. refresh_loop (\<lambda>k t. (f k, t)) old ds acc u = (Inr new, u)
           \<and> (\<forall>h. h \<notin> Some -` device_key ` set ds \<longrightarrow> dict_lookup new h = dict_lookup acc h)
           \<and> (\<forall>d h. PDict d \<in> set ds \<longrightarrow> device_key (PDict d) = Some h \<longrightarrow>
                 dict_lookup new h = Some (entry_after f old d))"
  using assms
proof (induction ds arbitrary: acc)
  case Nil
  then show ?case by (simp add: ret_def)
next
  case (Cons v ds)
  from Cons.prems obtain d where v: "v = PDict d"
    and tr: "py_truthy (dict_get_or d ''id'' PNone)" and hs: "py_hashable (dict_get_or d ''id'' PNone)"
    and fresh: "device_key v \<notin> device_key ` set ds" and rest: "listing_ok ds"
    by (auto simp: listing_ok_Cons)
  from hs obtain h0 where h0: "py_hash_key (dict_get_or d ''id'' PNone) = Some h0"
    by (auto simp: py_hashable_def)
  let ?acc' = "dict_store acc h0 (dict_get_or d ''id'' PNone) (entry_after f old d)"
  from Cons.IH [OF rest, of ?acc'] obtain new where
    run: "refresh_loop (\<lambda>k t. (f k, t)) old ds ?acc' u = (Inr new, u)"
    and frame: "\<forall>h. h \<notin> Some -` device_key ` set ds \<longrightarrow> dict_lookup new h = dict_lookup ?acc' h"
    and entry: "\<forall>d h. PDict d \<in> set ds \<longrightarrow> device_key (PDict d) = Some h \<longrightarrow>
                  dict_lookup new h = Some (entry_after f old d)"
    by blast
  have dk: "device_key v = Some h0" using v h0 by (simp add: device_key_def)
  have "refresh_loop (\<lambda>k t. (f k, t)) old (v # ds) acc u =
          refresh_loop (\<lambda>k t. (f k, t)) old ds ?acc' u"
    unfolding v by (rule refresh_loop_pure_step [OF tr h0])
  with run have step: "refresh_loop (\<lambda>k t. (f k, t)) old (v # ds) acc u = (Inr new, u)"
    by (simp only:)
  have h0_notin: "h0 \<notin> Some -` device_key ` set ds" using fresh dk by auto
  show ?case
  proof (intro exI conjI allI impI)
    show "refresh_loop (\<lambda>k t. (f k, t)) old (v # ds) acc u = (Inr new, u)" by (rule step)
  next
    fix h assume "h \<notin> Some -` device_key ` set (v # ds)"
    then have "h \<noteq> h0" and "h \<notin> Some -` device_key ` set ds" using dk by auto
    with frame h0 show "dict_lookup new h = dict_lookup acc h" by simp
  next
    fix d' h assume mem: "PDict d' \<in> set (v # ds)" and k: "device_key (PDict d') = Some h"
    show "dict_lookup new h = Some (entry_after f old d')"
    proof (cases "PDict d' \<in> set ds")
      case True
      with entry k show ?thesis by blast
    next
      case False
      with mem v have "d' = d" by simp
      with k dk v have "h = h0" by simp
      with frame h0_notin h0 \<open>d' = d\<close> show ?thesis by simp
    qed
  qed
qed

lemma cloud_status_stable:
  "cloud_ready t a \<Longrightarrow>
     fst (get_device_status w k a) = cloud_status_answer w t k \<and> cloud_ready t (snd (get_device_status w k a))"
  by (auto simp: cloud_ready_def cloud_status_answer_def get_device_status_def
      get_device_status_cloud_def ensure_auth_def io_http_def pyop_simps split: sum.splits prod.splits)

lemma cloud_get_devices:
  "cloud_ready t a \<Longrightarrow> http w (GetDevicesReq t) = Inr (200, Some body) \<Longrightarrow>
     get_devices w a = (py_get body (PStr ''devices'') (PList []), a\<lparr>api_trace := api_trace a @ [GetDevicesReq t]\<rparr>)"
  by (simp add: cloud_ready_def get_devices_def get_devices_cloud_def ensure_auth_def io_http_def
      response_json_def pyop_simps)

lemma async_update_data_listing:
  assumes "get_devices w (api s) = (Inr devs, a1)" and "py_iter devs = Inr ds" and "P a1"
    and H: "\<And>k a. P a \<Longrightarrow> fst (get_device_status w k a) = f k \<and> P (snd (get_device_status w k a))"
    and "listing_ok ds"
  shows "\<exists>s'. async_update_data w now s =
               (Inr (PDict [(PStr ''devices'', PDict (devices s')), (PStr ''last_update'', PFloat now)]), s')
             \<and> refresh_pure f (devices s) ds = Inr (devices s')"
proof -
  obtain new where pure: "refresh_loop (\<lambda>k t. (f k, t)) (devices s) ds [] () = (Inr new, ())"
    using refresh_loop_pure [OF assms(5), of f "devices s" "[]" "()"] by blast
  obtain r a2 where run: "refresh_loop (get_device_status w) (devices s) ds [] a1 = (r, a2)"
    by fastforce
  from refresh_loop_stable [of P "get_device_status w" f, OF H assms(3), of "devices s" ds "[]" "()"]
    pure run have "r = Inr new" by simp
  with run assms(1,2) pure show ?thesis
    by (auto simp: async_update_data_def refresh_pure_def on_api_def pyop_simps)
qed

lemma async_update_data_fail_registry:
  "async_update_data w now s = (Inl e, s') \<Longrightarrow> devices s' = devices s \<and> (\<exists>m. e = UpdateFailed m)"
  by (auto simp: async_update_data_def on_api_def pyop_simps split: prod.splits sum.splits)

lemma dict_store_values: "snd ` set (dict_store d k a v) \<subseteq> insert v (snd ` set d)"
  by (induction d) (force split: if_splits)+

lemma dict_lookup_value: "dict_lookup d k = Some v \<Longrightarrow> v \<in> snd ` set d"
  by (induction d) (force split: if_splits)+

lemma registry_ok_set:
  "registry_ok acc \<Longrightarrow> py_dict_set acc k (PDict x) = Inr acc' \<Longrightarrow> registry_ok acc'"
  using dict_store_values by (fastforce simp: registry_ok_def py_dict_set_def split: option.splits)

lemma registry_ok_keep:
  assumes "registry_ok old" "registry_ok acc" "keep_or_listed old acc k (PDict x) = Inr acc'"
  shows "registry_ok acc'"
proof -
  from assms(3) obtain h where h: "py_hash_key k = Some h"
    by (auto simp: keep_or_listed_def py_dict_contains_def split: option.splits)
  let ?v = "case dict_lookup old h of None \<Rightarrow> PDict x | Some v \<Rightarrow> v"
  have "\<exists>d. ?v = PDict d"
    using assms(1) dict_lookup_value [of old h] by (auto simp: registry_ok_def split: option.splits)
  then obtain d where v: "?v = PDict d" by blast
  have "py_dict_set acc k (PDict d) = Inr acc'"
    using assms(3) keep_or_listed_eq [OF h, where old=old and acc=acc and dev="PDict x"] v
    by (simp add: py_dict_set_def h)
  then show ?thesis using registry_ok_set [OF assms(2)] by blast
qed

lemma refresh_loop_registry:
  "registry_ok old \<Longrightarrow> registry_ok acc \<Longrightarrow> refresh_loop status old ds acc s = (Inr new, s') \<Longrightarrow>
     registry_ok new"
proof (induction ds arbitrary: acc s)
  case Nil
  then show ?case by (simp add: ret_def)
next
  case (Cons v ds)
  note IH = Cons.IH [OF Cons.prems(1)]
  show ?case
  proof (cases v)
    case (PDict d)
    let ?k = "dict_get_or d ''id'' PNone"
    have keep: "\<And>x acc' s1. keep_or_listed old acc ?k (PDict x) = Inr acc' \<Longrightarrow>
                  refresh_loop status old ds acc' s1 = (Inr new, s') \<Longrightarrow> registry_ok new"
      using IH registry_ok_keep [OF Cons.prems(1,2)] by blast
    have set: "\<And>x acc' s1. py_dict_set acc ?k (PDict x) = Inr acc' \<Longrightarrow>
                  refresh_loop status old ds acc' s1 = (Inr new, s') \<Longrightarrow> registry_ok new"
      using IH registry_ok_set [OF Cons.prems(2)] by blast
    show ?thesis
    proof (cases "py_truthy ?k")
      case False
      then show ?thesis using Cons.prems PDict IH by (simp add: Let_def)
    next
      case True
      obtain r s1 where st: "status ?k s = (r, s1)" by fastforce
      show ?thesis
      proof (cases r)
        case (Inl e)
        then show ?thesis using Cons.prems(3) PDict True st keep
          by (simp add: Let_def split: sum.splits)
      next
        case (Inr st')
        obtain eo d' where u: "py_dict_update d st' = (eo, d')" by fastforce
        show ?thesis
          using Cons.prems(3) PDict True st Inr u keep set
          by (cases eo) (simp_all add: Let_def split: sum.splits)
      qed
    qed
  qed (use Cons.prems in \<open>simp_all add: throw_def\<close>)
qed

lemma async_update_data_frame:
  "async_update_data w now s = (r, s') \<Longrightarrow> data s' = data s \<and> last_update_success s' = last_update_success s"
  by (auto simp: async_update_data_def on_api_def pyop_simps split: prod.splits sum.splits)

lemma async_update_data_success:
  "async_update_data w now s = (Inr x, s') \<Longrightarrow>
     \<exists>ds a a'. refresh_loop (get_device_status w) (devices s) ds [] a = (Inr (devices s'), a')"
  by (auto simp: async_update_data_def on_api_def pyop_simps split: prod.splits sum.splits) blast

lemma async_update_data_registry:
  assumes "registry_ok (devices s)" and "async_update_data w now s = (r, s')"
  shows "registry_ok (devices s')"
proof (cases r)
  case (Inl e)
  then show ?thesis using assms async_update_data_fail_registry by fastforce
next
  case (Inr x)
  then obtain ds a a' where loop: "refresh_loop (get_device_status w) (devices s) ds [] a = (Inr (devices s'), a')"
    using async_update_data_success assms(2) by blast
  have nil: "registry_ok []" by (simp add: registry_ok_def)
  show ?thesis by (rule refresh_loop_registry [OF assms(1) nil loop])
qed

lemma async_refresh_registry:
  "registry_ok (devices s) \<Longrightarrow> async_refresh w now s = (r, s') \<Longrightarrow> registry_ok (devices s')"
  using async_update_data_registry
  by (auto simp: async_refresh_def split: prod.splits sum.splits)

lemma coord_send_command_registry:
  "registry_ok (devices s) \<Longrightarrow> coord_send_command w now k c kw s = (r, s') \<Longrightarrow> registry_ok (devices s')"
  using async_refresh_registry [of "s\<lparr>api := a\<rparr>" for a]
  by (auto simp: coord_send_command_def on_api_def pyop_simps split: prod.splits sum.splits)

lemma filter_type_total: "\<forall>v \<in> set vs. \<exists>d. v = PDict d \<Longrightarrow> \<exists>r. filter_type t vs = Inr r"
  by (induction vs) auto

lemma coord_reachable_registry:
  "coord_reachable w s \<Longrightarrow> registry_ok (devices s)"
proof (induction rule: coord_reachable.induct)
  case (init a)
  then show ?case by (simp add: coord_init_def registry_ok_def)
next
  case (refresh s now r s')
  then show ?case using async_refresh_registry by blast
next
  case (command s now k c kw r s')
  then show ?case using coord_send_command_registry by blast
qed

lemma filter_type_types:
  "filter_type t vs = Inr r \<Longrightarrow>
     \<forall>v \<in> set r. v \<in> set vs \<and> (\<exists>d. v = PDict d \<and> dict_get_or d ''type'' PNone = PStr t)"
proof (induction vs arbitrary: r)
  case (Cons v vs)
  then show ?case by (cases v) (auto split: sum.splits if_splits)
qed simp

lemma refresh_loop_inv:
  assumes step: "\<And>k b r b'. P b \<Longrightarrow> status k b = (r, b') \<Longrightarrow> P b'"
  shows "P a \<Longrightarrow> refresh_loop status old ds acc a = (r, a') \<Longrightarrow> P a'"
proof (induction ds arbitrary: acc a)
  case (Cons v ds)
  show ?case
  proof (cases "\<exists>d. v = PDict d")
    case False
    then show ?thesis using Cons.prems by (cases v) (auto simp: pyop_simps)
  next
    case True
    then obtain d where v: "v = PDict d" by blast
    show ?thesis
    proof (cases "py_truthy (dict_get_or d ''id'' PNone)")
      case False
      then show ?thesis using Cons v by (simp add: Let_def)
    next
      case True
      obtain r1 a1 where st: "status (dict_get_or d ''id'' PNone) a = (r1, a1)" by fastforce
      have "P a1" using step [OF Cons.prems(1) st] .
      then show ?thesis using Cons.IH Cons.prems(2) True st v
        by (auto simp: Let_def split: sum.splits prod.splits option.splits)
    qed
  qed
qed (simp add: pyop_simps)

lemma async_update_data_api:
  assumes dev: "\<And>b r b'. P b \<Longrightarrow> get_devices w b = (r, b') \<Longrightarrow> P b'"
    and st: "\<And>k b r b'. P b \<Longrightarrow> get_device_status w k b = (r, b') \<Longrightarrow> P b'"
    and "P (api s)" and "async_update_data w now s = (r, s')"
  shows "P (api s')"
proof -
  obtain r1 a1 where g: "get_devices w (api s) = (r1, a1)" by fastforce
  have p1: "P a1" using dev [OF assms(3) g] .
  show ?thesis
  proof (cases r1)
    case (Inl e)
    then show ?thesis using assms(4) g p1
      by (auto simp: async_update_data_def on_api_def pyop_simps)
  next
    case (Inr devs)
    show ?thesis
    proof (cases "py_iter devs")
      case (Inl e)
      then show ?thesis using assms(4) g p1 \<open>r1 = Inr devs\<close>
        by (auto simp: async_update_data_def on_api_def pyop_simps)
    next
      case (Inr ds)
      obtain r2 a2 where l: "refresh_loop (get_device_status w) (devices s) ds [] a1 = (r2, a2)"
        by fastforce
      have p2: "P a2" using refresh_loop_inv [of P "get_device_status w", OF st p1 l] .
      show ?thesis using assms(4) g \<open>r1 = Inr devs\<close> Inr l p2
        by (cases r2) (auto simp: async_update_data_def on_api_def pyop_simps)
    qed
  qed
qed

lemma async_refresh_api:
  assumes "\<And>b r b'. P b \<Longrightarrow> get_devices w b = (r, b') \<Longrightarrow> P b'"
    and "\<And>k b r b'. P b \<Longrightarrow> get_device_status w k b = (r, b') \<Longrightarrow> P b'"
    and "P (api s)" and "async_refresh w now s = (r, s')"
  shows "r = Inr () \<and> P (api s')"
proof -
  obtain u s1 where u: "async_update_data w now s = (u, s1)" by fastforce
  have "P (api s1)" by (rule async_update_data_api [where P = P, OF assms(1,2,3) u])
  then show ?thesis using assms(4) u by (cases u) (auto simp: async_refresh_def)
qed

lemmas demo_coord_defs = demo_listing_def demo_cloud_world_def demo_outage_world_def
  demo_api_def demo_coord_state_def api_init_def cloud_ready_def cloud_status_answer_def
  listing_ok_def device_key_def dict_get_or_def response_json_def nat_str.simps py_hashable_def

section \<open>Properties of the coordinator\<close>

text \<open>
  C1: Keep last good.  In an authenticated cloud session, a refresh whose device
  listing succeeds completes, and a listed device whose status read fails keeps the
  record the registry held for it before the refresh.
\<close>

theorem refresh_keeps_last_good:
  assumes "cloud_ready t (api s)"
    and "http w (GetDevicesReq t) = Inr (200, Some body)"
    and "py_get body (PStr ''devices'') (PList []) = Inr (PList ds)" and "listing_ok ds"
    and "PDict d \<in> set ds" and "device_key (PDict d) = Some h"
    and "cloud_status_answer w t (dict_get_or d ''id'' PNone) = Inl e"
    and "dict_lookup (devices s) h = Some v"
  shows "\<exists>r s'. async_update_data w now s = (Inr r, s') \<and> dict_lookup (devices s') h = Some v"
proof -
  let ?a1 = "(api s)\<lparr>api_trace := api_trace (api s) @ [GetDevicesReq t]\<rparr>"
  have gd: "get_devices w (api s) = (Inr (PList ds), ?a1)"
    using cloud_get_devices [OF assms(1,2)] assms(3) by simp
  have "cloud_ready t ?a1" using assms(1) by (simp add: cloud_ready_def)
  from async_update_data_listing [OF gd _ this cloud_status_stable assms(4)]
  obtain s' where upd: "async_update_data w now s = (Inr (PDict [(PStr ''devices'', PDict (devices s')), (PStr ''last_update'', PFloat now)]), s')"
    and pure: "refresh_pure (cloud_status_answer w t) (devices s) ds = Inr (devices s')"
    by fastforce
  have "dict_lookup (devices s') h = Some (entry_after (cloud_status_answer w t) (devices s) d)"
    using refresh_loop_pure [OF assms(4), of "cloud_status_answer w t" "devices s" "[]" "()"] pure assms(5,6)
    by (auto simp: refresh_pure_def)
  moreover have "entry_after (cloud_status_answer w t) (devices s) d = v"
    using assms(6,7,8) by (simp add: entry_after_def device_key_def)
  ultimately show ?thesis using upd by blast
qed

theorem refresh_keeps_last_good_witness:
  "cloud_ready (PStr ''tk'') (api demo_coord_state)
   \<and> http demo_cloud_world (GetDevicesReq (PStr ''tk'')) = Inr (200, Some (PDict [(PStr ''devices'', PList demo_listing)]))
   \<and> py_get (PDict [(PStr ''devices'', PList demo_listing)]) (PStr ''devices'') (PList []) = Inr (PList demo_listing)
   \<and> listing_ok demo_listing
   \<and> PDict [(PStr ''id'', PStr ''a'')] \<in> set demo_listing
   \<and> device_key (PDict [(PStr ''id'', PStr ''a'')]) = Some (KStr ''a'')
   \<and> cloud_status_answer demo_cloud_world (PStr ''tk'') (PStr ''a'') = Inl (ValueError ''Failed to get status: 500'')
   \<and> dict_lookup (devices demo_coord_state) (KStr ''a'') = Some (PDict [(PStr ''id'', PStr ''a''), (PStr ''power'', PStr ''off'')])
   \<and> (\<exists>r s'. async_update_data demo_cloud_world (Flt 0 0) demo_coord_state = (Inr r, s')
            \<and> dict_lookup (devices s') (KStr ''a'') = Some (PDict [(PStr ''id'', PStr ''a''), (PStr ''power'', PStr ''off'')]))"
  using refresh_keeps_last_good [where t = "PStr ''tk''" and s = demo_coord_state and w = demo_cloud_world
      and body = "PDict [(PStr ''devices'', PList demo_listing)]" and ds = demo_listing
      and d = "[(PStr ''id'', PStr ''a'')]" and h = "KStr ''a''" and e = "ValueError ''Failed to get status: 500''"
      and v = "PDict [(PStr ''id'', PStr ''a''), (PStr ''power'', PStr ''off'')]" and now = "Flt 0 0"]
  unfolding demo_listing_def demo_cloud_world_def by (simp add: demo_coord_defs)

text \<open>
  C2: A failed listing aborts the refresh.  When \<open>get_devices\<close> raises, the refresh
  raises \<open>UpdateFailed\<close> carrying the original message, and the registry, the last data
  and the success flag are as before; only the API object's state advances.
\<close>

theorem refresh_list_failure:
  "get_devices w (api s) = (Inl e, a1) \<Longrightarrow>
     async_update_data w now s =
       (Inl (UpdateFailed (''Failed to update MarsPro data: '' @ exn_msg e)), s\<lparr>api := a1\<rparr>)"
  by (simp add: async_update_data_def on_api_def pyop_simps)

theorem refresh_list_failure_witness:
  "get_devices demo_outage_world demo_api =
     (Inl (ValueError ''Failed to get devices: 503''), demo_api\<lparr>api_trace := [GetDevicesReq (PStr ''tk'')]\<rparr>)
   \<and> async_update_data demo_outage_world (Flt 0 0) demo_coord_state =
       (Inl (UpdateFailed ''Failed to update MarsPro data: Failed to get devices: 503''),
        demo_coord_state\<lparr>api := demo_api\<lparr>api_trace := [GetDevicesReq (PStr ''tk'')]\<rparr>\<rparr>)"
proof -
  have gd: "get_devices demo_outage_world demo_api =
     (Inl (ValueError ''Failed to get devices: 503''), demo_api\<lparr>api_trace := [GetDevicesReq (PStr ''tk'')]\<rparr>)"
    by (simp add: demo_coord_defs get_devices_def get_devices_cloud_def ensure_auth_def io_http_def pyop_simps)
  show ?thesis
    using gd refresh_list_failure [where w = demo_outage_world and s = demo_coord_state and now = "Flt 0 0"]
    by (simp add: demo_coord_state_def)
qed

text \<open>
  C3: A command is not undone by a failed refresh.  When the command succeeds and the
  refresh that follows it fails at the listing, \<open>send_command\<close> still returns the
  command's result, the registry is unchanged and the coordinator is marked
  unsuccessful.
\<close>

theorem send_command_survives_refresh_failure:
  assumes "send_command w k c kw (api s) = (Inr res, a1)" and "get_devices w a1 = (Inl e, a2)"
  shows "coord_send_command w now k c kw s = (Inr res, s\<lparr>api := a2, last_update_success := False\<rparr>)"
  using assms
  by (simp add: coord_send_command_def async_refresh_def async_update_data_def on_api_def pyop_simps)

theorem send_command_survives_refresh_failure_witness:
  "send_command demo_outage_world (PStr ''a'') ''power_on'' [] demo_api =
     (Inr (PDict [(PStr ''success'', PBool True)]),
      demo_api\<lparr>api_trace := [PostControl (PStr ''a'') [(PStr ''device_id'', PStr ''a''), (PStr ''command'', PStr ''power_on'')] (PStr ''tk'')]\<rparr>)
   \<and> get_devices demo_outage_world
       (demo_api\<lparr>api_trace := [PostControl (PStr ''a'') [(PStr ''device_id'', PStr ''a''), (PStr ''command'', PStr ''power_on'')] (PStr ''tk'')]\<rparr>) =
     (Inl (ValueError ''Failed to get devices: 503''),
      demo_api\<lparr>api_trace := [PostControl (PStr ''a'') [(PStr ''device_id'', PStr ''a''), (PStr ''command'', PStr ''power_on'')] (PStr ''tk''),
                              GetDevicesReq (PStr ''tk'')]\<rparr>)
   \<and> coord_send_command demo_outage_world (Flt 0 0) (PStr ''a'') ''power_on'' [] demo_coord_state =
     (Inr (PDict [(PStr ''success'', PBool True)]),
      demo_coord_state\<lparr>api := demo_api\<lparr>api_trace := [PostControl (PStr ''a'') [(PStr ''device_id'', PStr ''a''), (PStr ''command'', PStr ''power_on'')] (PStr ''tk''),
                              GetDevicesReq (PStr ''tk'')]\<rparr>, last_update_success := False\<rparr>)"
proof -
  have sc: "send_command demo_outage_world (PStr ''a'') ''power_on'' [] demo_api =
     (Inr (PDict [(PStr ''success'', PBool True)]),
      demo_api\<lparr>api_trace := [PostControl (PStr ''a'') [(PStr ''device_id'', PStr ''a''), (PStr ''command'', PStr ''power_on'')] (PStr ''tk'')]\<rparr>)"
    by (simp add: demo_coord_defs send_command_def send_command_cloud_def ensure_auth_def io_http_def pyop_simps)
  have gd: "get_devices demo_outage_world
       (demo_api\<lparr>api_trace := [PostControl (PStr ''a'') [(PStr ''device_id'', PStr ''a''), (PStr ''command'', PStr ''power_on'')] (PStr ''tk'')]\<rparr>) =
     (Inl (ValueError ''Failed to get devices: 503''),
      demo_api\<lparr>api_trace := [PostControl (PStr ''a'') [(PStr ''device_id'', PStr ''a''), (PStr ''command'', PStr ''power_on'')] (PStr ''tk''),
                              GetDevicesReq (PStr ''tk'')]\<rparr>)"
    by (simp add: demo_coord_defs get_devices_def get_devices_cloud_def ensure_auth_def io_http_def pyop_simps)
  show ?thesis
    using sc gd send_command_survives_refresh_failure [where w = demo_outage_world and s = demo_coord_state
        and k = "PStr ''a''" and c = "''power_on''" and kw = "[]" and now = "Flt 0 0"]
    by (simp add: demo_coord_state_def)
qed

text \<open>
  C4: Refinement.  With an authenticated cloud session and a well-formed listing, the
  coordinator's refresh completes and its new registry is the one the abstract
  refresh \<open>refresh_pure\<close> computes from the old registry and the server's status
  answers.
\<close>

theorem cloud_refresh_refines:
  assumes "cloud_ready t (api s)"
    and "http w (GetDevicesReq t) = Inr (200, Some body)"
    and "py_get body (PStr ''devices'') (PList []) = Inr (PList ds)" and "listing_ok ds"
  shows "\<exists>s'. async_update_data w now s =
               (Inr (PDict [(PStr ''devices'', PDict (devices s')), (PStr ''last_update'', PFloat now)]), s')
             \<and> refresh_pure (cloud_status_answer w t) (devices s) ds = Inr (devices s')"
proof -
  let ?a1 = "(api s)\<lparr>api_trace := api_trace (api s) @ [GetDevicesReq t]\<rparr>"
  have gd: "get_devices w (api s) = (Inr (PList ds), ?a1)"
    using cloud_get_devices [OF assms(1,2)] assms(3) by simp
  have "cloud_ready t ?a1" using assms(1) by (simp add: cloud_ready_def)
  from async_update_data_listing [OF gd _ this cloud_status_stable assms(4)] show ?thesis by simp
qed

theorem cloud_refresh_refines_witness:
  "cloud_ready (PStr ''tk'') (api demo_coord_state)
   \<and> http demo_cloud_world (GetDevicesReq (PStr ''tk'')) = Inr (200, Some (PDict [(PStr ''devices'', PList demo_listing)]))
   \<and> py_get (PDict [(PStr ''devices'', PList demo_listing)]) (PStr ''devices'') (PList []) = Inr (PList demo_listing)
   \<and> listing_ok demo_listing
   \<and> (\<exists>s'. async_update_data demo_cloud_world (Flt 0 0) demo_coord_state =
               (Inr (PDict [(PStr ''devices'', PDict (devices s')), (PStr ''last_update'', PFloat (Flt 0 0))]), s')
             \<and> refresh_pure (cloud_status_answer demo_cloud_world (PStr ''tk'')) (devices demo_coord_state) demo_listing
                 = Inr (devices s'))"
  using cloud_refresh_refines [where t = "PStr ''tk''" and s = demo_coord_state and w = demo_cloud_world
      and body = "PDict [(PStr ''devices'', PList demo_listing)]" and ds = demo_listing and now = "Flt 0 0"]
  unfolding demo_listing_def demo_cloud_world_def by (simp add: demo_coord_defs)

text \<open>
  C5: The contract of one refresh.  On a well-formed listing the abstract refresh
  returns a registry holding exactly the listed devices, each with the entry the
  per-device contract \<open>entry_after\<close> gives (merged status, or the previous record
  when the read or merge failed, or the listed record when there was none).
\<close>

theorem refresh_pure_contract:
  assumes "listing_ok ds"
  shows "\<exists>new. refresh_pure f old ds = Inr new
           \<and> (\<forall>h. Some h \<notin> device_key ` set ds \<longrightarrow> dict_lookup new h = None)
           \<and> (\<forall>d h. PDict d \<in> set ds \<longrightarrow> device_key (PDict d) = Some h \<longrightarrow>
                 dict_lookup new h = Some (entry_after f old d))"
  using refresh_loop_pure [OF assms, of f old "[]" "()"] by (auto simp: refresh_pure_def)

theorem refresh_pure_contract_witness:
  "listing_ok demo_listing
   \<and> (\<exists>new. refresh_pure (cloud_status_answer demo_cloud_world (PStr ''tk'')) (devices demo_coord_state) demo_listing = Inr new
        \<and> (\<forall>h. Some h \<notin> device_key ` set demo_listing \<longrightarrow> dict_lookup new h = None)
        \<and> (\<forall>d h. PDict d \<in> set demo_listing \<longrightarrow> device_key (PDict d) = Some h \<longrightarrow>
              dict_lookup new h = Some (entry_after (cloud_status_answer demo_cloud_world (PStr ''tk'')) (devices demo_coord_state) d)))"
proof -
  have l: "listing_ok demo_listing" by (simp add: demo_coord_defs)
  show ?thesis by (rule conjI [OF l refresh_pure_contract [OF l]])
qed

text \<open>
  C6: A device absent from the listing is removed from the registry by the next
  successful refresh, although it was never removed explicitly.
\<close>

theorem refresh_drops_unlisted:
  assumes "cloud_ready t (api s)"
    and "http w (GetDevicesReq t) = Inr (200, Some body)"
    and "py_get body (PStr ''devices'') (PList []) = Inr (PList ds)" and "listing_ok ds"
    and "Some h \<notin> device_key ` set ds"
  shows "\<exists>r s'. async_update_data w now s = (Inr r, s') \<and> dict_lookup (devices s') h = None"
proof -
  let ?a1 = "(api s)\<lparr>api_trace := api_trace (api s) @ [GetDevicesReq t]\<rparr>"
  have gd: "get_devices w (api s) = (Inr (PList ds), ?a1)"
    using cloud_get_devices [OF assms(1,2)] assms(3) by simp
  have "cloud_ready t ?a1" using assms(1) by (simp add: cloud_ready_def)
  from async_update_data_listing [OF gd _ this cloud_status_stable assms(4)]
  obtain s' where upd: "async_update_data w now s = (Inr (PDict [(PStr ''devices'', PDict (devices s')), (PStr ''last_update'', PFloat now)]), s')"
    and pure: "refresh_pure (cloud_status_answer w t) (devices s) ds = Inr (devices s')"
    by fastforce
  have "dict_lookup (devices s') h = dict_lookup [] h"
    using refresh_loop_pure [OF assms(4), of "cloud_status_answer w t" "devices s" "[]" "()"] pure assms(5)
    by (auto simp: refresh_pure_def)
  then show ?thesis using upd by auto
qed

theorem refresh_drops_unlisted_witness:
  "cloud_ready (PStr ''tk'') (api demo_coord_state)
   \<and> http demo_cloud_world (GetDevicesReq (PStr ''tk'')) = Inr (200, Some (PDict [(PStr ''devices'', PList demo_listing)]))
   \<and> py_get (PDict [(PStr ''devices'', PList demo_listing)]) (PStr ''devices'') (PList []) = Inr (PList demo_listing)
   \<and> listing_ok demo_listing
   \<and> Some (KStr ''z'') \<notin> device_key ` set demo_listing
   \<and> dict_lookup (devices demo_coord_state) (KStr ''z'') = Some (PDict [(PStr ''id'', PStr ''z'')])
   \<and> (\<exists>r s'. async_update_data demo_cloud_world (Flt 0 0) demo_coord_state = (Inr r, s')
            \<and> dict_lookup (devices s') (KStr ''z'') = None)"
  using refresh_drops_unlisted [where t = "PStr ''tk''" and s = demo_coord_state and w = demo_cloud_world
      and body = "PDict [(PStr ''devices'', PList demo_listing)]" and ds = demo_listing
      and h = "KStr ''z''" and now = "Flt 0 0"]
  unfolding demo_listing_def demo_cloud_world_def by (simp add: demo_coord_defs)

text \<open>
  C7: In every state the coordinator can reach, the registry is a well-formed dictionary
  of device dictionaries, so \<open>get_devices_by_type\<close> never raises.
\<close>

theorem get_devices_by_type_total:
  "coord_reachable w s \<Longrightarrow> \<exists>r. get_devices_by_type s t = Inr r"
  using coord_reachable_registry filter_type_total
  by (fastforce simp: get_devices_by_type_def registry_ok_def)

theorem get_devices_by_type_total_witness:
  "coord_reachable demo_cloud_world (snd (async_refresh demo_cloud_world (Flt 0 0) (coord_init demo_api)))
   \<and> (\<exists>r. get_devices_by_type (snd (async_refresh demo_cloud_world (Flt 0 0) (coord_init demo_api))) ''light'' = Inr r)"
proof -
  have "coord_reachable demo_cloud_world (coord_init demo_api)" by (rule coord_reachable.init)
  then have reach: "coord_reachable demo_cloud_world (snd (async_refresh demo_cloud_world (Flt 0 0) (coord_init demo_api)))"
    by (rule coord_reachable.refresh [OF _ surjective_pairing])
  show ?thesis using reach get_devices_by_type_total [OF reach] by blast
qed

end
