(* ===== verification/PyFloat.thy ===== *)
theory PyFloat
  imports PyStruct
begin

text \<open>
  The binary64 arithmetic of Python's \<open>/\<close>, \<open>*\<close> and \<open>int()\<close> as the light entity uses it
  (\<open>int((brightness / 100) * 255)\<close> and \<open>int((kwargs[ATTR_BRIGHTNESS] / 255) * 100)\<close>).
  A result is a finite double \<open>Fin (Flt m e)\<close> or an infinity.  Every operation
  computes the exact rational result and rounds it once to the nearest double, ties
  to even, with subnormals below \<open>2 ^ -1022\<close> and overflow to infinity at
  \<open>2 ^ 1024\<close>, as IEEE 754 prescribes and CPython implements (\<open>float_div\<close>,
  \<open>float_mul\<close>; \<open>long_true_divide\<close> for two integers, which raises \<open>OverflowError\<close>
  instead of returning an infinity).
\<close>

datatype dbl = Fin flt | PosInf | NegInf

text \<open>\<open>n / d\<close> rounded to the nearest integer, ties to even (\<open>d > 0\<close>).\<close>

definition rdiv_even :: "nat \<Rightarrow> nat \<Rightarrow> nat" where
  "rdiv_even n d =
     (let q = n div d; r = n mod d
      in if d < 2 * r \<or> (2 * r = d \<and> odd q) then q + 1 else q)"

text \<open>The double nearest to \<open>n / d * 2 ^ k\<close>, for \<open>d > 0\<close>.\<close>

definition round_dbl :: "int \<Rightarrow> nat \<Rightarrow> int \<Rightarrow> dbl" where
  "round_dbl n d k =
     (if n = 0 then Fin (Flt 0 0)
      else
        (let a = nat \<bar>n\<bar>; b = int (bitlen a); c = int (bitlen d);
             above = (if c \<le> b then d * 2 ^ nat (b - c) \<le> a else d \<le> a * 2 ^ nat (c - b));
             ex = (if above then b - c else b - c - 1) + k;
             q = max (ex - 52) (-1074);
             m = (if q \<le> k then rdiv_even (a * 2 ^ nat (k - q)) d else rdiv_even a (d * 2 ^ nat (q - k)))
         in if 1024 < int (bitlen m) + q then (if 0 < n then PosInf else NegInf)
            else Fin (Flt (sgn n * int m) q)))"

text \<open>\<open>x / y\<close> and \<open>x * y\<close> for finite doubles.\<close>

fun dbl_div :: "flt \<Rightarrow> flt \<Rightarrow> exn + dbl" where
  "dbl_div (Flt m1 e1) (Flt m2 e2) =
     (if m2 = 0 then Inl (ZeroDivisionError ''float division by zero'')
      else Inr (round_dbl (sgn m2 * m1) (nat \<bar>m2\<bar>) (e1 - e2)))"

fun dbl_mul :: "flt \<Rightarrow> flt \<Rightarrow> dbl" where
  "dbl_mul (Flt m1 e1) (Flt m2 e2) = round_dbl (m1 * m2) 1 (e1 + e2)"

text \<open>A Python number as a double operand: \<open>bool\<close> and \<open>int\<close> go through \<open>float()\<close>.\<close>

fun num_to_flt :: "pyval \<Rightarrow> exn + flt" where
  "num_to_flt (PFloat x) = Inr x"
| "num_to_flt (PInt i) = int_to_double i"
| "num_to_flt (PBool b) = Inr (Flt (if b then 1 else 0) 0)"
| "num_to_flt _ = Inl (TypeError ''unsupported operand type(s)'')"

fun py_int_num :: "pyval \<Rightarrow> int option" where
  "py_int_num (PInt i) = Some i"
| "py_int_num (PBool b) = Some (if b then 1 else 0)"
| "py_int_num _ = None"

text \<open>
  \<open>x / y\<close> on Python numbers: two integers divide exactly and round once; otherwise
  both operands are converted to doubles first.
\<close>

definition py_truediv :: "pyval \<Rightarrow> pyval \<Rightarrow> exn + dbl" where
  "py_truediv x y =
     (case (py_int_num x, py_int_num y) of
        (Some i, Some j) \<Rightarrow>
          if j = 0 then Inl (ZeroDivisionError ''division by zero'')
          else (case round_dbl (sgn j * i) (nat \<bar>j\<bar>) 0 of
                  Fin f \<Rightarrow> Inr (Fin f)
                | _ \<Rightarrow> Inl (OverflowError ''integer division result too large for a float''))
      | _ \<Rightarrow> (case (num_to_flt x, num_to_flt y) of
               (Inr a, Inr b) \<Rightarrow> dbl_div a b
             | (Inl e, _) \<Rightarrow> Inl e
             | (_, Inl e) \<Rightarrow> Inl e))"

text \<open>\<open>x * n\<close> for a double \<open>x\<close> and an integer \<open>n\<close> (\<open>n\<close> converted by \<open>float()\<close>).\<close>

definition dbl_mul_int :: "dbl \<Rightarrow> int \<Rightarrow> exn + dbl" where
  "dbl_mul_int x n =
     (case int_to_double n of
        Inl e \<Rightarrow> Inl e
      | Inr y \<Rightarrow> Inr (case x of
                       Fin f \<Rightarrow> dbl_mul f y
                     | PosInf \<Rightarrow> (if 0 < n then PosInf else NegInf)
                     | NegInf \<Rightarrow> (if 0 < n then NegInf else PosInf)))"

text \<open>\<open>int(x)\<close>: truncation toward zero; an infinity raises.\<close>

fun dbl_trunc :: "dbl \<Rightarrow> exn + int" where
  "dbl_trunc (Fin (Flt m e)) =
     Inr (if 0 \<le> e then m * 2 ^ nat e else sgn m * (\<bar>m\<bar> div 2 ^ nat (- e)))"
| "dbl_trunc _ = Inl (OverflowError ''cannot convert float infinity to integer'')"

text \<open>\<open>int((x / d) * f)\<close> for a Python number \<open>x\<close> and integers \<open>d\<close>, \<open>f\<close>.\<close>

definition py_scale :: "pyval \<Rightarrow> int \<Rightarrow> int \<Rightarrow> exn + int" where
  "py_scale x d f =
     (case py_truediv x (PInt d) of
        Inl e \<Rightarrow> Inl e
      | Inr q \<Rightarrow> (case dbl_mul_int q f of Inl e \<Rightarrow> Inl e | Inr p \<Rightarrow> dbl_trunc p))"

named_theorems float_eval "evaluation of the double arithmetic on literals"

lemmas [float_eval] = py_scale_def py_truediv_def round_dbl_def rdiv_even_def dbl_mul_int_def
  int_to_double_def round_shift_def Let_def

end
