(* ===== verification/BrightnessScale.thy ===== *)
theory BrightnessScale
  imports PyFloat
begin

text \<open>
  The two brightness conversions of the light entity, \<open>int((b / 100) * 255)\<close> and
  \<open>int((h / 255) * 100)\<close>, evaluated in binary64 on every integer from 0 to 255: on
  that range both equal the exact integer quotients \<open>b * 255 div 100\<close> and
  \<open>h * 100 div 255\<close>, rounding never crossing an integer.  The ranges are checked in
  blocks of sixteen values (\<open>float_eval\<close>) and joined interval by interval.
\<close>

lemma scale_down_0: "\<forall>b \<in> set [0..15]. py_scale (PInt b) 100 255 = Inr (b * 255 div 100)"
  by (simp add: float_eval upto.simps)

lemma scale_down_1: "\<forall>b \<in> set [16..31]. py_scale (PInt b) 100 255 = Inr (b * 255 div 100)"
  by (simp add: float_eval upto.simps)

lemma scale_down_2: "\<forall>b \<in> set [32..47]. py_scale (PInt b) 100 255 = Inr (b * 255 div 100)"
  by (simp add: float_eval upto.simps)

lemma scale_down_3: "\<forall>b \<in> set [48..63]. py_scale (PInt b) 100 255 = Inr (b * 255 div 100)"
  by (simp add: float_eval upto.simps)

lemma scale_down_4: "\<forall>b \<in> set [64..79]. py_scale (PInt b) 100 255 = Inr (b * 255 div 100)"
  by (simp add: float_eval upto.simps)

lemma scale_down_5: "\<forall>b \<in> set [80..95]. py_scale (PInt b) 100 255 = Inr (b * 255 div 100)"
  by (simp add: float_eval upto.simps)

lemma scale_down_6: "\<forall>b \<in> set [96..111]. py_scale (PInt b) 100 255 = Inr (b * 255 div 100)"
  by (simp add: float_eval upto.simps)

lemma scale_down_7: "\<forall>b \<in> set [112..127]. py_scale (PInt b) 100 255 = Inr (b * 255 div 100)"
  by (simp add: float_eval upto.simps)

lemma scale_down_8: "\<forall>b \<in> set [128..143]. py_scale (PInt b) 100 255 = Inr (b * 255 div 100)"
  by (simp add: float_eval upto.simps)

lemma scale_down_9: "\<forall>b \<in> set [144..159]. py_scale (PInt b) 100 255 = Inr (b * 255 div 100)"
  by (simp add: float_eval upto.simps)

lemma scale_down_10: "\<forall>b \<in> set [160..175]. py_scale (PInt b) 100 255 = Inr (b * 255 div 100)"
  by (simp add: float_eval upto.simps)

lemma scale_down_11: "\<forall>b \<in> set [176..191]. py_scale (PInt b) 100 255 = Inr (b * 255 div 100)"
  by (simp add: float_eval upto.simps)

lemma scale_down_12: "\<forall>b \<in> set [192..207]. py_scale (PInt b) 100 255 = Inr (b * 255 div 100)"
  by (simp add: float_eval upto.simps)

lemma scale_down_13: "\<forall>b \<in> set [208..223]. py_scale (PInt b) 100 255 = Inr (b * 255 div 100)"
  by (simp add: float_eval upto.simps)

lemma scale_down_14: "\<forall>b \<in> set [224..239]. py_scale (PInt b) 100 255 = Inr (b * 255 div 100)"
  by (simp add: float_eval upto.simps)

lemma scale_down_15: "\<forall>b \<in> set [240..255]. py_scale (PInt b) 100 255 = Inr (b * 255 div 100)"
  by (simp add: float_eval upto.simps)

lemma scale_up_0: "\<forall>h \<in> set [0..15]. py_scale (PInt h) 255 100 = Inr (h * 100 div 255)"
  by (simp add: float_eval upto.simps)

lemma scale_up_1: "\<forall>h \<in> set [16..31]. py_scale (PInt h) 255 100 = Inr (h * 100 div 255)"
  by (simp add: float_eval upto.simps)

lemma scale_up_2: "\<forall>h \<in> set [32..47]. py_scale (PInt h) 255 100 = Inr (h * 100 div 255)"
  by (simp add: float_eval upto.simps)

lemma scale_up_3: "\<forall>h \<in> set [48..63]. py_scale (PInt h) 255 100 = Inr (h * 100 div 255)"
  by (simp add: float_eval upto.simps)

lemma scale_up_4: "\<forall>h \<in> set [64..79]. py_scale (PInt h) 255 100 = Inr (h * 100 div 255)"
  by (simp add: float_eval upto.simps)

lemma scale_up_5: "\<forall>h \<in> set [80..95]. py_scale (PInt h) 255 100 = Inr (h * 100 div 255)"
  by (simp add: float_eval upto.simps)

lemma scale_up_6: "\<forall>h \<in> set [96..111]. py_scale (PInt h) 255 100 = Inr (h * 100 div 255)"
  by (simp add: float_eval upto.simps)

lemma scale_up_7: "\<forall>h \<in> set [112..127]. py_scale (PInt h) 255 100 = Inr (h * 100 div 255)"
  by (simp add: float_eval upto.simps)

lemma scale_up_8: "\<forall>h \<in> set [128..143]. py_scale (PInt h) 255 100 = Inr (h * 100 div 255)"
  by (simp add: float_eval upto.simps)

lemma scale_up_9: "\<forall>h \<in> set [144..159]. py_scale (PInt h) 255 100 = Inr (h * 100 div 255)"
  by (simp add: float_eval upto.simps)

lemma scale_up_10: "\<forall>h \<in> set [160..175]. py_scale (PInt h) 255 100 = Inr (h * 100 div 255)"
  by (simp add: float_eval upto.simps)

lemma scale_up_11: "\<forall>h \<in> set [176..191]. py_scale (PInt h) 255 100 = Inr (h * 100 div 255)"
  by (simp add: float_eval upto.simps)

lemma scale_up_12: "\<forall>h \<in> set [192..207]. py_scale (PInt h) 255 100 = Inr (h * 100 div 255)"
  by (simp add: float_eval upto.simps)

lemma scale_up_13: "\<forall>h \<in> set [208..223]. py_scale (PInt h) 255 100 = Inr (h * 100 div 255)"
  by (simp add: float_eval upto.simps)

lemma scale_up_14: "\<forall>h \<in> set [224..239]. py_scale (PInt h) 255 100 = Inr (h * 100 div 255)"
  by (simp add: float_eval upto.simps)

lemma scale_up_15: "\<forall>h \<in> set [240..255]. py_scale (PInt h) 255 100 = Inr (h * 100 div 255)"
  by (simp add: float_eval upto.simps)

lemma ball_ivl_join:
  fixes a m n c :: int
  assumes "\<forall>b \<in> {a..m}. P b" and "\<forall>b \<in> {n..c}. P b" and "n = m + 1"
  shows "\<forall>b \<in> {a..c}. P b"
proof
  fix b assume "b \<in> {a..c}"
  then show "P b" using assms by (cases "b \<le> m") auto
qed

lemma scale_down_exact:
  assumes "0 \<le> b" and "b \<le> 255"
  shows "py_scale (PInt b) 100 255 = Inr (b * 255 div 100)"
proof -
  note c = scale_down_0 [unfolded set_upto] scale_down_1 [unfolded set_upto] scale_down_2 [unfolded set_upto] scale_down_3 [unfolded set_upto] scale_down_4 [unfolded set_upto] scale_down_5 [unfolded set_upto] scale_down_6 [unfolded set_upto] scale_down_7 [unfolded set_upto] scale_down_8 [unfolded set_upto] scale_down_9 [unfolded set_upto] scale_down_10 [unfolded set_upto] scale_down_11 [unfolded set_upto] scale_down_12 [unfolded set_upto] scale_down_13 [unfolded set_upto] scale_down_14 [unfolded set_upto] scale_down_15 [unfolded set_upto]
  have j0: "\<forall>x \<in> {0..15}. py_scale (PInt x) 100 255 = Inr (x * 255 div 100)" using c(1) .
  have j1: "\<forall>x \<in> {0..31}. py_scale (PInt x) 100 255 = Inr (x * 255 div 100)"
    by (rule ball_ivl_join [OF j0 c(2)]) simp
  have j2: "\<forall>x \<in> {0..47}. py_scale (PInt x) 100 255 = Inr (x * 255 div 100)"
    by (rule ball_ivl_join [OF j1 c(3)]) simp
  have j3: "\<forall>x \<in> {0..63}. py_scale (PInt x) 100 255 = Inr (x * 255 div 100)"
    by (rule ball_ivl_join [OF j2 c(4)]) simp
  have j4: "\<forall>x \<in> {0..79}. py_scale (PInt x) 100 255 = Inr (x * 255 div 100)"
    by (rule ball_ivl_join [OF j3 c(5)]) simp
  have j5: "\<forall>x \<in> {0..95}. py_scale (PInt x) 100 255 = Inr (x * 255 div 100)"
    by (rule ball_ivl_join [OF j4 c(6)]) simp
  have j6: "\<forall>x \<in> {0..111}. py_scale (PInt x) 100 255 = Inr (x * 255 div 100)"
    by (rule ball_ivl_join [OF j5 c(7)]) simp
  have j7: "\<forall>x \<in> {0..127}. py_scale (PInt x) 100 255 = Inr (x * 255 div 100)"
    by (rule ball_ivl_join [OF j6 c(8)]) simp
  have j8: "\<forall>x \<in> {0..143}. py_scale (PInt x) 100 255 = Inr (x * 255 div 100)"
    by (rule ball_ivl_join [OF j7 c(9)]) simp
  have j9: "\<forall>x \<in> {0..159}. py_scale (PInt x) 100 255 = Inr (x * 255 div 100)"
    by (rule ball_ivl_join [OF j8 c(10)]) simp
  have j10: "\<forall>x \<in> {0..175}. py_scale (PInt x) 100 255 = Inr (x * 255 div 100)"
    by (rule ball_ivl_join [OF j9 c(11)]) simp
  have j11: "\<forall>x \<in> {0..191}. py_scale (PInt x) 100 255 = Inr (x * 255 div 100)"
    by (rule ball_ivl_join [OF j10 c(12)]) simp
  have j12: "\<forall>x \<in> {0..207}. py_scale (PInt x) 100 255 = Inr (x * 255 div 100)"
    by (rule ball_ivl_join [OF j11 c(13)]) simp
  have j13: "\<forall>x \<in> {0..223}. py_scale (PInt x) 100 255 = Inr (x * 255 div 100)"
    by (rule ball_ivl_join [OF j12 c(14)]) simp
  have j14: "\<forall>x \<in> {0..239}. py_scale (PInt x) 100 255 = Inr (x * 255 div 100)"
    by (rule ball_ivl_join [OF j13 c(15)]) simp
  have j15: "\<forall>x \<in> {0..255}. py_scale (PInt x) 100 255 = Inr (x * 255 div 100)"
    by (rule ball_ivl_join [OF j14 c(16)]) simp
  then show ?thesis using assms by simp
qed

lemma scale_up_exact:
  assumes "0 \<le> h" and "h \<le> 255"
  shows "py_scale (PInt h) 255 100 = Inr (h * 100 div 255)"
proof -
  note c = scale_up_0 [unfolded set_upto] scale_up_1 [unfolded set_upto] scale_up_2 [unfolded set_upto] scale_up_3 [unfolded set_upto] scale_up_4 [unfolded set_upto] scale_up_5 [unfolded set_upto] scale_up_6 [unfolded set_upto] scale_up_7 [unfolded set_upto] scale_up_8 [unfolded set_upto] scale_up_9 [unfolded set_upto] scale_up_10 [unfolded set_upto] scale_up_11 [unfolded set_upto] scale_up_12 [unfolded set_upto] scale_up_13 [unfolded set_upto] scale_up_14 [unfolded set_upto] scale_up_15 [unfolded set_upto]
  have j0: "\<forall>x \<in> {0..15}. py_scale (PInt x) 255 100 = Inr (x * 100 div 255)" using c(1) .
  have j1: "\<forall>x \<in> {0..31}. py_scale (PInt x) 255 100 = Inr (x * 100 div 255)"
    by (rule ball_ivl_join [OF j0 c(2)]) simp
  have j2: "\<forall>x \<in> {0..47}. py_scale (PInt x) 255 100 = Inr (x * 100 div 255)"
    by (rule ball_ivl_join [OF j1 c(3)]) simp
  have j3: "\<forall>x \<in> {0..63}. py_scale (PInt x) 255 100 = Inr (x * 100 div 255)"
    by (rule ball_ivl_join [OF j2 c(4)]) simp
  have j4: "\<forall>x \<in> {0..79}. py_scale (PInt x) 255 100 = Inr (x * 100 div 255)"
    by (rule ball_ivl_join [OF j3 c(5)]) simp
  have j5: "\<forall>x \<in> {0..95}. py_scale (PInt x) 255 100 = Inr (x * 100 div 255)"
    by (rule ball_ivl_join [OF j4 c(6)]) simp
  have j6: "\<forall>x \<in> {0..111}. py_scale (PInt x) 255 100 = Inr (x * 100 div 255)"
    by (rule ball_ivl_join [OF j5 c(7)]) simp
  have j7: "\<forall>x \<in> {0..127}. py_scale (PInt x) 255 100 = Inr (x * 100 div 255)"
    by (rule ball_ivl_join [OF j6 c(8)]) simp
  have j8: "\<forall>x \<in> {0..143}. py_scale (PInt x) 255 100 = Inr (x * 100 div 255)"
    by (rule ball_ivl_join [OF j7 c(9)]) simp
  have j9: "\<forall>x \<in> {0..159}. py_scale (PInt x) 255 100 = Inr (x * 100 div 255)"
    by (rule ball_ivl_join [OF j8 c(10)]) simp
  have j10: "\<forall>x \<in> {0..175}. py_scale (PInt x) 255 100 = Inr (x * 100 div 255)"
    by (rule ball_ivl_join [OF j9 c(11)]) simp
  have j11: "\<forall>x \<in> {0..191}. py_scale (PInt x) 255 100 = Inr (x * 100 div 255)"
    by (rule ball_ivl_join [OF j10 c(12)]) simp
  have j12: "\<forall>x \<in> {0..207}. py_scale (PInt x) 255 100 = Inr (x * 100 div 255)"
    by (rule ball_ivl_join [OF j11 c(13)]) simp
  have j13: "\<forall>x \<in> {0..223}. py_scale (PInt x) 255 100 = Inr (x * 100 div 255)"
    by (rule ball_ivl_join [OF j12 c(14)]) simp
  have j14: "\<forall>x \<in> {0..239}. py_scale (PInt x) 255 100 = Inr (x * 100 div 255)"
    by (rule ball_ivl_join [OF j13 c(15)]) simp
  have j15: "\<forall>x \<in> {0..255}. py_scale (PInt x) 255 100 = Inr (x * 100 div 255)"
    by (rule ball_ivl_join [OF j14 c(16)]) simp
  then show ?thesis using assms by simp
qed

end
