(* ===== verification/Light.thy ===== *)
theory Light
  imports Coordinator BrightnessScale
begin

text \<open>
  The light platform of \<open>src/custom_components/marspro/light.py\<close>: the entity
  \<open>MarsProLight\<close> over the coordinator, and the platform's \<open>async_setup_entry\<close>.  The
  entity's state is \<open>light_state\<close>: the device dictionary it was created from, its
  id, and Home Assistant's \<open>_attr_brightness\<close> and \<open>_attr_is_on\<close>.  Its name, unique
  id and device info are Home Assistant metadata (formatted with \<open>str()\<close> of the
  id) and are not modelled.  Commands go through the coordinator, so they are
  operations on \<open>coord_state\<close>; \<open>async_request_refresh\<close> is one \<open>async_refresh\<close>, as in
  the coordinator theory.  The two brightness conversions are binary64
  computations (\<open>py_scale\<close>).
\<close>

section \<open>The entity\<close>

record light_state =
  l_device :: pydict
  l_device_id :: pyval
  l_brightness :: int
  l_is_on :: bool

definition light_init :: "pydict \<Rightarrow> light_state" where
  "light_init device =
     \<lparr>l_device = device, l_device_id = dict_get_or device ''id'' PNone,
      l_brightness = 255, l_is_on = False\<rparr>"

text \<open>Device brightness (percent) to Home Assistant brightness, and back.\<close>

definition brightness_from_percent :: "pyval \<Rightarrow> exn + int" where
  "brightness_from_percent b = py_scale b 100 255"

definition brightness_to_percent :: "pyval \<Rightarrow> exn + int" where
  "brightness_to_percent h = py_scale h 255 100"

text \<open>
  \<open>_update_from_device_data\<close>: the power state is assigned before the brightness is
  computed, so a brightness that cannot be divided leaves the new power state and
  raises.
\<close>

definition update_from_device_data :: "pydict \<Rightarrow> (light_state, unit) pyop" where
  "update_from_device_data device_data l =
     (let power = dict_get_or device_data ''power'' (PStr STATUS_OFF);
          l1 = l\<lparr>l_is_on := (power = PStr STATUS_ON)\<rparr>;
          brightness = dict_get_or device_data ''brightness'' (PInt 100)
      in case brightness_from_percent brightness of
           Inl e \<Rightarrow> (Inl e, l1)
         | Inr b \<Rightarrow> (Inr (), l1\<lparr>l_brightness := b\<rparr>))"

text \<open>
  \<open>_handle_coordinator_update\<close>: the registry entry of the device, when truthy,
  updates the entity (\<open>async_write_ha_state\<close> only publishes it).
\<close>

definition handle_coordinator_update :: "coord_state \<Rightarrow> (light_state, unit) pyop" where
  "handle_coordinator_update s l =
     (case get_device s (l_device_id l) of
        Inl e \<Rightarrow> (Inl e, l)
      | Inr (PDict d) \<Rightarrow> (if d \<noteq> [] then update_from_device_data d l else (Inr (), l))
      | Inr v \<Rightarrow> (if py_truthy v then (Inl (AttributeError ''object has no attribute get''), l)
                 else (Inr (), l)))"

definition light_available :: "coord_state \<Rightarrow> bool" where
  "light_available s = last_update_success s"

definition kwarg :: "pydict \<Rightarrow> string \<Rightarrow> pyval option" where
  "kwarg kwargs k = dict_lookup kwargs (KStr k)"

text \<open>
  \<open>async_turn_on\<close>: power on, then the brightness converted to percent, then the
  colour, then one more refresh; the first exception propagates.
\<close>

definition light_turn_on :: "api_world \<Rightarrow> flt \<Rightarrow> light_state \<Rightarrow> pydict \<Rightarrow> (coord_state, unit) pyop" where
  "light_turn_on w now l kwargs =
     bindE (coord_send_command w now (l_device_id l) CMD_POWER_ON []) (\<lambda>_.
     bindE (case kwarg kwargs ''brightness'' of
              None \<Rightarrow> ret ()
            | Some h \<Rightarrow>
                bindE (liftE (brightness_to_percent h)) (\<lambda>brightness.
                bindE (coord_send_command w now (l_device_id l) CMD_SET_BRIGHTNESS
                         [(PStr ''brightness'', PInt brightness)]) (\<lambda>_. ret ()))) (\<lambda>_.
     bindE (case kwarg kwargs ''rgb_color'' of
              None \<Rightarrow> ret ()
            | Some rgb \<Rightarrow>
                bindE (coord_send_command w now (l_device_id l) CMD_SET_COLOR
                         [(PStr ''rgb_color'', rgb)]) (\<lambda>_. ret ())) (\<lambda>_.
     async_refresh w now)))"

definition light_turn_off :: "api_world \<Rightarrow> flt \<Rightarrow> light_state \<Rightarrow> (coord_state, unit) pyop" where
  "light_turn_off w now l =
     bindE (coord_send_command w now (l_device_id l) CMD_POWER_OFF []) (\<lambda>_. async_refresh w now)"

section \<open>The platform\<close>

definition light_of :: "pyval \<Rightarrow> exn + light_state" where
  "light_of v = (case v of PDict d \<Rightarrow> Inr (light_init d)
                          | _ \<Rightarrow> Inl (AttributeError ''object has no attribute get''))"

fun lights_of :: "pyval list \<Rightarrow> exn + light_state list" where
  "lights_of [] = Inr []"
| "lights_of (v # vs) =
     (case light_of v of Inl e \<Rightarrow> Inl e | Inr l \<Rightarrow> map_sum id (Cons l) (lights_of vs))"

text \<open>\<open>async_setup_entry\<close> of the platform: one entity per light of the registry.\<close>

definition light_setup_entry :: "coord_state \<Rightarrow> exn + light_state list" where
  "light_setup_entry s =
     (case get_devices_by_type s DEVICE_TYPE_LIGHT of Inl e \<Rightarrow> Inl e | Inr ds \<Rightarrow> lights_of ds)"

section \<open>Sessions and scenarios\<close>

text \<open>
  A BLE facade whose link is up and whose request trace extends \<open>t\<close>: every
  refresh and every BLE command keeps it so.
\<close>

definition ble_session :: "request list \<Rightarrow> api_state \<Rightarrow> bool" where
  "ble_session t a = (\<not> use_cloud a \<and> ble_client a = Some True \<and> (\<exists>t'. api_trace a = t @ t'))"

definition demo_ble_coord :: coord_state where
  "demo_ble_coord = coord_init ((api_init (PStr ''u@x'') (PStr ''pw'') False (Some ''AA:BB''))\<lparr>ble_client := Some True\<rparr>)"

section \<open>Lemmas\<close>

lemma lights_of_dicts:
  "\<forall>v \<in> set vs. \<exists>d. v = PDict d \<Longrightarrow>
     \<exists>ls. lights_of vs = Inr ls \<and> (\<forall>l \<in> set ls. PDict (l_device l) \<in> set vs \<and> l = light_init (l_device l))"
proof (induction vs)
  case (Cons v vs)
  then obtain d where "v = PDict d" by auto
  then show ?case using Cons by (auto simp: light_of_def light_init_def)
qed simp

lemma ble_session_get_devices:
  "ble_session t a \<Longrightarrow> get_devices w a = (r, a') \<Longrightarrow> ble_session t a'"
  by (auto simp: ble_session_def get_devices_def get_devices_ble_def ensure_ble_def io_ble_read_def
      pyop_simps split: sum.splits)

lemma ble_session_get_device_status:
  "ble_session t a \<Longrightarrow> get_device_status w k a = (r, a') \<Longrightarrow> ble_session t a'"
  by (auto simp: ble_session_def get_device_status_def get_device_status_ble_def ensure_ble_def
      io_ble_read_def pyop_simps split: sum.splits)

lemma ble_session_refresh:
  "ble_session t (api s) \<Longrightarrow> async_refresh w now s = (r, s') \<Longrightarrow> r = Inr () \<and> ble_session t (api s')"
  apply (rule async_refresh_api [where P = "ble_session t" and w = w])
     apply (erule (1) ble_session_get_devices)
    apply (erule (1) ble_session_get_device_status)
  by assumption+

lemma update_from_device_data_scaled:
  assumes "dict_get_or d ''brightness'' (PInt 100) = PInt b" and "0 \<le> b" and "b \<le> 255"
  shows "update_from_device_data d l =
           (Inr (), l\<lparr>l_is_on := (dict_get_or d ''power'' (PStr STATUS_OFF) = PStr STATUS_ON),
                      l_brightness := b * 255 div 100\<rparr>)"
  using assms scale_down_exact [of b]
  by (simp add: update_from_device_data_def brightness_from_percent_def Let_def)

lemma ble_refresh_registry:
  assumes "\<not> use_cloud (api s)" and "ble_mac (api s) = Some m" and "m \<noteq> []"
    and "ble_connect w m = None" and "ble_read w BLE_CHARACTERISTIC_UUID = Inr (b0 # rest)"
  shows "\<exists>s'. async_refresh w now s = (Inr (), s') \<and> last_update_success s'
     \<and> devices s' = [(PStr m, PDict
          [(PStr ''id'', PStr m), (PStr ''name'', PStr (''MarsPro Device ('' @ m @ '')'')),
           (PStr ''type'', PStr ''light''), (PStr ''status'', PStr ''online''), (PStr ''mac'', PStr m),
           (PStr ''power'', PStr (if b0 = 1 then ''on'' else ''off'')),
           (PStr ''brightness'', PInt (if rest \<noteq> [] then uint (hd rest) else 100)),
           (PStr ''online'', PBool True)])]"
  using assms
  by (simp add: async_refresh_def async_update_data_def on_api_def get_devices_def get_devices_ble_def
      ensure_ble_def connect_ble_def io_ble_read_def mac_value_def mac_text_def get_device_status_def
      get_device_status_ble_def parse_ble_status_def py_dict_set_def catchE_def bindE_def ret_def
      liftE_def modify_def Let_def dict_get_or_def pyop_simps split: if_splits)

section \<open>Properties of the light platform\<close>

text \<open>
  C19: Every entity the light platform creates in a reachable coordinator state is a
  fresh \<open>MarsProLight\<close> (off, brightness 255) over a device dictionary of the registry
  whose type is \<open>light\<close>; the setup never raises.
\<close>

theorem light_setup_entry_types:
  "coord_reachable w s \<Longrightarrow>
     \<exists>ls. light_setup_entry s = Inr ls \<and>
         (\<forall>l \<in> set ls. l = light_init (l_device l) \<and> PDict (l_device l) \<in> snd ` set (devices s)
                       \<and> dict_get_or (l_device l) ''type'' PNone = PStr DEVICE_TYPE_LIGHT)"
proof -
  assume "coord_reachable w s"
  then have reg: "\<forall>v \<in> set (map snd (devices s)). \<exists>d. v = PDict d"
    using coord_reachable_registry by (simp add: registry_ok_def)
  obtain r where r: "filter_type DEVICE_TYPE_LIGHT (map snd (devices s)) = Inr r"
    using filter_type_total [OF reg] by blast
  have ty: "\<forall>v \<in> set r. v \<in> set (map snd (devices s)) \<and>
              (\<exists>d. v = PDict d \<and> dict_get_or d ''type'' PNone = PStr DEVICE_TYPE_LIGHT)"
    by (rule filter_type_types [OF r])
  then obtain ls where ls: "lights_of r = Inr ls"
    and ls_in: "\<forall>l \<in> set ls. PDict (l_device l) \<in> set r \<and> l = light_init (l_device l)"
    using lights_of_dicts [of r] by blast
  show ?thesis
  proof (intro exI conjI ballI)
    show "light_setup_entry s = Inr ls" using r ls by (simp add: light_setup_entry_def get_devices_by_type_def)
  next
    fix l assume "l \<in> set ls"
    then show "l = light_init (l_device l)" "PDict (l_device l) \<in> snd ` set (devices s)"
      "dict_get_or (l_device l) ''type'' PNone = PStr DEVICE_TYPE_LIGHT"
      using ls_in ty by fastforce+
  qed
qed

theorem light_setup_entry_types_witness:
  "coord_reachable demo_cloud_world (snd (async_refresh demo_cloud_world (Flt 0 0) (coord_init demo_api)))
   \<and> (\<exists>ls. light_setup_entry (snd (async_refresh demo_cloud_world (Flt 0 0) (coord_init demo_api))) = Inr ls)"
proof -
  have "coord_reachable demo_cloud_world (coord_init demo_api)" by (rule coord_reachable.init)
  then have reach: "coord_reachable demo_cloud_world (snd (async_refresh demo_cloud_world (Flt 0 0) (coord_init demo_api)))"
    by (rule coord_reachable.refresh [OF _ surjective_pairing])
  show ?thesis using reach light_setup_entry_types [OF reach] by blast
qed

text \<open>
  C20: For a device brightness \<open>b\<close> in 0..255, \<open>_update_from_device_data\<close> sets the
  power state and the Home Assistant brightness \<open>int((b / 100) * 255)\<close>, which is
  exactly \<open>b * 255 div 100\<close>; it stays within Home Assistant's range 0..255 only when
  \<open>b \<le> 100\<close>, so a raw BLE byte above 100 yields an out-of-range brightness.
\<close>

theorem device_brightness_bounds:
  assumes "dict_get_or d ''brightness'' (PInt 100) = PInt b" and "0 \<le> b" and "b \<le> 255"
  shows "update_from_device_data d l =
           (Inr (), l\<lparr>l_is_on := (dict_get_or d ''power'' (PStr STATUS_OFF) = PStr STATUS_ON),
                      l_brightness := b * 255 div 100\<rparr>)
         \<and> (b * 255 div 100 \<le> 255 \<longleftrightarrow> b \<le> 100)"
  using update_from_device_data_scaled [OF assms] int_div_bounds [of 100 "b * 255"] by simp linarith

theorem device_brightness_bounds_witness:
  "dict_get_or [(PStr ''power'', PStr ''on''), (PStr ''brightness'', PInt 101)] ''brightness'' (PInt 100) = PInt 101
   \<and> (0::int) \<le> 101 \<and> (101::int) \<le> 255
   \<and> update_from_device_data [(PStr ''power'', PStr ''on''), (PStr ''brightness'', PInt 101)]
         (light_init [(PStr ''id'', PStr ''a'')]) =
       (Inr (), (light_init [(PStr ''id'', PStr ''a'')])\<lparr>l_is_on := True, l_brightness := 257\<rparr>)"
  using device_brightness_bounds [of "[(PStr ''power'', PStr ''on''), (PStr ''brightness'', PInt 101)]" 101
      "light_init [(PStr ''id'', PStr ''a'')]"]
  by (simp add: dict_get_or_def STATUS_OFF_def STATUS_ON_def)

text \<open>
  C21: Converting a Home Assistant brightness \<open>h\<close> in 0..255 to the device percent
  and back loses at most 3 steps and never overshoots: \<open>h = 5\<close> is sent as 1 and
  reads back as 2.
\<close>

theorem brightness_percent_roundtrip:
  assumes "0 \<le> h" and "h \<le> 255"
  shows "brightness_to_percent (PInt h) = Inr (h * 100 div 255)
         \<and> brightness_from_percent (PInt (h * 100 div 255)) = Inr (h * 100 div 255 * 255 div 100)
         \<and> h - 3 \<le> h * 100 div 255 * 255 div 100 \<and> h * 100 div 255 * 255 div 100 \<le> h"
proof -
  have p: "0 \<le> h * 100 div 255" "h * 100 div 255 \<le> 255"
    using assms int_div_bounds [of 255 "h * 100"] by simp_all
  show ?thesis
    using assms scale_up_exact [of h] scale_down_exact [OF p]
      int_div_bounds [of 255 "h * 100"] int_div_bounds [of 100 "h * 100 div 255 * 255"]
    by (simp add: brightness_to_percent_def brightness_from_percent_def)
qed

theorem brightness_percent_roundtrip_witness:
  "(0::int) \<le> 5 \<and> (5::int) \<le> 255 \<and> brightness_to_percent (PInt 5) = Inr 1
   \<and> brightness_from_percent (PInt 1) = Inr 2"
  using brightness_percent_roundtrip [of 5] by simp

text \<open>
  C22: In BLE mode, turning the light on with an RGB colour first writes the power-on
  frame, refreshes, and then fails with \<open>ValueError\<close>: the facade has no
  \<open>set_color\<close> frame.  The link stays up.
\<close>

theorem turn_on_color_ble_fails:
  assumes "\<not> use_cloud (api s)" and "ble_client (api s) = Some True"
    and "ble_write w BLE_CHARACTERISTIC_UUID [1, 1] = None"
    and "kwarg kw ''brightness'' = None" and "kwarg kw ''rgb_color'' = Some rgb"
  shows "\<exists>s'. light_turn_on w now l kw s = (Inl (ValueError ''Unknown command: set_color''), s') \<and>
           (\<exists>t. api_trace (api s') = api_trace (api s) @ BleWrite BLE_CHARACTERISTIC_UUID [1, 1] # t) \<and>
           ble_client (api s') = Some True"
proof -
  let ?t = "api_trace (api s) @ [BleWrite BLE_CHARACTERISTIC_UUID [1, 1]]"
  define s1 where "s1 = s\<lparr>api := (api s)\<lparr>api_trace := ?t\<rparr>\<rparr>"
  have c1: "on_api (send_command w (l_device_id l) CMD_POWER_ON []) s =
      (Inr (PDict [(PStr ''status'', PStr ''success''), (PStr ''command'', PStr CMD_POWER_ON)]), s1)"
    using assms(1-3)
    by (simp add: s1_def on_api_def send_command_def send_command_ble_def ensure_ble_def
        io_ble_write_def build_ble_command_def CMD_POWER_ON_def pyop_simps)
  obtain r2 s2 where r: "async_refresh w now s1 = (r2, s2)" by fastforce
  have "ble_session ?t (api s1)" using assms(1,2) by (simp add: s1_def ble_session_def)
  then have r2: "r2 = Inr ()" and b2: "ble_session ?t (api s2)"
    using ble_session_refresh [OF _ r] by blast+
  have c3: "on_api (send_command w (l_device_id l) CMD_SET_COLOR [(PStr ''rgb_color'', rgb)]) s2 =
      (Inl (ValueError ''Unknown command: set_color''), s2)"
    using b2 by (simp add: on_api_def send_command_def send_command_ble_def ensure_ble_def
        ble_session_def build_ble_command_def CMD_SET_COLOR_def pyop_simps)
  have "light_turn_on w now l kw s = (Inl (ValueError ''Unknown command: set_color''), s2)"
    unfolding light_turn_on_def coord_send_command_def
    by (simp add: bindE_def ret_def c1 r r2 c3 assms(4,5))
  then show ?thesis using b2 by (auto simp: ble_session_def)
qed

theorem turn_on_color_ble_fails_witness:
  "\<not> use_cloud (api demo_ble_coord) \<and> ble_client (api demo_ble_coord) = Some True
   \<and> ble_write demo_login_world BLE_CHARACTERISTIC_UUID [1, 1] = None
   \<and> kwarg [(PStr ''rgb_color'', PList [PInt 255, PInt 0, PInt 0])] ''brightness'' = None
   \<and> kwarg [(PStr ''rgb_color'', PList [PInt 255, PInt 0, PInt 0])] ''rgb_color'' = Some (PList [PInt 255, PInt 0, PInt 0])
   \<and> (\<exists>s'. light_turn_on demo_login_world (Flt 0 0) (light_init [(PStr ''id'', PStr ''AA:BB'')])
             [(PStr ''rgb_color'', PList [PInt 255, PInt 0, PInt 0])] demo_ble_coord =
           (Inl (ValueError ''Unknown command: set_color''), s')
         \<and> (\<exists>t. api_trace (api s') = BleWrite BLE_CHARACTERISTIC_UUID [1, 1] # t)
         \<and> ble_client (api s') = Some True)"
  using turn_on_color_ble_fails [of demo_ble_coord demo_login_world
      "[(PStr ''rgb_color'', PList [PInt 255, PInt 0, PInt 0])]" "PList [PInt 255, PInt 0, PInt 0]"
      "Flt 0 0" "light_init [(PStr ''id'', PStr ''AA:BB'')]"]
  by (simp add: demo_ble_coord_def coord_init_def api_init_def demo_login_world_def kwarg_def)

end
