(* ===== verification/Setup.thy ===== *)
theory Setup
  imports Light
begin

text \<open>
  The integration's entry points (\<open>src/src/marspro/__init__.py\<close>) and its config flow
  (\<open>src/src/marspro/config_flow.py\<close>).  A config entry is the record \<open>config_entry\<close>
  (id, version, data dictionary).  The part of Home Assistant the setup writes is
  \<open>ha_state\<close>: \<open>hass.data.get(DOMAIN)\<close>, a map from entry ids to coordinators, and
  the light entities each entry's light platform added.  The config flow's state is
  \<open>flow_state\<close>: the flow's \<open>self.data\<close>, the config entries of Home Assistant, and
  the entries whose reload was requested.  Home Assistant's
  \<open>async_config_entry_first_refresh\<close> is modelled from its documented behaviour
  (\<open>first_refresh\<close>): one refresh, and \<open>ConfigEntryNotReady\<close> when it fails.
\<close>

section \<open>Config entries\<close>

record config_entry =
  entry_id :: string
  entry_version :: nat
  entry_data :: pydict

text \<open>\<open>entry.data[key]\<close>: a missing key raises \<open>KeyError\<close>.\<close>

definition conf_get :: "pydict \<Rightarrow> string \<Rightarrow> exn + pyval" where
  "conf_get d k = (case dict_lookup d (KStr k) of None \<Rightarrow> Inl (KeyError k) | Some v \<Rightarrow> Inr v)"

text \<open>
  The BLE address the facade is given.  Every BLE path of the facade first tests
  \<open>if not self.ble_mac\<close>, so an empty string behaves exactly as \<open>None\<close> and is read as
  no address.  The schema (\<open>vol.Optional(CONF_BLE_MAC): str\<close>) admits strings only;
  a value of another type is read as no address.
\<close>

definition mac_of :: "pyval \<Rightarrow> string option" where
  "mac_of v = (case v of PStr s \<Rightarrow> if s = [] then None else Some s | _ \<Rightarrow> None)"

text \<open>\<open>MarsProAPI(email=..., password=..., use_cloud=..., ble_mac=...)\<close>, arguments in order.\<close>

definition api_of_conf :: "pydict \<Rightarrow> exn + api_state" where
  "api_of_conf d =
     (case conf_get d CONF_EMAIL of
        Inl e \<Rightarrow> Inl e
      | Inr em \<Rightarrow>
          (case conf_get d CONF_PASSWORD of
             Inl e \<Rightarrow> Inl e
           | Inr pw \<Rightarrow>
               Inr (api_init em pw (py_truthy (dict_get_or d CONF_USE_CLOUD (PBool False)))
                      (mac_of (dict_get_or d CONF_BLE_MAC PNone)))))"

section \<open>Entry setup, unload and migration\<close>

text \<open>
  Home Assistant's \<open>async_config_entry_first_refresh\<close>: one refresh; when it fails
  the coordinator is marked unsuccessful and \<open>ConfigEntryNotReady\<close> is raised.
\<close>

definition first_refresh :: "api_world \<Rightarrow> flt \<Rightarrow> (coord_state, unit) pyop" where
  "first_refresh w now s =
     (case async_update_data w now s of
        (Inl e, s') \<Rightarrow> (Inl (ConfigEntryNotReady (exn_msg e)), s'\<lparr>last_update_success := False\<rparr>)
      | (Inr d, s') \<Rightarrow> (Inr (), s'\<lparr>data := Some d, last_update_success := True\<rparr>))"

record ha_state =
  domain_data :: "(string \<rightharpoonup> coord_state) option"
  entity_lights :: "string \<rightharpoonup> light_state list"

text \<open>
  \<open>async_forward_entry_setups(entry, PLATFORMS)\<close> for the one platform with code,
  the light platform of \<open>light.py\<close>: Home Assistant logs an exception of a
  platform's setup and adds no entity for it, and the entry setup goes on.  The fan
  and sensor platforms have no module in the repository.
\<close>

definition forward_lights :: "coord_state \<Rightarrow> light_state list" where
  "forward_lights c = (case light_setup_entry c of Inl _ \<Rightarrow> [] | Inr ls \<Rightarrow> ls)"

definition async_setup_entry :: "api_world \<Rightarrow> flt \<Rightarrow> config_entry \<Rightarrow> (ha_state, bool) pyop" where
  "async_setup_entry w now e h =
     (let m = (case domain_data h of None \<Rightarrow> Map.empty | Some m \<Rightarrow> m);
          h1 = h\<lparr>domain_data := Some m\<rparr>
      in case api_of_conf (entry_data e) of
           Inl ex \<Rightarrow> (Inl ex, h1)
         | Inr a \<Rightarrow>
             (case catchE (test_connection w) (\<lambda>ex. throw (ConfigEntryNotReady (exn_msg ex))) a of
                (Inl ex, _) \<Rightarrow> (Inl ex, h1)
              | (Inr _, a1) \<Rightarrow>
                  (case first_refresh w now (coord_init a1) of
                     (Inl ex, _) \<Rightarrow> (Inl ex, h1)
                   | (Inr _, c) \<Rightarrow>
                       (Inr True, h1\<lparr>domain_data := Some (m(entry_id e \<mapsto> c)),
                                     entity_lights := (entity_lights h1)(entry_id e \<mapsto> forward_lights c)\<rparr>))))"

text \<open>
  \<open>async_unload_entry\<close>: \<open>unload_ok\<close> is Home Assistant's answer to unloading the
  platforms (which removes the entry's entities); then the coordinator is popped
  and its facade disconnected, an error of which propagates.
\<close>

definition async_unload_entry :: "api_world \<Rightarrow> bool \<Rightarrow> config_entry \<Rightarrow> (ha_state, bool) pyop" where
  "async_unload_entry w unload_ok e h =
     (if \<not> unload_ok then (Inr False, h)
      else
        (let h0 = h\<lparr>entity_lights := (entity_lights h)(entry_id e := None)\<rparr>
         in case domain_data h of
              None \<Rightarrow> (Inl (KeyError DOMAIN), h0)
            | Some m \<Rightarrow>
                (case m (entry_id e) of
                   None \<Rightarrow> (Inl (KeyError (entry_id e)), h0)
                 | Some c \<Rightarrow>
                     (let h1 = h0\<lparr>domain_data := Some (m(entry_id e := None))\<rparr>
                      in case disconnect w (api c) of
                           (Inl ex, _) \<Rightarrow> (Inl ex, h1)
                         | (Inr _, _) \<Rightarrow> (Inr True, h1)))))"

text \<open>\<open>async_migrate_entry\<close>: a version-1 entry gets \<open>use_cloud = False\<close> and version 2.\<close>

definition async_migrate_entry :: "config_entry \<Rightarrow> bool \<times> config_entry" where
  "async_migrate_entry e =
     (if entry_version e = 1 then
        (True, e\<lparr>entry_version := 2,
                 entry_data := dict_store (entry_data e) (KStr CONF_USE_CLOUD) (PStr CONF_USE_CLOUD) (PBool False)\<rparr>)
      else (True, e))"

section \<open>Config flow\<close>

text \<open>
  The flow's results: a created entry (its title an f-string, kept as its parts), a
  form with its errors, an abort with its reason.
\<close>

datatype flow_result =
    CreateEntry "fpart list" pydict
  | ShowForm string pydict
  | Abort string

record flow_state =
  flow_data :: pydict
  config_entries :: "string \<rightharpoonup> config_entry"
  reloads :: "string list"

definition FLOW_VERSION :: nat where
  "FLOW_VERSION = 1"

definition cannot_connect :: pydict where
  "cannot_connect = [(PStr ''base'', PStr ''cannot_connect'')]"

text \<open>
  \<open>async_step_user\<close>: the input is merged into \<open>self.data\<close>, the facade is built
  and tested, and the entry is created with \<open>self.data\<close>; any exception shows the
  form again with \<open>cannot_connect\<close>.
\<close>

definition async_step_user :: "api_world \<Rightarrow> pydict option \<Rightarrow> flow_state \<Rightarrow> flow_result \<times> flow_state" where
  "async_step_user w user_input f =
     (case user_input of
        None \<Rightarrow> (ShowForm ''user'' [], f)
      | Some ui \<Rightarrow>
          (case py_dict_update (flow_data f) (PDict ui) of
             (Some _, d) \<Rightarrow> (ShowForm ''user'' cannot_connect, f\<lparr>flow_data := d\<rparr>)
           | (None, d) \<Rightarrow>
               (let f1 = f\<lparr>flow_data := d\<rparr>
                in case api_of_conf ui of
                     Inl _ \<Rightarrow> (ShowForm ''user'' cannot_connect, f1)
                   | Inr a \<Rightarrow>
                       (case test_connection w a of
                          (Inl _, _) \<Rightarrow> (ShowForm ''user'' cannot_connect, f1)
                        | (Inr _, _) \<Rightarrow>
                            (case conf_get ui CONF_EMAIL of
                               Inl _ \<Rightarrow> (ShowForm ''user'' cannot_connect, f1)
                             | Inr em \<Rightarrow> (CreateEntry [FLit ''MarsPro ('', FVal em, FLit '')''] d, f1))))))"

text \<open>
  \<open>async_step_reauth\<close>: the new credentials are tested, then the entry named by the
  flow's context (\<open>ctx_entry\<close>, \<open>None\<close> when the context has no \<open>entry_id\<close>) gets the
  input as its whole data and is reloaded; the flow aborts with
  \<open>reauth_successful\<close> also when no such entry exists.
\<close>

definition async_step_reauth ::
  "api_world \<Rightarrow> string option \<Rightarrow> pydict option \<Rightarrow> flow_state \<Rightarrow> flow_result \<times> flow_state" where
  "async_step_reauth w ctx_entry user_input f =
     (case user_input of
        None \<Rightarrow> (ShowForm ''reauth'' [], f)
      | Some ui \<Rightarrow>
          (case api_of_conf ui of
             Inl _ \<Rightarrow> (ShowForm ''reauth'' cannot_connect, f)
           | Inr a \<Rightarrow>
               (case test_connection w a of
                  (Inl _, _) \<Rightarrow> (ShowForm ''reauth'' cannot_connect, f)
                | (Inr _, _) \<Rightarrow>
                    (case ctx_entry of
                       None \<Rightarrow> (ShowForm ''reauth'' cannot_connect, f)
                     | Some eid \<Rightarrow>
                         (case config_entries f eid of
                            None \<Rightarrow> (Abort ''reauth_successful'', f)
                          | Some ent \<Rightarrow>
                              (Abort ''reauth_successful'',
                               f\<lparr>config_entries := (config_entries f)(eid \<mapsto> ent\<lparr>entry_data := ui\<rparr>),
                                 reloads := reloads f @ [eid]\<rparr>))))))"

section \<open>Scenarios\<close>

text \<open>A cloud entry as the flow creates it, an empty Home Assistant, a fresh flow.\<close>

definition demo_entry :: config_entry where
  "demo_entry = \<lparr>entry_id = ''e1'', entry_version = 1,
     entry_data = [(PStr ''email'', PStr ''u@x''), (PStr ''password'', PStr ''pw''), (PStr ''use_cloud'', PBool True)]\<rparr>"

definition ha_empty :: ha_state where
  "ha_empty = \<lparr>domain_data = None, entity_lights = Map.empty\<rparr>"

definition flow_init :: flow_state where
  "flow_init = \<lparr>flow_data = [], config_entries = Map.empty, reloads = []\<rparr>"

section \<open>Lemmas\<close>

lemma test_connection_result:
  obtains b a' where "test_connection w a = (Inr b, a')"
proof (cases "test_connection w a")
  case (Pair r a')
  then obtain b where "r = Inr b" using test_connection_Inr [of w a] by (cases r) auto
  then show thesis using that Pair by blast
qed

lemma api_of_conf_Inr:
  "dict_lookup d (KStr CONF_EMAIL) = Some em \<Longrightarrow> dict_lookup d (KStr CONF_PASSWORD) = Some pw \<Longrightarrow>
   api_of_conf d = Inr (api_init em pw (py_truthy (dict_get_or d CONF_USE_CLOUD (PBool False)))
                          (mac_of (dict_get_or d CONF_BLE_MAC PNone)))"
  by (simp add: api_of_conf_def conf_get_def)

section \<open>Properties of setup and config flow\<close>

text \<open>
  C24: Entry setup succeeds exactly when the coordinator's first refresh succeeds,
  whatever \<open>test_connection\<close> answered; when the refresh fails, setup raises
  \<open>ConfigEntryNotReady\<close> carrying the refresh's message and stores no coordinator.
\<close>

theorem setup_entry_not_ready:
  assumes "api_of_conf (entry_data e) = Inr a" and "test_connection w a = (r0, a1)"
  shows "(fst (async_setup_entry w now e h) = Inr True \<longleftrightarrow> \<not> isl (fst (async_update_data w now (coord_init a1))))
         \<and> (\<forall>ex c. async_update_data w now (coord_init a1) = (Inl ex, c) \<longrightarrow>
              async_setup_entry w now e h =
                (Inl (ConfigEntryNotReady (exn_msg ex)),
                 h\<lparr>domain_data := Some (case domain_data h of None \<Rightarrow> Map.empty | Some m \<Rightarrow> m)\<rparr>))"
proof -
  obtain b where r0: "r0 = Inr b" using test_connection_Inr [of w a] assms(2) by (cases r0) auto
  show ?thesis
  proof (cases "async_update_data w now (coord_init a1)")
    case (Pair u c)
    then show ?thesis using assms r0
      by (cases u) (simp_all add: async_setup_entry_def first_refresh_def catchE_def Let_def)
  qed
qed

theorem setup_entry_not_ready_witness:
  "\<exists>a r0 a1. api_of_conf (entry_data demo_entry) = Inr a \<and> test_connection demo_401_world a = (r0, a1)
     \<and> isl (fst (async_update_data demo_401_world (Flt 0 0) (coord_init a1)))
     \<and> fst (async_setup_entry demo_401_world (Flt 0 0) demo_entry ha_empty) =
          Inl (ConfigEntryNotReady ''Failed to update MarsPro data: Authentication failed: 401'')"
proof -
  let ?a = "api_init (PStr ''u@x'') (PStr ''pw'') True None"
  have c: "api_of_conf (entry_data demo_entry) = Inr ?a"
    by (simp add: demo_entry_def api_of_conf_def conf_get_def const_defs dict_get_or_def mac_of_def)
  obtain r0 a1 where t: "test_connection demo_401_world ?a = (r0, a1)" by fastforce
  have a1: "a1 = ?a\<lparr>session := True, api_trace := [PostLogin (PStr ''u@x'') (PStr ''pw'')]\<rparr>"
    using t by (simp add: test_connection_def test_cloud_connection_def authenticate_def api_init_def
        demo_401_world_def io_http_def pyop_simps)
  have u: "async_update_data demo_401_world (Flt 0 0) (coord_init a1) =
      (Inl (UpdateFailed ''Failed to update MarsPro data: Authentication failed: 401''),
       coord_init (a1\<lparr>api_trace := api_trace a1 @ [PostLogin (PStr ''u@x'') (PStr ''pw'')]\<rparr>))"
    by (simp add: a1 async_update_data_def on_api_def get_devices_def get_devices_cloud_def ensure_auth_def
        authenticate_def api_init_def demo_401_world_def io_http_def coord_init_def nat_str.simps pyop_simps)
  have "fst (async_setup_entry demo_401_world (Flt 0 0) demo_entry ha_empty) =
          Inl (ConfigEntryNotReady ''Failed to update MarsPro data: Authentication failed: 401'')"
    using setup_entry_not_ready [OF c t, where now = "Flt 0 0" and h = ha_empty] u by simp
  then show ?thesis using c t u by auto
qed

text \<open>
  C25: The user step of the config flow creates the entry for every input that has an
  email and a password, whatever the cloud or the lamp answer: a failed login still
  creates an entry, since \<open>test_connection\<close> reports failure as \<open>False\<close>.
\<close>

theorem step_user_always_creates:
  assumes "dict_lookup ui (KStr CONF_EMAIL) = Some em" and "dict_lookup ui (KStr CONF_PASSWORD) = Some pw"
    and "\<forall>a \<in> fst ` set ui. py_hashable a"
  shows "async_step_user w (Some ui) f =
           (CreateEntry [FLit ''MarsPro ('', FVal em, FLit '')''] (snd (dict_merge (flow_data f) ui)),
            f\<lparr>flow_data := snd (dict_merge (flow_data f) ui)\<rparr>)"
proof -
  obtain b a' where t: "test_connection w (api_init em pw (py_truthy (dict_get_or ui CONF_USE_CLOUD (PBool False)))
                          (mac_of (dict_get_or ui CONF_BLE_MAC PNone))) = (Inr b, a')"
    by (rule test_connection_result)
  obtain d' where m: "dict_merge (flow_data f) ui = (None, d')"
    using dict_merge_hashable [OF assms(3)] by (metis prod.collapse)
  show ?thesis
    using assms(1,2) by (simp add: async_step_user_def api_of_conf_Inr [OF assms(1,2)] t m conf_get_def)
qed

theorem step_user_always_creates_witness:
  "dict_lookup (entry_data demo_entry) (KStr CONF_EMAIL) = Some (PStr ''u@x'')
   \<and> dict_lookup (entry_data demo_entry) (KStr CONF_PASSWORD) = Some (PStr ''pw'')
   \<and> list_all py_hashable (map fst (entry_data demo_entry))
   \<and> fst (test_connection demo_401_world (api_init (PStr ''u@x'') (PStr ''pw'') True None)) = Inr False
   \<and> async_step_user demo_401_world (Some (entry_data demo_entry)) flow_init =
         (CreateEntry [FLit ''MarsPro ('', FVal (PStr ''u@x''), FLit '')''] (entry_data demo_entry),
          flow_init\<lparr>flow_data := entry_data demo_entry\<rparr>)"
proof -
  have m: "snd (dict_merge (flow_data flow_init) (entry_data demo_entry)) = entry_data demo_entry"
    by (simp add: flow_init_def demo_entry_def py_dict_set_def)
  show ?thesis
    using step_user_always_creates [of "entry_data demo_entry" "PStr ''u@x''" "PStr ''pw''" demo_401_world flow_init]
    unfolding m
    by (simp add: demo_entry_def const_defs py_hashable_def test_connection_def test_cloud_connection_def
        authenticate_def api_init_def demo_401_world_def io_http_def pyop_simps)
qed

text \<open>
  Migrating a version-1 entry sets \<open>use_cloud\<close> to False, so an entry
  configured for the cloud is set up over BLE afterwards.
\<close>

theorem migrate_switches_to_ble:
  assumes "entry_version e = 1" and "api_of_conf (entry_data e) = Inr a"
  shows "async_migrate_entry e =
           (True, e\<lparr>entry_version := 2,
                    entry_data := dict_store (entry_data e) (KStr CONF_USE_CLOUD) (PStr CONF_USE_CLOUD) (PBool False)\<rparr>)
         \<and> api_of_conf (entry_data (snd (async_migrate_entry e))) = Inr (a\<lparr>use_cloud := False\<rparr>)"
  using assms
  by (auto simp: async_migrate_entry_def api_of_conf_def conf_get_def dict_get_or_def api_init_def
      CONF_USE_CLOUD_def CONF_EMAIL_def CONF_PASSWORD_def CONF_BLE_MAC_def split: option.splits)

theorem migrate_switches_to_ble_witness:
  "entry_version demo_entry = 1
   \<and> api_of_conf (entry_data demo_entry) = Inr (api_init (PStr ''u@x'') (PStr ''pw'') True None)
   \<and> api_of_conf (entry_data (snd (async_migrate_entry demo_entry))) =
         Inr (api_init (PStr ''u@x'') (PStr ''pw'') False None)"
  using migrate_switches_to_ble [of demo_entry "api_init (PStr ''u@x'') (PStr ''pw'') True None"]
  by (simp add: demo_entry_def api_of_conf_def conf_get_def const_defs dict_get_or_def mac_of_def api_init_def)

end
