(* ===== verification/BleLink.thy ===== *)
theory BleLink
  imports Codec
begin

text \<open>
  The standalone BLE client of \<open>src/src/marspro/ble_client_standalone.py\<close>:
  \<open>MarsProBLEClient\<close>, one connection to one device address, and
  \<open>MarsProDeviceScanner\<close>.  The object's state is the record \<open>link_state\<close> with the
  fields of \<open>__init__\<close>; bleak is the world \<open>link_world\<close>, which answers each GATT
  request, and every request issued is appended to \<open>link_trace\<close>.  A bleak client
  object that exists is \<open>client = Some up\<close>, where \<open>up\<close> says whether its link is up;
  a GATT request on a client whose link is down raises \<open>BleakError\<close> without radio
  traffic, as bleak does.  Every method is one definition over the exception-and-state
  operations of the prelude; its \<open>try/except\<close> is \<open>catchE\<close>.
\<close>

section \<open>Data\<close>

datatype device_type = CONTROLLER | SENSOR | ACTUATOR

datatype feature = LIGHTING | CLIMATE | WATER | SENSORS | AUTOMATION | AIR | HEATING

record mp_device =
  dev_address :: string
  dev_name :: string
  dev_type :: device_type
  features :: "feature list"
  firmware_version :: "string option"
  battery_level :: "int option"
  rssi :: "int option"

definition SERVICE_UUID :: string where
  "SERVICE_UUID = ''0000ffe0-0000-1000-8000-00805f9b34fb''"
definition COMMAND_CHAR_UUID :: string where
  "COMMAND_CHAR_UUID = ''0000ffe1-0000-1000-8000-00805f9b34fb''"
definition DATA_CHAR_UUID :: string where
  "DATA_CHAR_UUID = ''0000ffe2-0000-1000-8000-00805f9b34fb''"
definition CONFIG_CHAR_UUID :: string where
  "CONFIG_CHAR_UUID = ''0000ffe3-0000-1000-8000-00805f9b34fb''"
definition STATUS_CHAR_UUID :: string where
  "STATUS_CHAR_UUID = ''0000ffe4-0000-1000-8000-00805f9b34fb''"

lemmas uuid_defs = SERVICE_UUID_def COMMAND_CHAR_UUID_def DATA_CHAR_UUID_def
  CONFIG_CHAR_UUID_def STATUS_CHAR_UUID_def

text \<open>A discovered GATT service: its UUID and the UUIDs of its characteristics.\<close>

type_synonym gatt_service = "string \<times> string list"

datatype link_req =
    LConnect string | LGetServices | LRead string | LWrite string bytes
  | LDisconnect | LStartNotify string

record link_world =
  lw_connect :: "string \<Rightarrow> exn option"
  lw_services :: "string \<Rightarrow> exn + gatt_service list"
  lw_read :: "string \<Rightarrow> exn + bytes"
  lw_write :: "string \<Rightarrow> bytes \<Rightarrow> exn option"
  lw_disconnect :: "exn option"
  lw_start_notify :: "string \<Rightarrow> exn option"
  lw_down_on_error :: bool

text \<open>
  \<open>_services\<close> and \<open>_characteristics\<close> are dictionaries keyed by UUID whose values the
  code never reads; they are their key lists, a new key going last.
\<close>

record link_state =
  device_address :: string
  client :: "bool option"
  device_info :: "mp_device option"
  data_callback :: bool
  connected :: bool
  services :: "string list"
  characteristics :: "string list"
  subscribed :: bool
  stale_subscribed :: bool
  delivered :: "sensor_data list"
  link_trace :: "link_req list"

definition add_key :: "string \<Rightarrow> string list \<Rightarrow> string list" where
  "add_key k ks = (if k \<in> set ks then ks else ks @ [k])"

definition link_init :: "bool \<Rightarrow> string \<Rightarrow> exn + link_state" where
  "link_init bleak_available addr =
     (if \<not> bleak_available then Inl (ImportError ''bleak library is required for BLE communication'')
      else Inr \<lparr>device_address = addr, client = None, device_info = None, data_callback = False,
                connected = False, services = [], characteristics = [], subscribed = False,
                stale_subscribed = False, delivered = [], link_trace = []\<rparr>)"

section \<open>GATT requests\<close>

definition log_req :: "link_req \<Rightarrow> link_state \<Rightarrow> link_state" where
  "log_req r s = s\<lparr>link_trace := link_trace s @ [r]\<rparr>"

definition not_connected_error :: exn where
  "not_connected_error = BleakError ''Not connected''"

definition io_connect :: "link_world \<Rightarrow> (link_state, unit) pyop" where
  "io_connect w s =
     (case lw_connect w (device_address s) of
        Some e \<Rightarrow> (Inl e, log_req (LConnect (device_address s)) s)
      | None \<Rightarrow> (Inr (), (log_req (LConnect (device_address s)) s)\<lparr>client := Some True\<rparr>))"

definition io_services :: "link_world \<Rightarrow> (link_state, gatt_service list) pyop" where
  "io_services w s =
     (if client s \<noteq> Some True then (Inl not_connected_error, s)
      else (lw_services w (device_address s), log_req LGetServices s))"

definition io_read :: "link_world \<Rightarrow> string \<Rightarrow> (link_state, bytes) pyop" where
  "io_read w u s =
     (if client s \<noteq> Some True then (Inl not_connected_error, s)
      else (lw_read w u, log_req (LRead u) s))"

definition io_write :: "link_world \<Rightarrow> string \<Rightarrow> bytes \<Rightarrow> (link_state, unit) pyop" where
  "io_write w u b s =
     (if client s \<noteq> Some True then (Inl not_connected_error, s)
      else (case lw_write w u b of Some e \<Rightarrow> Inl e | None \<Rightarrow> Inr (), log_req (LWrite u b) s))"

definition io_start_notify :: "link_world \<Rightarrow> string \<Rightarrow> (link_state, unit) pyop" where
  "io_start_notify w u s =
     (if client s \<noteq> Some True then (Inl not_connected_error, s)
      else (case lw_start_notify w u of
              Some e \<Rightarrow> (Inl e, log_req (LStartNotify u) s)
            | None \<Rightarrow> (Inr (), (log_req (LStartNotify u) s)\<lparr>subscribed := True\<rparr>)))"

text \<open>
  \<open>client.disconnect()\<close>: on success the link and its subscription are gone; when
  bleak raises, whether the link went down is the world's \<open>lw_down_on_error\<close>.
\<close>

definition io_disconnect :: "link_world \<Rightarrow> (link_state, unit) pyop" where
  "io_disconnect w s =
     (let s' = log_req LDisconnect s; down = s'\<lparr>client := Some False, subscribed := False\<rparr>
      in case lw_disconnect w of Some e \<Rightarrow> (Inl e, if lw_down_on_error w then down else s') | None \<Rightarrow> (Inr (), down))"

section \<open>The client\<close>

text \<open>
  \<open>connect\<close>: a fresh \<open>BleakClient\<close> replaces the old one, which is not
  disconnected: a notification subscription it holds stays live
  (\<open>stale_subscribed\<close>) and keeps calling the handler.  The new client then connects and discovers the services; their UUIDs and their
  characteristics' UUIDs are added to the dictionaries, which are never cleared.
  \<open>if self.client:\<close> always holds for a new client object.  Any exception gives
  \<open>False\<close>, with \<open>_connected\<close> as it was.
\<close>

fun store_services :: "gatt_service list \<Rightarrow> link_state \<Rightarrow> link_state" where
  "store_services [] s = s"
| "store_services ((u, cs) # svcs) s =
     store_services svcs (s\<lparr>services := add_key u (services s),
                            characteristics := fold add_key cs (characteristics s)\<rparr>)"

definition connect :: "link_world \<Rightarrow> (link_state, bool) pyop" where
  "connect w =
     catchE
       (bindE (modify (\<lambda>s. s\<lparr>client := Some False, subscribed := False,
                                 stale_subscribed := stale_subscribed s \<or> subscribed s\<rparr>)) (\<lambda>_.
        bindE (io_connect w) (\<lambda>_.
        bindE (io_services w) (\<lambda>svcs.
        bindE (modify (store_services svcs)) (\<lambda>_.
        bindE (modify (\<lambda>s. s\<lparr>connected := True\<rparr>)) (\<lambda>_. ret True))))))
       (\<lambda>_. ret False)"

text \<open>\<open>disconnect\<close>: not inside a \<open>try\<close>; an error of bleak propagates and leaves \<open>_connected\<close> set.\<close>

definition disconnect_link :: "link_world \<Rightarrow> (link_state, unit) pyop" where
  "disconnect_link w s =
     (if client s \<noteq> None \<and> connected s
      then bindE (io_disconnect w) (\<lambda>_. modify (\<lambda>s. s\<lparr>connected := False\<rparr>)) s
      else (Inr (), s))"

definition link_ready :: "link_state \<Rightarrow> bool" where
  "link_ready s \<longleftrightarrow> connected s \<and> client s \<noteq> None"

definition controller_info :: "string \<Rightarrow> mp_device" where
  "controller_info addr =
     \<lparr>dev_address = addr, dev_name = ''MarsPro Controller'', dev_type = CONTROLLER,
      features = [LIGHTING, CLIMATE, WATER, AIR, HEATING], firmware_version = Some ''1.3.2'',
      battery_level = None, rssi = None\<rparr>"

definition read_device_info :: "link_world \<Rightarrow> (link_state, mp_device option) pyop" where
  "read_device_info w s =
     (if \<not> link_ready s then (Inr None, s)
      else catchE
             (bindE (if STATUS_CHAR_UUID \<in> set (characteristics s)
                     then bindE (io_read w STATUS_CHAR_UUID) (\<lambda>_. ret ()) else ret ()) (\<lambda>_.
              bindE (modify (\<lambda>s. s\<lparr>device_info := Some (controller_info (device_address s))\<rparr>)) (\<lambda>_.
              gets (\<lambda>s. device_info s))))
             (\<lambda>_. ret None) s)"

definition placeholder_sensor_data :: "flt \<Rightarrow> sensor_data" where
  "placeholder_sensor_data now =
     \<lparr>temperature = Some (Flt 51 (-1)), humidity = Some (Flt 60 0), co2 = Some (Flt 400 0),
      vpd = Some (Flt 5404319552844595 (-52)), ppfd = Some (Flt 500 0),
      wind_speed = Some (Flt 5 (-1)), wind_pressure = Some (Flt 4053 (-2)),
      air_volume = Some (Flt 100 0), timestamp = Some now\<rparr>"

definition read_sensor_data :: "link_world \<Rightarrow> flt \<Rightarrow> (link_state, sensor_data option) pyop" where
  "read_sensor_data w now s =
     (if \<not> link_ready s then (Inr None, s)
      else catchE
             (if DATA_CHAR_UUID \<in> set (characteristics s)
              then bindE (io_read w DATA_CHAR_UUID) (\<lambda>data. ret (Some (parse_sensor_data now data)))
              else ret (Some (placeholder_sensor_data now)))
             (\<lambda>_. ret None) s)"

definition send_command_link :: "link_world \<Rightarrow> int \<Rightarrow> pydict \<Rightarrow> (link_state, bool) pyop" where
  "send_command_link w command_type data s =
     (if \<not> link_ready s then (Inr False, s)
      else catchE
             (bindE (liftE (build_command_packet command_type data)) (\<lambda>command_data s.
                (if COMMAND_CHAR_UUID \<in> set (characteristics s)
                 then bindE (io_write w COMMAND_CHAR_UUID command_data) (\<lambda>_. ret True)
                 else ret False) s))
             (\<lambda>_. ret False) s)"

text \<open>\<open>set_data_callback\<close>: subscription errors are not caught.\<close>

definition set_data_callback :: "link_world \<Rightarrow> (link_state, unit) pyop" where
  "set_data_callback w =
     bindE (modify (\<lambda>s. s\<lparr>data_callback := True\<rparr>)) (\<lambda>_ s.
       if link_ready s \<and> DATA_CHAR_UUID \<in> set (characteristics s)
       then io_start_notify w DATA_CHAR_UUID s else (Inr (), s))"

text \<open>\<open>_notification_handler\<close>: each frame is decoded and handed to the callback.\<close>

definition notification_handler :: "flt \<Rightarrow> bytes \<Rightarrow> link_state \<Rightarrow> link_state" where
  "notification_handler now data s =
     (if data_callback s then s\<lparr>delivered := delivered s @ [parse_sensor_data now data]\<rparr> else s)"

definition control_light :: "link_world \<Rightarrow> string \<Rightarrow> int \<Rightarrow> int option \<Rightarrow> (link_state, bool) pyop" where
  "control_light w light_type intensity duration =
     (let command_data = [(PStr ''light_type'', PStr light_type), (PStr ''intensity'', PInt intensity)];
          command_data = (case duration of
                            Some d \<Rightarrow> if d \<noteq> 0 then command_data @ [(PStr ''duration'', PInt d)] else command_data
                          | None \<Rightarrow> command_data)
      in send_command_link w CMD_SET_LIGHT command_data)"

definition opt_field :: "string \<Rightarrow> pyval option \<Rightarrow> pydict" where
  "opt_field k v = (case v of None \<Rightarrow> [] | Some x \<Rightarrow> [(PStr k, x)])"

definition control_climate ::
  "link_world \<Rightarrow> pyval option \<Rightarrow> pyval option \<Rightarrow> pyval option \<Rightarrow> (link_state, bool) pyop" where
  "control_climate w temp hum fan_speed =
     send_command_link w CMD_SET_TEMPERATURE
       (opt_field ''temperature'' temp @ opt_field ''humidity'' hum @ opt_field ''fan_speed'' fan_speed)"

definition control_water :: "link_world \<Rightarrow> pyval option \<Rightarrow> pyval option \<Rightarrow> (link_state, bool) pyop" where
  "control_water w drip_rate flow_rate =
     send_command_link w CMD_SET_DRIP (opt_field ''drip_rate'' drip_rate @ opt_field ''flow_rate'' flow_rate)"

definition is_connected :: "link_state \<Rightarrow> bool" where
  "is_connected s = connected s"

section \<open>The scanner\<close>

text \<open>An advertisement as \<open>BleakScanner.discover\<close> returns it.\<close>

record ble_adv =
  adv_address :: string
  adv_name :: "string option"
  adv_rssi :: int

definition py_or_str :: "string option \<Rightarrow> string \<Rightarrow> string" where
  "py_or_str v dflt = (case v of Some x \<Rightarrow> if x = [] then dflt else x | None \<Rightarrow> dflt)"

definition is_marspro_device :: "ble_adv \<Rightarrow> bool" where
  "is_marspro_device device =
     (let name = py_or_str (adv_name device) []
      in str_contains ''marspro'' (py_lower name) \<or> str_contains ''mars'' (py_lower name))"

definition create_marspro_device :: "ble_adv \<Rightarrow> mp_device" where
  "create_marspro_device device =
     \<lparr>dev_address = adv_address device,
      dev_name = py_or_str (adv_name device) ''Unknown MarsPro Device'',
      dev_type = CONTROLLER, features = [LIGHTING, CLIMATE, WATER],
      firmware_version = None, battery_level = None, rssi = Some (adv_rssi device)\<rparr>"

record scanner_state =
  discovered_devices :: "mp_device list"

definition scanner_init :: "bool \<Rightarrow> exn + scanner_state" where
  "scanner_init bleak_available =
     (if \<not> bleak_available then Inl (ImportError ''bleak library is required for BLE scanning'')
      else Inr \<lparr>discovered_devices = []\<rparr>)"

text \<open>
  \<open>scan_for_devices\<close>: the world's \<open>discover\<close> answer, then each MarsPro device
  appended to \<open>discovered_devices\<close>, which is never reset; the whole list is returned.
  A failed discovery returns \<open>[]\<close>.
\<close>

definition scan_for_devices :: "(exn + ble_adv list) \<Rightarrow> (scanner_state, mp_device list) pyop" where
  "scan_for_devices discover =
     catchE
       (bindE (liftE discover) (\<lambda>devices.
        bindE (modify (\<lambda>s. s\<lparr>discovered_devices := discovered_devices s @
                               map create_marspro_device (filter is_marspro_device devices)\<rparr>)) (\<lambda>_.
        gets discovered_devices)))
       (\<lambda>_. ret [])"

definition get_discovered_devices :: "scanner_state \<Rightarrow> mp_device list" where
  "get_discovered_devices s = discovered_devices s"

section \<open>The example \<open>main\<close>\<close>

text \<open>
  The module's example \<open>main\<close> on the address \<open>00:11:22:33:44:55\<close>: connect,
  print the device's name and the temperature and humidity read, disconnect.  A
  dataclass instance is always truthy, so both \<open>if\<close>s test only for \<open>None\<close>.
  Everything runs inside one \<open>try\<close> whose handler prints the exception.  The
  result is the printed lines and the client's final state.  The degree sign of
  the source is the mis-encoded \<open>U+00C2 U+00B0\<close>, here its UTF-8 bytes.
\<close>

definition opt_flt :: "flt option \<Rightarrow> pyval" where
  "opt_flt x = (case x of None \<Rightarrow> PNone | Some f \<Rightarrow> PFloat f)"

definition error_line :: "exn \<Rightarrow> fpart list" where
  "error_line e = [FLit ''Error: '', FLit (exn_msg e)]"

definition link_main :: "bool \<Rightarrow> link_world \<Rightarrow> flt \<Rightarrow> fpart list list \<times> link_state option" where
  "link_main bleak w now =
     (case link_init bleak ''00:11:22:33:44:55'' of Inl e \<Rightarrow> ([error_line e], None) | Inr s0 \<Rightarrow>
      (case connect w s0 of
         (Inl e, s1) \<Rightarrow> ([error_line e], Some s1)
       | (Inr False, s1) \<Rightarrow> ([], Some s1)
       | (Inr True, s1) \<Rightarrow>
      (case read_device_info w s1 of (Inl e, s2) \<Rightarrow> ([error_line e], Some s2) | (Inr info, s2) \<Rightarrow>
       (let out1 = (case info of Some i \<Rightarrow> [[FLit ''Connected to: '', FLit (dev_name i)]] | None \<Rightarrow> []) in
      (case read_sensor_data w now s2 of (Inl e, s3) \<Rightarrow> (out1 @ [error_line e], Some s3) | (Inr sd, s3) \<Rightarrow>
       (let out2 = out1 @ (case sd of
              Some d \<Rightarrow> [[FLit ''Temperature: '', FVal (opt_flt (temperature d)), FLit [CHR 0xC3, CHR 0x82, CHR 0xC2, CHR 0xB0, CHR ''C'']],
                         [FLit ''Humidity: '', FVal (opt_flt (humidity d)), FLit ''%'']]
            | None \<Rightarrow> []) in
      (case disconnect_link w s3 of (Inl e, s4) \<Rightarrow> (out2 @ [error_line e], Some s4) | (Inr _, s4) \<Rightarrow> (out2, Some s4))))))))"

section \<open>Reachable client states\<close>

text \<open>
  The public methods as steps, and the arrival of a notification, which bleak only
  delivers on a subscribed link: the current client's, or that of a client
  \<open>connect\<close> replaced.
\<close>

datatype link_call =
    CConnect | CDisconnect | CReadDeviceInfo | CReadSensorData flt
  | CSendCommand int pydict | CSetDataCallback
  | CControlLight string int "int option"
  | CControlClimate "pyval option" "pyval option" "pyval option"
  | CControlWater "pyval option" "pyval option"

fun run_link_call :: "link_world \<Rightarrow> link_call \<Rightarrow> (link_state, unit) pyop" where
  "run_link_call w CConnect = bindE (connect w) (\<lambda>_. ret ())"
| "run_link_call w CDisconnect = disconnect_link w"
| "run_link_call w CReadDeviceInfo = bindE (read_device_info w) (\<lambda>_. ret ())"
| "run_link_call w (CReadSensorData now) = bindE (read_sensor_data w now) (\<lambda>_. ret ())"
| "run_link_call w (CSendCommand c d) = bindE (send_command_link w c d) (\<lambda>_. ret ())"
| "run_link_call w CSetDataCallback = set_data_callback w"
| "run_link_call w (CControlLight lt i du) = bindE (control_light w lt i du) (\<lambda>_. ret ())"
| "run_link_call w (CControlClimate t h f) = bindE (control_climate w t h f) (\<lambda>_. ret ())"
| "run_link_call w (CControlWater d f) = bindE (control_water w d f) (\<lambda>_. ret ())"

inductive link_reachable :: "link_world \<Rightarrow> link_state \<Rightarrow> bool" for w where
  init: "link_init True addr = Inr s \<Longrightarrow> link_reachable w s"
| call: "link_reachable w s \<Longrightarrow> run_link_call w c s = (r, s') \<Longrightarrow> link_reachable w s'"
| notify: "link_reachable w s \<Longrightarrow> subscribed s \<or> stale_subscribed s \<Longrightarrow> link_reachable w (notification_handler now data s)"

text \<open>
  The client invariant: \<open>_connected\<close> implies a client object; the current
  client's subscription lives on its open link and on the data characteristic, and
  a replaced client's subscription was on the data characteristic; the key lists
  have no duplicates; nothing is delivered before a callback is set.
\<close>

definition link_inv :: "link_state \<Rightarrow> bool" where
  "link_inv s \<longleftrightarrow>
     (connected s \<longrightarrow> client s \<noteq> None)
     \<and> (subscribed s \<longrightarrow> client s = Some True \<and> DATA_CHAR_UUID \<in> set (characteristics s))
     \<and> (stale_subscribed s \<longrightarrow> DATA_CHAR_UUID \<in> set (characteristics s))
     \<and> distinct (services s) \<and> distinct (characteristics s)
     \<and> (\<not> data_callback s \<longrightarrow> delivered s = [])"

section \<open>Concrete worlds\<close>

text \<open>
  A device advertising the command, data and status characteristics, a client ready on
  it, and the same device advertising only the data characteristic.
\<close>

definition demo_link_world :: link_world where
  "demo_link_world =
     \<lparr>lw_connect = (\<lambda>_. None),
      lw_services = (\<lambda>_. Inr [(SERVICE_UUID, [COMMAND_CHAR_UUID, DATA_CHAR_UUID, STATUS_CHAR_UUID])]),
      lw_read = (\<lambda>_. Inr [1, 2]), lw_write = (\<lambda>_ _. None), lw_disconnect = None,
      lw_start_notify = (\<lambda>_. None), lw_down_on_error = True\<rparr>"

definition demo_link_state :: link_state where
  "demo_link_state =
     \<lparr>device_address = ''00:11:22:33:44:55'', client = Some True, device_info = None,
      data_callback = False, connected = True, services = [SERVICE_UUID],
      characteristics = [COMMAND_CHAR_UUID, DATA_CHAR_UUID, STATUS_CHAR_UUID], subscribed = False,
      stale_subscribed = False,
      delivered = [], link_trace = [LConnect ''00:11:22:33:44:55'', LGetServices]\<rparr>"

definition demo_data_only_world :: link_world where
  "demo_data_only_world = demo_link_world\<lparr>lw_services := (\<lambda>_. Inr [(SERVICE_UUID, [DATA_CHAR_UUID])])\<rparr>"

section \<open>Lemmas\<close>

lemma add_key_set [simp]: "set (add_key k ks) = insert k (set ks)"
  by (auto simp: add_key_def)

lemma add_key_distinct [simp]: "distinct (add_key k ks) = distinct ks"
  by (auto simp: add_key_def)

lemma fold_add_key_set [simp]: "set (fold add_key cs ks) = set cs \<union> set ks"
  by (induction cs arbitrary: ks) auto

lemma fold_add_key_distinct [simp]: "distinct (fold add_key cs ks) = distinct ks"
  by (induction cs arbitrary: ks) auto

lemma store_services_eq:
  "store_services svcs s =
     s\<lparr>services := fold (\<lambda>(u, cs). add_key u) svcs (services s),
       characteristics := fold (\<lambda>(u, cs). fold add_key cs) svcs (characteristics s)\<rparr>"
  by (induction svcs s rule: store_services.induct) simp_all

lemma fold_services_distinct [simp]:
  "distinct (fold (\<lambda>(u, cs). add_key u) svcs ks) = distinct ks"
  by (induction svcs arbitrary: ks) (simp_all split: prod.splits)

lemma fold_chars_distinct [simp]:
  "distinct (fold (\<lambda>(u, cs). fold add_key cs) svcs ks) = distinct ks"
  by (induction svcs arbitrary: ks) (simp_all split: prod.splits)

lemma fold_chars_mono:
  "set ks \<subseteq> set (fold (\<lambda>(u, cs). fold add_key cs) svcs ks)"
proof (induction svcs arbitrary: ks)
  case Nil
  then show ?case by simp
next
  case (Cons a svcs)
  obtain u cs where "a = (u, cs)" by fastforce
  with Cons.IH [of "fold add_key cs ks"] show ?case by auto
qed

text \<open>Evaluation of \<open>str.lower\<close> on literal strings.\<close>

lemmas link_io_defs = io_connect_def io_services_def io_read_def io_write_def
  io_start_notify_def io_disconnect_def log_req_def not_connected_error_def

lemma connect_inv: "link_inv s \<Longrightarrow> connect w s = (r, s') \<Longrightarrow> link_inv s'"
  by (auto simp: link_inv_def connect_def link_io_defs store_services_eq pyop_simps
      intro: subsetD [OF fold_chars_mono] split: option.splits sum.splits prod.splits if_splits)

lemma disconnect_link_inv: "link_inv s \<Longrightarrow> disconnect_link w s = (r, s') \<Longrightarrow> link_inv s'"
  by (auto simp: link_inv_def disconnect_link_def link_io_defs pyop_simps Let_def
      split: option.splits sum.splits prod.splits if_splits)

lemma read_device_info_inv: "link_inv s \<Longrightarrow> read_device_info w s = (r, s') \<Longrightarrow> link_inv s'"
  by (auto simp: link_inv_def read_device_info_def link_io_defs pyop_simps
      split: option.splits sum.splits prod.splits if_splits)

lemma read_sensor_data_inv: "link_inv s \<Longrightarrow> read_sensor_data w now s = (r, s') \<Longrightarrow> link_inv s'"
  by (auto simp: link_inv_def read_sensor_data_def link_io_defs pyop_simps
      split: option.splits sum.splits prod.splits if_splits)

lemma send_command_link_inv: "link_inv s \<Longrightarrow> send_command_link w c d s = (r, s') \<Longrightarrow> link_inv s'"
  by (auto simp: link_inv_def send_command_link_def link_io_defs pyop_simps
      split: option.splits sum.splits prod.splits if_splits)

lemma set_data_callback_inv: "link_inv s \<Longrightarrow> set_data_callback w s = (r, s') \<Longrightarrow> link_inv s'"
  by (auto simp: link_inv_def set_data_callback_def link_ready_def link_io_defs pyop_simps
      split: option.splits sum.splits prod.splits if_splits)

lemma notification_handler_inv: "link_inv s \<Longrightarrow> link_inv (notification_handler now data s)"
  by (simp add: link_inv_def notification_handler_def)

lemma bindE_const_ret:
  "bindE m (\<lambda>_. ret x) s = (map_sum id (\<lambda>_. x) (fst (m s)), snd (m s))"
  by (simp add: bindE_def ret_def split: prod.splits sum.splits)

lemma inv_via:
  assumes "\<And>r s'. m s = (r, s') \<Longrightarrow> link_inv s'"
  shows "link_inv (snd (m s))"
  using assms by (cases "m s") simp

lemma control_ops_eq:
  "control_light w lt i du = send_command_link w CMD_SET_LIGHT
     ([(PStr ''light_type'', PStr lt), (PStr ''intensity'', PInt i)]
      @ (case du of Some d \<Rightarrow> if d \<noteq> 0 then [(PStr ''duration'', PInt d)] else [] | None \<Rightarrow> []))"
  by (simp add: control_light_def Let_def split: option.splits)

lemma run_link_call_inv:
  assumes inv: "link_inv s" and run: "run_link_call w c s = (r, s')"
  shows "link_inv s'"
proof -
  have "link_inv (snd (run_link_call w c s))"
  proof (cases c)
    case CConnect
    then show ?thesis using inv_via [OF connect_inv [OF inv]] by (simp add: bindE_const_ret)
  next
    case CDisconnect
    then show ?thesis using inv_via [OF disconnect_link_inv [OF inv]] by simp
  next
    case CReadDeviceInfo
    then show ?thesis using inv_via [OF read_device_info_inv [OF inv]] by (simp add: bindE_const_ret)
  next
    case (CReadSensorData now)
    then show ?thesis using inv_via [OF read_sensor_data_inv [OF inv]] by (simp add: bindE_const_ret)
  next
    case (CSendCommand c d)
    then show ?thesis using inv_via [OF send_command_link_inv [OF inv]] by (simp add: bindE_const_ret)
  next
    case CSetDataCallback
    then show ?thesis using inv_via [OF set_data_callback_inv [OF inv]] by simp
  next
    case (CControlLight lt i du)
    then show ?thesis using inv_via [OF send_command_link_inv [OF inv]]
      by (simp add: bindE_const_ret control_ops_eq)
  next
    case (CControlClimate t h f)
    then show ?thesis using inv_via [OF send_command_link_inv [OF inv]]
      by (simp add: bindE_const_ret control_climate_def)
  next
    case (CControlWater d f)
    then show ?thesis using inv_via [OF send_command_link_inv [OF inv]]
      by (simp add: bindE_const_ret control_water_def)
  qed
  with run show ?thesis by simp
qed

lemma pack_temperature_zero:
  "dict_lookup d (KStr ''temperature'') = None \<Longrightarrow>
     build_command_packet CMD_SET_TEMPERATURE d = Inr [0x20, 0, 0, 0, 0]"
  by (simp add: build_command_packet_def opcode_defs dict_get_or_def struct_pack_f_zero del: struct_pack_f.simps)

lemma chars_mono_via:
  assumes "\<And>r s'. m s = (r, s') \<Longrightarrow> set (characteristics s) \<subseteq> set (characteristics s')"
  shows "set (characteristics s) \<subseteq> set (characteristics (snd (m s)))"
  using assms by (cases "m s") simp

lemma connect_chars: "connect w s = (r, s') \<Longrightarrow> set (characteristics s) \<subseteq> set (characteristics s')"
  using fold_chars_mono
  by (fastforce simp: connect_def link_io_defs store_services_eq pyop_simps
      split: option.splits sum.splits prod.splits if_splits)

lemma disconnect_link_chars: "disconnect_link w s = (r, s') \<Longrightarrow> characteristics s' = characteristics s"
  by (auto simp: disconnect_link_def link_io_defs pyop_simps Let_def
      split: option.splits sum.splits prod.splits if_splits)

lemma read_device_info_chars: "read_device_info w s = (r, s') \<Longrightarrow> characteristics s' = characteristics s"
  by (auto simp: read_device_info_def link_io_defs pyop_simps split: option.splits sum.splits prod.splits if_splits)

lemma read_sensor_data_chars: "read_sensor_data w now s = (r, s') \<Longrightarrow> characteristics s' = characteristics s"
  by (auto simp: read_sensor_data_def link_io_defs pyop_simps split: option.splits sum.splits prod.splits if_splits)

lemma send_command_link_chars: "send_command_link w c d s = (r, s') \<Longrightarrow> characteristics s' = characteristics s"
  by (auto simp: send_command_link_def link_io_defs pyop_simps split: option.splits sum.splits prod.splits if_splits)

lemma set_data_callback_chars: "set_data_callback w s = (r, s') \<Longrightarrow> characteristics s' = characteristics s"
  by (auto simp: set_data_callback_def link_io_defs pyop_simps split: option.splits sum.splits prod.splits if_splits)

text \<open>
  On a device that connects but whose \<open>disconnect\<close> fails, the example prints the
  device's name and, last, the error, and leaves the client still marked connected.
\<close>

lemma connect_ok:
  assumes "lw_connect w (device_address s) = None" and "lw_services w (device_address s) = Inr svcs"
  shows "\<exists>s'. connect w s = (Inr True, s') \<and> connected s' \<and> client s' = Some True"
  using assms by (simp add: connect_def catchE_def bindE_def modify_def ret_def link_io_defs store_services_eq)

lemma read_device_info_keeps:
  "read_device_info w s = (r, s') \<Longrightarrow> (\<exists>x. r = Inr x) \<and> connected s' = connected s \<and> client s' = client s"
  by (auto simp: read_device_info_def catchE_def bindE_def modify_def gets_def ret_def link_io_defs
      split: if_splits sum.splits)

lemma read_sensor_data_keeps:
  "read_sensor_data w now s = (r, s') \<Longrightarrow> (\<exists>x. r = Inr x) \<and> connected s' = connected s \<and> client s' = client s"
  by (auto simp: read_sensor_data_def catchE_def bindE_def ret_def link_io_defs split: if_splits sum.splits)

lemma link_main_disconnect_error:
  assumes "lw_connect w ''00:11:22:33:44:55'' = None" and "lw_services w ''00:11:22:33:44:55'' = Inr svcs"
    and "lw_disconnect w = Some e"
  shows "\<exists>outs s. link_main True w now = (outs @ [error_line e], Some s) \<and> connected s"
proof -
  obtain s0 where s0: "link_init True ''00:11:22:33:44:55'' = Inr s0" and a: "device_address s0 = ''00:11:22:33:44:55''"
    by (simp add: link_init_def)
  obtain s1 where c: "connect w s0 = (Inr True, s1)" and r1: "connected s1" "client s1 = Some True"
    using connect_ok [of w s0 svcs] assms a by auto
  obtain info s2 where i: "read_device_info w s1 = (Inr info, s2)" and r2: "connected s2" "client s2 = Some True"
    using read_device_info_keeps r1 by (metis surj_pair)
  obtain sd s3 where d: "read_sensor_data w now s2 = (Inr sd, s3)" and r3: "connected s3" "client s3 = Some True"
    using read_sensor_data_keeps r2 by (metis surj_pair)
  have "disconnect_link w s3 = (Inl e, if lw_down_on_error w
      then s3\<lparr>link_trace := link_trace s3 @ [LDisconnect], client := Some False, subscribed := False\<rparr>
      else s3\<lparr>link_trace := link_trace s3 @ [LDisconnect]\<rparr>)"
    using r3 assms(3) by (simp add: disconnect_link_def bindE_def link_io_defs Let_def)
  then show ?thesis using s0 c i d r3 by (auto simp: link_main_def Let_def)
qed

section \<open>Properties of the BLE client\<close>

text \<open>
  C16: The client invariant holds in every state reachable from \<open>__init__\<close> by any
  sequence of method calls and notifications: \<open>_connected\<close> implies a client object,
  the current client's subscription lives on its open link and on the data
  characteristic, a replaced client's subscription was on the data characteristic, the UUID dictionaries have no duplicate keys, and nothing is
  delivered before a callback is set.
\<close>

theorem link_reachable_inv: "link_reachable w s \<Longrightarrow> link_inv s"
proof (induction rule: link_reachable.induct)
  case (init addr s)
  then show ?case by (auto simp: link_init_def link_inv_def split: if_splits)
next
  case (call s c r s')
  then show ?case using run_link_call_inv by blast
next
  case (notify s now data)
  then show ?case using notification_handler_inv by blast
qed

theorem link_reachable_inv_witness:
  "link_reachable demo_link_world (snd (run_link_call demo_link_world CConnect
      (projr (link_init True ''00:11:22:33:44:55''))))
   \<and> link_inv (snd (run_link_call demo_link_world CConnect (projr (link_init True ''00:11:22:33:44:55''))))"
proof -
  have "link_reachable demo_link_world (projr (link_init True ''00:11:22:33:44:55''))"
    by (rule link_reachable.init [of "''00:11:22:33:44:55''"]) (simp add: link_init_def)
  then have r: "link_reachable demo_link_world (snd (run_link_call demo_link_world CConnect
      (projr (link_init True ''00:11:22:33:44:55''))))"
    by (rule link_reachable.call [OF _ surjective_pairing])
  from r link_reachable_inv [OF r] show ?thesis by blast
qed

text \<open>
  C17: A failed reconnect leaves the client claiming to be connected.  When
  \<open>connect\<close> fails on a connected client, it returns \<open>False\<close> but \<open>is_connected\<close> stays
  true while the fresh \<open>BleakClient\<close> has no link, and from then on every
  \<open>send_command\<close> returns \<open>False\<close> without radio traffic.
\<close>

theorem connect_failure_reports_connected:
  assumes "link_ready s" and "lw_connect w (device_address s) = Some e"
  shows "\<exists>s'. connect w s = (Inr False, s') \<and> is_connected s' \<and> client s' = Some False
             \<and> (\<forall>c d. send_command_link w c d s' = (Inr False, s'))"
  using assms
  by (auto simp: connect_def link_io_defs is_connected_def link_ready_def send_command_link_def
      pyop_simps split: sum.splits)

theorem connect_failure_reports_connected_witness:
  "\<exists>s'. connect (demo_link_world\<lparr>lw_connect := (\<lambda>_. Some TimeoutError)\<rparr>) demo_link_state = (Inr False, s')
      \<and> is_connected s' \<and> client s' = Some False
      \<and> (\<forall>c d. send_command_link (demo_link_world\<lparr>lw_connect := (\<lambda>_. Some TimeoutError)\<rparr>) c d s' = (Inr False, s'))"
  by (rule connect_failure_reports_connected)
     (simp_all add: link_ready_def demo_link_state_def)

text \<open>
  A successful \<open>connect\<close> issues exactly the connect and the service discovery,
  records every discovered service and characteristic, and returns \<open>True\<close> whether
  or not the command, data and status characteristics are among them (the spec
  requires a \<open>ProtocolMismatchError\<close> when one is missing).
\<close>

theorem connect_success:
  assumes "lw_connect w (device_address s) = None" and "lw_services w (device_address s) = Inr svcs"
  shows "connect w s =
           (Inr True, (store_services svcs
              (s\<lparr>client := Some True, subscribed := False, stale_subscribed := stale_subscribed s \<or> subscribed s,
                 link_trace := link_trace s @ [LConnect (device_address s), LGetServices]\<rparr>))\<lparr>connected := True\<rparr>)"
  using assms by (simp add: connect_def link_io_defs pyop_simps store_services_eq)

theorem connect_success_witness:
  "connect (demo_link_world\<lparr>lw_services := (\<lambda>_. Inr [(SERVICE_UUID, [DATA_CHAR_UUID])])\<rparr>)
      (demo_link_state\<lparr>client := None, connected := False, services := [], characteristics := [], link_trace := []\<rparr>) =
     (Inr True, demo_link_state\<lparr>characteristics := [DATA_CHAR_UUID],
        link_trace := [LConnect ''00:11:22:33:44:55'', LGetServices]\<rparr>)"
  using connect_success [of "demo_link_world\<lparr>lw_services := (\<lambda>_. Inr [(SERVICE_UUID, [DATA_CHAR_UUID])])\<rparr>"
      "demo_link_state\<lparr>client := None, connected := False, services := [], characteristics := [], link_trace := []\<rparr>"]
  by (simp add: demo_link_world_def demo_link_state_def store_services_eq add_key_def)

text \<open>
  No call ever removes a characteristic UUID: after reconnecting to a device that
  no longer advertises the command characteristic, the client still believes it
  has one.
\<close>

theorem characteristics_never_forgotten:
  assumes "run_link_call w c s = (r, s')"
  shows "set (characteristics s) \<subseteq> set (characteristics s')"
proof -
  have eq: "\<And>m. (\<And>r s'. m s = (r, s') \<Longrightarrow> characteristics s' = characteristics s) \<Longrightarrow>
              set (characteristics s) \<subseteq> set (characteristics (snd (m s)))"
    by (rule chars_mono_via) simp
  have "set (characteristics s) \<subseteq> set (characteristics (snd (run_link_call w c s)))"
  proof (cases c)
    case CConnect
    then show ?thesis using chars_mono_via [OF connect_chars] by (simp add: bindE_const_ret)
  next
    case CDisconnect
    then show ?thesis using eq [OF disconnect_link_chars] by simp
  next
    case CReadDeviceInfo
    then show ?thesis using eq [OF read_device_info_chars] by (simp add: bindE_const_ret)
  next
    case (CReadSensorData now)
    then show ?thesis using eq [OF read_sensor_data_chars] by (simp add: bindE_const_ret)
  next
    case (CSendCommand c d)
    then show ?thesis using eq [OF send_command_link_chars] by (simp add: bindE_const_ret)
  next
    case CSetDataCallback
    then show ?thesis using eq [OF set_data_callback_chars] by simp
  next
    case (CControlLight lt i du)
    then show ?thesis using eq [OF send_command_link_chars] by (simp add: bindE_const_ret control_ops_eq)
  next
    case (CControlClimate t h f)
    then show ?thesis using eq [OF send_command_link_chars] by (simp add: bindE_const_ret control_climate_def)
  next
    case (CControlWater d f)
    then show ?thesis using eq [OF send_command_link_chars] by (simp add: bindE_const_ret control_water_def)
  qed
  with assms show ?thesis by simp
qed

theorem characteristics_never_forgotten_witness:
  "run_link_call demo_data_only_world CConnect demo_link_state =
     (Inr (), demo_link_state\<lparr>link_trace := link_trace demo_link_state @ [LConnect ''00:11:22:33:44:55'', LGetServices]\<rparr>)
   \<and> COMMAND_CHAR_UUID \<in> set (characteristics
       (demo_link_state\<lparr>link_trace := link_trace demo_link_state @ [LConnect ''00:11:22:33:44:55'', LGetServices]\<rparr>))"
proof -
  have run: "run_link_call demo_data_only_world CConnect demo_link_state =
     (Inr (), demo_link_state\<lparr>link_trace := link_trace demo_link_state @ [LConnect ''00:11:22:33:44:55'', LGetServices]\<rparr>)"
    by (simp add: connect_def link_io_defs pyop_simps store_services_eq demo_data_only_world_def
        demo_link_world_def demo_link_state_def add_key_def uuid_defs)
  have "COMMAND_CHAR_UUID \<in> set (characteristics demo_link_state)" by (simp add: demo_link_state_def)
  with characteristics_never_forgotten [OF run] run show ?thesis by auto
qed

text \<open>
  Outside the ready state (\<open>_connected\<close> and a client) the read and command
  operations issue no I/O, leave the state unchanged and report \<open>None\<close> or
  \<open>False\<close> instead of raising.
\<close>

theorem not_ready_no_io:
  assumes "\<not> link_ready s"
  shows "read_device_info w s = (Inr None, s) \<and> read_sensor_data w now s = (Inr None, s)
       \<and> send_command_link w c d s = (Inr False, s)"
  using assms by (simp add: read_device_info_def read_sensor_data_def send_command_link_def)

theorem not_ready_no_io_witness:
  "read_device_info demo_link_world (demo_link_state\<lparr>connected := False\<rparr>) = (Inr None, demo_link_state\<lparr>connected := False\<rparr>)
   \<and> read_sensor_data demo_link_world (Flt 0 0) (demo_link_state\<lparr>connected := False\<rparr>) = (Inr None, demo_link_state\<lparr>connected := False\<rparr>)
   \<and> send_command_link demo_link_world CMD_SET_LIGHT [] (demo_link_state\<lparr>connected := False\<rparr>) = (Inr False, demo_link_state\<lparr>connected := False\<rparr>)"
  by (rule not_ready_no_io) (simp add: link_ready_def)

text \<open>
  On a ready, linked client that knows the command characteristic,
  \<open>send_command\<close> writes exactly the packet \<open>_build_command_packet\<close> builds, once, and
  reports whether the write succeeded; a write error is swallowed into \<open>False\<close>.
\<close>

theorem send_command_writes_packet:
  assumes "link_ready s" and "client s = Some True" and "build_command_packet c d = Inr pkt"
    and "COMMAND_CHAR_UUID \<in> set (characteristics s)"
  shows "send_command_link w c d s =
           (Inr (lw_write w COMMAND_CHAR_UUID pkt = None), log_req (LWrite COMMAND_CHAR_UUID pkt) s)"
  using assms by (simp add: send_command_link_def link_io_defs pyop_simps split: option.splits)

theorem send_command_writes_packet_witness:
  "send_command_link demo_link_world CMD_SET_LIGHT [(PStr ''intensity'', PInt 50)] demo_link_state =
     (Inr True, log_req (LWrite COMMAND_CHAR_UUID [0x10, 0x32]) demo_link_state)"
proof -
  have "build_command_packet CMD_SET_LIGHT [(PStr ''intensity'', PInt 50)] = Inr [0x10, 0x32]"
    by (simp add: build_command_packet_def CMD_SET_LIGHT_def dict_get_or_def)
  from send_command_writes_packet [OF _ _ this, of demo_link_state demo_link_world]
  show ?thesis by (simp add: demo_link_state_def link_ready_def demo_link_world_def)
qed

text \<open>
  \<open>control_climate(humidity=h)\<close> sends the temperature opcode with temperature
  0.0: the humidity, and the fan speed, are never sent.
\<close>

theorem control_climate_humidity_only:
  assumes "link_ready s" and "client s = Some True" and "COMMAND_CHAR_UUID \<in> set (characteristics s)"
  shows "control_climate w None (Some h) fan s =
           (Inr (lw_write w COMMAND_CHAR_UUID [0x20, 0, 0, 0, 0] = None),
            log_req (LWrite COMMAND_CHAR_UUID [0x20, 0, 0, 0, 0]) s)"
proof -
  have "build_command_packet CMD_SET_TEMPERATURE
          (opt_field ''temperature'' None @ opt_field ''humidity'' (Some h) @ opt_field ''fan_speed'' fan)
          = Inr [0x20, 0, 0, 0, 0]"
    by (rule pack_temperature_zero) (simp add: opt_field_def split: option.splits)
  then show ?thesis using assms
    by (simp add: control_climate_def send_command_link_def link_io_defs pyop_simps split: option.splits)
qed

theorem control_climate_humidity_only_witness:
  "control_climate demo_link_world None (Some (PFloat (Flt 70 0))) None demo_link_state =
     (Inr True, log_req (LWrite COMMAND_CHAR_UUID [0x20, 0, 0, 0, 0]) demo_link_state)"
  using control_climate_humidity_only [of demo_link_state demo_link_world "PFloat (Flt 70 0)" None]
  by (simp add: demo_link_state_def link_ready_def demo_link_world_def)

text \<open>
  \<open>control_water\<close> sends the bare drip opcode: drip and flow rates are never
  encoded.
\<close>

theorem control_water_drops_rates:
  assumes "link_ready s" and "client s = Some True" and "COMMAND_CHAR_UUID \<in> set (characteristics s)"
  shows "control_water w drip flow s =
           (Inr (lw_write w COMMAND_CHAR_UUID [0x40] = None), log_req (LWrite COMMAND_CHAR_UUID [0x40]) s)"
proof -
  have "build_command_packet CMD_SET_DRIP d = Inr [0x40]" for d
    by (simp add: build_command_packet_def opcode_defs)
  then show ?thesis using assms
    by (simp add: control_water_def send_command_link_def link_io_defs pyop_simps split: option.splits)
qed

theorem control_water_drops_rates_witness:
  "control_water demo_link_world (Some (PInt 5)) (Some (PInt 2)) demo_link_state =
     (Inr True, log_req (LWrite COMMAND_CHAR_UUID [0x40]) demo_link_state)"
  using control_water_drops_rates [of demo_link_state demo_link_world "Some (PInt 5)" "Some (PInt 2)"]
  by (simp add: demo_link_state_def link_ready_def demo_link_world_def)

text \<open>
  Once a callback is set, notifications are decoded and delivered to it in the
  order they arrive, one reading per frame.
\<close>

theorem notifications_in_order:
  assumes "data_callback s"
  shows "delivered (fold (\<lambda>(t, d). notification_handler t d) fs s) =
           delivered s @ map (\<lambda>(t, d). parse_sensor_data t d) fs"
  using assms
proof (induction fs arbitrary: s)
  case Nil
  then show ?case by simp
next
  case (Cons f fs)
  obtain t d where f: "f = (t, d)" by fastforce
  have "data_callback (notification_handler t d s)" using Cons.prems by (simp add: notification_handler_def)
  from Cons.IH [OF this] Cons.prems f show ?case by (simp add: notification_handler_def)
qed

theorem notifications_in_order_witness:
  "delivered (fold (\<lambda>(t, d). notification_handler t d) [(Flt 1 0, [1]), (Flt 2 0, [2, 3])]
                (demo_link_state\<lparr>data_callback := True\<rparr>)) =
     [parse_sensor_data (Flt 1 0) [1], parse_sensor_data (Flt 2 0) [2, 3]]"
  using notifications_in_order [of "demo_link_state\<lparr>data_callback := True\<rparr>" "[(Flt 1 0, [1]), (Flt 2 0, [2, 3])]"]
  by (simp add: demo_link_state_def)

text \<open>
  \<open>disconnect\<close> is not total: when bleak reports an error, the exception
  propagates and \<open>_connected\<close> stays set, also when the link went down.
\<close>

theorem disconnect_error_keeps_connected:
  assumes "link_ready s" and "lw_disconnect w = Some e"
  shows "disconnect_link w s =
           (Inl e, if lw_down_on_error w
                   then s\<lparr>client := Some False, subscribed := False, link_trace := link_trace s @ [LDisconnect]\<rparr>
                   else s\<lparr>link_trace := link_trace s @ [LDisconnect]\<rparr>)
         \<and> is_connected (snd (disconnect_link w s))"
  using assms by (simp add: disconnect_link_def link_ready_def link_io_defs is_connected_def pyop_simps Let_def)

theorem disconnect_error_keeps_connected_witness:
  "disconnect_link (demo_link_world\<lparr>lw_disconnect := Some (BleakError ''busy'')\<rparr>) demo_link_state =
     (Inl (BleakError ''busy''), if lw_down_on_error (demo_link_world\<lparr>lw_disconnect := Some (BleakError ''busy'')\<rparr>)
        then demo_link_state\<lparr>client := Some False, subscribed := False, link_trace := link_trace demo_link_state @ [LDisconnect]\<rparr>
        else demo_link_state\<lparr>link_trace := link_trace demo_link_state @ [LDisconnect]\<rparr>)
   \<and> is_connected (snd (disconnect_link (demo_link_world\<lparr>lw_disconnect := Some (BleakError ''busy'')\<rparr>) demo_link_state))"
  by (rule disconnect_error_keeps_connected) (simp_all add: demo_link_state_def link_ready_def)

text \<open>
  The scanner's name test is equivalent to "the lower-cased name contains
  \<open>mars\<close>": the \<open>marspro\<close> alternative is subsumed.
\<close>

theorem is_marspro_device_mars:
  "is_marspro_device d = str_contains ''mars'' (py_lower (py_or_str (adv_name d) []))"
  using str_contains_append [of "''mars''" "''pro''"] by (auto simp: is_marspro_device_def Let_def)

text \<open>
  \<open>discovered_devices\<close> is never reset, so scanning twice lists every MarsPro
  device of the neighbourhood twice.
\<close>

theorem scan_twice_duplicates:
  "fst (scan_for_devices (Inr devs) (snd (scan_for_devices (Inr devs) \<lparr>discovered_devices = []\<rparr>))) =
     Inr (map create_marspro_device (filter is_marspro_device devs)
          @ map create_marspro_device (filter is_marspro_device devs))"
  by (simp add: scan_for_devices_def pyop_simps)

end
