(* ===== verification/BleClient.thy ===== *)
theory BleClient
  imports BleLink "HOL-Library.AList"
begin

text \<open>
  The placeholder BLE client of \<open>src/src/marspro/ble_client.py\<close>, an earlier version of
  the standalone client: the same connection lifecycle over bleak, but no
  characteristic tables, a \<open>send_command\<close> that reports success without writing
  anything, and a scanner whose table is keyed by address.  Its enumeration of
  device types has the same members as the standalone client's and is shared with
  it; its feature enumeration and its dataclasses have their own members and are
  their own types here.  Its state is \<open>pc_state\<close>, the fields of \<open>__init__\<close> plus the
  GATT request trace; the world is the standalone client's \<open>link_world\<close>.
\<close>

section \<open>Data\<close>

datatype pc_feature = PcLighting | PcClimate | PcWater | PcSensors | PcAutomation

record pc_device =
  pcd_address :: string
  pcd_name :: string
  pcd_type :: device_type
  pcd_features :: "pc_feature list"
  pcd_firmware_version :: "string option"
  pcd_battery_level :: "int option"
  pcd_rssi :: "int option"

record pc_sensor_data =
  pcs_temperature :: "flt option"
  pcs_humidity :: "flt option"
  pcs_co2 :: "flt option"
  pcs_vpd :: "flt option"
  pcs_ppfd :: "flt option"
  pcs_timestamp :: "flt option"

definition PC_PLACEHOLDER_UUID :: string where
  "PC_PLACEHOLDER_UUID = ''00000000-0000-0000-0000-000000000000''"

record pc_state =
  pc_address :: string
  pc_client :: "bool option"
  pc_device_info :: "pc_device option"
  pc_callback :: bool
  pc_connected :: bool
  pc_trace :: "link_req list"

definition pc_init :: "bool \<Rightarrow> string \<Rightarrow> exn + pc_state" where
  "pc_init bleak_available addr =
     (if \<not> bleak_available then Inl (ImportError ''bleak library is required for BLE communication'')
      else Inr \<lparr>pc_address = addr, pc_client = None, pc_device_info = None, pc_callback = False,
                pc_connected = False, pc_trace = []\<rparr>)"

section \<open>The client\<close>

definition pc_log :: "link_req \<Rightarrow> pc_state \<Rightarrow> pc_state" where
  "pc_log r s = s\<lparr>pc_trace := pc_trace s @ [r]\<rparr>"

text \<open>
  \<open>connect\<close>: a fresh client, its connect, the service discovery (whose result is only
  logged), then \<open>_connected\<close>.  Every exception gives \<open>False\<close>.
\<close>

definition pc_connect :: "link_world \<Rightarrow> (pc_state, bool) pyop" where
  "pc_connect w =
     catchE
       (bindE (modify (\<lambda>s. s\<lparr>pc_client := Some False\<rparr>)) (\<lambda>_ s.
        (case lw_connect w (pc_address s) of
           Some e \<Rightarrow> (Inl e, pc_log (LConnect (pc_address s)) s)
         | None \<Rightarrow>
             (let s1 = (pc_log (LConnect (pc_address s)) s)\<lparr>pc_client := Some True\<rparr>
              in case lw_services w (pc_address s) of
                   Inl e \<Rightarrow> (Inl e, pc_log LGetServices s1)
                 | Inr _ \<Rightarrow> (Inr True, (pc_log LGetServices s1)\<lparr>pc_connected := True\<rparr>)))))
       (\<lambda>_. ret False)"

definition pc_disconnect :: "link_world \<Rightarrow> (pc_state, unit) pyop" where
  "pc_disconnect w s =
     (if pc_client s \<noteq> None \<and> pc_connected s
      then (let s1 = (pc_log LDisconnect s)\<lparr>pc_client := Some False\<rparr>
            in case lw_disconnect w of
                 Some e \<Rightarrow> (Inl e, if lw_down_on_error w then s1 else pc_log LDisconnect s)
               | None \<Rightarrow> (Inr (), s1\<lparr>pc_connected := False\<rparr>))
      else (Inr (), s))"

definition pc_ready :: "pc_state \<Rightarrow> bool" where
  "pc_ready s \<longleftrightarrow> pc_connected s \<and> pc_client s \<noteq> None"

definition pc_read_device_info :: "(pc_state, pc_device option) pyop" where
  "pc_read_device_info s =
     (if \<not> pc_ready s then (Inr None, s)
      else (let info = \<lparr>pcd_address = pc_address s, pcd_name = ''MarsPro Device'',
                        pcd_type = CONTROLLER, pcd_features = [PcLighting, PcClimate, PcWater],
                        pcd_firmware_version = Some ''1.0.0'', pcd_battery_level = None, pcd_rssi = None\<rparr>
            in (Inr (Some info), s\<lparr>pc_device_info := Some info\<rparr>)))"

definition pc_read_sensor_data :: "flt \<Rightarrow> (pc_state, pc_sensor_data option) pyop" where
  "pc_read_sensor_data now s =
     (if \<not> pc_ready s then (Inr None, s)
      else (Inr (Some \<lparr>pcs_temperature = Some (Flt 51 (-1)), pcs_humidity = Some (Flt 60 0),
                       pcs_co2 = Some (Flt 400 0), pcs_vpd = Some (Flt 5404319552844595 (-52)),
                       pcs_ppfd = Some (Flt 500 0), pcs_timestamp = Some now\<rparr>), s))"

text \<open>\<open>send_command\<close>: a placeholder that reports success; nothing is written.\<close>

definition pc_send_command :: "string \<Rightarrow> pydict \<Rightarrow> (pc_state, bool) pyop" where
  "pc_send_command command_type data s = (if \<not> pc_ready s then (Inr False, s) else (Inr True, s))"

definition pc_set_data_callback :: "(pc_state, unit) pyop" where
  "pc_set_data_callback s = (Inr (), s\<lparr>pc_callback := True\<rparr>)"

definition pc_control_light :: "string \<Rightarrow> int \<Rightarrow> int option \<Rightarrow> (pc_state, bool) pyop" where
  "pc_control_light light_type intensity duration =
     pc_send_command ''light_control''
       ([(PStr ''type'', PStr ''light_control''), (PStr ''light_type'', PStr light_type),
         (PStr ''intensity'', PInt intensity)]
        @ (case duration of Some d \<Rightarrow> if d \<noteq> 0 then [(PStr ''duration'', PInt d)] else [] | None \<Rightarrow> []))"

definition pc_control_climate :: "pyval option \<Rightarrow> pyval option \<Rightarrow> pyval option \<Rightarrow> (pc_state, bool) pyop" where
  "pc_control_climate temp hum fan_speed =
     pc_send_command ''climate_control''
       ([(PStr ''type'', PStr ''climate_control'')] @ opt_field ''temperature'' temp
        @ opt_field ''humidity'' hum @ opt_field ''fan_speed'' fan_speed)"

definition pc_control_water :: "pyval option \<Rightarrow> pyval option \<Rightarrow> (pc_state, bool) pyop" where
  "pc_control_water drip_rate flow_rate =
     pc_send_command ''water_control''
       ([(PStr ''type'', PStr ''water_control'')] @ opt_field ''drip_rate'' drip_rate
        @ opt_field ''flow_rate'' flow_rate)"

definition pc_is_connected :: "pc_state \<Rightarrow> bool" where
  "pc_is_connected s = pc_connected s"

section \<open>The scanner\<close>

text \<open>
  \<open>_discovered_devices\<close> is a dictionary keyed by address: an address seen again keeps
  its position and takes the new device (\<open>AList.update\<close>).
\<close>

record pc_scanner =
  pc_discovered :: "(string \<times> pc_device) list"

definition pc_scanner_init :: "bool \<Rightarrow> exn + pc_scanner" where
  "pc_scanner_init bleak_available =
     (if \<not> bleak_available then Inl (ImportError ''bleak library is required for BLE scanning'')
      else Inr \<lparr>pc_discovered = []\<rparr>)"

definition pc_is_marspro_device :: "ble_adv \<Rightarrow> bool" where
  "pc_is_marspro_device device =
     (case adv_name device of
        Some n \<Rightarrow> n \<noteq> [] \<and> (str_contains ''marspro'' (py_lower n) \<or> str_contains ''mars'' (py_lower n))
      | None \<Rightarrow> False)"

definition pc_create_marspro_device :: "ble_adv \<Rightarrow> pc_device" where
  "pc_create_marspro_device device =
     \<lparr>pcd_address = adv_address device,
      pcd_name = py_or_str (adv_name device) ''Unknown MarsPro Device'',
      pcd_type = CONTROLLER, pcd_features = [PcLighting, PcClimate, PcWater],
      pcd_firmware_version = None, pcd_battery_level = None, pcd_rssi = Some (adv_rssi device)\<rparr>"

text \<open>The scan loop: the devices of this scan, each also recorded under its address.\<close>

fun pc_scan_loop :: "ble_adv list \<Rightarrow> pc_device list \<Rightarrow> pc_scanner \<Rightarrow> pc_device list \<times> pc_scanner" where
  "pc_scan_loop [] acc s = (acc, s)"
| "pc_scan_loop (d # ds) acc s =
     (if pc_is_marspro_device d
      then pc_scan_loop ds (acc @ [pc_create_marspro_device d])
             (s\<lparr>pc_discovered := AList.update (adv_address d) (pc_create_marspro_device d) (pc_discovered s)\<rparr>)
      else pc_scan_loop ds acc s)"

definition pc_scan_for_devices :: "(exn + ble_adv list) \<Rightarrow> (pc_scanner, pc_device list) pyop" where
  "pc_scan_for_devices discover s =
     (case discover of
        Inl _ \<Rightarrow> (Inr [], s)
      | Inr devices \<Rightarrow> (case pc_scan_loop devices [] s of (found, s') \<Rightarrow> (Inr found, s')))"

definition pc_get_discovered_devices :: "pc_scanner \<Rightarrow> pc_device list" where
  "pc_get_discovered_devices s = map snd (pc_discovered s)"

section \<open>The example \<open>main\<close>\<close>

text \<open>What the example prints: that no device was found, or the device information and the sensor data read.\<close>

datatype pc_output = OutNoDevices | OutDevice "pc_device option" | OutSensorData "pc_sensor_data option"

text \<open>
  The module's example \<open>main\<close>: scan, take the first MarsPro device, connect to it,
  print its information and sensor data, set the UV channel to 50 and disconnect.
  The result is how \<open>main\<close> ends (an exception escapes \<open>asyncio.run\<close>), what it
  printed, and the client's final state.
\<close>

definition pc_main :: "bool \<Rightarrow> link_world \<Rightarrow> (exn + ble_adv list) \<Rightarrow> flt \<Rightarrow> (exn + unit) \<times> pc_output list \<times> pc_state option" where
  "pc_main bleak w discover now =
     (case pc_scanner_init bleak of Inl e \<Rightarrow> (Inl e, [], None) | Inr sc \<Rightarrow>
      (case pc_scan_for_devices discover sc of
         (Inl e, _) \<Rightarrow> (Inl e, [], None)
       | (Inr [], _) \<Rightarrow> (Inr (), [OutNoDevices], None)
       | (Inr (d # _), _) \<Rightarrow>
      (case pc_init bleak (pcd_address d) of Inl e \<Rightarrow> (Inl e, [], None) | Inr c0 \<Rightarrow>
      (case pc_connect w c0 of
         (Inl e, c1) \<Rightarrow> (Inl e, [], Some c1)
       | (Inr False, c1) \<Rightarrow> (Inr (), [], Some c1)
       | (Inr True, c1) \<Rightarrow>
      (case pc_read_device_info c1 of (Inl e, c2) \<Rightarrow> (Inl e, [], Some c2) | (Inr info, c2) \<Rightarrow>
      (case pc_read_sensor_data now c2 of (Inl e, c3) \<Rightarrow> (Inl e, [OutDevice info], Some c3) | (Inr sd, c3) \<Rightarrow>
      (case pc_control_light ''uv'' 50 None c3 of
         (Inl e, c4) \<Rightarrow> (Inl e, [OutDevice info, OutSensorData sd], Some c4)
       | (Inr _, c4) \<Rightarrow> (case pc_disconnect w c4 of (r, c5) \<Rightarrow> (r, [OutDevice info, OutSensorData sd], Some c5)))))))))"

section \<open>Correspondence with the standalone client\<close>

text \<open>The placeholder state a standalone client state corresponds to.\<close>

definition abs_pc :: "link_state \<Rightarrow> pc_state" where
  "abs_pc s = \<lparr>pc_address = device_address s, pc_client = client s, pc_device_info = None,
               pc_callback = data_callback s, pc_connected = connected s, pc_trace = link_trace s\<rparr>"

text \<open>An advertisement seen twice under one address, and one that is not a MarsPro device.\<close>

definition demo_advs :: "ble_adv list" where
  "demo_advs =
     [\<lparr>adv_address = ''AA'', adv_name = Some ''Mars A'', adv_rssi = -60\<rparr>,
      \<lparr>adv_address = ''BB'', adv_name = Some ''Phone'', adv_rssi = -70\<rparr>,
      \<lparr>adv_address = ''AA'', adv_name = Some ''MarsPro A'', adv_rssi = -50\<rparr>]"

section \<open>Lemmas\<close>

lemma pc_scan_loop_eq:
  "pc_scan_loop ds acc s =
     (acc @ map pc_create_marspro_device (filter pc_is_marspro_device ds),
      s\<lparr>pc_discovered := fold (\<lambda>d. AList.update (adv_address d) (pc_create_marspro_device d))
                              (filter pc_is_marspro_device ds) (pc_discovered s)\<rparr>)"
  by (induction ds acc s rule: pc_scan_loop.induct) simp_all

text \<open>
  A run of the example on a device that connects: it prints the first MarsPro
  device's information and the sensor data, and the client's whole exchange with
  the device is connect, service discovery and disconnect: the \<open>uv\<close> command the
  example sends is never written.
\<close>

lemma pc_main_run:
  assumes "filter pc_is_marspro_device ds = d # ds'" and "lw_connect w (adv_address d) = None"
    and "lw_services w (adv_address d) = Inr svcs" and "lw_disconnect w = None"
  shows "\<exists>info sd c. pc_main True w (Inr ds) now = (Inr (), [OutDevice (Some info), OutSensorData (Some sd)], Some c)
           \<and> pcd_address info = adv_address d \<and> pc_trace c = [LConnect (adv_address d), LGetServices, LDisconnect]
           \<and> \<not> pc_connected c"
  using assms
  by (simp add: pc_main_def pc_scanner_init_def pc_scan_for_devices_def pc_scan_loop_eq pc_init_def pc_connect_def
      pc_create_marspro_device_def catchE_def bindE_def modify_def pc_log_def Let_def pc_read_device_info_def
      pc_ready_def pc_read_sensor_data_def pc_control_light_def pc_send_command_def pc_disconnect_def) blast

lemma alist_eqI:
  "distinct (map fst a) \<Longrightarrow> map fst a = map fst b \<Longrightarrow> map_of a = map_of b \<Longrightarrow> a = b"
proof (induction a arbitrary: b)
  case Nil
  then show ?case by simp
next
  case (Cons p a)
  obtain k v where p: "p = (k, v)" by fastforce
  from Cons.prems(2) p obtain v' b' where b: "b = (k, v') # b'" and keys: "map fst a = map fst b'"
    by (cases b) auto
  from Cons.prems(3) p b have "v = v'" by (auto dest: fun_cong [of _ _ k])
  moreover have "map_of a = map_of b'"
  proof
    fix x
    show "map_of a x = map_of b' x"
    proof (cases "x = k")
      case True
      with Cons.prems(1) p keys show ?thesis
        by (metis (no_types, lifting) distinct.simps(2) list.simps(9) map_of_eq_None_iff fst_conv set_map)
    next
      case False
      with Cons.prems(3) p b show ?thesis by (auto dest: fun_cong [of _ _ x])
    qed
  qed
  ultimately show ?case using Cons.IH [of b'] Cons.prems(1) p b keys by simp
qed

lemma fold_update_map_of:
  "map_of (fold (\<lambda>d. AList.update (kf d) (vf d)) xs m) = fold (\<lambda>d f. f(kf d \<mapsto> vf d)) xs (map_of m)"
  by (induction xs arbitrary: m) (simp_all add: update_conv')

lemma fold_upd_add:
  "fold (\<lambda>d f. f(kf d \<mapsto> vf d)) xs f = f ++ fold (\<lambda>d f. f(kf d \<mapsto> vf d)) xs Map.empty"
proof (induction xs arbitrary: f)
  case Nil
  then show ?case by simp
next
  case (Cons x xs)
  let ?H = "\<lambda>xs f. fold (\<lambda>d f. f(kf d \<mapsto> vf d)) xs f"
  have "?H (x # xs) f = ?H xs (f(kf x \<mapsto> vf x))" by simp
  also have "\<dots> = f(kf x \<mapsto> vf x) ++ ?H xs Map.empty" by (rule Cons.IH)
  also have "\<dots> = (f ++ [kf x \<mapsto> vf x]) ++ ?H xs Map.empty" by simp
  also have "\<dots> = f ++ ([kf x \<mapsto> vf x] ++ ?H xs Map.empty)" by (simp only: map_add_assoc)
  also have "[kf x \<mapsto> vf x] ++ ?H xs Map.empty = ?H xs [kf x \<mapsto> vf x]" by (rule Cons.IH [symmetric])
  also have "?H xs [kf x \<mapsto> vf x] = ?H (x # xs) Map.empty" by simp
  finally show ?case .
qed

lemma map_add_self: "m ++ m = m"
  by (rule ext) (simp add: map_add_def split: option.split)

lemma fold_update_keys_in:
  "\<forall>d \<in> set xs. kf d \<in> fst ` set m \<Longrightarrow>
     map fst (fold (\<lambda>d. AList.update (kf d) (vf d)) xs m) = map fst m"
proof (induction xs arbitrary: m)
  case Nil
  then show ?case by simp
next
  case (Cons x xs)
  have "map fst (AList.update (kf x) (vf x) m) = map fst m"
    using Cons.prems by (simp add: update_keys)
  moreover have "\<forall>d \<in> set xs. kf d \<in> fst ` set (AList.update (kf x) (vf x) m)"
    using Cons.prems by (auto simp: dom_update)
  ultimately show ?case using Cons.IH by simp
qed

lemma fold_update_dom:
  "fst ` set (fold (\<lambda>d. AList.update (kf d) (vf d)) xs m) = kf ` set xs \<union> fst ` set m"
  by (induction xs arbitrary: m) (auto simp: dom_update)

lemma fold_update_distinct:
  "distinct (map fst m) \<Longrightarrow> distinct (map fst (fold (\<lambda>d. AList.update (kf d) (vf d)) xs m))"
  by (induction xs arbitrary: m) (simp_all add: distinct_update)

lemma fold_update_idem:
  assumes "distinct (map fst m)"
  shows "fold (\<lambda>d. AList.update (kf d) (vf d)) xs (fold (\<lambda>d. AList.update (kf d) (vf d)) xs m)
           = fold (\<lambda>d. AList.update (kf d) (vf d)) xs m" (is "?U (?U m) = ?U m")
proof (rule alist_eqI)
  show "distinct (map fst (?U (?U m)))" using assms by (simp add: fold_update_distinct)
  show "map fst (?U (?U m)) = map fst (?U m)"
    by (rule fold_update_keys_in) (simp add: fold_update_dom)
  show "map_of (?U (?U m)) = map_of (?U m)"
  proof -
    let ?E = "fold (\<lambda>d f. f(kf d \<mapsto> vf d)) xs Map.empty"
    have "map_of (?U (?U m)) = (map_of m ++ ?E) ++ ?E"
      by (simp only: fold_update_map_of fold_upd_add [of kf vf xs "map_of m"]
          fold_upd_add [of kf vf xs "map_of m ++ ?E"])
    also have "\<dots> = map_of m ++ ?E" by (simp only: map_add_assoc [symmetric] map_add_self)
    also have "\<dots> = map_of (?U m)" by (simp only: fold_update_map_of fold_upd_add [of kf vf xs "map_of m"])
    finally show ?thesis .
  qed
qed

section \<open>Properties of the placeholder client\<close>

text \<open>
  C18: The placeholder client is the standalone client with the characteristic tables
  forgotten: under the projection \<open>abs_pc\<close>, its \<open>connect\<close> and \<open>disconnect\<close> make the
  same requests (connect, service discovery, disconnect) and the same state changes
  on every outcome of the transport, errors included, and its ready test
  (\<open>is_connected\<close>) is the same.
\<close>

theorem pc_lifecycle_refines:
  "pc_connect w (abs_pc s) = map_prod id abs_pc (connect w s)
   \<and> pc_disconnect w (abs_pc s) = map_prod id abs_pc (disconnect_link w s)
   \<and> pc_ready (abs_pc s) = link_ready s"
proof (intro conjI)
  show "pc_connect w (abs_pc s) = map_prod id abs_pc (connect w s)"
    by (simp add: pc_connect_def connect_def link_io_defs pc_log_def abs_pc_def pyop_simps
        store_services_eq Let_def split: option.splits sum.splits)
  show "pc_disconnect w (abs_pc s) = map_prod id abs_pc (disconnect_link w s)"
    by (simp add: pc_disconnect_def disconnect_link_def link_io_defs pc_log_def abs_pc_def pyop_simps
        Let_def split: option.splits)
  show "pc_ready (abs_pc s) = link_ready s"
    by (simp add: pc_ready_def link_ready_def abs_pc_def)
qed

text \<open>
  Unlike the standalone client, the placeholder's \<open>send_command\<close> (and so each
  control method) issues no request at all: it reports success in exactly the ready
  states and leaves the state, request log included, unchanged.
\<close>

lemma pc_send_command_no_request:
  "pc_send_command c d s = (Inr (pc_ready s), s)"
  by (simp add: pc_send_command_def)

text \<open>
  The placeholder scanner's table is keyed by address: scanning the same
  neighbourhood again leaves it unchanged, and an address advertised twice in one
  scan has one entry.
\<close>

theorem pc_scan_table_idempotent:
  assumes "distinct (map fst (pc_discovered s))"
  shows "pc_discovered (snd (pc_scan_for_devices (Inr devs) (snd (pc_scan_for_devices (Inr devs) s))))
           = pc_discovered (snd (pc_scan_for_devices (Inr devs) s))"
  using fold_update_idem [OF assms, of adv_address pc_create_marspro_device "filter pc_is_marspro_device devs"]
  by (simp add: pc_scan_for_devices_def pc_scan_loop_eq)

theorem pc_scan_table_idempotent_witness:
  "distinct (map fst (pc_discovered \<lparr>pc_discovered = []\<rparr>))
   \<and> pc_discovered (snd (pc_scan_for_devices (Inr demo_advs) (snd (pc_scan_for_devices (Inr demo_advs) \<lparr>pc_discovered = []\<rparr>))))
       = pc_discovered (snd (pc_scan_for_devices (Inr demo_advs) \<lparr>pc_discovered = []\<rparr>))
   \<and> map fst (pc_discovered (snd (pc_scan_for_devices (Inr demo_advs) \<lparr>pc_discovered = []\<rparr>))) = [''AA'']"
proof -
  have d: "distinct (map fst (pc_discovered \<lparr>pc_discovered = []\<rparr>))" by simp
  have k: "map fst (pc_discovered (snd (pc_scan_for_devices (Inr demo_advs) \<lparr>pc_discovered = []\<rparr>))) = [''AA'']"
    by (simp add: pc_scan_for_devices_def pc_scan_loop_eq demo_advs_def pc_is_marspro_device_def
        py_lower_eval pc_create_marspro_device_def)
  show ?thesis using d k pc_scan_table_idempotent [OF d, of demo_advs] by blast
qed

text \<open>
  The two clients' name tests agree on every advertisement: the placeholder's
  explicit test for a missing or empty name is the standalone's \<open>device.name or ""\<close>.
\<close>

theorem pc_is_marspro_same:
  "pc_is_marspro_device d = is_marspro_device d"
  by (auto simp: pc_is_marspro_device_def is_marspro_device_def py_or_str_def py_lower_def Let_def
      split: option.splits)

end
