(* ===== verification/Json.thy ===== *)
theory Json
  imports Prelude
begin

text \<open>
  JSON text as Python's \<open>json\<close> module writes it, shared by the Review Gate
  server (\<open>json.dumps\<close> of every response) and \<open>setup_github_mcp.py\<close>
  (\<open>json.dump(indent=2)\<close> of its configurations).  A string of the model is
  the UTF-8 encoding of the Python \<open>str\<close>; with the default
  \<open>ensure_ascii=True\<close> every code point outside \<open>' '..'~'\<close> is written as
  a \<open>\u\<close> escape, one above \<open>0xFFFF\<close> as a surrogate pair.  The lemmas show
  that such text is printable ASCII: it contains no line break.
\<close>

section \<open>Code points and escapes\<close>

text \<open>UTF-8 decoding of a string into its code points (the model's strings are well-formed; a stray byte reads as U+FFFD).\<close>

fun utf8_decode :: "nat list \<Rightarrow> nat list" where
  "utf8_decode [] = []"
| "utf8_decode (b # bs) =
     (if b < 0x80 then b # utf8_decode bs
      else if 0xC0 \<le> b \<and> b < 0xE0 \<and> bs \<noteq> [] then
        ((b - 0xC0) * 0x40 + (hd bs - 0x80)) # utf8_decode (tl bs)
      else if 0xE0 \<le> b \<and> b < 0xF0 \<and> 2 \<le> length bs then
        ((b - 0xE0) * 0x1000 + (bs ! 0 - 0x80) * 0x40 + (bs ! 1 - 0x80)) # utf8_decode (drop 2 bs)
      else if 0xF0 \<le> b \<and> b < 0xF8 \<and> 3 \<le> length bs then
        ((b - 0xF0) * 0x40000 + (bs ! 0 - 0x80) * 0x1000 + (bs ! 1 - 0x80) * 0x40 + (bs ! 2 - 0x80))
          # utf8_decode (drop 3 bs)
      else 0xFFFD # utf8_decode bs)"

definition code_points :: "string \<Rightarrow> nat list" where
  "code_points s = utf8_decode (map of_char s)"

definition json_hex_digit :: "nat \<Rightarrow> char" where
  "json_hex_digit d = (if d < 10 then char_of (48 + d) else char_of (87 + d))"

definition hex4 :: "nat \<Rightarrow> string" where
  "hex4 n = [json_hex_digit (n div 4096 mod 16), json_hex_digit (n div 256 mod 16), json_hex_digit (n div 16 mod 16), json_hex_digit (n mod 16)]"

text \<open>One code point as \<open>py_encode_basestring_ascii\<close> writes it.\<close>

definition json_escape_cp :: "nat \<Rightarrow> string" where
  "json_escape_cp n =
     (if n = 0x5C then BSL @ BSL
      else if n = 0x22 then BSL @ DQ
      else if n = 0x08 then BSL @ ''b''
      else if n = 0x0C then BSL @ ''f''
      else if n = 0x0A then BSL @ ''n''
      else if n = 0x0D then BSL @ ''r''
      else if n = 0x09 then BSL @ ''t''
      else if 0x20 \<le> n \<and> n \<le> 0x7E then [char_of n]
      else if n < 0x10000 then BSL @ ''u'' @ hex4 n
      else BSL @ ''u'' @ hex4 (0xD800 + (n - 0x10000) div 0x400) @ BSL @ ''u'' @ hex4 (0xDC00 + (n - 0x10000) mod 0x400))"

definition json_quote :: "string \<Rightarrow> string" where
  "json_quote s = DQ @ concat (map json_escape_cp (code_points s)) @ DQ"

text \<open>\<open>sep.join(xs)\<close>.\<close>

fun join_str :: "string \<Rightarrow> string list \<Rightarrow> string" where
  "join_str sep [] = []"
| "join_str sep [x] = x"
| "join_str sep (x # y # zs) = x @ sep @ join_str sep (y # zs)"

section \<open>json.dumps\<close>

text \<open>
  \<open>str(i)\<close> of an integer, which since Python 3.11 refuses more than 4300
  digits (\<open>json.dumps\<close> and \<open>json.loads\<close> alike).
\<close>

definition int_digits_ok :: "int \<Rightarrow> bool" where
  "int_digits_ok i = (length (nat_str (nat \<bar>i\<bar>)) \<le> 4300)"

definition int_limit_error :: exn where
  "int_limit_error = ValueError ''Exceeds the limit (4300 digits) for integer string conversion''"

text \<open>A dictionary key: strings as they are, the other scalars as their JSON text, quoted.\<close>

fun json_key :: "(flt \<Rightarrow> string) \<Rightarrow> pyval \<Rightarrow> exn + string" where
  "json_key fr (PStr s) = Inr (json_quote s)"
| "json_key fr (PInt i) = (if int_digits_ok i then Inr (json_quote (int_str i)) else Inl int_limit_error)"
| "json_key fr (PBool b) = Inr (json_quote (if b then ''true'' else ''false''))"
| "json_key fr PNone = Inr (json_quote ''null'')"
| "json_key fr (PFloat f) = Inr (json_quote (fr f))"
| "json_key fr (PList _) = Inl (TypeError ''keys must be str, int, float, bool or None, not list'')"
| "json_key fr (PDict _) = Inl (TypeError ''keys must be str, int, float, bool or None, not dict'')"

text \<open>
  \<open>json.dumps(v)\<close> with the default separators \<open>", "\<close> and \<open>": "\<close>; a
  float is written as \<open>fr\<close> gives its \<open>float.__repr__\<close> (left to Python).
  Each key is converted before its value is encoded.
\<close>

fun py_json :: "(flt \<Rightarrow> string) \<Rightarrow> pyval \<Rightarrow> exn + string"
and py_json_list :: "(flt \<Rightarrow> string) \<Rightarrow> pyval list \<Rightarrow> exn + string list"
and py_json_items :: "(flt \<Rightarrow> string) \<Rightarrow> (pyval \<times> pyval) list \<Rightarrow> exn + string list" where
  "py_json fr PNone = Inr ''null''"
| "py_json fr (PBool b) = Inr (if b then ''true'' else ''false'')"
| "py_json fr (PInt i) = (if int_digits_ok i then Inr (int_str i) else Inl int_limit_error)"
| "py_json fr (PFloat f) = Inr (fr f)"
| "py_json fr (PStr s) = Inr (json_quote s)"
| "py_json fr (PList vs) =
     (case py_json_list fr vs of Inl e \<Rightarrow> Inl e | Inr xs \<Rightarrow> Inr (''['' @ join_str '', '' xs @ '']''))"
| "py_json fr (PDict kvs) =
     (case py_json_items fr kvs of Inl e \<Rightarrow> Inl e | Inr xs \<Rightarrow> Inr (''{'' @ join_str '', '' xs @ ''}''))"
| "py_json_list fr [] = Inr []"
| "py_json_list fr (v # vs) =
     (case py_json fr v of Inl e \<Rightarrow> Inl e
      | Inr x \<Rightarrow> (case py_json_list fr vs of Inl e \<Rightarrow> Inl e | Inr xs \<Rightarrow> Inr (x # xs)))"
| "py_json_items fr [] = Inr []"
| "py_json_items fr (kv # kvs) =
     (case json_key fr (fst kv) of Inl e \<Rightarrow> Inl e
      | Inr k \<Rightarrow> (case py_json fr (snd kv) of Inl e \<Rightarrow> Inl e
      | Inr x \<Rightarrow> (case py_json_items fr kvs of Inl e \<Rightarrow> Inl e | Inr xs \<Rightarrow> Inr ((k @ '': '' @ x) # xs))))"

text \<open>
  The values \<open>json.loads\<close> returns: dictionaries keyed by strings, integers
  within the digit limit, and any strings, floats, lists of such values.
\<close>

fun py_is_str :: "pyval \<Rightarrow> bool" where
  "py_is_str (PStr _) = True"
| "py_is_str _ = False"

fun json_loaded :: "pyval \<Rightarrow> bool" where
  "json_loaded (PInt i) = int_digits_ok i"
| "json_loaded (PList vs) = (\<forall>v \<in> set vs. json_loaded v)"
| "json_loaded (PDict kvs) = (\<forall>kv \<in> set kvs. py_is_str (fst kv) \<and> json_loaded (snd kv))"
| "json_loaded _ = True"

section \<open>Character classes\<close>

definition ascii_chars :: "char set" where
  "ascii_chars = {c. of_char c < (128::nat)}"

text \<open>The printable ASCII characters, \<open>' '..'~'\<close>: no line break among them.\<close>

definition printable_chars :: "char set" where
  "printable_chars = {c. 32 \<le> (of_char c :: nat) \<and> of_char c < (127::nat)}"

definition fr_ok :: "(flt \<Rightarrow> string) \<Rightarrow> bool" where
  "fr_ok fr \<longleftrightarrow> (\<forall>f. set (fr f) \<subseteq> printable_chars)"


section \<open>Lemmas\<close>

lemma printable_ascii: "printable_chars \<subseteq> ascii_chars"
  by (auto simp: printable_chars_def ascii_chars_def)

lemma newline_not_printable: "CHR 0x0A \<notin> printable_chars"
  by (simp add: printable_chars_def)

lemma join_str_subset:
  "(\<And>x. x \<in> set xs \<Longrightarrow> set x \<subseteq> A) \<Longrightarrow> set sep \<subseteq> A \<Longrightarrow> set (join_str sep xs) \<subseteq> A"
  by (induction sep xs rule: join_str.induct) auto

lemma digit_printable: "n < 10 \<Longrightarrow> ''0123456789'' ! n \<in> printable_chars"
  by (auto simp: printable_chars_def less_Suc_eq numeral_eq_Suc)

lemma nat_str_printable: "set (nat_str n) \<subseteq> printable_chars"
  by (induction n rule: nat_str.induct) (simp add: nat_str.simps digit_printable)

lemma int_str_printable: "set (int_str i) \<subseteq> printable_chars"
  using nat_str_printable by (simp add: int_str_def printable_chars_def)

lemma json_hex_digit_printable: "d < 16 \<Longrightarrow> json_hex_digit d \<in> printable_chars"
  by (simp add: json_hex_digit_def printable_chars_def)

lemma hex4_printable: "set (hex4 n) \<subseteq> printable_chars"
  by (simp add: hex4_def json_hex_digit_printable)

lemma json_escape_cp_printable: "set (json_escape_cp n) \<subseteq> printable_chars"
  using hex4_printable [of n] hex4_printable [of "0xD800 + (n - 0x10000) div 0x400"]
    hex4_printable [of "0xDC00 + (n - 0x10000) mod 0x400"]
  by (auto simp: json_escape_cp_def printable_chars_def)

lemma json_quote_printable: "set (json_quote s) \<subseteq> printable_chars"
  using json_escape_cp_printable by (fastforce simp: json_quote_def printable_chars_def)

lemma int_str_ascii: "set (int_str i) \<subseteq> ascii_chars"
  using int_str_printable printable_ascii by blast

lemma json_quote_ascii: "set (json_quote s) \<subseteq> ascii_chars"
  using json_quote_printable printable_ascii by blast

lemma json_key_quoted: "json_key fr k = Inr s \<Longrightarrow> \<exists>t. s = json_quote t"
  by (cases k) (auto split: if_splits)

lemma json_key_printable: "json_key fr k = Inr s \<Longrightarrow> set s \<subseteq> printable_chars"
  using json_key_quoted json_quote_printable by blast

lemma json_punct_printable:
  "set '', '' \<subseteq> printable_chars" "set '': '' \<subseteq> printable_chars" "set ''null'' \<subseteq> printable_chars"
  "set ''true'' \<subseteq> printable_chars" "set ''false'' \<subseteq> printable_chars"
  "CHR ''['' \<in> printable_chars" "CHR '']'' \<in> printable_chars" "CHR ''{'' \<in> printable_chars" "CHR ''}'' \<in> printable_chars"
  "CHR ''n'' \<in> printable_chars" "CHR ''u'' \<in> printable_chars" "CHR ''l'' \<in> printable_chars"
  "CHR ''t'' \<in> printable_chars" "CHR ''r'' \<in> printable_chars" "CHR ''e'' \<in> printable_chars"
  "CHR ''f'' \<in> printable_chars" "CHR ''a'' \<in> printable_chars" "CHR ''s'' \<in> printable_chars"
  by (simp_all add: printable_chars_def)

text \<open>Whatever \<open>json.dumps\<close> writes is printable ASCII, given that float reprs are.\<close>

lemma py_json_printable:
  shows "fr_ok fr \<Longrightarrow> py_json fr v = Inr s \<Longrightarrow> set s \<subseteq> printable_chars"
    and "fr_ok fr \<Longrightarrow> py_json_list fr vs = Inr xs \<Longrightarrow> x \<in> set xs \<Longrightarrow> set x \<subseteq> printable_chars"
    and "fr_ok fr \<Longrightarrow> py_json_items fr kvs = Inr xs \<Longrightarrow> x \<in> set xs \<Longrightarrow> set x \<subseteq> printable_chars"
proof (induction fr v and fr vs and fr kvs arbitrary: s and xs x and xs x rule: py_json_py_json_list_py_json_items.induct)
  case (6 fr vs)
  then obtain xs where xs: "py_json_list fr vs = Inr xs" and s: "s = ''['' @ join_str '', '' xs @ '']''"
    by (auto split: sum.splits)
  have "set (join_str '', '' xs) \<subseteq> printable_chars"
    by (rule join_str_subset) (use 6 xs json_punct_printable in auto)
  then show ?case by (simp add: s json_punct_printable)
next
  case (7 fr kvs)
  then obtain xs where xs: "py_json_items fr kvs = Inr xs" and s: "s = ''{'' @ join_str '', '' xs @ ''}''"
    by (auto split: sum.splits)
  have "set (join_str '', '' xs) \<subseteq> printable_chars"
    by (rule join_str_subset) (use 7 xs json_punct_printable in auto)
  then show ?case by (simp add: s json_punct_printable)
next
  case (9 fr v vs xs y)
  obtain x ys where x: "py_json fr v = Inr x" and ys: "py_json_list fr vs = Inr ys" and xs: "xs = x # ys"
    using "9.prems"(2) by (auto split: sum.splits)
  have "set x \<subseteq> printable_chars" using "9.IH"(1) [OF "9.prems"(1) x] .
  moreover have "z \<in> set ys \<Longrightarrow> set z \<subseteq> printable_chars" for z
    using "9.IH"(2) [OF x "9.prems"(1) ys] .
  ultimately show ?case using "9.prems"(3) xs by auto
next
  case (11 fr kv kvs xs y)
  obtain k x ys where k: "json_key fr (fst kv) = Inr k" and x: "py_json fr (snd kv) = Inr x"
      and ys: "py_json_items fr kvs = Inr ys" and xs: "xs = (k @ '': '' @ x) # ys"
    using "11.prems"(2) by (auto split: sum.splits)
  have "set (k @ '': '' @ x) \<subseteq> printable_chars"
    using json_key_printable [OF k] "11.IH"(1) [OF k "11.prems"(1) x] json_punct_printable(2) by simp
  moreover have "z \<in> set ys \<Longrightarrow> set z \<subseteq> printable_chars" for z
    using "11.IH"(2) [OF k x "11.prems"(1) ys] .
  ultimately show ?case using "11.prems"(3) xs by auto
qed (auto simp: fr_ok_def json_punct_printable split: sum.splits if_splits
         dest: json_quote_printable [THEN subsetD] int_str_printable [THEN subsetD])

text \<open>\<open>json.dumps\<close> succeeds on every value \<open>json.loads\<close> returns.\<close>

lemma py_json_loaded:
  shows "json_loaded v \<Longrightarrow> \<exists>s. py_json fr v = Inr s"
    and "\<forall>v \<in> set vs. json_loaded v \<Longrightarrow> \<exists>xs. py_json_list fr vs = Inr xs"
    and "\<forall>kv \<in> set kvs. py_is_str (fst kv) \<and> json_loaded (snd kv) \<Longrightarrow> \<exists>xs. py_json_items fr kvs = Inr xs"
proof (induction fr v and fr vs and fr kvs rule: py_json_py_json_list_py_json_items.induct)
  case (11 fr kv kvs)
  then obtain k where k: "fst kv = PStr k" by (cases "fst kv") auto
  obtain x where x: "py_json fr (snd kv) = Inr x" using 11 k by auto
  have "\<exists>xs. py_json_items fr kvs = Inr xs" using 11(2) [of "json_quote k" x] 11(3) k x by simp
  then show ?case using k x by auto
qed (auto split: sum.splits)

text \<open>So \<open>json.dumps\<close> of a loaded value is one line of printable text.\<close>

lemma py_json_line:
  "fr_ok fr \<Longrightarrow> json_loaded v \<Longrightarrow> \<exists>s. py_json fr v = Inr s \<and> set s \<subseteq> printable_chars"
  using py_json_loaded(1) py_json_printable(1) by blast

lemma dict_lookup_loaded: "json_loaded (PDict d) \<Longrightarrow> dict_lookup d k = Some v \<Longrightarrow> json_loaded v"
  by (induction d k rule: dict_lookup.induct) (auto split: if_splits)

lemma dict_get_or_loaded: "json_loaded (PDict d) \<Longrightarrow> json_loaded dflt \<Longrightarrow> json_loaded (dict_get_or d k dflt)"
  using dict_lookup_loaded [of d "KStr k"] by (auto simp: dict_get_or_def split: option.splits)

lemma py_get_loaded:
  assumes "json_loaded v" "json_loaded dflt" "py_get v a dflt = Inr x"
  shows "json_loaded x"
proof (cases v)
  case (PDict d)
  then show ?thesis using assms dict_lookup_loaded [of d] by (auto simp: py_dict_get_def split: option.splits)
qed (use assms in auto)

end
