(* ===== verification/ReviewGate.thy ===== *)
theory ReviewGate
  imports Json
begin

text \<open>
  The Review Gate MCP server of \<open>src/assets/review_gate/review_gate_v2_simple.py\<close>:
  \<open>SimpleReviewGateServer\<close>, a JSON-RPC server over standard input and output, and
  its \<open>main\<close> loop.  A request is the JSON value of one input line (\<open>pyval\<close>); a
  response is the datatype \<open>rpc_response\<close>, one constructor per shape of response
  dictionary the code builds, and \<open>rpc_value\<close> is that dictionary; the line
  written for it is \<open>json.dumps\<close> of it (\<open>Json.py_json\<close>) and a newline.  The
  server's effects are the trigger files it writes, kept in \<open>rg_state\<close> as a map
  from path to JSON object, and its standard output: the responses and the text
  written for them.  How Python renders an f-string field (\<open>str\<close> of a value) is
  the parameter \<open>txt\<close>, the \<open>repr\<close> of a float the parameter \<open>fr\<close>.  The temporary directory and whether a file can be written are
  the world \<open>rg_world\<close>; each request is handled at a clock reading
  (\<open>rg_clock\<close>: \<open>int(datetime.now().timestamp())\<close> and \<open>datetime.now().isoformat()\<close>).
\<close>

section \<open>State, world, messages\<close>

record rg_world =
  temp_dir :: string
  can_write :: "string \<Rightarrow> bool"

type_synonym rg_clock = "int \<times> string"

datatype rpc_result =
    InitializeResult
  | ToolsListResult
  | ToolText "fpart list"

datatype rpc_response =
    RpcResult pyval rpc_result
  | RpcError pyval int "fpart list"

record rg_state =
  trigger_files :: "string \<rightharpoonup> pydict"
  stdout_lines :: "rpc_response list"
  stdout_text :: string

text \<open>The tool table of \<open>__init__\<close>: the names of the two tools it advertises.\<close>

definition TOOL_NAMES :: "string list" where
  "TOOL_NAMES = [''review_gate_chat'', ''quick_input'']"

text \<open>The apostrophe the response texts quote their argument with.\<close>

abbreviation QUOTE :: char where
  "QUOTE \<equiv> CHR 0x27"

text \<open>
  \<open>self.tools\<close>, the table \<open>tools/list\<close> returns: each tool's name,
  description and the JSON schema of its arguments.
\<close>

definition tools_table :: pyval where
  "tools_table = PList
     [PDict [(PStr ''name'', PStr ''review_gate_chat''),
             (PStr ''description'', PStr ''Open Review Gate chat popup for user feedback and reviews. Returns user input after popup interaction.''),
             (PStr ''inputSchema'', PDict [(PStr ''type'', PStr ''object''),
               (PStr ''properties'', PDict
                 [(PStr ''message'', PDict [(PStr ''type'', PStr ''string''),
                    (PStr ''description'', PStr ''The message to display in the Review Gate popup''),
                    (PStr ''default'', PStr ''Please provide your review or feedback:'')]),
                  (PStr ''title'', PDict [(PStr ''type'', PStr ''string''),
                    (PStr ''description'', PStr ''Title for the Review Gate popup window''),
                    (PStr ''default'', PStr ''Review Gate V2'')]),
                  (PStr ''context'', PDict [(PStr ''type'', PStr ''string''),
                    (PStr ''description'', PStr ''Additional context about what needs review''),
                    (PStr ''default'', PStr [])]),
                  (PStr ''urgent'', PDict [(PStr ''type'', PStr ''boolean''),
                    (PStr ''description'', PStr ''Whether this is an urgent review request''),
                    (PStr ''default'', PBool False)])]),
               (PStr ''required'', PList [PStr ''message''])])],
      PDict [(PStr ''name'', PStr ''quick_input''),
             (PStr ''description'', PStr ''Get quick user input for simple questions or confirmations''),
             (PStr ''inputSchema'', PDict [(PStr ''type'', PStr ''object''),
               (PStr ''properties'', PDict
                 [(PStr ''prompt'', PDict [(PStr ''type'', PStr ''string''),
                    (PStr ''description'', PStr ''The prompt/question to ask the user''),
                    (PStr ''default'', PStr ''Please provide input:'')]),
                  (PStr ''timeout'', PDict [(PStr ''type'', PStr ''integer''),
                    (PStr ''description'', PStr ''Timeout in seconds (default: 300)''),
                    (PStr ''default'', PInt 300)])]),
               (PStr ''required'', PList [PStr ''prompt''])])]]"

section \<open>Trigger files\<close>

definition trigger_path :: "rg_world \<Rightarrow> string \<Rightarrow> string" where
  "trigger_path w trigger_id = path_join (temp_dir w) (''review_gate_'' @ trigger_id @ ''.json'')"

text \<open>
  \<open>write_trigger_file\<close>: the JSON object is written to the path, which then holds it
  (an earlier file of the same name is overwritten); a failure is logged and gives
  the empty path.
\<close>

definition write_trigger_file :: "rg_world \<Rightarrow> string \<Rightarrow> pydict \<Rightarrow> rg_state \<Rightarrow> string \<times> rg_state" where
  "write_trigger_file w trigger_id d st =
     (let p = trigger_path w trigger_id
      in if can_write w p then (p, st\<lparr>trigger_files := (trigger_files st)(p \<mapsto> d)\<rparr>) else ('''', st))"

section \<open>Tools\<close>

definition handle_review_gate_chat :: "rg_world \<Rightarrow> rg_clock \<Rightarrow> pyval \<Rightarrow> (rg_state, fpart list) pyop" where
  "handle_review_gate_chat w c arguments st =
     (case py_get arguments (PStr ''message'') (PStr ''Please provide your review or feedback:'') of
        Inl e \<Rightarrow> (Inl e, st)
      | Inr message \<Rightarrow>
     (case py_get arguments (PStr ''title'') (PStr ''Review Gate V2'') of
        Inl e \<Rightarrow> (Inl e, st)
      | Inr title \<Rightarrow>
     (case py_get arguments (PStr ''context'') (PStr '''') of
        Inl e \<Rightarrow> (Inl e, st)
      | Inr context \<Rightarrow>
     (case py_get arguments (PStr ''urgent'') (PBool False) of
        Inl e \<Rightarrow> (Inl e, st)
      | Inr urgent \<Rightarrow>
          (let trigger_id = ''review_gate_'' @ int_str (fst c);
               trigger_data =
                 [(PStr ''trigger_id'', PStr trigger_id), (PStr ''type'', PStr ''review_gate_chat''),
                  (PStr ''title'', title), (PStr ''message'', message), (PStr ''context'', context),
                  (PStr ''urgent'', urgent), (PStr ''timestamp'', PStr (snd c))];
               st' = snd (write_trigger_file w trigger_id trigger_data st)
           in (Inr [FLit (''Review Gate popup opened with message: '' @ [QUOTE]), FVal message,
                    FLit (QUOTE # ''. User response would be captured here in actual usage.'')], st'))))))"

definition handle_quick_input :: "rg_world \<Rightarrow> rg_clock \<Rightarrow> pyval \<Rightarrow> (rg_state, fpart list) pyop" where
  "handle_quick_input w c arguments st =
     (case py_get arguments (PStr ''prompt'') (PStr ''Please provide input:'') of
        Inl e \<Rightarrow> (Inl e, st)
      | Inr prompt \<Rightarrow>
     (case py_get arguments (PStr ''timeout'') (PInt 300) of
        Inl e \<Rightarrow> (Inl e, st)
      | Inr timeout \<Rightarrow>
          (let trigger_id = ''quick_input_'' @ int_str (fst c);
               trigger_data =
                 [(PStr ''trigger_id'', PStr trigger_id), (PStr ''type'', PStr ''quick_input''),
                  (PStr ''prompt'', prompt), (PStr ''timeout'', timeout), (PStr ''timestamp'', PStr (snd c))];
               st' = snd (write_trigger_file w trigger_id trigger_data st)
           in (Inr [FLit (''Quick input popup opened with prompt: '' @ [QUOTE]), FVal prompt,
                    FLit (QUOTE # ''. User input would be captured here in actual usage.'')], st'))))"

section \<open>Requests\<close>

text \<open>
  \<open>handle_request\<close>: \<open>request.get\<close> and \<open>params.get\<close> raise on a value that is not a
  dictionary, outside the \<open>try\<close>; an exception of a tool handler becomes an error
  response with code -1.  The text of an unknown tool's result is
  \<open>str({"error": ...})\<close>.
\<close>

definition handle_request :: "rg_world \<Rightarrow> rg_clock \<Rightarrow> pyval \<Rightarrow> (rg_state, rpc_response) pyop" where
  "handle_request w c request st =
     (case py_get request (PStr ''method'') PNone of
        Inl e \<Rightarrow> (Inl e, st)
      | Inr method \<Rightarrow>
     (case py_get request (PStr ''params'') (PDict []) of
        Inl e \<Rightarrow> (Inl e, st)
      | Inr params \<Rightarrow>
     (case py_get request (PStr ''id'') PNone of
        Inl e \<Rightarrow> (Inl e, st)
      | Inr request_id \<Rightarrow>
          (if method = PStr ''initialize'' then (Inr (RpcResult request_id InitializeResult), st)
           else if method = PStr ''tools/list'' then (Inr (RpcResult request_id ToolsListResult), st)
           else if method = PStr ''tools/call'' then
             (case py_get params (PStr ''name'') PNone of
                Inl e \<Rightarrow> (Inl e, st)
              | Inr tool_name \<Rightarrow>
             (case py_get params (PStr ''arguments'') (PDict []) of
                Inl e \<Rightarrow> (Inl e, st)
              | Inr arguments \<Rightarrow>
                  (let r = (if tool_name = PStr ''review_gate_chat'' then handle_review_gate_chat w c arguments st
                            else if tool_name = PStr ''quick_input'' then handle_quick_input w c arguments st
                            else (Inr [FLit ''{'', FRepr [FLit ''error''], FLit '': '',
                                       FRepr [FLit ''Unknown tool: '', FVal tool_name], FLit ''}''], st))
                   in case r of
                        (Inl e, st') \<Rightarrow> (Inr (RpcError request_id (-1) [FLit (exn_msg e)]), st')
                      | (Inr text, st') \<Rightarrow> (Inr (RpcResult request_id (ToolText text)), st'))))
           else (Inr (RpcError request_id (-32601) [FLit ''Method not found: '', FVal method]), st)))))"

section \<open>Responses as JSON\<close>

text \<open>The \<open>"result"\<close> dictionaries of the three successful responses.\<close>

fun rpc_result_value :: "(fpart list \<Rightarrow> string) \<Rightarrow> rpc_result \<Rightarrow> pyval" where
  "rpc_result_value txt InitializeResult =
     PDict [(PStr ''protocolVersion'', PStr ''2024-11-05''),
            (PStr ''capabilities'', PDict [(PStr ''tools'', PDict [])]),
            (PStr ''serverInfo'', PDict [(PStr ''name'', PStr ''review-gate-v2-simple''), (PStr ''version'', PStr ''2.0.0'')])]"
| "rpc_result_value txt ToolsListResult = PDict [(PStr ''tools'', tools_table)]"
| "rpc_result_value txt (ToolText t) =
     PDict [(PStr ''content'', PList [PDict [(PStr ''type'', PStr ''text''), (PStr ''text'', PStr (txt t))]])]"

text \<open>The response dictionary \<open>handle_request\<close> returns.\<close>

fun rpc_value :: "(fpart list \<Rightarrow> string) \<Rightarrow> rpc_response \<Rightarrow> pyval" where
  "rpc_value txt (RpcResult i r) =
     PDict [(PStr ''jsonrpc'', PStr ''2.0''), (PStr ''id'', i), (PStr ''result'', rpc_result_value txt r)]"
| "rpc_value txt (RpcError i code m) =
     PDict [(PStr ''jsonrpc'', PStr ''2.0''), (PStr ''id'', i),
            (PStr ''error'', PDict [(PStr ''code'', PInt code), (PStr ''message'', PStr (txt m))])]"

text \<open>
  \<open>sys.stdout.write(json.dumps(response) + '\n')\<close>: the line written, or the
  exception \<open>json.dumps\<close> raises.
\<close>

definition response_line :: "(flt \<Rightarrow> string) \<Rightarrow> (fpart list \<Rightarrow> string) \<Rightarrow> rpc_response \<Rightarrow> exn + string" where
  "response_line fr txt r = (case py_json fr (rpc_value txt r) of Inl e \<Rightarrow> Inl e | Inr s \<Rightarrow> Inr (s @ [CHR 0x0A]))"

definition write_response :: "rpc_response \<Rightarrow> string \<Rightarrow> rg_state \<Rightarrow> rg_state" where
  "write_response resp l st = st\<lparr>stdout_lines := stdout_lines st @ [resp], stdout_text := stdout_text st @ l\<rparr>"

section \<open>The server loop\<close>

text \<open>
  One line of standard input: the end of the input (\<open>readline\<close> returns the empty
  string), a line that is not JSON (a blank line included), or a JSON value.
\<close>

datatype jline = JEof | JInvalid | JValue pyval

text \<open>
  \<open>main\<close>: the \<open>while True\<close> loop over standard input, the \<open>i\<close>-th line read at its
  clock reading \<open>inp i\<close>.  Each JSON line is handled and its response written; the
  loop stops at the end of the input, at a line that is not JSON, and at an
  exception of \<open>handle_request\<close> (whose trigger file, if written, stays) or of
  \<open>json.dumps\<close> (nothing is written).  On an
  input that never ends and never fails the loop runs forever: the value \<open>None\<close>.
\<close>

partial_function (option) main_loop ::
  "(flt \<Rightarrow> string) \<Rightarrow> (fpart list \<Rightarrow> string) \<Rightarrow> rg_world \<Rightarrow> (nat \<Rightarrow> jline \<times> rg_clock) \<Rightarrow> nat \<Rightarrow> rg_state \<Rightarrow> rg_state option" where
  "main_loop fr txt w inp i st =
     (case inp i of
        (JEof, _) \<Rightarrow> Some st
      | (JInvalid, _) \<Rightarrow> Some st
      | (JValue v, c) \<Rightarrow>
          (case handle_request w c v st of
             (Inl _, st') \<Rightarrow> Some st'
           | (Inr resp, st') \<Rightarrow>
               (case response_line fr txt resp of
                  Inl _ \<Rightarrow> Some st'
                | Inr l \<Rightarrow> main_loop fr txt w inp (Suc i) (write_response resp l st'))))"

text \<open>The same loop over a finite session, the reference the properties use.\<close>

fun serve :: "(flt \<Rightarrow> string) \<Rightarrow> (fpart list \<Rightarrow> string) \<Rightarrow> rg_world \<Rightarrow> (jline \<times> rg_clock) list \<Rightarrow> rg_state \<Rightarrow> rg_state" where
  "serve fr txt w [] st = st"
| "serve fr txt w ((JEof, c) # ls) st = st"
| "serve fr txt w ((JInvalid, c) # ls) st = st"
| "serve fr txt w ((JValue v, c) # ls) st =
     (case handle_request w c v st of
        (Inl _, st') \<Rightarrow> st'
      | (Inr resp, st') \<Rightarrow>
          (case response_line fr txt resp of
             Inl _ \<Rightarrow> st'
           | Inr l \<Rightarrow> serve fr txt w ls (write_response resp l st')))"

definition session :: "(jline \<times> rg_clock) list \<Rightarrow> nat \<Rightarrow> jline \<times> rg_clock" where
  "session ls i = (if i < length ls then ls ! i else (JEof, (0, [])))"

definition rg_init :: rg_state where
  "rg_init = \<lparr>trigger_files = Map.empty, stdout_lines = [], stdout_text = []\<rparr>"

section \<open>Observations\<close>

text \<open>
  The id a response carries, the id of a request line, and the requests the server
  answers: JSON objects, as \<open>json.loads\<close> returns them, whose \<open>params\<close>,
  when present, is an object.  A world with a
  writable temporary directory.
\<close>

fun rpc_id :: "rpc_response \<Rightarrow> pyval" where
  "rpc_id (RpcResult i _) = i"
| "rpc_id (RpcError i _ _) = i"

fun req_id :: "jline \<Rightarrow> pyval" where
  "req_id (JValue (PDict r)) = dict_get_or r ''id'' PNone"
| "req_id _ = PNone"

fun req_ok :: "jline \<Rightarrow> bool" where
  "req_ok (JValue (PDict r)) =
     (json_loaded (PDict r) \<and> (case dict_get_or r ''params'' (PDict []) of PDict _ \<Rightarrow> True | _ \<Rightarrow> False))"
| "req_ok _ = False"

definition demo_rg_world :: rg_world where
  "demo_rg_world = \<lparr>temp_dir = ''/tmp'', can_write = (\<lambda>_. True)\<rparr>"

section \<open>Lemmas\<close>

lemma tools_table_loaded: "json_loaded tools_table"
  by (simp add: tools_table_def int_digits_ok_def nat_str.simps)

text \<open>Handling a request writes trigger files only, never to standard output.\<close>

lemma handle_request_output:
  "handle_request w c v st = (r, st') \<Longrightarrow> stdout_lines st' = stdout_lines st \<and> stdout_text st' = stdout_text st"
  by (auto simp: handle_request_def handle_review_gate_chat_def handle_quick_input_def
      write_trigger_file_def Let_def split: prod.splits sum.splits if_splits)

lemma handle_request_dict:
  assumes "dict_get_or r ''params'' (PDict []) = PDict p"
  shows "\<exists>resp st'. handle_request w c (PDict r) st = (Inr resp, st') \<and> rpc_id resp = dict_get_or r ''id'' PNone"
  using assms
  by (auto simp: handle_request_def Let_def split: prod.splits sum.splits)

text \<open>The response to a request \<open>json.loads\<close> returned is a dictionary \<open>json.dumps\<close> accepts.\<close>

lemma handle_request_loaded:
  assumes "json_loaded v" and "handle_request w c v st = (Inr resp, st')"
  shows "json_loaded (rpc_value txt resp)"
proof -
  obtain i where i: "py_get v (PStr ''id'') PNone = Inr i"
    using assms(2) by (auto simp: handle_request_def split: sum.splits)
  have "json_loaded i" using py_get_loaded [OF assms(1) _ i] by simp
  then show ?thesis
    using assms(2) i
    by (auto simp: handle_request_def tools_table_loaded int_digits_ok_def nat_str.simps Let_def
        split: prod.splits sum.splits if_splits)
qed

lemma response_line_loaded:
  assumes "json_loaded (rpc_value txt resp)"
  shows "\<exists>s. response_line fr txt resp = Inr (s @ [CHR 0x0A]) \<and> (fr_ok fr \<longrightarrow> set s \<subseteq> printable_chars)"
proof -
  obtain s where "py_json fr (rpc_value txt resp) = Inr s" using py_json_loaded(1) [OF assms] by blast
  then show ?thesis using py_json_printable(1) by (auto simp: response_line_def)
qed

text \<open>One step of the loop on a request the server answers: the response is written as one line.\<close>

lemma serve_req_step:
  assumes "req_ok (JValue v)"
  obtains resp st' s where "handle_request w c v st = (Inr resp, st')"
    and "response_line fr txt resp = Inr (s @ [CHR 0x0A])" and "fr_ok fr \<longrightarrow> set s \<subseteq> printable_chars"
    and "rpc_id resp = req_id (JValue v)" and "stdout_lines st' = stdout_lines st" and "stdout_text st' = stdout_text st"
proof -
  obtain r where v: "v = PDict r" and l: "json_loaded (PDict r)"
    using assms by (cases v) auto
  obtain p where p: "dict_get_or r ''params'' (PDict []) = PDict p"
    using assms v by (auto split: pyval.splits)
  obtain resp st' where h: "handle_request w c (PDict r) st = (Inr resp, st')"
    and i: "rpc_id resp = dict_get_or r ''id'' PNone"
    using handle_request_dict [OF p] by blast
  obtain s where "response_line fr txt resp = Inr (s @ [CHR 0x0A])" and "fr_ok fr \<longrightarrow> set s \<subseteq> printable_chars"
    using response_line_loaded [OF handle_request_loaded [OF l h]] by blast
  then show ?thesis using that h i v handle_request_output [OF h] by simp
qed

lemma main_loop_serve:
  "(\<forall>j < length ls. inp (k + j) = ls ! j) \<Longrightarrow> fst (inp (k + length ls)) = JEof \<Longrightarrow>
     main_loop fr txt w inp k st = Some (serve fr txt w ls st)"
proof (induction ls arbitrary: k st)
  case Nil
  then show ?case by (subst main_loop.simps) (auto split: prod.splits jline.splits)
next
  case (Cons x ls)
  obtain l c where x: "x = (l, c)" by (cases x) blast
  have i: "inp k = (l, c)" using Cons.prems(1) x by (metis add_0_right length_greater_0_conv list.distinct(1) nth_Cons_0)
  have rest: "\<forall>j < length ls. inp (Suc k + j) = ls ! j" using Cons.prems(1) by auto
  have eof: "fst (inp (Suc k + length ls)) = JEof" using Cons.prems(2) by simp
  show ?case
    by (subst main_loop.simps)
       (auto simp: i x Cons.IH [OF rest eof] split: prod.splits sum.splits jline.splits)
qed

text \<open>
  The loop does not end on its own: on an input stream that never closes and
  whose every line is an \<open>initialize\<close> request, \<open>main_loop\<close> has no
  result (the value \<open>None\<close> of the partial function).  Termination in
  \<open>main_loop_terminates\<close> comes from the input ending, not from the loop.
\<close>

lemma main_loop_runs_forever:
  assumes "\<And>i. \<exists>c. inp i = (JValue (PDict [(PStr ''method'', PStr ''initialize'')]), c)"
  shows "main_loop fr txt w inp i st = None"
proof (cases "main_loop fr txt w inp i st")
  case (Some r)
  have "inp = inp \<longrightarrow> False"
  proof (rule main_loop.raw_induct [where P = "\<lambda>fr' txt' w' inp' i' st' r. inp' = inp \<longrightarrow> False", OF _ Some])
    fix f :: "(flt \<Rightarrow> string) \<Rightarrow> (fpart list \<Rightarrow> string) \<Rightarrow> rg_world \<Rightarrow> (nat \<Rightarrow> jline \<times> rg_clock) \<Rightarrow> nat \<Rightarrow> rg_state \<Rightarrow> rg_state option"
    fix fr' txt' w' inp' i' st' r'
    assume ih: "\<And>a b c d e g y. f a b c d e g = Some y \<Longrightarrow> d = inp \<longrightarrow> False"
      and step: "(case inp' i' of
          (JValue v, x) \<Rightarrow> (case handle_request w' x v st' of (Inl x, st'') \<Rightarrow> Some st''
            | (Inr resp, st'') \<Rightarrow> (case response_line fr' txt' resp of Inl _ \<Rightarrow> Some st''
                | Inr l \<Rightarrow> f fr' txt' w' inp' (Suc i') (write_response resp l st'')))
          | (_, x) \<Rightarrow> Some st') = Some r'"
    show "inp' = inp \<longrightarrow> False"
    proof
      assume e: "inp' = inp"
      obtain c where c: "inp i' = (JValue (PDict [(PStr ''method'', PStr ''initialize'')]), c)" using assms by blast
      obtain l where l: "response_line fr' txt' (RpcResult PNone InitializeResult) = Inr l"
        using response_line_loaded [of txt' "RpcResult PNone InitializeResult" fr'] by auto
      have "\<exists>l'. f fr' txt' w' inp (Suc i') (write_response (RpcResult PNone InitializeResult) l' st') = Some r'"
        using step c e l
        by (auto simp: handle_request_def dict_get_or_def split: sum.splits)
      then show False using ih by blast
    qed
  qed
  then show ?thesis by simp
qed simp

section \<open>Properties of the server\<close>

text \<open>
  C27: The server loop ends on every finite session: run on the lines of a session
  followed by the end of the input, \<open>main\<close> returns, in the state the reference
  \<open>serve\<close> computes.
\<close>

theorem main_loop_terminates:
  "main_loop fr txt w (session ls) 0 st = Some (serve fr txt w ls st)"
  by (rule main_loop_serve) (auto simp: session_def)

text \<open>
  C26: The server answers every request of a session of JSON objects whose
  \<open>params\<close> are objects, in order and each with its request's id, and stops at the
  end of the input: an unknown method, an unknown tool and a tool whose arguments
  are not an object all get an error response rather than ending the loop.
\<close>

theorem serve_answers_all:
  "\<forall>x \<in> set ls. req_ok (fst x) \<Longrightarrow>
     map rpc_id (stdout_lines (serve fr txt w ls st)) = map rpc_id (stdout_lines st) @ map (req_id \<circ> fst) ls"
proof (induction ls arbitrary: st)
  case (Cons x ls)
  obtain v c where x: "x = (JValue v, c)" and ok: "req_ok (JValue v)"
    using Cons.prems by (cases x; cases "fst x" rule: req_ok.cases) auto
  obtain resp st' s where "handle_request w c v st = (Inr resp, st')" "response_line fr txt resp = Inr (s @ [CHR 0x0A])"
    "rpc_id resp = req_id (JValue v)" "stdout_lines st' = stdout_lines st"
    by (rule serve_req_step [OF ok])
  then show ?case using Cons x by (simp add: write_response_def)
qed simp

theorem serve_answers_all_witness:
  "list_all (req_ok \<circ> fst) [(JValue (PDict [(PStr ''method'', PStr ''initialize''), (PStr ''id'', PInt 1)]), (0, ''t0'')),
         (JValue (PDict [(PStr ''method'', PStr ''tools/call''), (PStr ''id'', PInt 2),
                         (PStr ''params'', PDict [(PStr ''name'', PStr ''nope'')])]), (0, ''t0''))]
   \<and> map rpc_id (stdout_lines (serve (\<lambda>_. ''0.5'') (\<lambda>_. ''t'') demo_rg_world
        [(JValue (PDict [(PStr ''method'', PStr ''initialize''), (PStr ''id'', PInt 1)]), (0, ''t0'')),
         (JValue (PDict [(PStr ''method'', PStr ''tools/call''), (PStr ''id'', PInt 2),
                         (PStr ''params'', PDict [(PStr ''name'', PStr ''nope'')])]), (0, ''t0''))] rg_init))
       = [PInt 1, PInt 2]"
  using serve_answers_all [of "[(JValue (PDict [(PStr ''method'', PStr ''initialize''), (PStr ''id'', PInt 1)]), (0, ''t0'')),
         (JValue (PDict [(PStr ''method'', PStr ''tools/call''), (PStr ''id'', PInt 2),
                         (PStr ''params'', PDict [(PStr ''name'', PStr ''nope'')])]), (0, ''t0''))]" "\<lambda>_. ''0.5''" "\<lambda>_. ''t''" demo_rg_world rg_init]
  by (simp add: rg_init_def dict_get_or_def int_digits_ok_def nat_str.simps)

text \<open>
  C29: The server speaks line-delimited JSON-RPC: on a session of requests it
  answers, with floats written as printable text, standard output receives
  exactly one line per request, each the printable ASCII text of
  \<open>json.dumps\<close> with no line break inside it, the escapes of
  \<open>ensure_ascii\<close> keeping the user's text on its line.
\<close>

theorem serve_writes_lines:
  assumes "fr_ok fr" and "\<forall>x \<in> set ls. req_ok (fst x)"
  shows "\<exists>outs. length outs = length ls \<and> (\<forall>l \<in> set outs. set l \<subseteq> printable_chars)
           \<and> stdout_text (serve fr txt w ls st) = stdout_text st @ concat (map (\<lambda>l. l @ [CHR 0x0A]) outs)"
  using assms(2)
proof (induction ls arbitrary: st)
  case (Cons x ls)
  obtain v c where x: "x = (JValue v, c)" and ok: "req_ok (JValue v)"
    using Cons.prems by (cases x; cases "fst x" rule: req_ok.cases) auto
  obtain resp st' s where h: "handle_request w c v st = (Inr resp, st')"
    and l: "response_line fr txt resp = Inr (s @ [CHR 0x0A])" and p0: "fr_ok fr \<longrightarrow> set s \<subseteq> printable_chars"
    and i: "rpc_id resp = req_id (JValue v)" and sl: "stdout_lines st' = stdout_lines st" and o: "stdout_text st' = stdout_text st"
    by (rule serve_req_step [OF ok, of w c st fr "txt"])
  have p: "set s \<subseteq> printable_chars" using p0 assms(1) by blast
  obtain outs where "length outs = length ls" "\<forall>l \<in> set outs. set l \<subseteq> printable_chars"
    "stdout_text (serve fr txt w ls (write_response resp (s @ [CHR 0x0A]) st')) =
       stdout_text (write_response resp (s @ [CHR 0x0A]) st') @ concat (map (\<lambda>l. l @ [CHR 0x0A]) outs)"
    using Cons.IH [of "write_response resp (s @ [CHR 0x0A]) st'"] Cons.prems by auto
  then show ?case using x h l p o by (intro exI [of _ "s # outs"]) (simp add: write_response_def)
qed simp

theorem serve_writes_lines_witness:
  "fr_ok (\<lambda>_. ''0.5'') \<and> list_all (req_ok \<circ> fst) [(JValue (PDict [(PStr ''method'', PStr ''initialize''), (PStr ''id'', PInt 1)]), (0, ''t0'')),
         (JValue (PDict [(PStr ''method'', PStr ''tools/call''), (PStr ''id'', PInt 2),
                         (PStr ''params'', PDict [(PStr ''name'', PStr ''nope'')])]), (0, ''t0''))]
   \<and> (\<exists>outs. length outs = 2 \<and> (\<forall>l \<in> set outs. set l \<subseteq> printable_chars)
        \<and> stdout_text (serve (\<lambda>_. ''0.5'') (\<lambda>_. ''t'') demo_rg_world
        [(JValue (PDict [(PStr ''method'', PStr ''initialize''), (PStr ''id'', PInt 1)]), (0, ''t0'')),
         (JValue (PDict [(PStr ''method'', PStr ''tools/call''), (PStr ''id'', PInt 2),
                         (PStr ''params'', PDict [(PStr ''name'', PStr ''nope'')])]), (0, ''t0''))] rg_init) = concat (map (\<lambda>l. l @ [CHR 0x0A]) outs))"
  using serve_writes_lines [of "\<lambda>_. ''0.5''" "[(JValue (PDict [(PStr ''method'', PStr ''initialize''), (PStr ''id'', PInt 1)]), (0, ''t0'')),
         (JValue (PDict [(PStr ''method'', PStr ''tools/call''), (PStr ''id'', PInt 2),
                         (PStr ''params'', PDict [(PStr ''name'', PStr ''nope'')])]), (0, ''t0''))]" "\<lambda>_. ''t''" demo_rg_world rg_init]
  by (simp add: rg_init_def dict_get_or_def int_digits_ok_def nat_str.simps fr_ok_def printable_chars_def numeral_2_eq_2 del: serve.simps)

text \<open>
  C28: Trigger files are named by the clock's second: two chat requests within the
  same second write the same file, which ends up holding only the second request's
  trigger, so the first popup request is lost.
\<close>

theorem chat_trigger_collision:
  assumes "can_write w (trigger_path w (''review_gate_'' @ int_str t))"
    and "handle_review_gate_chat w (t, i1) (PDict d1) st = (r1, st1)"
    and "handle_review_gate_chat w (t, i2) (PDict d2) st1 = (r2, st2)"
  shows "dom (trigger_files st2) = insert (trigger_path w (''review_gate_'' @ int_str t)) (dom (trigger_files st))
    \<and> (\<exists>td. trigger_files st2 (trigger_path w (''review_gate_'' @ int_str t)) = Some td
           \<and> dict_get_or td ''message'' PNone = dict_get_or d2 ''message'' (PStr ''Please provide your review or feedback:'')
           \<and> dict_get_or td ''timestamp'' PNone = PStr i2)"
  using assms
  by (auto simp: handle_review_gate_chat_def write_trigger_file_def dict_get_or_def Let_def)

theorem chat_trigger_collision_witness:
  "can_write demo_rg_world (trigger_path demo_rg_world (''review_gate_'' @ int_str 42))
   \<and> dom (trigger_files (snd (handle_review_gate_chat demo_rg_world (42, ''t2'') (PDict [(PStr ''message'', PStr ''b'')])
          (snd (handle_review_gate_chat demo_rg_world (42, ''t1'') (PDict [(PStr ''message'', PStr ''a'')]) rg_init)))))
       = {''/tmp/review_gate_review_gate_42.json''}"
  using chat_trigger_collision [of demo_rg_world 42 "''t1''" "[(PStr ''message'', PStr ''a'')]" rg_init
      "fst (handle_review_gate_chat demo_rg_world (42, ''t1'') (PDict [(PStr ''message'', PStr ''a'')]) rg_init)"
      "snd (handle_review_gate_chat demo_rg_world (42, ''t1'') (PDict [(PStr ''message'', PStr ''a'')]) rg_init)"
      "''t2''" "[(PStr ''message'', PStr ''b'')]"
      "fst (handle_review_gate_chat demo_rg_world (42, ''t2'') (PDict [(PStr ''message'', PStr ''b'')])
         (snd (handle_review_gate_chat demo_rg_world (42, ''t1'') (PDict [(PStr ''message'', PStr ''a'')]) rg_init)))"
      "snd (handle_review_gate_chat demo_rg_world (42, ''t2'') (PDict [(PStr ''message'', PStr ''b'')])
         (snd (handle_review_gate_chat demo_rg_world (42, ''t1'') (PDict [(PStr ''message'', PStr ''a'')]) rg_init)))"]
  by (simp add: demo_rg_world_def rg_init_def trigger_path_def path_join_def int_str_def nat_str.simps)

end
