(* ===== verification/BleAnalyzer.thy ===== *)
theory BleAnalyzer
  imports Prelude
begin

text \<open>
  The protocol analyzer of \<open>src/scripts/marspro_ble_analyzer.py\<close>:
  \<open>MarsProBLEAnalyzer\<close>, which scans for lamps, connects to one, reads its readable
  characteristics, subscribes to its notifying ones, logs all traffic, and writes
  the results.  Its state \<open>analyzer_state\<close> holds \<open>discovered_devices\<close> (a
  dictionary keyed by address, kept as an association list in insertion order) and
  \<open>traffic_logs\<close>; \<open>d[k] = v\<close> on it is \<open>AList.update\<close>.  Bleak is the world: the advertisements a scan sees, and
  \<open>gatt_world\<close>, which answers connection, service discovery, reads and
  subscriptions and lists the notifications that arrive while the analyzer
  listens.  The \<open>i\<close>-th traffic entry is stamped \<open>clock i\<close>.  The result files are
  their contents: the two JSON lists and the lines of the Markdown report.
\<close>

section \<open>Data\<close>

record traffic_log =
  tl_timestamp :: string
  tl_device_address :: string
  tl_operation :: string
  tl_characteristic_uuid :: string
  tl_service_uuid :: string
  tl_data :: string
  tl_direction :: string

record scan_device =
  sd_address :: string
  sd_name :: string
  sd_rssi :: int
  sd_services :: "string list"
  sd_manufacturer_data :: "string option"

text \<open>
  An advertisement as bleak reports it: the device's address and name, and the
  advertisement's RSSI, service UUIDs and manufacturer data (a dictionary from
  company id to bytes).
\<close>

record advertisement =
  adv_address :: string
  adv_name :: "string option"
  adv_rssi :: int
  adv_service_uuids :: "string list"
  adv_manufacturer :: "(int \<times> bytes) list"

record analyzer_state =
  discovered_devices :: "(string \<times> scan_device) list"
  traffic_logs :: "traffic_log list"

definition marspro_service_uuid :: string where
  "marspro_service_uuid = ''0000ffe0-0000-1000-8000-00805f9b34fb''"

definition analyzer_init :: "bool \<Rightarrow> exn + analyzer_state" where
  "analyzer_init bleak_available =
     (if \<not> bleak_available then Inl (ImportError ''bleak library is required'')
      else Inr \<lparr>discovered_devices = [], traffic_logs = []\<rparr>)"

text \<open>\<open>bytes.hex()\<close>: two lower-case hexadecimal digits per byte.\<close>

definition hex_digit :: "nat \<Rightarrow> char" where
  "hex_digit n = ''0123456789abcdef'' ! n"

definition bytes_hex :: "bytes \<Rightarrow> string" where
  "bytes_hex bs = concat (map (\<lambda>b. [hex_digit (unat b div 16), hex_digit (unat b mod 16)]) bs)"

section \<open>Traffic log\<close>

definition log_traffic ::
  "(nat \<Rightarrow> string) \<Rightarrow> string \<Rightarrow> string \<Rightarrow> string \<Rightarrow> string \<Rightarrow> bytes \<Rightarrow> string \<Rightarrow> analyzer_state \<Rightarrow> analyzer_state" where
  "log_traffic clock device_address operation characteristic_uuid service_uuid data direction st =
     st\<lparr>traffic_logs := traffic_logs st @
        [\<lparr>tl_timestamp = clock (length (traffic_logs st)), tl_device_address = device_address,
          tl_operation = operation, tl_characteristic_uuid = characteristic_uuid,
          tl_service_uuid = service_uuid, tl_data = bytes_hex data, tl_direction = direction\<rparr>]\<rparr>"

definition notification_handler_an ::
  "(nat \<Rightarrow> string) \<Rightarrow> string \<Rightarrow> bytes \<Rightarrow> analyzer_state \<Rightarrow> analyzer_state" where
  "notification_handler_an clock sender data st =
     log_traffic clock ''unknown'' ''notify'' sender ''unknown'' data ''in'' st"

section \<open>Scanning\<close>

text \<open>
  \<open>is_marspro_device\<close>: a name containing \<open>marspro\<close> (case-insensitively), or a
  service UUID containing the MarsPro service UUID; manufacturer data is only logged.
\<close>

definition is_marspro_adv :: "advertisement \<Rightarrow> bool" where
  "is_marspro_adv a =
     ((case adv_name a of None \<Rightarrow> False | Some n \<Rightarrow> n \<noteq> [] \<and> str_contains ''marspro'' (py_lower n))
      \<or> list_ex (\<lambda>u. str_contains (py_lower marspro_service_uuid) (py_lower u)) (adv_service_uuids a))"

definition manufacturer_str :: "(int \<times> bytes) list \<Rightarrow> string option" where
  "manufacturer_str m = (case m of [] \<Rightarrow> None | (cid, d) # _ \<Rightarrow> Some (int_str cid @ '':'' @ bytes_hex d))"

definition detection_callback :: "advertisement \<Rightarrow> analyzer_state \<Rightarrow> analyzer_state" where
  "detection_callback a st =
     (if is_marspro_adv a then
        st\<lparr>discovered_devices := AList.update (adv_address a)
             \<lparr>sd_address = adv_address a,
              sd_name = (case adv_name a of None \<Rightarrow> ''Unknown'' | Some n \<Rightarrow> if n = [] then ''Unknown'' else n),
              sd_rssi = adv_rssi a, sd_services = adv_service_uuids a,
              sd_manufacturer_data = manufacturer_str (adv_manufacturer a)\<rparr>
             (discovered_devices st)\<rparr>
      else st)"

text \<open>\<open>scan_for_devices\<close>: the callback runs on every advertisement seen; the dictionary is never cleared.\<close>

definition scan_for_devices_an :: "advertisement list \<Rightarrow> analyzer_state \<Rightarrow> scan_device list \<times> analyzer_state" where
  "scan_for_devices_an advs st =
     (let st' = fold detection_callback advs st in (map snd (discovered_devices st'), st'))"

section \<open>Connection and traffic capture\<close>

text \<open>A GATT service: its UUID and its characteristics with their properties.\<close>

type_synonym an_service = "string \<times> (string \<times> string list) list"

record gatt_world =
  gw_connect :: "string \<Rightarrow> exn option"
  gw_services :: "string \<Rightarrow> exn + an_service list"
  gw_read :: "string \<Rightarrow> string \<Rightarrow> exn + bytes"
  gw_start_notify :: "string \<Rightarrow> string \<Rightarrow> exn option"
  gw_notifications :: "string \<Rightarrow> (string \<times> bytes) list"
  gw_disconnect :: "string \<Rightarrow> exn option"

text \<open>Reading every readable characteristic, service by service; a failed read is skipped.\<close>

definition read_all ::
  "gatt_world \<Rightarrow> (nat \<Rightarrow> string) \<Rightarrow> string \<Rightarrow> an_service list \<Rightarrow> analyzer_state \<Rightarrow> analyzer_state" where
  "read_all w clock addr svcs st =
     fold (\<lambda>(su, chars). fold (\<lambda>(cu, props) st.
        if ''read'' \<in> set props then
          (case gw_read w addr cu of Inl _ \<Rightarrow> st | Inr d \<Rightarrow> log_traffic clock addr ''read'' cu su d ''in'' st)
        else st) chars) svcs st"

text \<open>The characteristics whose subscription succeeds.\<close>

definition subscribed_chars :: "gatt_world \<Rightarrow> string \<Rightarrow> an_service list \<Rightarrow> string list" where
  "subscribed_chars w addr svcs =
     concat (map (\<lambda>(su, chars). map fst (filter (\<lambda>(cu, props). ''notify'' \<in> set props \<and> gw_start_notify w addr cu = None) chars)) svcs)"

text \<open>
  \<open>connect_and_analyze\<close>: inside \<open>async with BleakClient(...)\<close>, so leaving the block
  disconnects; every exception (connect, discovery, the disconnect on exit) is
  caught and gives \<open>False\<close>, with the entries logged so far kept.  While it listens,
  the notifications of subscribed characteristics are logged in arrival order.
\<close>

definition connect_and_analyze :: "gatt_world \<Rightarrow> (nat \<Rightarrow> string) \<Rightarrow> string \<Rightarrow> analyzer_state \<Rightarrow> bool \<times> analyzer_state" where
  "connect_and_analyze w clock addr st =
     (case gw_connect w addr of
        Some _ \<Rightarrow> (False, st)
      | None \<Rightarrow>
          (case gw_services w addr of
             Inl _ \<Rightarrow> (False, st)
           | Inr svcs \<Rightarrow>
               (let st1 = read_all w clock addr svcs st;
                    subs = subscribed_chars w addr svcs;
                    st2 = fold (\<lambda>(sender, d). notification_handler_an clock sender d)
                            (filter (\<lambda>(sender, d). sender \<in> set subs) (gw_notifications w addr)) st1
                in (gw_disconnect w addr = None, st2))))"

section \<open>Results\<close>

text \<open>
  The characteristic groups of the report: \<open>char_traffic\<close>, a dictionary from
  characteristic UUID to its entries, filled in log order.
\<close>

fun group_add :: "traffic_log \<Rightarrow> (string \<times> traffic_log list) list \<Rightarrow> (string \<times> traffic_log list) list" where
  "group_add l [] = [(tl_characteristic_uuid l, [l])]"
| "group_add l ((u, ls) # gs) =
     (if u = tl_characteristic_uuid l then (u, ls @ [l]) # gs else (u, ls) # group_add l gs)"

definition char_traffic :: "traffic_log list \<Rightarrow> (string \<times> traffic_log list) list" where
  "char_traffic logs = fold group_add logs []"

text \<open>\<open>str.upper\<close> on the ASCII letters the operation and direction names use.\<close>

definition py_upper :: "string \<Rightarrow> string" where
  "py_upper s = map (\<lambda>c. let n = of_char c :: nat in if 97 \<le> n \<and> n \<le> 122 then char_of (n - 32) else c) s"

text \<open>The lines of \<open>ble_analysis_report.md\<close>, each a formatted string.\<close>

definition device_report_lines :: "scan_device \<Rightarrow> fpart list list" where
  "device_report_lines d =
     [[FLit (''- **'' @ sd_name d @ ''** ('' @ sd_address d @ '')'')],
      [FLit (''  - RSSI: '' @ int_str (sd_rssi d))],
      [FLit ''  - Services: [''] @ concat (map (\<lambda>(i, u). (if i = 0 then [] else [FLit '', '']) @ [FRepr [FLit u]])
                                       (enumerate (0::nat) (sd_services d))) @ [FLit '']'']] @
     (case sd_manufacturer_data d of None \<Rightarrow> [] | Some m \<Rightarrow> [[FLit (''  - Manufacturer Data: '' @ m)]]) @
     [[]]"

definition report_lines :: "string \<Rightarrow> analyzer_state \<Rightarrow> fpart list list" where
  "report_lines now st =
     [[FLit ''# MarsPro BLE Analysis Report''], [], [FLit (''Generated: '' @ now)], [],
      [FLit ''## Discovered Devices''], []] @
     concat (map (device_report_lines \<circ> snd) (discovered_devices st)) @
     [[FLit ''## BLE Traffic Analysis''], [],
      [FLit (''Total traffic entries: '' @ nat_str (length (traffic_logs st)))], []] @
     concat (map (\<lambda>(u, ls). [FLit (''### Characteristic: '' @ u)] # [] #
                   map (\<lambda>l. [FLit (''- **'' @ tl_timestamp l @ ''** '' @ py_upper (tl_operation l) @ '' '' @
                                   py_upper (tl_direction l) @ '': '' @ tl_data l)]) ls @ [[]])
       (char_traffic (traffic_logs st)))"

text \<open>\<open>save_analysis_results\<close>: the devices file, the traffic file and the report.\<close>

definition save_analysis_results ::
  "string \<Rightarrow> analyzer_state \<Rightarrow> scan_device list \<times> traffic_log list \<times> fpart list list" where
  "save_analysis_results now st =
     (map snd (discovered_devices st), traffic_logs st, report_lines now st)"

text \<open>
  \<open>run_analysis\<close>: scan; with no device, stop without saving; otherwise try the
  devices in order until one analysis succeeds, then save.
\<close>

fun try_devices :: "gatt_world \<Rightarrow> (nat \<Rightarrow> string) \<Rightarrow> scan_device list \<Rightarrow> analyzer_state \<Rightarrow> analyzer_state" where
  "try_devices w clock [] st = st"
| "try_devices w clock (d # ds) st =
     (case connect_and_analyze w clock (sd_address d) st of
        (True, st') \<Rightarrow> st'
      | (False, st') \<Rightarrow> try_devices w clock ds st')"

definition run_analysis ::
  "gatt_world \<Rightarrow> (nat \<Rightarrow> string) \<Rightarrow> string \<Rightarrow> advertisement list \<Rightarrow> analyzer_state \<Rightarrow>
     (scan_device list \<times> traffic_log list \<times> fpart list list) option \<times> analyzer_state" where
  "run_analysis w clock now advs st =
     (case scan_for_devices_an advs st of
        ([], st1) \<Rightarrow> (None, st1)
      | (devs, st1) \<Rightarrow>
          (let st2 = try_devices w clock devs st1 in (Some (save_analysis_results now st2), st2)))"

text \<open>
  \<open>self.marspro_characteristics\<close>: the command, data, config and status
  characteristics the analyzer expects; no method reads the list.
\<close>

definition marspro_characteristics :: "string list" where
  "marspro_characteristics =
     [''0000ffe1-0000-1000-8000-00805f9b34fb'', ''0000ffe2-0000-1000-8000-00805f9b34fb'',
      ''0000ffe3-0000-1000-8000-00805f9b34fb'', ''0000ffe4-0000-1000-8000-00805f9b34fb'']"

section \<open>The script\<close>

text \<open>
  Importing the script: without bleak it prints a hint and goes on; it then opens
  the log file \<open>analysis/ble_analysis.log\<close> relative to the working directory
  (\<open>cwd\<close> names the paths that exist there), which raises when there is no
  \<open>analysis\<close> directory.  The result is the printed lines and the exception.
\<close>

definition ble_an_import :: "bool \<Rightarrow> (string \<Rightarrow> bool) \<Rightarrow> string list \<times> exn option" where
  "ble_an_import bleak cwd =
     ((if bleak then [] else [''Error: bleak library not found. Install with: pip install bleak'']),
      (if cwd ''analysis'' then None
       else Some (FileNotFoundError ''No such file or directory: analysis/ble_analysis.log'')))"

text \<open>
  \<open>main\<close>: build the analyzer and run the analysis; every exception is logged.
  The result is the printed lines and either the exception the import raised or
  what the run saved (\<open>None\<close>: nothing).
\<close>

definition ble_an_main ::
  "bool \<Rightarrow> (string \<Rightarrow> bool) \<Rightarrow> gatt_world \<Rightarrow> (nat \<Rightarrow> string) \<Rightarrow> string \<Rightarrow> advertisement list \<Rightarrow>
     string list \<times> (exn + (scan_device list \<times> traffic_log list \<times> fpart list list) option)" where
  "ble_an_main bleak cwd w clock now advs =
     (case ble_an_import bleak cwd of
        (out, Some e) \<Rightarrow> (out, Inl e)
      | (out, None) \<Rightarrow>
          (case analyzer_init bleak of
             Inl _ \<Rightarrow> (out, Inr None)
           | Inr st \<Rightarrow> (out, Inr (fst (run_analysis w clock now advs st)))))"

section \<open>Lemmas\<close>

text \<open>The distinct items of a list in order of first appearance.\<close>

definition first_seen :: "'a list \<Rightarrow> 'a list" where
  "first_seen xs = fold (\<lambda>x acc. if x \<in> set acc then acc else acc @ [x]) xs []"

lemma first_seen_snoc:
  "first_seen (xs @ [x]) = (if x \<in> set (first_seen xs) then first_seen xs else first_seen xs @ [x])"
  by (simp add: first_seen_def)

lemma set_first_seen [simp]: "set (first_seen xs) = set xs"
proof (induction xs rule: rev_induct)
  case (snoc x xs)
  then show ?case by (auto simp: first_seen_snoc)
qed (simp add: first_seen_def)

lemma distinct_first_seen [simp]: "distinct (first_seen xs)"
proof (induction xs rule: rev_induct)
  case (snoc x xs)
  then show ?case by (auto simp: first_seen_snoc)
qed (simp add: first_seen_def)

lemma group_add_map:
  "distinct us \<Longrightarrow> group_add l (map (\<lambda>u. (u, F u)) us) =
     (if tl_characteristic_uuid l \<in> set us
      then map (\<lambda>u. (u, if u = tl_characteristic_uuid l then F u @ [l] else F u)) us
      else map (\<lambda>u. (u, F u)) us @ [(tl_characteristic_uuid l, [l])])"
  by (induction us) auto

lemma char_traffic_snoc:
  "fold group_add ls (map (\<lambda>u. (u, filter (\<lambda>l. tl_characteristic_uuid l = u) xs)) (first_seen (map tl_characteristic_uuid xs)))
   = map (\<lambda>u. (u, filter (\<lambda>l. tl_characteristic_uuid l = u) (xs @ ls))) (first_seen (map tl_characteristic_uuid (xs @ ls)))"
proof (induction ls arbitrary: xs)
  case (Cons l ls)
  have "group_add l (map (\<lambda>u. (u, filter (\<lambda>l. tl_characteristic_uuid l = u) xs)) (first_seen (map tl_characteristic_uuid xs)))
      = map (\<lambda>u. (u, filter (\<lambda>l'. tl_characteristic_uuid l' = u) (xs @ [l]))) (first_seen (map tl_characteristic_uuid (xs @ [l])))"
    by (auto simp: group_add_map first_seen_snoc filter_empty_conv intro!: map_cong) (metis image_eqI)
  then show ?case using Cons.IH [of "xs @ [l]"] by simp
qed simp

lemma scan_keys_distinct:
  "distinct (map fst (discovered_devices st)) \<Longrightarrow>
     distinct (map fst (discovered_devices (fold detection_callback advs st)))"
proof (induction advs arbitrary: st)
  case (Cons a advs)
  then show ?case by (simp add: detection_callback_def distinct_update)
qed simp

section \<open>Properties of the analyzer\<close>

text \<open>
  The script saves nothing unless it is started where an \<open>analysis\<close> directory
  exists, although its analyzer would create that directory itself; without
  bleak it prints the hint and saves nothing either.
\<close>

lemma ble_an_main_needs_cwd_analysis:
  "\<not> cwd ''analysis'' \<Longrightarrow>
     snd (ble_an_main bleak cwd w clock now advs) = Inl (FileNotFoundError ''No such file or directory: analysis/ble_analysis.log'')"
  by (simp add: ble_an_main_def ble_an_import_def)

lemma ble_an_main_no_bleak:
  "cwd ''analysis'' \<Longrightarrow>
     ble_an_main False cwd w clock now advs = ([''Error: bleak library not found. Install with: pip install bleak''], Inr None)"
  by (simp add: ble_an_main_def ble_an_import_def analyzer_init_def)

text \<open>
  C30: The report's traffic section lists every logged entry exactly once, under
  its characteristic: one group per characteristic in the order the characteristics
  first appear, each holding that characteristic's entries in log order.
\<close>

theorem char_traffic_groups:
  "char_traffic logs =
     map (\<lambda>u. (u, filter (\<lambda>l. tl_characteristic_uuid l = u) logs)) (first_seen (map tl_characteristic_uuid logs))"
  using char_traffic_snoc [of logs "[]"] by (simp add: char_traffic_def first_seen_def)

end
