(* ===== verification/ApkAnalysis.thy ===== *)
theory ApkAnalysis
  imports Prelude
begin

text \<open>
  The data processing of the APK analysis script
  \<open>src/scripts/reverse_engineering_analysis.py\<close> (\<open>MarsProAnalyzer\<close>): validating the
  input file name, parsing \<open>aapt\<close>'s metadata output, reading the manifest's XML
  tree (\<open>ElementTree\<close>'s \<open>find\<close>, \<open>findall\<close>, \<open>get\<close> on a tree datatype), the case-insensitive pattern search over the decompiled
  sources, the endpoint and BLE file lists built from it, and the security report.
  The decompiled trees are the world \<open>apk_tree\<close>: for each tool output, whether it
  exists and its files in \<open>rglob\<close> order, each with its relative path and its
  content (\<open>None\<close> when it cannot be read, which the code logs and skips).  The
  search results are a dictionary from pattern to paths, an association list with
  \<open>AList.update\<close> for \<open>results[p] = ...\<close> and \<open>AList.map_entry\<close> for
  \<open>results[p].append(...)\<close>.  Running the external tools is not modelled.
\<close>

section \<open>Strings\<close>

text \<open>\<open>s.split(c)\<close> for a one-character separator: empty fields are kept.\<close>

fun split_char :: "char \<Rightarrow> string \<Rightarrow> string list" where
  "split_char c [] = [[]]"
| "split_char c (x # xs) =
     (let r = split_char c xs in if x = c then [] # r else (x # hd r) # tl r)"

text \<open>\<open>str.isspace\<close> on the code points 0 to 255, and \<open>s.split()\<close>: runs of whitespace separate, empty fields are dropped.\<close>

definition py_isspace :: "char \<Rightarrow> bool" where
  "py_isspace c = (of_char c \<in> ({9, 10, 11, 12, 13, 28, 29, 30, 31, 32, 133, 160} :: nat set))"

fun split_ws_acc :: "string \<Rightarrow> string \<Rightarrow> string list" where
  "split_ws_acc cur [] = (if cur = [] then [] else [rev cur])"
| "split_ws_acc cur (x # xs) =
     (if py_isspace x then (if cur = [] then split_ws_acc [] xs else rev cur # split_ws_acc [] xs)
      else split_ws_acc (x # cur) xs)"

definition split_ws :: "string \<Rightarrow> string list" where
  "split_ws s = split_ws_acc [] s"

definition starts_with :: "string \<Rightarrow> string \<Rightarrow> bool" where
  "starts_with s p = (take (length p) s = p)"

text \<open>\<open>s.strip("'")\<close>.\<close>

definition strip_quotes :: "string \<Rightarrow> string" where
  "strip_quotes s = rev (dropWhile (\<lambda>c. c = CHR 0x27) (rev (dropWhile (\<lambda>c. c = CHR 0x27) s)))"

section \<open>Metadata\<close>

text \<open>
  \<open>_parse_aapt_output\<close>: on every line starting with \<open>package:\<close>, each
  whitespace-separated field \<open>name=\<close>, \<open>versionName=\<close>, \<open>versionCode=\<close> sets its key
  to the text between its first and second \<open>=\<close>, quotes stripped; a later field
  overwrites an earlier one.
\<close>

definition aapt_field :: "string \<Rightarrow> pydict \<Rightarrow> pydict" where
  "aapt_field part md =
     (let v = PStr (strip_quotes (split_char (CHR ''='') part ! 1))
      in if starts_with part ''name='' then dict_store md (KStr ''package_name'') (PStr ''package_name'') v
         else if starts_with part ''versionName='' then dict_store md (KStr ''version_name'') (PStr ''version_name'') v
         else if starts_with part ''versionCode='' then dict_store md (KStr ''version_code'') (PStr ''version_code'') v
         else md)"

definition parse_aapt_output :: "string \<Rightarrow> pydict" where
  "parse_aapt_output output =
     fold (\<lambda>line md. if starts_with line ''package:'' then fold aapt_field (split_ws line) md else md)
       (split_char (CHR 0x0A) output) [(PStr ''file_type'', PStr ''APK'')]"

section \<open>Input validation\<close>

text \<open>
  \<open>Path.suffix\<close> of a file name: from its last dot, when that dot is neither the
  first nor the last character; \<open>validate_apk\<close> accepts an existing file whose
  suffix is \<open>.apk\<close> or \<open>.xapk\<close> in any case (the size only produces a warning).
\<close>

definition path_suffix :: "string \<Rightarrow> string" where
  "path_suffix name =
     (let i = length name - 1 - length (takeWhile (\<lambda>c. c \<noteq> CHR ''.'') (rev name))
      in if CHR ''.'' \<in> set name \<and> 0 < i \<and> i < length name - 1 then drop i name else [])"

definition validate_apk :: "bool \<Rightarrow> string \<Rightarrow> bool" where
  "validate_apk exists name = (exists \<and> py_lower (path_suffix name) \<in> {''.apk'', ''.xapk''})"

section \<open>Manifest\<close>

text \<open>
  A parsed XML document as \<open>ElementTree\<close> gives it: elements with a tag, attributes
  (namespaced names written \<open>{uri}name\<close>) and children.  \<open>findall('.//t')\<close> is every
  descendant with tag \<open>t\<close> in document order, \<open>find\<close> the first; an element is true
  when it has children.
\<close>

datatype xml = XElem string "(string \<times> string) list" "xml list"

fun xml_tag :: "xml \<Rightarrow> string" where
  "xml_tag (XElem t _ _) = t"

fun xml_children :: "xml \<Rightarrow> xml list" where
  "xml_children (XElem _ _ cs) = cs"

fun descendants :: "xml \<Rightarrow> xml list" where
  "descendants (XElem _ _ cs) = concat (map (\<lambda>c. c # descendants c) cs)"

definition xml_findall :: "xml \<Rightarrow> string \<Rightarrow> xml list" where
  "xml_findall e t = filter (\<lambda>d. xml_tag d = t) (descendants e)"

definition xml_find :: "xml \<Rightarrow> string \<Rightarrow> xml option" where
  "xml_find e t = (case xml_findall e t of [] \<Rightarrow> None | d # _ \<Rightarrow> Some d)"

fun xml_get :: "xml \<Rightarrow> string \<Rightarrow> pyval" where
  "xml_get (XElem _ attrs _) k = (case map_of attrs k of None \<Rightarrow> PNone | Some v \<Rightarrow> PStr v)"

definition android :: "string \<Rightarrow> string" where
  "android n = ''{http://schemas.android.com/apk/res/android}'' @ n"

text \<open>
  An activity is launchable when its first \<open>intent-filter\<close>, if it has children,
  contains an action named \<open>android.intent.action.MAIN\<close>.
\<close>

definition launchable :: "xml \<Rightarrow> bool" where
  "launchable a =
     (case xml_find a ''intent-filter'' of
        None \<Rightarrow> False
      | Some f \<Rightarrow> xml_children f \<noteq> [] \<and>
          list_ex (\<lambda>x. xml_get x (android ''name'') = PStr ''android.intent.action.MAIN'') (xml_findall f ''action''))"

record manifest_data =
  md_package :: pyval
  md_version_name :: pyval
  md_version_code :: pyval
  md_uses_permissions :: "string list"
  md_activities :: "pydict list"
  md_services :: "pydict list"
  md_receivers :: "pydict list"
  md_providers :: "pydict list"
  md_uses_features :: "pydict list"

definition component_dict :: "string list \<Rightarrow> xml \<Rightarrow> pydict" where
  "component_dict ks e = map (\<lambda>k. (PStr k, xml_get e (android k))) ks"

text \<open>
  \<open>analyze_manifest\<close> on the file \<open>AndroidManifest.xml\<close>: a missing file and a file
  that does not parse both give \<open>{}\<close> (\<open>None\<close>); permission names that are absent
  or empty are skipped.  The empty \<open>permissions\<close> entry of the dictionary is never
  filled and is left out.
\<close>

datatype xml_file = XMissing | XMalformed | XDoc xml

definition analyze_manifest :: "xml_file \<Rightarrow> manifest_data option" where
  "analyze_manifest doc =
     (case doc of
        XDoc root \<Rightarrow>
          Some \<lparr>md_package = xml_get root ''package'',
                md_version_name = xml_get root (android ''versionName''),
                md_version_code = xml_get root (android ''versionCode''),
                md_uses_permissions =
                  concat (map (\<lambda>p. case xml_get p (android ''name'') of PStr n \<Rightarrow> if n = [] then [] else [n] | _ \<Rightarrow> [])
                    (xml_findall root ''uses-permission'')),
                md_activities =
                  map (\<lambda>a. [(PStr ''name'', xml_get a (android ''name'')), (PStr ''exported'', xml_get a (android ''exported'')),
                            (PStr ''launchable'', PBool (launchable a))]) (xml_findall root ''activity''),
                md_services = map (component_dict [''name'', ''exported'']) (xml_findall root ''service''),
                md_receivers = map (component_dict [''name'', ''exported'']) (xml_findall root ''receiver''),
                md_providers = map (component_dict [''name'', ''exported'', ''authorities'']) (xml_findall root ''provider''),
                md_uses_features = map (component_dict [''name'', ''required'']) (xml_findall root ''uses-feature'')\<rparr>
      | _ \<Rightarrow> None)"

section \<open>Pattern search\<close>

type_synonym src_file = "string \<times> string option"

record apk_tree =
  apktool_exists :: bool
  smali_files :: "src_file list"
  xml_files :: "src_file list"
  jadx_exists :: bool
  java_files :: "src_file list"

text \<open>One file against one pattern: \<open>pattern.lower() in content.lower()\<close>.\<close>

definition search_file :: "string \<Rightarrow> src_file \<Rightarrow> (string \<times> string list) list \<Rightarrow> (string \<times> string list) list" where
  "search_file p f r =
     (case snd f of
        None \<Rightarrow> r
      | Some content \<Rightarrow> if str_contains (py_lower p) (py_lower content) then AList.map_entry p (\<lambda>v. v @ [fst f]) r else r)"

text \<open>
  \<open>search_for_strings\<close>: for each pattern, its APKTool entry is reset and filled
  from the smali then the XML files; then, for each pattern, the JADX Java files
  are added (creating the entry if needed); patterns without a match are dropped.
\<close>

definition search_for_strings :: "apk_tree \<Rightarrow> string list \<Rightarrow> (string \<times> string list) list" where
  "search_for_strings t patterns =
     (let r1 = (if apktool_exists t then
                  fold (\<lambda>p r. fold (search_file p) (smali_files t @ xml_files t) (AList.update p [] r)) patterns []
                else []);
          r2 = (if jadx_exists t then
                  fold (\<lambda>p r. fold (search_file p) (java_files t)
                                 (if p \<in> set (map fst r) then r else AList.update p [] r)) patterns r1
                else r1)
      in filter (\<lambda>(k, v). v \<noteq> []) r2)"

definition network_patterns :: "string list" where
  "network_patterns = [''http://'', ''https://'', ''api.'', ''.com/api'', ''.com/v1'', ''.com/v2'',
     ''firebase'', ''googleapis'', ''bluetooth'', ''ble'', ''uuid'', ''characteristic'']"

definition ble_patterns :: "string list" where
  "ble_patterns = [''bluetooth'', ''ble'', ''gatt'', ''characteristic'', ''service'', ''uuid'',
     ''peripheral'', ''central'', ''advertising'', ''scan'']"

text \<open>
  \<open>analyze_network_endpoints\<close> and \<open>analyze_ble_services\<close>: the files matching any
  pattern, without duplicates; \<open>list(set(...))\<close> gives them in no specified order,
  so the result is their set.
\<close>

definition analyze_network_endpoints :: "apk_tree \<Rightarrow> string set" where
  "analyze_network_endpoints t = set (concat (map snd (search_for_strings t network_patterns)))"

definition analyze_ble_services :: "apk_tree \<Rightarrow> string set" where
  "analyze_ble_services t = set (concat (map snd (search_for_strings t ble_patterns)))"

section \<open>Security report\<close>

text \<open>
  The findings of \<open>generate_security_report\<close>, one constructor per shape of finding
  dictionary: a dangerous permission, an exported activity or service (with its
  \<open>name\<close> entry, \<open>Unknown\<close> when missing), and the native-code notice with the
  number of libraries and their list.
\<close>

datatype sec_finding =
    DangerousPermission string
  | ExportedActivity pyval
  | ExportedService pyval
  | NativeCode nat "string list"

fun severity :: "sec_finding \<Rightarrow> string" where
  "severity (DangerousPermission _) = ''medium''"
| "severity (ExportedActivity _) = ''low''"
| "severity (ExportedService _) = ''medium''"
| "severity (NativeCode _ _) = ''info''"

definition dangerous_permissions :: "string list" where
  "dangerous_permissions =
     [''android.permission.INTERNET'', ''android.permission.ACCESS_NETWORK_STATE'',
      ''android.permission.BLUETOOTH'', ''android.permission.BLUETOOTH_ADMIN'',
      ''android.permission.ACCESS_FINE_LOCATION'', ''android.permission.ACCESS_COARSE_LOCATION'',
      ''android.permission.CAMERA'', ''android.permission.RECORD_AUDIO'',
      ''android.permission.READ_EXTERNAL_STORAGE'', ''android.permission.WRITE_EXTERNAL_STORAGE'']"

definition exported :: "pydict \<Rightarrow> bool" where
  "exported c = (dict_get_or c ''exported'' PNone = PStr ''true'')"

definition recommendations :: "string list" where
  "recommendations =
     [''Implement proper input validation for all user inputs'', ''Use HTTPS for all network communications'',
      ''Implement certificate pinning for API endpoints'', ''Use secure storage for sensitive data'',
      ''Implement proper session management'', ''Regular security audits of the integration'']"

definition generate_security_report ::
  "string list \<Rightarrow> pydict list \<Rightarrow> pydict list \<Rightarrow> string list \<Rightarrow> sec_finding list \<times> string list" where
  "generate_security_report permissions activities services native_libraries =
    (map DangerousPermission (filter (\<lambda>p. p \<in> set permissions) dangerous_permissions) @
     map (\<lambda>a. ExportedActivity (dict_get_or a ''name'' (PStr ''Unknown''))) (filter exported activities) @
     map (\<lambda>s. ExportedService (dict_get_or s ''name'' (PStr ''Unknown''))) (filter exported services) @
     (if native_libraries \<noteq> [] then [NativeCode (length native_libraries) native_libraries] else []),
     recommendations)"

section \<open>Soundness of the search\<close>

text \<open>
  A path matches a pattern when a readable file of the trees has that path and
  contains the pattern case-insensitively; a result dictionary is sound when each
  of its paths matches its pattern.
\<close>

definition file_matches :: "src_file list \<Rightarrow> string \<Rightarrow> string \<Rightarrow> bool" where
  "file_matches fs p path = (\<exists>c. (path, Some c) \<in> set fs \<and> str_contains (py_lower p) (py_lower c))"

definition results_sound :: "src_file list \<Rightarrow> (string \<times> string list) list \<Rightarrow> bool" where
  "results_sound fs r = (\<forall>(p, paths) \<in> set r. \<forall>path \<in> set paths. file_matches fs p path)"

lemma set_update_sub: "set (AList.update k v al) \<subseteq> insert (k, v) (set al)"
  by (induction al) auto

lemma set_map_entry_sub:
  "(k', v') \<in> set (AList.map_entry k f al) \<Longrightarrow> (k', v') \<in> set al \<or> (k' = k \<and> (\<exists>v. (k, v) \<in> set al \<and> v' = f v))"
  by (induction al) (auto split: if_splits)

lemma results_sound_update: "results_sound fs r \<Longrightarrow> results_sound fs (AList.update k [] r)"
  using set_update_sub [of k "[]" r] by (fastforce simp: results_sound_def)

lemma results_sound_mono: "results_sound fs r \<Longrightarrow> set fs \<subseteq> set gs \<Longrightarrow> results_sound gs r"
  by (fastforce simp: results_sound_def file_matches_def)

lemma results_sound_search_file:
  "results_sound fs r \<Longrightarrow> f \<in> set fs \<Longrightarrow> results_sound fs (search_file p f r)"
  unfolding search_file_def
  by (cases f) (fastforce simp: results_sound_def file_matches_def split: option.splits dest: set_map_entry_sub)

lemma results_sound_fold:
  "results_sound fs r \<Longrightarrow> set gs \<subseteq> set fs \<Longrightarrow> results_sound fs (fold (search_file p) gs r)"
  by (induction gs arbitrary: r) (auto intro: results_sound_search_file)

lemma results_sound_patterns:
  assumes "set gs \<subseteq> set fs"
    and "\<And>p r. results_sound fs r \<Longrightarrow> results_sound fs (reset p r)"
  shows "results_sound fs r \<Longrightarrow> results_sound fs (fold (\<lambda>p r. fold (search_file p) gs (reset p r)) ps r)"
  by (induction ps arbitrary: r) (auto intro: results_sound_fold [OF _ assms(1)] assms(2))

theorem search_for_strings_sound:
  "(p, paths) \<in> set (search_for_strings t patterns) \<Longrightarrow> path \<in> set paths \<Longrightarrow>
     file_matches (smali_files t @ xml_files t @ java_files t) p path"
proof -
  let ?fs = "smali_files t @ xml_files t @ java_files t"
  define r1 where "r1 = (if apktool_exists t then
      fold (\<lambda>p r. fold (search_file p) (smali_files t @ xml_files t) (AList.update p [] r)) patterns [] else [])"
  define r2 where "r2 = (if jadx_exists t then fold (\<lambda>p r. fold (search_file p) (java_files t)
      (if p \<in> set (map fst r) then r else AList.update p [] r)) patterns r1 else r1)"
  have nil: "results_sound ?fs []" by (simp add: results_sound_def)
  have s1: "results_sound ?fs r1"
    unfolding r1_def
    using results_sound_patterns [of "smali_files t @ xml_files t" ?fs "\<lambda>p r. AList.update p [] r", OF _ results_sound_update nil]
      nil by auto
  have reset2: "\<And>p r. results_sound ?fs r \<Longrightarrow> results_sound ?fs (if p \<in> set (map fst r) then r else AList.update p [] r)"
    using results_sound_update by auto
  have s2: "results_sound ?fs r2"
    unfolding r2_def
    using results_sound_patterns [of "java_files t" ?fs "\<lambda>p r. if p \<in> set (map fst r) then r else AList.update p [] r",
        OF _ reset2 s1] s1 by auto
  have eq: "search_for_strings t patterns = filter (\<lambda>(k, v). v \<noteq> []) r2"
    by (simp add: search_for_strings_def r1_def r2_def Let_def)
  show "(p, paths) \<in> set (search_for_strings t patterns) \<Longrightarrow> path \<in> set paths \<Longrightarrow> file_matches ?fs p path"
    using s2 by (auto simp: eq results_sound_def)
qed

lemma endpoints_are_files:
  "analyze_network_endpoints t \<subseteq> {path. \<exists>c. (path, Some c) \<in> set (smali_files t @ xml_files t @ java_files t)}"
  using search_for_strings_sound [of _ _ t network_patterns]
  by (fastforce simp: analyze_network_endpoints_def file_matches_def)

lemma aapt_example:
  "parse_aapt_output (''package: name='' @ [CHR 0x27] @ ''com.marspro.meizhi'' @ [CHR 0x27] @ '' versionName='' @ [CHR 0x27] @ ''a=b'' @ [CHR 0x27] @ [CHR 0x0A])
   = [(PStr ''file_type'', PStr ''APK''), (PStr ''package_name'', PStr ''com.marspro.meizhi''), (PStr ''version_name'', PStr ''a'')]"
  by (simp add: parse_aapt_output_def aapt_field_def split_ws_def starts_with_def strip_quotes_def py_isspace_def Let_def)

section \<open>Manifest, validation and report\<close>

lemma set_concat_names:
  "n \<in> set (concat (map (\<lambda>p. case f p of PStr n \<Rightarrow> if n = [] then [] else [n] | _ \<Rightarrow> []) xs))
     \<longleftrightarrow> n \<noteq> [] \<and> (\<exists>e \<in> set xs. f e = PStr n)"
  by (induction xs) (auto split: pyval.splits)

lemma uses_permissions_set:
  "analyze_manifest (XDoc root) = Some md \<Longrightarrow>
     n \<in> set (md_uses_permissions md) \<longleftrightarrow>
       n \<noteq> [] \<and> (\<exists>e \<in> set (xml_findall root ''uses-permission''). xml_get e (android ''name'') = PStr n)"
  unfolding analyze_manifest_def using set_concat_names [of n "\<lambda>p. xml_get p (android ''name'')"] by auto

lemma report_permissions_from_manifest:
  assumes "analyze_manifest (XDoc root) = Some md"
  shows "DangerousPermission p \<in> set (fst (generate_security_report (md_uses_permissions md) acts svcs libs))
     \<longleftrightarrow> p \<in> set dangerous_permissions \<and>
         (\<exists>e \<in> set (xml_findall root ''uses-permission''). xml_get e (android ''name'') = PStr p)"
proof -
  have "p \<in> set dangerous_permissions \<Longrightarrow> p \<noteq> []" by (auto simp: dangerous_permissions_def)
  then show ?thesis using uses_permissions_set [OF assms, of p]
    by (auto simp: generate_security_report_def)
qed

lemma launchable_first_filter_only:
  "launchable (XElem ''activity'' []
     [XElem ''intent-filter'' [] [XElem ''category'' [] []],
      XElem ''intent-filter'' [] [XElem ''action'' [(android ''name'', ''android.intent.action.MAIN'')] []]]) = False"
  by (simp add: launchable_def xml_find_def xml_findall_def android_def)

lemma validate_apk_examples:
  "validate_apk True ''MarsPro.XAPK'' \<and> \<not> validate_apk True ''.apk'' \<and> \<not> validate_apk True ''marspro.zip''"
  by (simp add: validate_apk_def path_suffix_def py_lower_eval Let_def)

end
