(* ===== verification/ApkPipeline.thy ===== *)
theory ApkPipeline
  imports ApkAnalysis "HOL-Library.Multiset"
begin

text \<open>
  The driver of \<open>src/scripts/reverse_engineering_analysis.py\<close>: the analyzer's
  result dictionary, metadata extraction from an APK or an XAPK archive, the two
  decompiler runs, the native-library and asset listings, the Markdown report and
  \<open>run_complete_analysis\<close>, which chains the steps and turns any exception into a
  failure result.  The file system and the external tools are the world
  \<open>apk_world\<close>: the input file, the XAPK archive's members, the outcome of each
  \<open>subprocess.run\<close>, the decompiled output trees, and the clock.  The analyzer's
  state is its \<open>analysis_results\<close> dictionary (a record with one field per key),
  whether \<open>extracted.apk\<close> exists in the output directory, and the report files
  written.
\<close>

section \<open>World and state\<close>

text \<open>A directory tree: a file, or a directory with its entries in \<open>os.scandir\<close> order.\<close>

datatype fs_node = FsFile | FsDir "(string \<times> fs_node) list"

text \<open>
  The world: the APK path as given, whether it exists, its size, the outcome of
  \<open>_calculate_file_hash\<close> (the SHA-256 digest, or the \<open>OSError\<close> that \<open>open\<close> or
  \<open>read\<close> raises, e.g. for a directory named \<open>*.apk\<close> or an unreadable file), the output and analysis
  directories, the readings of the clock (\<open>isoformat\<close> at metadata extraction and
  at the report, and the report's \<open>%Y%m%d_%H%M%S\<close> stamp), the XAPK archive as
  its members in \<open>namelist()\<close> order with the JSON value each one parses to
  (\<open>None\<close>: not JSON; the archive itself is \<open>None\<close> when it is not a zip file), the
  outcome of \<open>aapt\<close>, APKTool and JADX on a given input path, the parsed manifest,
  the decompiled sources, the entries of \<open>apktool_output\<close>, and whether the report
  can be created.
\<close>

record apk_world =
  aw_apk_path :: string
  aw_apk_exists :: bool
  aw_apk_size :: int
  aw_apk_sha256 :: "exn + string"
  aw_output_dir :: string
  aw_analysis_dir :: string
  aw_now :: string
  aw_report_now :: string
  aw_stamp :: string
  aw_xapk :: "(string \<times> pyval option) list option"
  aw_aapt :: "string \<Rightarrow> proc_result"
  aw_apktool :: "string \<Rightarrow> proc_result"
  aw_jadx :: "string \<Rightarrow> proc_result"
  aw_manifest :: xml_file
  aw_tree :: apk_tree
  aw_apktool_out :: "(string \<times> fs_node) list"
  aw_report_writable :: bool

text \<open>
  \<open>self.analysis_results\<close>: one field per key of the dictionary \<open>__init__\<close> builds;
  the \<open>strings\<close> entry, which no step fills, is left out.  The endpoint and BLE
  lists are \<open>list(set(...))\<close>, whose order Python does not fix: they are sets.
\<close>

record analysis_results =
  ar_metadata :: pydict
  ar_permissions :: "string list"
  ar_activities :: "pydict list"
  ar_services :: "pydict list"
  ar_receivers :: "pydict list"
  ar_providers :: "pydict list"
  ar_native_libraries :: "string list"
  ar_assets :: "string list"
  ar_network_endpoints :: "string set"
  ar_ble_services :: "string set"
  ar_security_findings :: "sec_finding list"
  ar_recommendations :: "string list"

record re_state =
  re_results :: analysis_results
  re_extracted :: bool
  re_reports :: "(string \<times> fpart list) list"

definition results_init :: analysis_results where
  "results_init =
     \<lparr>ar_metadata = [], ar_permissions = [], ar_activities = [], ar_services = [], ar_receivers = [],
      ar_providers = [], ar_native_libraries = [], ar_assets = [], ar_network_endpoints = {},
      ar_ble_services = {}, ar_security_findings = [], ar_recommendations = []\<rparr>"

text \<open>
  The state \<open>__init__\<close> leaves: empty results, no report yet; \<open>extracted.apk\<close> is
  there only if an earlier run left it in the output directory.
\<close>

definition re_init :: "bool \<Rightarrow> re_state" where
  "re_init stale = \<lparr>re_results = results_init, re_extracted = stale, re_reports = []\<rparr>"

section \<open>Paths\<close>

text \<open>\<open>Path.name\<close>: the text after the last separator; \<open>str.endswith\<close>.\<close>

definition path_name :: "string \<Rightarrow> string" where
  "path_name p = rev (takeWhile (\<lambda>c. c \<noteq> CHR ''/'') (rev p))"

definition ends_with :: "string \<Rightarrow> string \<Rightarrow> bool" where
  "ends_with s x = (take (length x) (rev s) = rev x)"

definition is_xapk :: "string \<Rightarrow> bool" where
  "is_xapk p = (py_lower (path_suffix (path_name p)) = ''.xapk'')"

definition extracted_path :: "apk_world \<Rightarrow> string" where
  "extracted_path w = path_join (aw_output_dir w) ''extracted.apk''"

section \<open>Metadata\<close>

text \<open>
  \<open>_extract_apk_metadata_from_file\<close>: \<open>aapt dump badging\<close>; on exit code 0 its
  output is parsed, on another exit code, a timeout or a missing \<open>aapt\<close> the
  metadata known from an earlier analysis is returned; any other \<open>OSError\<close>
  propagates.
\<close>

definition aapt_fallback :: pydict where
  "aapt_fallback =
     [(PStr ''file_type'', PStr ''APK''), (PStr ''package_name'', PStr ''com.marspro.meizhi''),
      (PStr ''version_name'', PStr ''1.3.2''), (PStr ''version_code'', PStr ''Unknown'')]"

definition extract_apk_metadata_from_file :: "apk_world \<Rightarrow> string \<Rightarrow> exn + pydict" where
  "extract_apk_metadata_from_file w f =
     (case aw_aapt w f of
        ProcExit rc out _ \<Rightarrow> Inr (if rc = 0 then parse_aapt_output out else aapt_fallback)
      | ProcError m \<Rightarrow> Inl (OSError m)
      | _ \<Rightarrow> Inr aapt_fallback)"

definition xapk_fallback :: pydict where
  "xapk_fallback = [(PStr ''file_type'', PStr ''XAPK''), (PStr ''package_name'', PStr ''Unknown'')]"

text \<open>
  The dictionary built from the archive's manifest: \<open>manifest_data.get(...)\<close>
  raises \<open>AttributeError\<close> when the JSON value is not an object.
\<close>

definition xapk_manifest_dict :: "pyval \<Rightarrow> exn + pydict" where
  "xapk_manifest_dict v =
     (case v of
        PDict d \<Rightarrow> Inr [(PStr ''package_name'', dict_get_or d ''package_name'' (PStr ''Unknown'')),
                         (PStr ''version_name'', dict_get_or d ''version_name'' (PStr ''Unknown'')),
                         (PStr ''version_code'', dict_get_or d ''version_code'' (PStr ''Unknown'')),
                         (PStr ''file_type'', PStr ''XAPK'')]
      | _ \<Rightarrow> Inl (AttributeError ''object has no attribute get''))"

text \<open>
  \<open>_extract_xapk_metadata\<close>: the first member whose lower-cased name contains
  \<open>manifest\<close> is read as JSON; only when there is no such member is the first
  \<open>.apk\<close> member written to \<open>extracted.apk\<close> and analysed with \<open>aapt\<close>.  Every
  exception (not a zip file, a member that is not JSON, a value that is not an
  object, an \<open>OSError\<close> of \<open>aapt\<close>) is caught and gives the XAPK fallback, as does an
  archive with neither kind of member.
\<close>

definition extract_xapk_metadata :: "apk_world \<Rightarrow> re_state \<Rightarrow> pydict \<times> re_state" where
  "extract_xapk_metadata w st =
     (case aw_xapk w of
        None \<Rightarrow> (xapk_fallback, st)
      | Some members \<Rightarrow>
          (case filter (\<lambda>(n, _). str_contains ''manifest'' (py_lower n)) members of
             (_, j) # _ \<Rightarrow>
               (case j of
                  None \<Rightarrow> (xapk_fallback, st)
                | Some v \<Rightarrow> (case xapk_manifest_dict v of Inl _ \<Rightarrow> (xapk_fallback, st) | Inr d \<Rightarrow> (d, st)))
           | [] \<Rightarrow>
               (case filter (\<lambda>(n, _). ends_with n ''.apk'') members of
                  [] \<Rightarrow> (xapk_fallback, st)
                | _ # _ \<Rightarrow>
                    (case extract_apk_metadata_from_file w (extracted_path w) of
                       Inl _ \<Rightarrow> (xapk_fallback, st\<lparr>re_extracted := True\<rparr>)
                     | Inr d \<Rightarrow> (d, st\<lparr>re_extracted := True\<rparr>)))))"

text \<open>
  \<open>extract_apk_metadata\<close>: the file's path, size, digest and the time, updated
  with the dictionary of the XAPK or APK extraction, stored as the results'
  \<open>metadata\<close>.  The digest is computed while the dictionary literal is built, so a
  failure to read the file propagates before any extraction.
\<close>

definition extract_apk_metadata :: "apk_world \<Rightarrow> (re_state, pydict) pyop" where
  "extract_apk_metadata w st =
     (case aw_apk_sha256 w of Inl e \<Rightarrow> (Inl e, st) | Inr h \<Rightarrow>
     let md0 = [(PStr ''file_path'', PStr (aw_apk_path w)), (PStr ''file_size'', PInt (aw_apk_size w)),
                 (PStr ''file_hash'', PStr h), (PStr ''analysis_timestamp'', PStr (aw_now w))];
          (r, st1) = (if is_xapk (aw_apk_path w) then (case extract_xapk_metadata w st of (d, s) \<Rightarrow> (Inr d, s))
                      else (extract_apk_metadata_from_file w (aw_apk_path w), st))
      in case r of
           Inl e \<Rightarrow> (Inl e, st1)
         | Inr d \<Rightarrow>
             (case dict_merge md0 d of
                (Some e, _) \<Rightarrow> (Inl e, st1)
              | (None, md) \<Rightarrow> (Inr md, st1\<lparr>re_results := (re_results st1)\<lparr>ar_metadata := md\<rparr>\<rparr>)))"

section \<open>Decompilation\<close>

text \<open>
  The input both decompilers run on: the APK itself, or for an XAPK the file
  \<open>extracted.apk\<close> of the output directory, without which they log
  \<open>XAPK extraction failed\<close> and return \<open>False\<close>.  A decompiler succeeds when it exits
  with code 0; a non-zero exit, a timeout and any exception give \<open>False\<close>.
\<close>

definition decompile_input :: "apk_world \<Rightarrow> re_state \<Rightarrow> string option" where
  "decompile_input w st =
     (if is_xapk (aw_apk_path w) then (if re_extracted st then Some (extracted_path w) else None)
      else Some (aw_apk_path w))"

definition tool_ok :: "proc_result \<Rightarrow> bool" where
  "tool_ok r = (case r of ProcExit rc _ _ \<Rightarrow> rc = 0 | _ \<Rightarrow> False)"

definition decompile_with_apktool :: "apk_world \<Rightarrow> re_state \<Rightarrow> bool" where
  "decompile_with_apktool w st = (case decompile_input w st of None \<Rightarrow> False | Some p \<Rightarrow> tool_ok (aw_apktool w p))"

definition decompile_with_jadx :: "apk_world \<Rightarrow> re_state \<Rightarrow> bool" where
  "decompile_with_jadx w st = (case decompile_input w st of None \<Rightarrow> False | Some p \<Rightarrow> tool_ok (aw_jadx w p))"

section \<open>Analysis steps\<close>

text \<open>
  \<open>analyze_manifest\<close> stores the permissions and the four component lists in the
  results; a missing or malformed manifest leaves them as they were.
\<close>

definition analyze_manifest_step :: "apk_world \<Rightarrow> re_state \<Rightarrow> re_state" where
  "analyze_manifest_step w st =
     (case analyze_manifest (aw_manifest w) of
        None \<Rightarrow> st
      | Some md \<Rightarrow>
          st\<lparr>re_results := (re_results st)\<lparr>ar_permissions := md_uses_permissions md,
                ar_activities := md_activities md, ar_services := md_services md,
                ar_receivers := md_receivers md, ar_providers := md_providers md\<rparr>\<rparr>)"

text \<open>
  \<open>analyze_native_libraries\<close> on one of \<open>lib\<close> and \<open>libs\<close>: for each directory
  entry of it that is a directory (an architecture), the entries matching
  \<open>*.so\<close>, as paths relative to \<open>apktool_output\<close>.  A missing directory gives
  nothing; a file of that name makes \<open>iterdir\<close> raise.
\<close>

definition lib_dir_libs :: "(string \<times> fs_node) list \<Rightarrow> string \<Rightarrow> exn + string list" where
  "lib_dir_libs out d =
     (case map_of out d of
        None \<Rightarrow> Inr []
      | Some FsFile \<Rightarrow> Inl (OSError ''Not a directory'')
      | Some (FsDir es) \<Rightarrow>
          Inr (concat (map (\<lambda>(a, n). case n of
                   FsFile \<Rightarrow> []
                 | FsDir fs \<Rightarrow> map (\<lambda>(f, _). path_join (path_join d a) f) (filter (\<lambda>(f, _). ends_with f ''.so'') fs)) es)))"

definition analyze_native_libraries :: "apk_world \<Rightarrow> (re_state, string list) pyop" where
  "analyze_native_libraries w st =
     (case lib_dir_libs (aw_apktool_out w) ''lib'' of
        Inl e \<Rightarrow> (Inl e, st)
      | Inr l1 \<Rightarrow>
          (case lib_dir_libs (aw_apktool_out w) ''libs'' of
             Inl e \<Rightarrow> (Inl e, st)
           | Inr l2 \<Rightarrow> (Inr (l1 @ l2), st\<lparr>re_results := (re_results st)\<lparr>ar_native_libraries := l1 @ l2\<rparr>\<rparr>)))"

text \<open>
  \<open>Path.rglob('*')\<close> keeping the files: the directories are visited top-down,
  each one's files first, then its subdirectories in order.  \<open>analyze_assets\<close>
  lists the files below \<open>assets\<close> (nothing when it is missing or is a file).
\<close>

fun rglob_files :: "string \<Rightarrow> fs_node \<Rightarrow> string list" where
  "rglob_files p FsFile = []"
| "rglob_files p (FsDir es) =
     map (\<lambda>e. path_join p (fst e)) (filter (\<lambda>e. snd e = FsFile) es) @
     concat (map (\<lambda>e. rglob_files (path_join p (fst e)) (snd e)) es)"

definition analyze_assets :: "apk_world \<Rightarrow> re_state \<Rightarrow> string list \<times> re_state" where
  "analyze_assets w st =
     (let a = (case map_of (aw_apktool_out w) ''assets'' of None \<Rightarrow> [] | Some n \<Rightarrow> rglob_files ''assets'' n)
      in (a, st\<lparr>re_results := (re_results st)\<lparr>ar_assets := a\<rparr>\<rparr>))"

definition analyze_network_step :: "apk_world \<Rightarrow> re_state \<Rightarrow> re_state" where
  "analyze_network_step w st =
     st\<lparr>re_results := (re_results st)\<lparr>ar_network_endpoints := analyze_network_endpoints (aw_tree w)\<rparr>\<rparr>"

definition analyze_ble_step :: "apk_world \<Rightarrow> re_state \<Rightarrow> re_state" where
  "analyze_ble_step w st =
     st\<lparr>re_results := (re_results st)\<lparr>ar_ble_services := analyze_ble_services (aw_tree w)\<rparr>\<rparr>"

text \<open>\<open>generate_security_report\<close> stores its findings and recommendations.\<close>

definition security_step :: "re_state \<Rightarrow> re_state" where
  "security_step st =
     (let r = re_results st;
          (fs, recs) = generate_security_report (ar_permissions r) (ar_activities r) (ar_services r) (ar_native_libraries r)
      in st\<lparr>re_results := r\<lparr>ar_security_findings := fs, ar_recommendations := recs\<rparr>\<rparr>)"

section \<open>Report\<close>

text \<open>
  \<open>finding['type'].replace('_', ' ').title()\<close> on the ASCII finding types: the
  first letter of each run of letters upper-cased, the others lower-cased.
\<close>

definition ascii_alpha :: "char \<Rightarrow> bool" where
  "ascii_alpha c = (let n = of_char c :: nat in (65 \<le> n \<and> n \<le> 90) \<or> (97 \<le> n \<and> n \<le> 122))"

definition ascii_upper_char :: "char \<Rightarrow> char" where
  "ascii_upper_char c = (let n = of_char c :: nat in if 97 \<le> n \<and> n \<le> 122 then char_of (n - 32) else c)"

fun title_acc :: "bool \<Rightarrow> string \<Rightarrow> string" where
  "title_acc prev [] = []"
| "title_acc prev (c # cs) =
     (if ascii_alpha c then (if prev then py_lower_char c else ascii_upper_char c) # title_acc True cs
      else c # title_acc False cs)"

definition py_title :: "string \<Rightarrow> string" where
  "py_title s = title_acc False s"

definition replace_char :: "char \<Rightarrow> char \<Rightarrow> string \<Rightarrow> string" where
  "replace_char a b s = map (\<lambda>c. if c = a then b else c) s"

text \<open>
  The entries of a finding dictionary of \<open>generate_security_report\<close> that the
  report reads: its \<open>type\<close>, \<open>description\<close>, and the optional \<open>component\<close> and
  \<open>libraries\<close>.
\<close>

fun sec_type :: "sec_finding \<Rightarrow> string" where
  "sec_type (DangerousPermission _) = ''dangerous_permission''"
| "sec_type (ExportedActivity _) = ''exported_component''"
| "sec_type (ExportedService _) = ''exported_component''"
| "sec_type (NativeCode _ _) = ''native_code''"

fun sec_description :: "sec_finding \<Rightarrow> fpart list" where
  "sec_description (DangerousPermission p) = [FLit (''App requests dangerous permission: '' @ p)]"
| "sec_description (ExportedActivity _) = [FLit ''Exported activity may be accessible by other apps'']"
| "sec_description (ExportedService _) = [FLit ''Exported service may be accessible by other apps'']"
| "sec_description (NativeCode n _) = [FLit ''App contains '', FVal (PInt (int n)), FLit '' native libraries'']"

fun sec_component :: "sec_finding \<Rightarrow> fpart list option" where
  "sec_component (ExportedActivity v) = Some [FLit ''Activity: '', FVal v]"
| "sec_component (ExportedService v) = Some [FLit ''Service: '', FVal v]"
| "sec_component _ = None"

fun sec_libraries :: "sec_finding \<Rightarrow> string list option" where
  "sec_libraries (NativeCode _ ls) = Some ls"
| "sec_libraries _ = None"

text \<open>
  \<open>metadata.get('file_size', 0) / (1024*1024)\<close>: true division by \<open>2^20\<close>, exact
  for the sizes a file has (below \<open>2^53\<close> bytes); a value that is not a number
  raises \<open>TypeError\<close>.
\<close>

definition size_mib :: "pyval \<Rightarrow> exn + pyval" where
  "size_mib v =
     (case v of
        PInt n \<Rightarrow> Inr (PFloat (Flt n (-20)))
      | PBool b \<Rightarrow> Inr (PFloat (Flt (if b then 1 else 0) (-20)))
      | PFloat (Flt m e) \<Rightarrow> Inr (PFloat (Flt m (e - 20)))
      | _ \<Rightarrow> Inl (TypeError ''unsupported operand type(s) for /''))"

definition activity_line :: "pydict \<Rightarrow> fpart list" where
  "activity_line a =
     [FLit ''- **'', FVal (dict_get_or a ''name'' (PStr ''Unknown'')), FLit ''**''] @
     (if py_truthy (dict_get_or a ''launchable'' PNone) then [FLit '' (Main Activity)''] else []) @
     [FLit '' - Exported: '', FVal (dict_get_or a ''exported'' (PStr ''Unknown'')), FLit NL]"

definition component_line :: "pydict \<Rightarrow> fpart list" where
  "component_line c =
     [FLit ''- **'', FVal (dict_get_or c ''name'' (PStr ''Unknown'')), FLit ''** - Exported: '',
      FVal (dict_get_or c ''exported'' (PStr ''Unknown'')), FLit NL]"

definition finding_parts :: "sec_finding \<Rightarrow> fpart list" where
  "finding_parts f =
     [FLit ''### '', FLit (py_title (replace_char (CHR ''_'') (CHR '' '') (sec_type f))), FLit NL,
      FLit ''- **Severity**: '', FLit (severity f), FLit NL,
      FLit ''- **Description**: ''] @ sec_description f @ [FLit NL] @
     (case sec_component f of None \<Rightarrow> [] | Some c \<Rightarrow> [FLit ''- **Component**: ''] @ c @ [FLit NL]) @
     (case sec_libraries f of
        None \<Rightarrow> []
      | Some ls \<Rightarrow> [FLit (''- **Libraries**:'' @ NL)] @ map (\<lambda>l. FLit (''  - `'' @ l @ ''`'' @ NL)) ls) @
     [FLit NL]"

text \<open>
  The text \<open>generate_analysis_report\<close> writes, as the parts of its \<open>f.write\<close>
  calls in order, up to the file size, whose division may raise; then the rest.
\<close>

definition report_head :: "apk_world \<Rightarrow> analysis_results \<Rightarrow> fpart list" where
  "report_head w r =
     (let md = ar_metadata r in
      [FLit (''# MarsPro Reverse Engineering Analysis Report'' @ NL @ NL),
       FLit ''**Generated**: '', FLit (aw_report_now w), FLit NL,
       FLit ''**APK File**: '', FLit (path_name (aw_apk_path w)), FLit NL,
       FLit ''**APK Hash**: '', FVal (dict_get_or md ''file_hash'' (PStr ''Unknown'')), FLit (NL @ NL),
       FLit (''## Executive Summary'' @ NL @ NL),
       FLit ''This report presents the results of a comprehensive reverse engineering analysis '',
       FLit ''of the MarsPro Android application. The analysis focused on understanding the '',
       FLit ''communication protocols, security measures, and architecture to enable '',
       FLit (''Home Assistant integration.'' @ NL @ NL),
       FLit (''## Application Metadata'' @ NL @ NL),
       FLit ''- **Package Name**: '', FVal (dict_get_or md ''package_name'' (PStr ''Unknown'')), FLit NL,
       FLit ''- **Version**: '', FVal (dict_get_or md ''version_name'' (PStr ''Unknown'')), FLit NL,
       FLit ''- **Version Code**: '', FVal (dict_get_or md ''version_code'' (PStr ''Unknown'')), FLit NL])"

definition report_body :: "analysis_results \<Rightarrow> pyval \<Rightarrow> fpart list" where
  "report_body r mib =
     [FLit ''- **File Size**: '', FFmt ''.2f'' mib, FLit ('' MB'' @ NL),
      FLit ''- **File Type**: '', FVal (dict_get_or (ar_metadata r) ''file_type'' (PStr ''Unknown'')), FLit (NL @ NL),
      FLit (''## Permissions Analysis'' @ NL @ NL),
      FLit (''The application requests the following permissions:'' @ NL @ NL)] @
     map (\<lambda>p. FLit (''- `'' @ p @ ''`'' @ NL)) (ar_permissions r) @
     [FLit NL, FLit (''## Components Analysis'' @ NL @ NL), FLit (''### Activities'' @ NL)] @
     concat (map activity_line (ar_activities r)) @
     [FLit NL, FLit (''### Services'' @ NL)] @ concat (map component_line (ar_services r)) @
     [FLit NL, FLit (''### Receivers'' @ NL)] @ concat (map component_line (ar_receivers r)) @
     [FLit NL, FLit (''### Providers'' @ NL)] @ concat (map component_line (ar_providers r)) @
     [FLit NL, FLit (''## Native Libraries'' @ NL @ NL)] @
     (if ar_native_libraries r \<noteq> []
      then FLit (''The application contains the following native libraries:'' @ NL @ NL) #
           map (\<lambda>l. FLit (''- `'' @ l @ ''`'' @ NL)) (ar_native_libraries r)
      else [FLit (''No native libraries found.'' @ NL)]) @
     [FLit NL, FLit (''## Assets'' @ NL @ NL),
      FLit ''Found '', FVal (PInt (int (length (ar_assets r)))), FLit ('' asset files.'' @ NL @ NL),
      FLit (''## Network Analysis'' @ NL @ NL),
      FLit ''Found '', FVal (PInt (int (card (ar_network_endpoints r)))), FLit ('' potential network endpoints.'' @ NL @ NL),
      FLit (''## Bluetooth Low Energy (BLE) Analysis'' @ NL @ NL),
      FLit ''Found '', FVal (PInt (int (card (ar_ble_services r)))), FLit ('' BLE-related files.'' @ NL @ NL),
      FLit (''## Security Analysis'' @ NL @ NL),
      FLit ''Found '', FVal (PInt (int (length (ar_security_findings r)))), FLit ('' security findings:'' @ NL @ NL)] @
     concat (map finding_parts (ar_security_findings r)) @
     [FLit (''## Recommendations'' @ NL @ NL)] @
     map (\<lambda>x. FLit (''- '' @ x @ NL)) (ar_recommendations r) @
     [FLit NL, FLit (''## Next Steps'' @ NL @ NL),
      FLit (''1. **Dynamic Analysis**: Perform runtime analysis using Frida'' @ NL),
      FLit (''2. **Network Monitoring**: Capture and analyze network traffic'' @ NL),
      FLit (''3. **BLE Protocol Analysis**: Reverse engineer BLE communication'' @ NL),
      FLit (''4. **API Documentation**: Document discovered API endpoints'' @ NL),
      FLit (''5. **Home Assistant Integration**: Implement local control'' @ NL @ NL),
      FLit (''---'' @ NL),
      FLit (''**Report generated by MarsPro Reverse Engineering Analysis Script**'' @ NL)]"

definition report_path :: "apk_world \<Rightarrow> string" where
  "report_path w = path_join (aw_analysis_dir w) (''marspro_reverse_engineering_report_'' @ aw_stamp w @ ''.md'')"

text \<open>
  \<open>generate_analysis_report\<close>: the file is created (an \<open>OSError\<close> when it cannot
  be), then written; when the size division raises, the file keeps what was
  written before it.  The result is the report's path.
\<close>

definition generate_analysis_report :: "apk_world \<Rightarrow> (re_state, string) pyop" where
  "generate_analysis_report w st =
     (if \<not> aw_report_writable w then (Inl (OSError ''Permission denied''), st)
      else
        let r = re_results st; p = report_path w; head = report_head w r
        in case size_mib (dict_get_or (ar_metadata r) ''file_size'' (PInt 0)) of
             Inl e \<Rightarrow> (Inl e, st\<lparr>re_reports := re_reports st @ [(p, head)]\<rparr>)
           | Inr mib \<Rightarrow> (Inr p, st\<lparr>re_reports := re_reports st @ [(p, head @ report_body r mib)]\<rparr>))"

section \<open>The complete analysis\<close>

text \<open>
  \<open>run_complete_analysis\<close>: validation (a failure raises \<open>ValueError\<close>), metadata,
  the two decompilers (whose failure is only logged), the manifest, the native
  libraries, the assets, the endpoint and BLE searches, the security report and
  the Markdown report.  An exception at any step ends the run with
  \<open>success: False\<close> and its message; the results gathered so far are returned
  either way (they are the state).
\<close>

datatype run_result = RunSuccess string | RunFailure string

definition validate_step :: "apk_world \<Rightarrow> (re_state, unit) pyop" where
  "validate_step w st =
     (if validate_apk (aw_apk_exists w) (path_name (aw_apk_path w)) then (Inr (), st)
      else (Inl (ValueError ''APK validation failed''), st))"

definition run_steps :: "apk_world \<Rightarrow> (re_state, string) pyop" where
  "run_steps w =
     bindE (validate_step w) (\<lambda>_.
     bindE (extract_apk_metadata w) (\<lambda>_.
     bindE (\<lambda>st. (Inr (decompile_with_apktool w st), st)) (\<lambda>_.
     bindE (\<lambda>st. (Inr (decompile_with_jadx w st), st)) (\<lambda>_.
     bindE (modify (analyze_manifest_step w)) (\<lambda>_.
     bindE (analyze_native_libraries w) (\<lambda>_.
     bindE (\<lambda>st. case analyze_assets w st of (a, st') \<Rightarrow> (Inr a, st')) (\<lambda>_.
     bindE (modify (analyze_network_step w)) (\<lambda>_.
     bindE (modify (analyze_ble_step w)) (\<lambda>_.
     bindE (modify security_step) (\<lambda>_.
     generate_analysis_report w))))))))))"

definition run_complete_analysis :: "apk_world \<Rightarrow> re_state \<Rightarrow> run_result \<times> re_state" where
  "run_complete_analysis w st =
     (case run_steps w st of
        (Inr p, st') \<Rightarrow> (RunSuccess p, st')
      | (Inl e, st') \<Rightarrow> (RunFailure (exn_msg e), st'))"

section \<open>Reference definitions\<close>

text \<open>
  The files of a tree in a plain depth-first walk, each with its path: the
  reference listing \<open>rglob_files\<close> is compared with.
\<close>

fun fs_walk :: "string \<Rightarrow> fs_node \<Rightarrow> string list" where
  "fs_walk p FsFile = [p]"
| "fs_walk p (FsDir es) = concat (map (\<lambda>e. fs_walk (path_join p (fst e)) (snd e)) es)"

text \<open>The keys the metadata extractions can produce.\<close>

definition meta_keys :: "pyval set" where
  "meta_keys = {PStr ''file_type'', PStr ''package_name'', PStr ''version_name'', PStr ''version_code''}"

text \<open>
  A run on an XAPK downloaded from a mirror: the archive has a \<open>manifest.json\<close>
  and the APK; \<open>aapt\<close> is not installed, the decompilers would succeed.
\<close>

definition demo_apk_world :: apk_world where
  "demo_apk_world =
     \<lparr>aw_apk_path = ''input/MarsPro.xapk'', aw_apk_exists = True, aw_apk_size = 52428800,
      aw_apk_sha256 = Inr ''9f'', aw_output_dir = ''output'', aw_analysis_dir = ''analysis'',
      aw_now = ''2025-01-01T00:00:00'', aw_report_now = ''2025-01-01T00:05:00'', aw_stamp = ''20250101_000500'',
      aw_xapk = Some [(''manifest.json'', Some (PDict [(PStr ''package_name'', PStr ''com.marspro.meizhi'')])),
                      (''com.marspro.meizhi.apk'', None)],
      aw_aapt = (\<lambda>_. ProcNotFound), aw_apktool = (\<lambda>_. ProcExit 0 [] []), aw_jadx = (\<lambda>_. ProcExit 0 [] []),
      aw_manifest = XDoc (XElem ''manifest'' [(''package'', ''com.marspro.meizhi'')]
                     [XElem ''uses-permission'' [(android ''name'', ''android.permission.BLUETOOTH'')] [],
                      XElem ''uses-permission'' [(android ''name'', ''android.permission.VIBRATE'')] []]),
      aw_tree = \<lparr>apktool_exists = False, smali_files = [], xml_files = [], jadx_exists = False, java_files = []\<rparr>,
      aw_apktool_out = [(''lib'', FsDir [(''arm64-v8a'', FsDir [(''libmars.so'', FsFile)])]),
                        (''assets'', FsDir [(''fonts'', FsDir [(''a.ttf'', FsFile)]), (''cfg.json'', FsFile)])],
      aw_report_writable = True\<rparr>"

section \<open>Lemmas\<close>

subsection \<open>Metadata\<close>

lemma aapt_field_keys:
  assumes "fst ` set md \<subseteq> meta_keys"
  shows "fst ` set (aapt_field part md) \<subseteq> meta_keys"
proof -
  have st: "\<And>k a v. a \<in> meta_keys \<Longrightarrow> fst ` set (dict_store md k a v) \<subseteq> meta_keys"
    using dict_store_keys assms by blast
  have m: "PStr ''package_name'' \<in> meta_keys" "PStr ''version_name'' \<in> meta_keys" "PStr ''version_code'' \<in> meta_keys"
    by (simp_all add: meta_keys_def)
  show ?thesis unfolding aapt_field_def Let_def by (simp add: st m assms)
qed

lemma fold_aapt_field_keys:
  "fst ` set md \<subseteq> meta_keys \<Longrightarrow> fst ` set (fold aapt_field ps md) \<subseteq> meta_keys"
  by (induction ps arbitrary: md) (simp_all add: aapt_field_keys)

lemma parse_aapt_output_keys: "fst ` set (parse_aapt_output out) \<subseteq> meta_keys"
proof -
  have "\<And>md. fst ` set md \<subseteq> meta_keys \<Longrightarrow>
     fst ` set (fold (\<lambda>line md. if starts_with line ''package:'' then fold aapt_field (split_ws line) md else md) ls md) \<subseteq> meta_keys"
    for ls by (induction ls) (simp_all add: fold_aapt_field_keys)
  then show ?thesis unfolding parse_aapt_output_def by (simp add: meta_keys_def)
qed

lemma extract_from_file_keys:
  assumes "extract_apk_metadata_from_file w f = Inr d"
  shows "fst ` set d \<subseteq> meta_keys"
proof -
  have fb: "fst ` set aapt_fallback \<subseteq> meta_keys" by (simp add: aapt_fallback_def meta_keys_def)
  show ?thesis
  proof (cases "aw_aapt w f")
    case (ProcExit rc out err)
    then have "d = (if rc = 0 then parse_aapt_output out else aapt_fallback)"
      using assms by (simp add: extract_apk_metadata_from_file_def)
    then show ?thesis using parse_aapt_output_keys [of out] fb by simp
  qed (use assms fb in \<open>simp_all add: extract_apk_metadata_from_file_def\<close>)
qed

lemma xapk_manifest_dict_keys: "xapk_manifest_dict v = Inr d \<Longrightarrow> fst ` set d \<subseteq> meta_keys"
  by (auto simp: xapk_manifest_dict_def meta_keys_def split: pyval.splits)

lemma extract_xapk_keys: "fst ` set (fst (extract_xapk_metadata w st)) \<subseteq> meta_keys"
  unfolding extract_xapk_metadata_def
  using extract_from_file_keys [of w "extracted_path w"] xapk_manifest_dict_keys
  by (simp add: xapk_fallback_def meta_keys_def split: option.splits list.splits sum.splits prod.splits)

lemma meta_keys_str: "a \<in> meta_keys \<Longrightarrow> py_hashable a \<and> py_hash_key a \<noteq> Some (KStr ''file_size'')"
  by (auto simp: meta_keys_def py_hashable_def)

lemma extract_xapk_state:
  "re_reports (snd (extract_xapk_metadata w st)) = re_reports st \<and> re_results (snd (extract_xapk_metadata w st)) = re_results st"
  by (simp add: extract_xapk_metadata_def split: option.splits list.splits sum.splits prod.splits)

lemma extract_xapk_manifest_state:
  assumes "aw_xapk w = Some ms" "list_ex (\<lambda>(n, _). str_contains ''manifest'' (py_lower n)) ms"
  shows "snd (extract_xapk_metadata w st) = st"
proof -
  obtain n j rest where f: "filter (\<lambda>(n, _). str_contains ''manifest'' (py_lower n)) ms = (n, j) # rest"
    using assms(2) by (cases "filter (\<lambda>(n, _). str_contains ''manifest'' (py_lower n)) ms")
      (auto simp: list_ex_iff filter_empty_conv)
  show ?thesis
    by (simp add: extract_xapk_metadata_def assms(1) f split: option.splits sum.splits)
qed

lemma extract_apk_metadata_extracted:
  assumes "is_xapk (aw_apk_path w)" "aw_xapk w = Some ms"
    "list_ex (\<lambda>(n, _). str_contains ''manifest'' (py_lower n)) ms"
  shows "re_extracted (snd (extract_apk_metadata w st)) = re_extracted st"
proof -
  obtain d where x: "extract_xapk_metadata w st = (d, st)"
    using extract_xapk_manifest_state [OF assms(2,3), of st] by (cases "extract_xapk_metadata w st") auto
  show ?thesis
    by (simp add: extract_apk_metadata_def assms(1) x Let_def split: prod.splits option.splits sum.splits)
qed

text \<open>
  Metadata extraction succeeds when the file can be hashed, unless \<open>aapt\<close> fails
  with an \<open>OSError\<close> on a plain APK; the stored metadata keeps the file's size under \<open>file_size\<close>, since no
  extraction produces that key.
\<close>

lemma extract_apk_metadata_ok:
  assumes "aw_apk_sha256 w = Inr h" and "is_xapk (aw_apk_path w) \<or> (\<forall>m. aw_aapt w (aw_apk_path w) \<noteq> ProcError m)"
  shows "\<exists>md st1. extract_apk_metadata w st = (Inr md, st1) \<and> re_results st1 = (re_results st)\<lparr>ar_metadata := md\<rparr> \<and>
           dict_get_or md ''file_size'' (PInt 0) = PInt (aw_apk_size w) \<and> re_reports st1 = re_reports st"
proof -
  let ?md0 = "[(PStr ''file_path'', PStr (aw_apk_path w)), (PStr ''file_size'', PInt (aw_apk_size w)),
               (PStr ''file_hash'', PStr h), (PStr ''analysis_timestamp'', PStr (aw_now w))]"
  let ?br = "if is_xapk (aw_apk_path w) then (case extract_xapk_metadata w st of (d, s) \<Rightarrow> (Inr d, s))
             else (extract_apk_metadata_from_file w (aw_apk_path w), st)"
  obtain d st1 where br: "?br = (Inr d, st1)" and keys: "fst ` set d \<subseteq> meta_keys"
    and st1: "re_reports st1 = re_reports st \<and> re_results st1 = re_results st"
  proof (cases "is_xapk (aw_apk_path w)")
    case True
    obtain d s where x: "extract_xapk_metadata w st = (d, s)" by (cases "extract_xapk_metadata w st")
    show ?thesis
      using that [of d s] True x extract_xapk_keys [of w st] extract_xapk_state [of w st] by simp
  next
    case False
    then obtain d where "extract_apk_metadata_from_file w (aw_apk_path w) = Inr d"
      using assms by (cases "aw_aapt w (aw_apk_path w)") (auto simp: extract_apk_metadata_from_file_def)
    then show ?thesis using that [of d st] False extract_from_file_keys by simp
  qed
  have h: "\<forall>a \<in> fst ` set d. py_hashable a" and o: "\<forall>a \<in> fst ` set d. py_hash_key a \<noteq> Some (KStr ''file_size'')"
    using keys meta_keys_str by blast+
  obtain md where m: "dict_merge ?md0 d = (None, md)"
    using dict_merge_hashable [OF h, of ?md0] by (cases "dict_merge ?md0 d") auto
  have "dict_lookup md (KStr ''file_size'') = Some (PInt (aw_apk_size w))"
    using dict_merge_lookup_other [OF o, of ?md0] m by simp
  then have fs: "dict_get_or md ''file_size'' (PInt 0) = PInt (aw_apk_size w)" by (simp add: dict_get_or_def)
  show ?thesis
    using st1 fs by (simp add: extract_apk_metadata_def assms(1) br m Let_def del: dict_merge.simps)
qed

subsection \<open>Steps\<close>

lemma lib_dir_libs_ok: "map_of out d \<noteq> Some FsFile \<Longrightarrow> \<exists>l. lib_dir_libs out d = Inr l"
  by (cases "map_of out d") (auto simp: lib_dir_libs_def split: fs_node.splits)

lemma analyze_native_libraries_ok:
  assumes "map_of (aw_apktool_out w) ''lib'' \<noteq> Some FsFile" "map_of (aw_apktool_out w) ''libs'' \<noteq> Some FsFile"
  shows "\<exists>l. analyze_native_libraries w st = (Inr l, st\<lparr>re_results := (re_results st)\<lparr>ar_native_libraries := l\<rparr>\<rparr>)"
  using lib_dir_libs_ok [OF assms(1)] lib_dir_libs_ok [OF assms(2)]
  by (auto simp: analyze_native_libraries_def)

lemma generate_analysis_report_ok:
  "aw_report_writable w \<Longrightarrow> dict_get_or (ar_metadata (re_results st)) ''file_size'' (PInt 0) = PInt n \<Longrightarrow>
     fst (generate_analysis_report w st) = Inr (report_path w)"
  by (simp add: generate_analysis_report_def size_mib_def Let_def)

lemma generate_analysis_report_results:
  "generate_analysis_report w s = (r, s') \<Longrightarrow> re_results s' = re_results s"
  by (auto simp: generate_analysis_report_def Let_def split: if_splits sum.splits)

lemma step_metadata [simp]:
  "ar_metadata (re_results (analyze_manifest_step w st)) = ar_metadata (re_results st)"
  "ar_metadata (re_results (snd (analyze_assets w st))) = ar_metadata (re_results st)"
  "ar_metadata (re_results (analyze_network_step w st)) = ar_metadata (re_results st)"
  "ar_metadata (re_results (analyze_ble_step w st)) = ar_metadata (re_results st)"
  "ar_metadata (re_results (security_step st)) = ar_metadata (re_results st)"
  by (simp_all add: analyze_manifest_step_def analyze_assets_def analyze_network_step_def analyze_ble_step_def
      security_step_def Let_def split: option.splits prod.splits)

lemma step_permissions [simp]:
  "analyze_native_libraries w s = (Inr l, s') \<Longrightarrow> ar_permissions (re_results s') = ar_permissions (re_results s)"
  "ar_permissions (re_results (snd (analyze_assets w s))) = ar_permissions (re_results s)"
  "ar_permissions (re_results (analyze_network_step w s)) = ar_permissions (re_results s)"
  "ar_permissions (re_results (analyze_ble_step w s)) = ar_permissions (re_results s)"
  by (auto simp: analyze_native_libraries_def analyze_assets_def analyze_network_step_def analyze_ble_step_def
      Let_def split: sum.splits)

lemma manifest_step_permissions:
  "analyze_manifest (aw_manifest w) = Some md \<Longrightarrow> ar_permissions (re_results (analyze_manifest_step w s)) = md_uses_permissions md"
  by (simp add: analyze_manifest_step_def)

lemma security_step_findings:
  "ar_security_findings (re_results (security_step s)) =
     fst (generate_security_report (ar_permissions (re_results s)) (ar_activities (re_results s))
            (ar_services (re_results s)) (ar_native_libraries (re_results s)))"
  by (simp add: security_step_def Let_def split: prod.splits)

lemma run_invalid:
  "\<not> validate_apk (aw_apk_exists w) (path_name (aw_apk_path w)) \<Longrightarrow>
     run_complete_analysis w st = (RunFailure ''APK validation failed'', st)"
  by (simp add: run_complete_analysis_def run_steps_def validate_step_def bindE_def)

lemma run_hash_error:
  "validate_apk (aw_apk_exists w) (path_name (aw_apk_path w)) \<Longrightarrow> aw_apk_sha256 w = Inl e \<Longrightarrow>
     run_complete_analysis w st = (RunFailure (exn_msg e), st)"
  by (simp add: run_complete_analysis_def run_steps_def validate_step_def extract_apk_metadata_def bindE_def)

lemma run_complete_analysis_ok:
  assumes "validate_apk (aw_apk_exists w) (path_name (aw_apk_path w))"
    and "is_xapk (aw_apk_path w) \<or> (\<forall>m. aw_aapt w (aw_apk_path w) \<noteq> ProcError m)"
    and "map_of (aw_apktool_out w) ''lib'' \<noteq> Some FsFile" "map_of (aw_apktool_out w) ''libs'' \<noteq> Some FsFile"
    and "aw_report_writable w" and "aw_apk_sha256 w = Inr h"
  shows "fst (run_complete_analysis w st) = RunSuccess (report_path w)"
proof -
  obtain md st1 where x: "extract_apk_metadata w st = (Inr md, st1)"
    and r1: "re_results st1 = (re_results st)\<lparr>ar_metadata := md\<rparr>"
    and fs: "dict_get_or md ''file_size'' (PInt 0) = PInt (aw_apk_size w)"
    using extract_apk_metadata_ok [OF assms(6) assms(2), of st] by blast
  let ?st2 = "analyze_manifest_step w st1"
  obtain l where n: "analyze_native_libraries w ?st2 = (Inr l, ?st2\<lparr>re_results := (re_results ?st2)\<lparr>ar_native_libraries := l\<rparr>\<rparr>)"
    using analyze_native_libraries_ok [OF assms(3,4)] by blast
  let ?st3 = "?st2\<lparr>re_results := (re_results ?st2)\<lparr>ar_native_libraries := l\<rparr>\<rparr>"
  obtain a st3' where a: "analyze_assets w ?st3 = (a, st3')" by (cases "analyze_assets w ?st3")
  let ?st4 = "security_step (analyze_ble_step w (analyze_network_step w st3'))"
  have md4: "dict_get_or (ar_metadata (re_results ?st4)) ''file_size'' (PInt 0) = PInt (aw_apk_size w)"
    using fs r1 step_metadata(2) [of w ?st3] a by simp
  obtain st5 where g: "generate_analysis_report w ?st4 = (Inr (report_path w), st5)"
    using generate_analysis_report_ok [OF assms(5) md4] by (cases "generate_analysis_report w ?st4") auto
  show ?thesis
    using assms(1)
    by (simp add: run_complete_analysis_def run_steps_def bindE_def modify_def validate_step_def x n a g
        split: prod.splits)
qed

lemma run_success_findings:
  assumes "run_complete_analysis w st = (RunSuccess p, st')" "analyze_manifest (aw_manifest w) = Some md"
  shows "\<exists>acts svcs libs. ar_security_findings (re_results st') =
           fst (generate_security_report (md_uses_permissions md) acts svcs libs)"
proof -
  have "run_steps w st = (Inr p, st')"
    using assms(1) by (auto simp: run_complete_analysis_def split: prod.splits sum.splits)
  then obtain s4 s5 s6 s7 s8 s9 s10 x6 x7
    where "analyze_manifest_step w s4 = s5"
      and "analyze_native_libraries w s5 = (Inr x6, s6)"
      and "analyze_assets w s6 = (x7, s7)"
      and "analyze_network_step w s7 = s8" "analyze_ble_step w s8 = s9" "security_step s9 = s10"
      and g: "generate_analysis_report w s10 = (Inr p, st')"
    unfolding run_steps_def
    by (elim bindE_InrE) (auto simp: modify_Inr split: prod.splits)
  then have "ar_permissions (re_results s9) = md_uses_permissions md"
    using manifest_step_permissions [OF assms(2)] step_permissions(2) [of w s6] by auto
  then show ?thesis
    using security_step_findings [of s9] generate_analysis_report_results [OF g] \<open>security_step s9 = s10\<close> by auto
qed

lemma mset_rglob_entries:
  assumes "\<And>e. e \<in> set es \<Longrightarrow> snd e \<noteq> FsFile \<Longrightarrow>
             mset (rglob_files (path_join p (fst e)) (snd e)) = mset (fs_walk (path_join p (fst e)) (snd e))"
  shows "mset (map (\<lambda>e. path_join p (fst e)) (filter (\<lambda>e. snd e = FsFile) es)) +
         mset (concat (map (\<lambda>e. rglob_files (path_join p (fst e)) (snd e)) es)) =
         mset (concat (map (\<lambda>e. fs_walk (path_join p (fst e)) (snd e)) es))"
  using assms
proof (induction es)
  case Nil
  then show ?case by simp
next
  case (Cons e es)
  then show ?case by (cases "snd e = FsFile") (auto simp: add_ac)
qed

lemma rglob_files_walk: "n \<noteq> FsFile \<Longrightarrow> mset (rglob_files p n) = mset (fs_walk p n)"
proof (induction p n rule: rglob_files.induct)
  case (1 p)
  then show ?case by simp
next
  case (2 p es)
  then show ?case using mset_rglob_entries [of es p] by auto
qed

lemma report_exported_none:
  "activity_line [(PStr ''name'', PStr n), (PStr ''exported'', PNone), (PStr ''launchable'', PBool False)] =
     [FLit ''- **'', FVal (PStr n), FLit ''**'', FLit '' - Exported: '', FVal PNone, FLit NL]"
  by (simp add: activity_line_def dict_get_or_def)

lemma finding_titles:
  "map (\<lambda>f. py_title (replace_char (CHR ''_'') (CHR '' '') (sec_type f)))
     [DangerousPermission p, ExportedActivity a, NativeCode k ls] =
   [''Dangerous Permission'', ''Exported Component'', ''Native Code'']"
  by (simp add: py_title_def replace_char_def ascii_alpha_def ascii_upper_char_def py_lower_char_def char_of_def bit_0)

section \<open>Properties of the analysis\<close>

text \<open>
  C31: For an XAPK whose archive has a member with \<open>manifest\<close> in its name,
  metadata extraction never writes \<open>extracted.apk\<close>, so on a fresh output
  directory both decompilers refuse to run (\<open>XAPK extraction failed\<close>), whatever
  APKTool and JADX would have done.
\<close>

theorem xapk_manifest_never_decompiled:
  assumes "is_xapk (aw_apk_path w)" "aw_xapk w = Some ms"
    "list_ex (\<lambda>(n, _). str_contains ''manifest'' (py_lower n)) ms" "\<not> re_extracted st"
    "extract_apk_metadata w st = (r, st')"
  shows "\<not> decompile_with_apktool w st' \<and> \<not> decompile_with_jadx w st'"
proof -
  have "\<not> re_extracted st'" using extract_apk_metadata_extracted [OF assms(1-3), of st] assms(4,5) by simp
  then show ?thesis by (simp add: decompile_with_apktool_def decompile_with_jadx_def decompile_input_def assms(1))
qed

theorem xapk_manifest_never_decompiled_witness:
  "\<not> decompile_with_apktool demo_apk_world (snd (extract_apk_metadata demo_apk_world (re_init False))) \<and>
   \<not> decompile_with_jadx demo_apk_world (snd (extract_apk_metadata demo_apk_world (re_init False)))"
  using xapk_manifest_never_decompiled
    [of demo_apk_world _ "re_init False" "fst (extract_apk_metadata demo_apk_world (re_init False))"
        "snd (extract_apk_metadata demo_apk_world (re_init False))"]
  by (simp add: demo_apk_world_def is_xapk_def path_name_def path_suffix_def py_lower_eval re_init_def Let_def)

text \<open>
  C32: \<open>run_complete_analysis\<close> reports success, with the report's path, whenever
  the input validates, the file can be read to compute its digest, \<open>aapt\<close> does not fail with an \<open>OSError\<close> on a plain APK,
  neither \<open>lib\<close> nor \<open>libs\<close> of the APKTool output is a file, and the report can be
  created: the decompilers' failures, a missing manifest and missing sources do
  not stop it.
\<close>

theorem run_complete_analysis_success:
  assumes "validate_apk (aw_apk_exists w) (path_name (aw_apk_path w))"
    and "is_xapk (aw_apk_path w) \<or> (\<forall>m. aw_aapt w (aw_apk_path w) \<noteq> ProcError m)"
    and "map_of (aw_apktool_out w) ''lib'' \<noteq> Some FsFile" "map_of (aw_apktool_out w) ''libs'' \<noteq> Some FsFile"
    and "aw_report_writable w" and "aw_apk_sha256 w = Inr h"
  shows "fst (run_complete_analysis w st) = RunSuccess (report_path w)"
  using run_complete_analysis_ok [OF assms] .

theorem run_complete_analysis_success_witness:
  "fst (run_complete_analysis demo_apk_world (re_init False)) =
     RunSuccess ''analysis/marspro_reverse_engineering_report_20250101_000500.md''"
  using run_complete_analysis_success [where w=demo_apk_world and st="re_init False" and h="''9f''"]
  by (simp add: demo_apk_world_def validate_apk_def is_xapk_def path_name_def path_suffix_def py_lower_eval
      report_path_def path_join_def Let_def)

text \<open>
  C33: After a successful run on a parsed manifest, the report's findings name a
  dangerous permission exactly when it is one of the ten listed dangerous
  permissions and some \<open>uses-permission\<close> element of the manifest requests it.
\<close>

theorem run_reports_manifest_permissions:
  assumes "run_complete_analysis w st = (RunSuccess p, st')" "aw_manifest w = XDoc root"
  shows "DangerousPermission q \<in> set (ar_security_findings (re_results st')) \<longleftrightarrow>
           q \<in> set dangerous_permissions \<and>
           (\<exists>e \<in> set (xml_findall root ''uses-permission''). xml_get e (android ''name'') = PStr q)"
proof -
  obtain md where md: "analyze_manifest (XDoc root) = Some md" by (simp add: analyze_manifest_def)
  obtain acts svcs libs where f: "ar_security_findings (re_results st') =
      fst (generate_security_report (md_uses_permissions md) acts svcs libs)"
    using run_success_findings [OF assms(1)] md assms(2) by auto
  show ?thesis using report_permissions_from_manifest [OF md, of q acts svcs libs] f by simp
qed

theorem run_reports_manifest_permissions_witness:
  "DangerousPermission ''android.permission.BLUETOOTH''
     \<in> set (ar_security_findings (re_results (snd (run_complete_analysis demo_apk_world (re_init False))))) \<and>
   DangerousPermission ''android.permission.VIBRATE''
     \<notin> set (ar_security_findings (re_results (snd (run_complete_analysis demo_apk_world (re_init False)))))"
proof -
  have f: "fst (run_complete_analysis demo_apk_world (re_init False)) =
      RunSuccess ''analysis/marspro_reverse_engineering_report_20250101_000500.md''"
    using run_complete_analysis_ok [where w=demo_apk_world and st="re_init False" and h="''9f''"]
    by (simp add: demo_apk_world_def validate_apk_def is_xapk_def path_name_def path_suffix_def py_lower_eval
        report_path_def path_join_def Let_def)
  have r: "run_complete_analysis demo_apk_world (re_init False) =
      (RunSuccess ''analysis/marspro_reverse_engineering_report_20250101_000500.md'',
       snd (run_complete_analysis demo_apk_world (re_init False)))"
    using f by (metis prod.collapse)
  have m: "aw_manifest demo_apk_world = XDoc (XElem ''manifest'' [(''package'', ''com.marspro.meizhi'')]
                     [XElem ''uses-permission'' [(android ''name'', ''android.permission.BLUETOOTH'')] [],
                      XElem ''uses-permission'' [(android ''name'', ''android.permission.VIBRATE'')] []])"
    by (simp add: demo_apk_world_def)
  note a = run_reports_manifest_permissions [OF r m, of "''android.permission.BLUETOOTH''"]
  note b = run_reports_manifest_permissions [OF r m, of "''android.permission.VIBRATE''"]
  show ?thesis
    using a b by (simp add: dangerous_permissions_def xml_findall_def android_def)
qed

text \<open>
  C34: \<open>analyze_assets\<close> reports every file below the \<open>assets\<close> directory of the
  APKTool output exactly once, with its path relative to \<open>apktool_output\<close>
  (\<open>assets/...\<close>), and no directory: as a multiset its list is that of a
  depth-first walk of the directory, and empty when \<open>assets\<close> is missing or is a
  file.  The list is stored as the results' \<open>assets\<close> and nothing else changes.
\<close>

theorem analyze_assets_files:
  "mset (fst (analyze_assets w st)) =
     (case map_of (aw_apktool_out w) ''assets'' of Some (FsDir es) \<Rightarrow> mset (fs_walk ''assets'' (FsDir es)) | _ \<Rightarrow> {#})
   \<and> snd (analyze_assets w st) = st\<lparr>re_results := (re_results st)\<lparr>ar_assets := fst (analyze_assets w st)\<rparr>\<rparr>"
proof -
  have "mset (rglob_files ''assets'' n) = (case n of FsDir es \<Rightarrow> mset (fs_walk ''assets'' (FsDir es)) | _ \<Rightarrow> {#})" for n
    using rglob_files_walk [of n "''assets''"] by (cases n) simp_all
  then show ?thesis by (simp add: analyze_assets_def Let_def split: option.splits)
qed

end
