(* ===== verification/Workflow.thy ===== *)
theory Workflow
  imports ApkPipeline
begin

text \<open>
  The five-phase analysis drivers \<open>src/scripts/analyze.py\<close> (\<open>MarsProAnalyzer\<close>,
  running \<open>apktool\<close> and \<open>jadx\<close> directly) and \<open>src/scripts/analyze_mcp.py\<close>
  (\<open>MarsProMCPAnalyzer\<close>, calling the same tools through MCP servers configured
  in \<open>mcp.json\<close>).  Each phase catches every exception and reports \<open>False\<close>;
  \<open>run_full_analysis\<close> runs the phases in order and stops after the first that
  fails.  The world \<open>wf_world\<close> gives the outcome of every command, the files
  the decompilers leave, the MCP configuration and server answers; the state
  records the files written to the analysis directory, the commands run (in
  order), and the phases started.  Logging is not modelled, so the steps that
  only log are the identity.
\<close>

section \<open>World and state\<close>

text \<open>A file the scripts write: Markdown text, or a value dumped with \<open>json.dump\<close>.\<close>

datatype out_file = TextFile "fpart list" | JsonFile pyval

text \<open>
  The world: the APK path and size, the project root, the clock, the
  modification time of the script (\<open>analyze_mcp.py\<close>'s \<open>analysis_date\<close>), the
  outcome of each command line, the manifest and the \<open>strings.xml\<close> files the
  decompiler leaves (relative path and text, in \<open>rglob\<close> order), which files
  exist (paths relative to the project root), \<open>mcp.json\<close> as
  parsed (\<open>None\<close>: missing or not JSON), the outcome of an MCP server run on its
  command, working directory and request, \<open>json.loads\<close> (\<open>None\<close>: not JSON), and
  the \<open>OSError\<close> that creating a directory or opening a file for writing raises, by
  path (\<open>None\<close>: it succeeds).  Only the setup's writers of \<open>DynamicAnalysis\<close>
  consult it; the writers of this theory are modelled as succeeding.
\<close>

record wf_world =
  wf_apk_path :: string
  wf_apk_size :: int
  wf_root :: string
  wf_now :: string
  wf_script_mtime :: string
  wf_run :: "string list \<Rightarrow> proc_result"
  wf_manifest :: "string option"
  wf_strings :: "(string \<times> string) list"
  wf_exists :: "string \<Rightarrow> bool"
  wf_mcp_config :: "pyval option"
  wf_mcp_run :: "pyval \<Rightarrow> pyval \<Rightarrow> pyval \<Rightarrow> proc_result"
  wf_json_loads :: "string \<Rightarrow> pyval option"
  wf_write_error :: "string \<Rightarrow> exn option"

record wf_state =
  wf_files :: "(string \<times> out_file) list"
  wf_commands :: "string list list"
  wf_started :: "string list"

definition wf_init :: wf_state where
  "wf_init = \<lparr>wf_files = [], wf_commands = [], wf_started = []\<rparr>"

definition apktool_output :: "wf_world \<Rightarrow> string" where
  "apktool_output w = path_join (path_join (wf_root w) ''output'') ''apktool_output''"

definition jadx_output :: "wf_world \<Rightarrow> string" where
  "jadx_output w = path_join (path_join (wf_root w) ''output'') ''jadx_output''"

section \<open>Commands and files\<close>

text \<open>
  \<open>subprocess.run\<close>: the command is recorded; a missing program, another
  \<open>OSError\<close> and a timeout raise.
\<close>

definition run_cmd :: "wf_world \<Rightarrow> string list \<Rightarrow> ('a wf_state_scheme, proc_result) pyop" where
  "run_cmd w c st =
     (let st' = st\<lparr>wf_commands := wf_commands st @ [c]\<rparr> in
      case wf_run w c of
        ProcNotFound \<Rightarrow> (Inl (FileNotFoundError ''No such file or directory''), st')
      | ProcError m \<Rightarrow> (Inl (OSError m), st')
      | ProcTimeout \<Rightarrow> (Inl TimeoutError, st')
      | r \<Rightarrow> (Inr r, st'))"

fun proc_stdout :: "proc_result \<Rightarrow> string" where
  "proc_stdout (ProcExit _ out _) = out"
| "proc_stdout _ = []"

text \<open>
  Writing a file (its path relative to the project root) replaces an earlier one
  of that name; \<open>analysis_file\<close> names a file of the analysis directory.
\<close>

definition write_file :: "string \<Rightarrow> out_file \<Rightarrow> 'a wf_state_scheme \<Rightarrow> 'a wf_state_scheme" where
  "write_file p c st = st\<lparr>wf_files := AList.update p c (wf_files st)\<rparr>"

text \<open>
  \<open>_extract_interesting_files\<close>: the manifest, when the decompiler left one, and
  every \<open>strings.xml\<close> below \<open>apktool_output\<close>, under \<open>strings/\<close> with its
  relative path.
\<close>

definition analysis_file :: "string \<Rightarrow> string" where
  "analysis_file n = path_join ''analysis'' n"

definition extract_interesting_files :: "wf_world \<Rightarrow> wf_state \<Rightarrow> wf_state" where
  "extract_interesting_files w st =
     fold (\<lambda>(rel, c). write_file (analysis_file (path_join ''strings'' rel)) (TextFile [FLit c])) (wf_strings w)
       (case wf_manifest w of None \<Rightarrow> st | Some c \<Rightarrow> write_file (analysis_file ''AndroidManifest.xml'') (TextFile [FLit c]) st)"

text \<open>A phase: any exception is logged and the phase reports \<open>False\<close>.\<close>

definition phase_guard :: "('s, bool) pyop \<Rightarrow> 's \<Rightarrow> bool \<times> 's" where
  "phase_guard m st = (case m st of (Inr b, s) \<Rightarrow> (b, s) | (Inl _, s) \<Rightarrow> (False, s))"

section \<open>The direct analyzer\<close>

text \<open>Phase 1: APKTool, then JADX; a non-zero exit of either fails the phase.\<close>

definition phase1_static_analysis :: "wf_world \<Rightarrow> (wf_state, bool) pyop" where
  "phase1_static_analysis w =
     bindE (run_cmd w [''apktool'', ''d'', wf_apk_path w, ''-o'', apktool_output w, ''-f'']) (\<lambda>r.
     if \<not> tool_ok r then ret False else
     bindE (run_cmd w [''jadx'', ''-d'', jadx_output w, wf_apk_path w]) (\<lambda>r2.
     if \<not> tool_ok r2 then ret False else
     bindE (modify (extract_interesting_files w)) (\<lambda>_. ret True)))"

text \<open>
  \<open>_setup_frida_server\<close>: unless the process list shows \<open>frida-server\<close>, start it
  in the background through \<open>su\<close>.
\<close>

definition frida_start_cmd :: "string list" where
  "frida_start_cmd = [''adb'', ''shell'', ''su -c '' @ [CHR 0x27] @ ''/data/local/tmp/frida-server &'' @ [CHR 0x27]]"

definition setup_frida_server :: "wf_world \<Rightarrow> (wf_state, unit) pyop" where
  "setup_frida_server w =
     bindE (run_cmd w [''adb'', ''shell'', ''ps | grep frida'']) (\<lambda>r.
       if str_contains ''frida-server'' (proc_stdout r) then ret ()
       else bindE (run_cmd w frida_start_cmd) (\<lambda>_. ret ()))"

text \<open>\<open>_run_frida_script\<close> only logs whether the script exists and how to run it.\<close>

definition run_frida_script :: "wf_world \<Rightarrow> string \<Rightarrow> (wf_state, unit) pyop" where
  "run_frida_script w p = ret ()"

text \<open>
  Phase 2: the device check is \<open>"device" not in result.stdout\<close> on the output of
  \<open>adb devices\<close>; when it holds the phase is skipped with success.
\<close>

definition phase2_dynamic_analysis :: "wf_world \<Rightarrow> (wf_state, bool) pyop" where
  "phase2_dynamic_analysis w =
     bindE (run_cmd w [''adb'', ''devices'']) (\<lambda>r.
     if \<not> str_contains ''device'' (proc_stdout r) then ret True else
     bindE (setup_frida_server w) (\<lambda>_.
     bindE (run_frida_script w ''scripts/net_hook.js'') (\<lambda>_.
     bindE (run_frida_script w ''scripts/ble_hook.js'') (\<lambda>_. ret True))))"

text \<open>
  The three Markdown documents of phase 3.  The summary's status marks are the
  UTF-8 bytes \<open>write_text\<close> writes for U+2705 and U+23F3; its size is the file
  size divided by \<open>2^20\<close>, formatted with two decimals.
\<close>

abbreviation MARK_DONE :: string where
  "MARK_DONE \<equiv> [CHR 0xE2, CHR 0x9C, CHR 0x85]"

abbreviation MARK_TODO :: string where
  "MARK_TODO \<equiv> [CHR 0xE2, CHR 0x8F, CHR 0xB3]"

definition summary_md :: "wf_world \<Rightarrow> fpart list" where
  "summary_md w =
     [FLit (unlines [''# MarsPro Analysis Summary'', '''', ''## APK Information''] @ ''- **File**: ''),
      FLit (path_name (wf_apk_path w)), FLit (NL @ ''- **Size**: ''),
      FFmt ''.2f'' (PFloat (Flt (wf_apk_size w) (-20))),
      FLit ('' MB'' @ NL @
        unlines ['''', ''## Analysis Phases'', ''1. '' @ MARK_DONE @ '' Static Analysis (apktool + jadx)'',
          ''2. '' @ MARK_TODO @ '' Dynamic Analysis (Frida hooks)'', ''3. '' @ MARK_TODO @ '' Documentation'',
          ''4. '' @ MARK_TODO @ '' Home Assistant Integration'', ''5. '' @ MARK_TODO @ '' Testing'', '''',
          ''## Discovered Components'', ''- REST API endpoints (to be documented)'',
          ''- BLE communication protocols (to be documented)'', ''- Device control commands (to be documented)'',
          '''', ''## Next Steps'', ''1. Run dynamic analysis with Frida'', ''2. Document discovered APIs'',
          ''3. Implement Home Assistant integration'', ''4. Test with real devices'', ''''] @ ''Generated on: ''),
      FLit (wf_now w), FLit NL]"

definition api_documentation_md :: string where
  "api_documentation_md = unlines
     [''# MarsPro API Documentation'', '''', ''## REST API Endpoints'', '''', ''### Authentication'',
      ''- **Endpoint**: `/api/v1/login`'', ''- **Method**: POST'',
      ''- **Description**: User authentication'', ''- **Status**: To be discovered'', '''',
      ''### Device Management'', ''- **Endpoint**: `/api/v1/devices`'', ''- **Method**: GET'',
      ''- **Description**: Get user devices'', ''- **Status**: To be discovered'', '''',
      ''### Device Control'', ''- **Endpoint**: `/api/v1/control`'', ''- **Method**: POST'',
      ''- **Description**: Control device'', ''- **Status**: To be discovered'', '''',
      ''## BLE Communication'', '''', ''### Service UUIDs'', ''- **Main Service**: To be discovered'',
      ''- **Control Characteristic**: To be discovered'',
      ''- **Status Characteristic**: To be discovered'', '''', ''### Command Protocol'',
      ''- **Turn On**: To be discovered'', ''- **Turn Off**: To be discovered'',
      ''- **Set Brightness**: To be discovered'', ''- **Set Color Temperature**: To be discovered'',
      '''', ''## Status Codes'', ''- **200**: Success'', ''- **401**: Unauthorized'',
      ''- **404**: Not Found'', ''- **500**: Server Error'', '''',
      ''*This documentation will be updated as endpoints are discovered during analysis.*'']"

definition api_mapping_md :: string where
  "api_mapping_md = unlines
     [''# MarsPro API Mapping'', '''', ''## Cloud vs Local Function Mapping'', '''',
      ''### Authentication'', ''| Cloud Function | Local Equivalent | Status |'',
      ''|----------------|------------------|--------|'', ''| Login | BLE Pairing | To be discovered |'',
      ''| Token Refresh | BLE Reconnection | To be discovered |'', '''', ''### Device Discovery'',
      ''| Cloud Function | Local Equivalent | Status |'',
      ''|----------------|------------------|--------|'',
      ''| Get Devices | BLE Scan | To be discovered |'',
      ''| Device Status | BLE Read | To be discovered |'', '''', ''### Device Control'',
      ''| Cloud Function | Local Equivalent | Status |'',
      ''|----------------|------------------|--------|'',
      ''| Turn On/Off | BLE Write | To be discovered |'',
      ''| Set Brightness | BLE Write | To be discovered |'',
      ''| Set Color Temp | BLE Write | To be discovered |'',
      ''| Set Fan Speed | BLE Write | To be discovered |'', '''', ''### Status Monitoring'',
      ''| Cloud Function | Local Equivalent | Status |'',
      ''|----------------|------------------|--------|'',
      ''| Real-time Status | BLE Notifications | To be discovered |'',
      ''| Power Consumption | BLE Read | To be discovered |'', '''', ''## Implementation Notes'',
      ''- Local control requires device MAC address'',
      ''- BLE communication may have different command formats'',
      ''- Some features may only be available via cloud API'',
      ''- Local control provides faster response times'', '''',
      ''*This mapping will be updated as the protocol is reverse engineered.*'']"

text \<open>Phase 3 writes the three documents; phases 4 and 5 only log.\<close>

definition phase3_documentation :: "wf_world \<Rightarrow> (wf_state, bool) pyop" where
  "phase3_documentation w =
     bindE (modify (write_file (analysis_file ''analysis_summary.md'') (TextFile (summary_md w)))) (\<lambda>_.
     bindE (modify (write_file (analysis_file ''api_documentation.md'') (TextFile [FLit api_documentation_md]))) (\<lambda>_.
     bindE (modify (write_file (analysis_file ''api_mapping.md'') (TextFile [FLit api_mapping_md]))) (\<lambda>_. ret True)))"

definition phase4_ha_integration :: "(wf_state, bool) pyop" where
  "phase4_ha_integration = ret True"

definition phase5_testing :: "(wf_state, bool) pyop" where
  "phase5_testing = ret True"

section \<open>Running the phases\<close>

text \<open>
  \<open>run_full_analysis\<close>: each phase is announced (recorded as started), then run;
  the loop breaks after the first phase that reports \<open>False\<close>.
\<close>

fun run_phases :: "(string \<times> (wf_state \<Rightarrow> bool \<times> wf_state)) list \<Rightarrow> wf_state \<Rightarrow> wf_state" where
  "run_phases [] st = st"
| "run_phases ((n, f) # ps) st =
     (case f (st\<lparr>wf_started := wf_started st @ [n]\<rparr>) of (ok, st') \<Rightarrow> if ok then run_phases ps st' else st')"

definition analyzer_phases :: "wf_world \<Rightarrow> (string \<times> (wf_state \<Rightarrow> bool \<times> wf_state)) list" where
  "analyzer_phases w =
     [(''Phase 1: Static Analysis'', phase_guard (phase1_static_analysis w)),
      (''Phase 2: Dynamic Analysis'', phase_guard (phase2_dynamic_analysis w)),
      (''Phase 3: Documentation'', phase_guard (phase3_documentation w)),
      (''Phase 4: Home Assistant Integration'', phase_guard phase4_ha_integration),
      (''Phase 5: Testing'', phase_guard phase5_testing)]"

definition run_full_analysis :: "wf_world \<Rightarrow> wf_state \<Rightarrow> wf_state" where
  "run_full_analysis w st = run_phases (analyzer_phases w) st"

section \<open>The MCP analyzer\<close>

text \<open>
  The JSON-RPC request \<open>call_mcp_server\<close> sends, and \<open>s.strip()\<close> of the server's
  output.
\<close>

definition mcp_request :: "string \<Rightarrow> pyval \<Rightarrow> pyval" where
  "mcp_request tool args =
     PDict [(PStr ''jsonrpc'', PStr ''2.0''), (PStr ''id'', PInt 1), (PStr ''method'', PStr ''tools/call''),
            (PStr ''params'', PDict [(PStr ''name'', PStr tool), (PStr ''arguments'', args)])]"

definition py_strip :: "string \<Rightarrow> string" where
  "py_strip s = rev (dropWhile py_isspace (rev (dropWhile py_isspace s)))"

text \<open>
  The loop over \<open>mcp_config.get("servers", [])\<close>: the first server whose
  \<open>id\<close> equals the name; \<open>server.get\<close> on an entry that is not an object raises.
\<close>

fun find_server :: "string \<Rightarrow> pyval list \<Rightarrow> exn + pyval" where
  "find_server n [] = Inr PNone"
| "find_server n (s # ss) =
     (case py_get s (PStr ''id'') PNone of
        Inl e \<Rightarrow> Inl e
      | Inr v \<Rightarrow> if v = PStr n then Inr s else find_server n ss)"

text \<open>
  \<open>"error" in response\<close>: a key of an object, an item of a list, a substring of
  a string; any other value is not a container.
\<close>

fun py_contains_str :: "pyval \<Rightarrow> string \<Rightarrow> exn + bool" where
  "py_contains_str (PDict d) k = Inr (dict_lookup d (KStr k) \<noteq> None)"
| "py_contains_str (PList xs) k = Inr (PStr k \<in> set xs)"
| "py_contains_str (PStr s) k = Inr (str_contains k s)"
| "py_contains_str _ k = Inl (TypeError ''argument is not iterable'')"

text \<open>
  \<open>call_mcp_server\<close>: read \<open>mcp.json\<close>, find the server, run its command with the
  request on standard input, parse the output and return its \<open>result\<close> entry.
  Each failure raises: an unknown server or an empty command, a non-zero exit, an
  output that is not JSON, and a response with an \<open>error\<close> (whose message also
  carries \<open>str(response['error'])\<close>, not modelled).
\<close>

definition call_mcp_server :: "wf_world \<Rightarrow> string \<Rightarrow> string \<Rightarrow> pyval \<Rightarrow> exn + pyval" where
  "call_mcp_server w server tool args =
     (case wf_mcp_config w of
        None \<Rightarrow> Inl (OSError ''mcp.json'')
      | Some cfg \<Rightarrow>
          (case py_get cfg (PStr ''servers'') (PList []) of
             Inl e \<Rightarrow> Inl e
           | Inr servers \<Rightarrow>
               (case py_iter servers of
                  Inl e \<Rightarrow> Inl e
                | Inr ss \<Rightarrow>
                    (case find_server server ss of
                       Inl e \<Rightarrow> Inl e
                     | Inr sc \<Rightarrow>
                         if \<not> py_truthy sc then Inl (GenericException (''Server '' @ server @ '' not found in mcp.json''))
                         else
                           (case (py_get sc (PStr ''cwd'') (PStr ''''), py_get sc (PStr ''command'') (PList [])) of
                              (Inr cwd, Inr command) \<Rightarrow>
                                if \<not> py_truthy command
                                then Inl (GenericException (''No command configured for server '' @ server))
                                else
                                  (case wf_mcp_run w command cwd (mcp_request tool args) of
                                     ProcExit rc out err \<Rightarrow>
                                       if rc \<noteq> 0 then Inl (GenericException (''Server '' @ server @ '' failed: '' @ err))
                                       else
                                         (case wf_json_loads w (py_strip out) of
                                            None \<Rightarrow> Inl (ValueError ''Expecting value'')
                                          | Some resp \<Rightarrow>
                                              (case py_contains_str resp ''error'' of
                                                 Inl e \<Rightarrow> Inl e
                                               | Inr True \<Rightarrow> Inl (GenericException (''Server '' @ server @ '' error: ''))
                                               | Inr False \<Rightarrow> py_get resp (PStr ''result'') (PDict [])))
                                   | ProcNotFound \<Rightarrow> Inl (OSError ''No such file or directory'')
                                   | ProcError m \<Rightarrow> Inl (OSError m)
                                   | ProcTimeout \<Rightarrow> Inl TimeoutError)
                            | (Inl e, _) \<Rightarrow> Inl e
                            | (_, Inl e) \<Rightarrow> Inl e)))))"

text \<open>\<open>result.get("success")\<close>, read for truth.\<close>

definition get_success :: "pyval \<Rightarrow> exn + bool" where
  "get_success r = map_sum id py_truthy (py_get r (PStr ''success'') PNone)"

definition mcp_call :: "wf_world \<Rightarrow> string \<Rightarrow> string \<Rightarrow> pyval \<Rightarrow> (wf_state, pyval) pyop" where
  "mcp_call w server tool args = liftE (call_mcp_server w server tool args)"

text \<open>
  Saving a tool's \<open>data\<close> entry as JSON when its \<open>success\<close> entry is true; a
  result without success is passed over silently.
\<close>

definition save_data_if_success :: "string \<Rightarrow> pyval \<Rightarrow> (wf_state, unit) pyop" where
  "save_data_if_success p r =
     bindE (liftE (get_success r)) (\<lambda>ok.
       if ok then bindE (liftE (py_get r (PStr ''data'') (PDict []))) (\<lambda>d. modify (write_file (analysis_file p) (JsonFile d)))
       else ret ())"

text \<open>
  Phase 1 through the servers: decompile with the \<open>apktool\<close> server, then analyse
  the manifest; decompile with the \<open>jadx\<close> server, then find the classes.  Only an
  unsuccessful decompilation fails the phase; any raised call does too.
\<close>

text \<open>The MCP analyzer's copy of \<open>_extract_interesting_files\<close>.\<close>

definition mcp_extract_interesting_files :: "wf_world \<Rightarrow> wf_state \<Rightarrow> wf_state" where
  "mcp_extract_interesting_files w st =
     fold (\<lambda>(rel, c). write_file (analysis_file (path_join ''strings'' rel)) (TextFile [FLit c])) (wf_strings w)
       (case wf_manifest w of None \<Rightarrow> st | Some c \<Rightarrow> write_file (analysis_file ''AndroidManifest.xml'') (TextFile [FLit c]) st)"

definition mcp_phase1_static_analysis :: "wf_world \<Rightarrow> (wf_state, bool) pyop" where
  "mcp_phase1_static_analysis w =
     bindE (mcp_call w ''apktool'' ''decompile_apk''
              (PDict [(PStr ''apk_path'', PStr (wf_apk_path w)), (PStr ''output_dir'', PStr (apktool_output w))])) (\<lambda>ar.
     bindE (liftE (get_success ar)) (\<lambda>aok.
     if \<not> aok then ret False else
     bindE (mcp_call w ''apktool'' ''analyze_manifest'' (PDict [(PStr ''apktool_dir'', PStr (apktool_output w))])) (\<lambda>mr.
     bindE (save_data_if_success ''manifest_analysis.json'' mr) (\<lambda>_.
     bindE (mcp_call w ''jadx'' ''decompile_apk''
              (PDict [(PStr ''apk_path'', PStr (wf_apk_path w)), (PStr ''output_dir'', PStr (jadx_output w))])) (\<lambda>jr.
     bindE (liftE (get_success jr)) (\<lambda>jok.
     if \<not> jok then ret False else
     bindE (mcp_call w ''jadx'' ''find_classes'' (PDict [(PStr ''jadx_dir'', PStr (jadx_output w))])) (\<lambda>cr.
     bindE (save_data_if_success ''classes_analysis.json'' cr) (\<lambda>_.
     bindE (modify (mcp_extract_interesting_files w)) (\<lambda>_. ret True)))))))))"

text \<open>
  The MCP analyzer's own copies of \<open>_setup_frida_server\<close>, \<open>_run_frida_script\<close>
  (which only logs) and of phases 2, 4 and 5 are the same code as the direct
  analyzer's (\<open>mcp_phase2_same\<close>).  Phase 3 writes three JSON placeholders.
\<close>

definition mcp_setup_frida_server :: "wf_world \<Rightarrow> (wf_state, unit) pyop" where
  "mcp_setup_frida_server w =
     bindE (run_cmd w [''adb'', ''shell'', ''ps | grep frida'']) (\<lambda>r.
       if str_contains ''frida-server'' (proc_stdout r) then ret ()
       else bindE (run_cmd w frida_start_cmd) (\<lambda>_. ret ()))"

definition mcp_run_frida_script :: "wf_world \<Rightarrow> string \<Rightarrow> (wf_state, unit) pyop" where
  "mcp_run_frida_script w p = ret ()"

definition mcp_phase2_dynamic_analysis :: "wf_world \<Rightarrow> (wf_state, bool) pyop" where
  "mcp_phase2_dynamic_analysis w =
     bindE (run_cmd w [''adb'', ''devices'']) (\<lambda>r.
     if \<not> str_contains ''device'' (proc_stdout r) then ret True else
     bindE (mcp_setup_frida_server w) (\<lambda>_.
     bindE (mcp_run_frida_script w ''scripts/net_hook.js'') (\<lambda>_.
     bindE (mcp_run_frida_script w ''scripts/ble_hook.js'') (\<lambda>_. ret True))))"

definition mcp_phase4_ha_integration :: "(wf_state, bool) pyop" where
  "mcp_phase4_ha_integration = ret True"

definition mcp_phase5_testing :: "(wf_state, bool) pyop" where
  "mcp_phase5_testing = ret True"

definition mcp_phase3_documentation :: "wf_world \<Rightarrow> (wf_state, bool) pyop" where
  "mcp_phase3_documentation w =
     bindE (modify (write_file (analysis_file ''analysis_summary.json'') (JsonFile (PDict
       [(PStr ''apk_file'', PStr (wf_apk_path w)), (PStr ''analysis_date'', PStr (wf_script_mtime w)),
        (PStr ''phases_completed'', PList []), (PStr ''discovered_components'', PList []),
        (PStr ''next_steps'', PList [])])))) (\<lambda>_.
     bindE (modify (write_file (analysis_file ''api_documentation.json'') (JsonFile (PDict
       [(PStr ''endpoints'', PList []), (PStr ''authentication'', PDict []), (PStr ''ble_services'', PList []),
        (PStr ''protocols'', PList [])])))) (\<lambda>_.
     bindE (modify (write_file (analysis_file ''api_mapping.json'') (JsonFile (PDict
       [(PStr ''cloud_functions'', PList []), (PStr ''local_functions'', PList []), (PStr ''ble_commands'', PList []),
        (PStr ''rest_endpoints'', PList [])])))) (\<lambda>_. ret True)))"

definition mcp_analyzer_phases :: "wf_world \<Rightarrow> (string \<times> (wf_state \<Rightarrow> bool \<times> wf_state)) list" where
  "mcp_analyzer_phases w =
     [(''Phase 1: Static Analysis'', phase_guard (mcp_phase1_static_analysis w)),
      (''Phase 2: Dynamic Analysis'', phase_guard (mcp_phase2_dynamic_analysis w)),
      (''Phase 3: Documentation'', phase_guard (mcp_phase3_documentation w)),
      (''Phase 4: Home Assistant Integration'', phase_guard mcp_phase4_ha_integration),
      (''Phase 5: Testing'', phase_guard mcp_phase5_testing)]"

definition mcp_run_full_analysis :: "wf_world \<Rightarrow> wf_state \<Rightarrow> wf_state" where
  "mcp_run_full_analysis w st = run_phases (mcp_analyzer_phases w) st"

section \<open>The entry points\<close>

text \<open>
  How a script run ends: \<open>main\<close> returns, \<open>sys.exit(code)\<close> after printing a
  message, or an exception escapes.
\<close>

datatype script_exit = ScriptDone | ScriptExit int "fpart list" | ScriptRaised exn

text \<open>
  Importing either script runs \<open>logging.basicConfig\<close> with a \<open>FileHandler\<close> on
  \<open>analysis/analysis.log\<close>, a path relative to the working directory; \<open>cwd\<close>
  names the paths that exist there.  Without an \<open>analysis\<close> directory opening the
  log raises \<open>FileNotFoundError\<close> before \<open>main\<close> runs.
\<close>

definition log_setup :: "(string \<Rightarrow> bool) \<Rightarrow> exn option" where
  "log_setup cwd =
     (if cwd ''analysis'' then None else Some (FileNotFoundError ''No such file or directory: analysis/analysis.log''))"

text \<open>
  \<open>main\<close>: exactly one argument, an APK that exists relative to the working
  directory; the analyzer's \<open>__init__\<close> creates \<open>output\<close> and \<open>analysis\<close> under
  the project root (which exists, so \<open>mkdir(exist_ok=True)\<close> succeeds) and the
  phases run on that APK.  The APK path is kept as given (\<open>Path\<close>'s
  normalisation of redundant separators is not modelled).
\<close>

definition analyze_main :: "wf_world \<Rightarrow> (string \<Rightarrow> bool) \<Rightarrow> string list \<Rightarrow> script_exit \<times> wf_state" where
  "analyze_main w cwd argv =
     (case log_setup cwd of Some e \<Rightarrow> (ScriptRaised e, wf_init) | None \<Rightarrow>
      if length argv \<noteq> 2 then (ScriptExit 1 [FLit ''Usage: python analyze.py <path_to_apk>''], wf_init)
      else if \<not> cwd (argv ! 1) then (ScriptExit 1 [FLit ''APK file not found: '', FLit (argv ! 1)], wf_init)
      else (ScriptDone, run_full_analysis (w\<lparr>wf_apk_path := argv ! 1\<rparr>) wf_init))"

definition mcp_main :: "wf_world \<Rightarrow> (string \<Rightarrow> bool) \<Rightarrow> string list \<Rightarrow> script_exit \<times> wf_state" where
  "mcp_main w cwd argv =
     (case log_setup cwd of Some e \<Rightarrow> (ScriptRaised e, wf_init) | None \<Rightarrow>
      if length argv \<noteq> 2 then (ScriptExit 1 [FLit ''Usage: python analyze_mcp.py <apk_file>''], wf_init)
      else if \<not> cwd (argv ! 1) then (ScriptExit 1 [FLit ''APK file not found: '', FLit (argv ! 1)], wf_init)
      else (ScriptDone, mcp_run_full_analysis (w\<lparr>wf_apk_path := argv ! 1\<rparr>) wf_init))"

section \<open>A sample world\<close>

text \<open>
  A machine without a phone attached: \<open>adb devices\<close> prints only its header,
  APKTool exits with 1; \<open>mcp.json\<close> configures the \<open>apktool\<close> server, which
  answers with a successful result.
\<close>

definition demo_wf_world :: wf_world where
  "demo_wf_world =
     \<lparr>wf_apk_path = ''MarsPro.apk'', wf_apk_size = 52428800, wf_root = ''/work'', wf_now = ''2025-01-01 00:00:00'',
      wf_script_mtime = ''1735689600.0'',
      wf_run = (\<lambda>c. if c = [''adb'', ''devices''] then ProcExit 0 (''List of devices attached'' @ NL @ NL) []
                    else if c \<noteq> [] \<and> hd c = ''apktool'' then ProcExit 1 [] ''brut.androlib.AndrolibException''
                    else ProcExit 0 [] []),
      wf_manifest = None, wf_strings = [], wf_exists = (\<lambda>_. False),
      wf_mcp_config = Some (PDict [(PStr ''servers'', PList [PDict [(PStr ''id'', PStr ''apktool''),
                          (PStr ''command'', PList [PStr ''python'', PStr ''server.py'']), (PStr ''cwd'', PStr ''tools'')]])]),
      wf_mcp_run = (\<lambda>_ _ _. ProcExit 0 ''R'' []),
      wf_json_loads = (\<lambda>s. if s = ''R'' then Some (PDict [(PStr ''result'', PDict [(PStr ''success'', PBool True)])]) else None),
      wf_write_error = (\<lambda>_. None)\<rparr>"

section \<open>Lemmas\<close>

lemma run_cmd_commands:
  "run_cmd w c st = (r, st') \<Longrightarrow> wf_commands st' = wf_commands st @ [c]"
  by (auto simp: run_cmd_def Let_def split: proc_result.splits)

text \<open>The MCP analyzer's duplicated methods behave as the direct analyzer's.\<close>

lemma mcp_frida_same: "mcp_setup_frida_server = setup_frida_server" "mcp_run_frida_script = run_frida_script"
  unfolding fun_eq_iff mcp_setup_frida_server_def setup_frida_server_def mcp_run_frida_script_def run_frida_script_def
  by simp_all

lemma mcp_phase2_same: "mcp_phase2_dynamic_analysis w = phase2_dynamic_analysis w"
  unfolding mcp_phase2_dynamic_analysis_def phase2_dynamic_analysis_def mcp_frida_same ..

lemma mcp_extract_same: "mcp_extract_interesting_files w = extract_interesting_files w"
  by (simp add: fun_eq_iff mcp_extract_interesting_files_def extract_interesting_files_def)

lemma mcp_phases_same: "mcp_phase4_ha_integration = phase4_ha_integration" "mcp_phase5_testing = phase5_testing"
  by (simp_all add: mcp_phase4_ha_integration_def phase4_ha_integration_def mcp_phase5_testing_def phase5_testing_def)

text \<open>
  Run from a directory without \<open>analysis\<close>, neither driver gets to \<open>main\<close>:
  the import raises, no command runs and no phase starts, although the
  analyzer would create \<open>analysis\<close> under the project root itself.
\<close>

lemma drivers_need_cwd_analysis:
  assumes "\<not> cwd ''analysis''"
  shows "analyze_main w cwd argv = (ScriptRaised (FileNotFoundError ''No such file or directory: analysis/analysis.log''), wf_init)"
    and "mcp_main w cwd argv = (ScriptRaised (FileNotFoundError ''No such file or directory: analysis/analysis.log''), wf_init)"
  using assms by (simp_all add: analyze_main_def mcp_main_def log_setup_def)

text \<open>With the log directory, a bad command line ends in \<open>sys.exit(1)\<close> before any command runs.\<close>

lemma drivers_usage:
  assumes "cwd ''analysis''" "length argv \<noteq> 2"
  shows "fst (analyze_main w cwd argv) = ScriptExit 1 [FLit ''Usage: python analyze.py <path_to_apk>'']"
    and "fst (mcp_main w cwd argv) = ScriptExit 1 [FLit ''Usage: python analyze_mcp.py <apk_file>'']"
    and "wf_commands (snd (analyze_main w cwd argv)) = []" "wf_commands (snd (mcp_main w cwd argv)) = []"
  using assms by (simp_all add: analyze_main_def mcp_main_def log_setup_def wf_init_def)

section \<open>Properties of the drivers\<close>

text \<open>
  C35: The skip test of phase 2 never fires on real \<open>adb devices\<close> output: its
  header \<open>List of devices attached\<close> contains \<open>device\<close>, so even with no phone
  attached the phase goes on to query the phone for \<open>frida-server\<close>.
\<close>

theorem adb_devices_check_never_skips:
  assumes "wf_run w [''adb'', ''devices''] = ProcExit rc (''List of devices attached'' @ rest) err"
  shows "[''adb'', ''shell'', ''ps | grep frida''] \<in> set (wf_commands (snd (phase2_dynamic_analysis w st)))"
proof -
  have d: "str_contains ''device'' (''List of devices attached'' @ rest)"
    by (rule str_contains_prefix) simp
  show ?thesis
    using assms d
    by (simp add: phase2_dynamic_analysis_def setup_frida_server_def run_frida_script_def bindE_def ret_def
        run_cmd_def Let_def split: proc_result.splits)
qed

theorem adb_devices_check_never_skips_witness:
  "[''adb'', ''shell'', ''ps | grep frida''] \<in> set (wf_commands (snd (phase2_dynamic_analysis demo_wf_world wf_init)))"
  using adb_devices_check_never_skips [of demo_wf_world 0 "NL @ NL" "[]" wf_init]
  by (simp add: demo_wf_world_def)

text \<open>
  C36: When APKTool exits with an error, \<open>run_full_analysis\<close> starts phase 1
  only, runs no command after APKTool and writes no file: the later phases
  never start.
\<close>

theorem static_failure_stops_workflow:
  assumes "wf_run w [''apktool'', ''d'', wf_apk_path w, ''-o'', apktool_output w, ''-f''] = ProcExit rc out err" "rc \<noteq> 0"
  shows "run_full_analysis w st =
           st\<lparr>wf_commands := wf_commands st @ [[''apktool'', ''d'', wf_apk_path w, ''-o'', apktool_output w, ''-f'']],
              wf_started := wf_started st @ [''Phase 1: Static Analysis'']\<rparr>"
  using assms
  by (simp add: run_full_analysis_def analyzer_phases_def phase_guard_def phase1_static_analysis_def bindE_def
      run_cmd_def tool_ok_def ret_def Let_def)

theorem static_failure_stops_workflow_witness:
  "run_full_analysis demo_wf_world wf_init =
     \<lparr>wf_files = [], wf_commands = [[''apktool'', ''d'', ''MarsPro.apk'', ''-o'', ''/work/output/apktool_output'', ''-f'']],
      wf_started = [''Phase 1: Static Analysis'']\<rparr>"
  using static_failure_stops_workflow [of demo_wf_world 1 "[]" "''brut.androlib.AndrolibException''" wf_init]
  by (simp add: demo_wf_world_def wf_init_def apktool_output_def path_join_def)

text \<open>
  C37: \<open>call_mcp_server\<close> returns a value only when \<open>mcp.json\<close> names the server
  with a non-empty command, the server run on exactly the JSON-RPC request for
  the tool and its arguments exits with 0, its output parses to a response
  without an \<open>error\<close>, and the value is that response's \<open>result\<close> entry.
\<close>

theorem call_mcp_server_result:
  assumes "call_mcp_server w s t a = Inr r"
  shows "\<exists>cfg servers ss sc cwd cmd out err resp.
           wf_mcp_config w = Some cfg \<and> py_get cfg (PStr ''servers'') (PList []) = Inr servers \<and>
           py_iter servers = Inr ss \<and> find_server s ss = Inr sc \<and> py_truthy sc \<and>
           py_get sc (PStr ''cwd'') (PStr '''') = Inr cwd \<and> py_get sc (PStr ''command'') (PList []) = Inr cmd \<and>
           py_truthy cmd \<and> wf_mcp_run w cmd cwd (mcp_request t a) = ProcExit 0 out err \<and>
           wf_json_loads w (py_strip out) = Some resp \<and> py_contains_str resp ''error'' = Inr False \<and>
           py_get resp (PStr ''result'') (PDict []) = Inr r"
  using assms
  by (auto simp: call_mcp_server_def split: option.splits sum.splits if_splits prod.splits proc_result.splits bool.splits)

theorem call_mcp_server_result_witness:
  "\<exists>cfg servers ss sc cwd cmd out err resp.
     wf_mcp_config demo_wf_world = Some cfg \<and> py_get cfg (PStr ''servers'') (PList []) = Inr servers \<and>
     py_iter servers = Inr ss \<and> find_server ''apktool'' ss = Inr sc \<and> py_truthy sc \<and>
     py_get sc (PStr ''cwd'') (PStr '''') = Inr cwd \<and> py_get sc (PStr ''command'') (PList []) = Inr cmd \<and>
     py_truthy cmd \<and> wf_mcp_run demo_wf_world cmd cwd (mcp_request ''decompile_apk'' (PDict [])) = ProcExit 0 out err \<and>
     wf_json_loads demo_wf_world (py_strip out) = Some resp \<and> py_contains_str resp ''error'' = Inr False \<and>
     py_get resp (PStr ''result'') (PDict []) = Inr (PDict [(PStr ''success'', PBool True)])"
  using call_mcp_server_result [of demo_wf_world "''apktool''" "''decompile_apk''" "PDict []"
      "PDict [(PStr ''success'', PBool True)]"]
  by (simp add: call_mcp_server_def demo_wf_world_def py_strip_def py_isspace_def dict_get_or_def)

end
