(* ===== verification/DynamicAnalysis.thy ===== *)
theory DynamicAnalysis
  imports Workflow
begin

text \<open>
  The dynamic-analysis helpers: \<open>src/scripts/dynamic_analysis.py\<close>
  (\<open>MarsProDynamicAnalyzer\<close>: checks for Frida and a phone, writes two Frida hook
  scripts and a report) and \<open>src/scripts/dynamic_analysis_setup.py\<close>
  (\<open>DynamicAnalysisSetup\<close>: locates \<open>adb\<close>, checks the prerequisites, the phone and
  the Frida server, and writes a capture batch file, two analysis scripts and a
  documentation template).  They run in the world and state of \<open>Workflow\<close>: the
  commands they run are recorded, the files they write are kept by path relative
  to the project root.  The texts they write are the constants below, character
  for character (non-ASCII characters as their UTF-8 bytes).
\<close>

section \<open>Texts\<close>

definition ble_hook_js :: string where
  "ble_hook_js = unlines
      [''// Enhanced BLE Hook Script for MarsPro'',
       ''// This script hooks Bluetooth operations to capture communication'', '''',
       ''console.log('' @ DQ @ ''[+] MarsPro Enhanced BLE Hook Loaded'' @ DQ @ '');'', '''',
       ''// Hook BluetoothGatt operations'', ''try {'',
       ''    var BluetoothGatt = Java.use('' @ DQ @ ''android.bluetooth.BluetoothGatt'' @ DQ @ '');'',
       ''    '', ''    BluetoothGatt.connect.implementation = function() {'',
       ''        console.log('' @ DQ @ ''[BLE] connect() called'' @ DQ @ '');'',
       ''        console.log('' @ DQ @ ''[BLE] Device: '' @ DQ @ '' + this.getDevice().getAddress());'',
       ''        return this.connect();'', ''    };'', ''    '',
       ''    BluetoothGatt.discoverServices.implementation = function() {'',
       ''        console.log('' @ DQ @ ''[BLE] discoverServices() called'' @ DQ @ '');'',
       ''        return this.discoverServices();'', ''    };'', ''    '',
       ''    BluetoothGatt.readCharacteristic.implementation = function(characteristic) {'',
       ''        console.log('' @ DQ @ ''[BLE] readCharacteristic() called'' @ DQ @ '');'',
       ''        console.log('' @ DQ @ ''[BLE] Service UUID: '' @ DQ @ '' + characteristic.getService().getUuid());'',
       ''        console.log('' @ DQ @ ''[BLE] Characteristic UUID: '' @ DQ @ '' + characteristic.getUuid());'',
       ''        return this.readCharacteristic(characteristic);'', ''    };'', ''    '',
       ''    BluetoothGatt.writeCharacteristic.implementation = function(characteristic) {'',
       ''        console.log('' @ DQ @ ''[BLE] writeCharacteristic() called'' @ DQ @ '');'',
       ''        console.log('' @ DQ @ ''[BLE] Service UUID: '' @ DQ @ '' + characteristic.getService().getUuid());'',
       ''        console.log('' @ DQ @ ''[BLE] Characteristic UUID: '' @ DQ @ '' + characteristic.getUuid());'',
       ''        console.log('' @ DQ @ ''[BLE] Value: '' @ DQ @ '' + characteristic.getValue());'',
       ''        return this.writeCharacteristic(characteristic);'', ''    };'', ''    '',
       ''    console.log('' @ DQ @ ''[+] BluetoothGatt hooks installed'' @ DQ @ '');'', ''} catch (e) {'',
       ''    console.log('' @ DQ @ ''[-] Failed to hook BluetoothGatt: '' @ DQ @ '' + e);'', ''}'', '''',
       ''// Hook BluetoothGattCallback'', ''try {'',
       ''    var BluetoothGattCallback = Java.use('' @ DQ @ ''android.bluetooth.BluetoothGattCallback'' @ DQ @ '');'',
       ''    '',
       ''    BluetoothGattCallback.onServicesDiscovered.implementation = function(gatt, status) {'',
       ''        console.log('' @ DQ @ ''[BLE] onServicesDiscovered() called'' @ DQ @ '');'',
       ''        console.log('' @ DQ @ ''[BLE] Status: '' @ DQ @ '' + status);'',
       ''        if (status === 0) { // GATT_SUCCESS'',
       ''            var services = gatt.getServices();'',
       ''            console.log('' @ DQ @ ''[BLE] Found '' @ DQ @ '' + services.size() + '' @ DQ @ '' services:'' @ DQ @ '');'',
       ''            for (var i = 0; i < services.size(); i++) {'',
       ''                var service = services.get(i);'',
       ''                console.log('' @ DQ @ ''[BLE] Service: '' @ DQ @ '' + service.getUuid());'',
       ''            }'', ''        }'', ''        return this.onServicesDiscovered(gatt, status);'',
       ''    };'', ''    '',
       ''    console.log('' @ DQ @ ''[+] BluetoothGattCallback hooks installed'' @ DQ @ '');'',
       ''} catch (e) {'',
       ''    console.log('' @ DQ @ ''[-] Failed to hook BluetoothGattCallback: '' @ DQ @ '' + e);'',
       ''}'', '''', ''console.log('' @ DQ @ ''[+] MarsPro BLE Hook Complete'' @ DQ @ '');'']"

definition network_hook_js :: string where
  "network_hook_js = unlines
      [''// Enhanced Network Hook Script for MarsPro'',
       ''// This script hooks network operations to capture API calls'', '''',
       ''console.log('' @ DQ @ ''[+] MarsPro Enhanced Network Hook Loaded'' @ DQ @ '');'', '''',
       ''// Hook OkHttp (commonly used in Android apps)'', ''try {'',
       ''    var OkHttpClient = Java.use('' @ DQ @ ''okhttp3.OkHttpClient'' @ DQ @ '');'', ''    '',
       ''    OkHttpClient.newCall.implementation = function(request) {'',
       ''        console.log('' @ DQ @ ''[NET] HTTP Request:'' @ DQ @ '');'',
       ''        console.log('' @ DQ @ ''[NET] URL: '' @ DQ @ '' + request.url().toString());'',
       ''        console.log('' @ DQ @ ''[NET] Method: '' @ DQ @ '' + request.method());'',
       ''        return this.newCall(request);'', ''    };'', ''    '',
       ''    console.log('' @ DQ @ ''[+] OkHttp hooks installed'' @ DQ @ '');'', ''} catch (e) {'',
       ''    console.log('' @ DQ @ ''[-] OkHttp not found: '' @ DQ @ '' + e);'', ''}'', '''',
       ''console.log('' @ DQ @ ''[+] MarsPro Network Hook Complete'' @ DQ @ '');'']"

definition dynamic_report_head :: string where
  "dynamic_report_head = (unlines
      [''# MarsPro Dynamic Analysis Report'', '''', ''## Analysis Summary'', '''',
       ''This report contains findings from dynamic analysis of the MarsPro application using Frida hooks.'',
       '''', ''## Prerequisites'', '''', ''### Required Tools'', ''- Frida (Python package)'',
       ''- ADB (Android Debug Bridge)'', ''- Rooted Android device (for Frida server)'', '''',
       ''### Setup Instructions'', ''1. Install Frida: `pip install frida-tools`'',
       ''2. Install Frida server on rooted device'', ''3. Enable USB debugging on Android device'',
       ''4. Connect device via USB'', '''', ''## Hook Scripts'', '''', ''### BLE Hook Script'',
       ''- **File**: `scripts/frida/enhanced_ble_hook.js`'',
       ''- **Purpose**: Capture Bluetooth Low Energy communication'', ''- **Hooks**:'',
       ''  - BluetoothGatt operations'', ''  - BluetoothGattCallback events'', ''  - Service discovery'',
       '''', ''### Network Hook Script'', ''- **File**: `scripts/frida/enhanced_network_hook.js`'',
       ''- **Purpose**: Capture network API calls'', ''- **Hooks**:'', ''  - OkHttp requests'',
       ''  - HTTP communication'', '''', ''## Usage Instructions'', '''', ''1. **Start the analysis**:'',
       ''   ```bash'', ''   python scripts/dynamic_analysis.py'', ''   ```'', '''',
       ''2. **Run Frida manually**:'', ''   ```bash'',
       ''   frida -U -f com.marspro.meizhi -l scripts/frida/enhanced_ble_hook.js -l scripts/frida/enhanced_network_hook.js'',
       ''   ```'', '''', ''3. **Use the MarsPro app**:'', ''   - Launch the app'',
       ''   - Connect to a MarsPro device'', ''   - Perform various operations'',
       ''   - Monitor the console output'', '''', ''## Expected Findings'', '''',
       ''### BLE Communication'', ''- Device discovery process'', ''- Service discovery'',
       ''- Characteristic reads/writes'', ''- Notification subscriptions'', '''',
       ''### Network Communication'', ''- Firebase authentication'', ''- API endpoints'',
       ''- Data synchronization'', ''- Cloud storage operations'', '''', ''## Next Steps'', '''',
       ''1. **Document discovered protocols**'', ''2. **Implement communication libraries**'',
       ''3. **Create Home Assistant integration**'', ''4. **Test with actual devices**'', '''', ''---'',
       '''']) @ ''**Generated**: ''"

definition dynamic_report_tail :: string where
  "dynamic_report_tail = unlines
      ['''', ''**Version**: 1.0'']"

definition start_monitoring_bat :: string where
  "start_monitoring_bat = unlines
      [''@echo off'', ''REM Network monitoring script for MarsPro analysis'', '''',
       ''echo Starting network monitoring...'', '''', ''REM Start tcpdump on device'',
       ''adb shell '' @ DQ @ ''su -c '' @ SQ @ ''tcpdump -i any -w /sdcard/marspro_capture.pcap'' @ SQ @ DQ,
       '''', ''echo Network monitoring started. Capture file: /sdcard/marspro_capture.pcap'',
       ''echo To stop: adb shell '' @ DQ @ ''su -c '' @ DQ @ ''pkill tcpdump'' @ DQ @ DQ,
       ''echo To download: adb pull /sdcard/marspro_capture.pcap .'']"

definition analyze_ble_py :: string where
  "analyze_ble_py = unlines
      [''#!/usr/bin/env python3'', DQ @ DQ @ DQ @ ''BLE Protocol Analysis Script.'' @ DQ @ DQ @ DQ, '''',
       ''import subprocess'', ''import sys'', ''import time'', ''from pathlib import Path'', '''',
       ''def start_ble_analysis():'',
       ''    '' @ DQ @ DQ @ DQ @ ''Start BLE analysis with Frida.'' @ DQ @ DQ @ DQ,
       ''    print('' @ DQ @ ''Starting BLE protocol analysis...'' @ DQ @ '')'', ''    '',
       ''    # Start Frida with BLE hooks'', ''    cmd = ['',
       ''        '' @ DQ @ ''frida'' @ DQ @ '', '' @ DQ @ ''-U'' @ DQ @ '', '' @ DQ @ ''-f'' @ DQ @ '', '' @ DQ @ ''com.marspro.meizhi'' @ DQ @ '','',
       ''        '' @ DQ @ ''-l'' @ DQ @ '', '' @ DQ @ ''scripts/frida/ble_hook.js'' @ DQ @ '','',
       ''        '' @ DQ @ ''--no-pause'' @ DQ, ''    ]'', ''    '', ''    try:'',
       ''        subprocess.run(cmd)'', ''    except KeyboardInterrupt:'',
       ''        print('' @ DQ @ BSL @ ''nBLE analysis stopped by user'' @ DQ @ '')'',
       ''    except Exception as e:'',
       ''        print(f'' @ DQ @ ''Error during BLE analysis: {e}'' @ DQ @ '')'', '''',
       ''if __name__ == '' @ DQ @ ''__main__'' @ DQ @ '':'', ''    start_ble_analysis()'']"

definition analyze_network_py :: string where
  "analyze_network_py = unlines
      [''#!/usr/bin/env python3'', DQ @ DQ @ DQ @ ''Network Protocol Analysis Script.'' @ DQ @ DQ @ DQ,
       '''', ''import subprocess'', ''import sys'', ''import time'', ''from pathlib import Path'', '''',
       ''def start_network_analysis():'',
       ''    '' @ DQ @ DQ @ DQ @ ''Start network analysis with Frida.'' @ DQ @ DQ @ DQ,
       ''    print('' @ DQ @ ''Starting network protocol analysis...'' @ DQ @ '')'', ''    '',
       ''    # Start Frida with network hooks'', ''    cmd = ['',
       ''        '' @ DQ @ ''frida'' @ DQ @ '', '' @ DQ @ ''-U'' @ DQ @ '', '' @ DQ @ ''-f'' @ DQ @ '', '' @ DQ @ ''com.marspro.meizhi'' @ DQ @ '','',
       ''        '' @ DQ @ ''-l'' @ DQ @ '', '' @ DQ @ ''scripts/frida/net_hook.js'' @ DQ @ '','',
       ''        '' @ DQ @ ''--no-pause'' @ DQ, ''    ]'', ''    '', ''    try:'',
       ''        subprocess.run(cmd)'', ''    except KeyboardInterrupt:'',
       ''        print('' @ DQ @ BSL @ ''nNetwork analysis stopped by user'' @ DQ @ '')'',
       ''    except Exception as e:'',
       ''        print(f'' @ DQ @ ''Error during network analysis: {e}'' @ DQ @ '')'', '''',
       ''if __name__ == '' @ DQ @ ''__main__'' @ DQ @ '':'', ''    start_network_analysis()'']"

definition protocol_template_md :: string where
  "protocol_template_md = unlines
      [''# MarsPro Protocol Discovery Template'', '''', ''## BLE Communication Protocol'', '''',
       ''### Service UUIDs'', ''- **Primary Service**: `[TO BE DISCOVERED]`'',
       ''- **Secondary Service**: `[TO BE DISCOVERED]`'', '''', ''### Characteristic UUIDs'',
       ''- **Command Characteristic**: `[TO BE DISCOVERED]`'',
       ''- **Data Characteristic**: `[TO BE DISCOVERED]`'',
       ''- **Status Characteristic**: `[TO BE DISCOVERED]`'',
       ''- **Configuration Characteristic**: `[TO BE DISCOVERED]`'', '''', ''### Command Format'',
       ''```'', ''[TO BE DISCOVERED]'', ''```'', '''', ''### Data Format'', ''```'',
       ''[TO BE DISCOVERED]'', ''```'', '''', ''## Network API Protocol'', '''', ''### Base URLs'',
       ''- **Primary API**: `[TO BE DISCOVERED]`'', ''- **Firebase**: `[TO BE DISCOVERED]`'', '''',
       ''### Authentication'', ''- **Method**: `[TO BE DISCOVERED]`'',
       ''- **Token Format**: `[TO BE DISCOVERED]`'', '''', ''### Endpoints'',
       ''- **Login**: `[TO BE DISCOVERED]`'', ''- **Device List**: `[TO BE DISCOVERED]`'',
       ''- **Device Control**: `[TO BE DISCOVERED]`'', ''- **Device Status**: `[TO BE DISCOVERED]`'',
       '''', ''### Request/Response Format'', ''```'', ''[TO BE DISCOVERED]'', ''```'', '''',
       ''## Discovery Log'', '''', ''### Session Information'', ''- **Date**: [DATE]'',
       ''- **Device**: [DEVICE MODEL]'', ''- **App Version**: [VERSION]'', ''- **Analysis Tool**: Frida'',
       '''', ''### BLE Discoveries'', ''- [ ] Service UUIDs identified'',
       ''- [ ] Characteristic UUIDs identified'', ''- [ ] Command format understood'',
       ''- [ ] Data format understood'', ''- [ ] Authentication mechanism identified'', '''',
       ''### Network Discoveries'', ''- [ ] API endpoints identified'',
       ''- [ ] Authentication flow understood'', ''- [ ] Request/response format documented'',
       ''- [ ] Error handling patterns identified'', '''', ''### Notes'',
       ''[Add any additional observations or patterns discovered during analysis]'', '''',
       ''## Next Steps'', ''1. Update BLE client with discovered UUIDs'',
       ''2. Implement actual protocol parsing'', ''3. Test with real devices'',
       ''4. Complete Home Assistant integration'']"

section \<open>The dynamic analyzer\<close>

text \<open>\<open>except FileNotFoundError\<close>: that exception gives the handler's result, others propagate.\<close>

definition catch_fnf :: "('s, 'a) pyop \<Rightarrow> ('s, 'a) pyop \<Rightarrow> ('s, 'a) pyop" where
  "catch_fnf m h = catchE m (\<lambda>e. case e of FileNotFoundError _ \<Rightarrow> h | _ \<Rightarrow> throw e)"

definition check_frida_installation :: "wf_world \<Rightarrow> ('a wf_state_scheme, bool) pyop" where
  "check_frida_installation w = catch_fnf (bindE (run_cmd w [''frida'', ''--version'']) (\<lambda>r. ret (tool_ok r))) (ret False)"

text \<open>
  \<open>check_device_connection\<close> of the dynamic analyzer: the output must contain
  \<open>device\<close> and \<open>List of devices\<close>, and a device is a line containing a tab
  followed by \<open>device\<close>.
\<close>

definition da_devices :: "string \<Rightarrow> string list" where
  "da_devices out = filter (str_contains (CHR 0x09 # ''device'')) (split_char (CHR 0x0A) out)"

definition da_check_device_connection :: "wf_world \<Rightarrow> ('a wf_state_scheme, bool) pyop" where
  "da_check_device_connection w =
     catch_fnf (bindE (run_cmd w [''adb'', ''devices'']) (\<lambda>r.
       let out = proc_stdout r
       in ret (str_contains ''device'' out \<and> str_contains ''List of devices'' out \<and> da_devices out \<noteq> [])))
       (ret False)"

definition frida_scripts_dir :: string where
  "frida_scripts_dir = ''scripts/frida''"

definition create_ble_hook_script :: "('a wf_state_scheme, string) pyop" where
  "create_ble_hook_script =
     (let p = path_join frida_scripts_dir ''enhanced_ble_hook.js''
      in bindE (modify (write_file p (TextFile [FLit ble_hook_js]))) (\<lambda>_. ret p))"

definition create_network_hook_script :: "('a wf_state_scheme, string) pyop" where
  "create_network_hook_script =
     (let p = path_join frida_scripts_dir ''enhanced_network_hook.js''
      in bindE (modify (write_file p (TextFile [FLit network_hook_js]))) (\<lambda>_. ret p))"

text \<open>\<open>run_dynamic_analysis\<close>: both checks, then both hook scripts.\<close>

definition run_dynamic_analysis :: "wf_world \<Rightarrow> ('a wf_state_scheme, bool) pyop" where
  "run_dynamic_analysis w =
     bindE (check_frida_installation w) (\<lambda>f.
     if \<not> f then ret False else
     bindE (da_check_device_connection w) (\<lambda>d.
     if \<not> d then ret False else
     bindE create_ble_hook_script (\<lambda>_.
     bindE create_network_hook_script (\<lambda>_. ret True))))"

definition generate_dynamic_report :: "wf_world \<Rightarrow> ('a wf_state_scheme, unit) pyop" where
  "generate_dynamic_report w =
     modify (write_file (analysis_file ''dynamic_analysis_report.md'')
       (TextFile [FLit dynamic_report_head, FLit (wf_now w), FLit dynamic_report_tail]))"

text \<open>\<open>main\<close>: the report first, then the analysis; what it prints is not modelled.\<close>

definition dynamic_analysis_main :: "wf_world \<Rightarrow> ('a wf_state_scheme, bool) pyop" where
  "dynamic_analysis_main w = bindE (generate_dynamic_report w) (\<lambda>_. run_dynamic_analysis w)"

section \<open>The setup\<close>

text \<open>The setup's state adds \<open>self.adb_path\<close>, set by \<open>check_prerequisites\<close>.\<close>

record setup_state = wf_state +
  su_adb_path :: "string option"

definition project_adb :: string where
  "project_adb = ''assets/tools/android-platform-tools/adb.exe''"

text \<open>
  \<open>find_adb\<close>: the project's copy of \<open>adb.exe\<close>, else the first line \<open>where adb\<close>
  prints; any exception gives \<open>None\<close>.
\<close>

definition find_adb :: "wf_world \<Rightarrow> ('a wf_state_scheme, string option) pyop" where
  "find_adb w =
     (if wf_exists w project_adb then ret (Some project_adb)
      else catchE (bindE (run_cmd w [''where'', ''adb'']) (\<lambda>r.
             ret (if tool_ok r then Some (hd (split_char (CHR 0x0A) (py_strip (proc_stdout r)))) else None)))
           (\<lambda>_. ret None))"

text \<open>
  \<open>check_prerequisites\<close>: \<open>adb version\<close> must succeed (which records the path),
  then \<open>frida --version\<close>, then both hook scripts must exist.  Only a missing
  \<open>frida\<close> is caught on the second check; another error propagates.
\<close>

definition check_prerequisites :: "wf_world \<Rightarrow> (setup_state, bool) pyop" where
  "check_prerequisites w =
     bindE (find_adb w) (\<lambda>a.
     case a of
       None \<Rightarrow> ret False
     | Some adb \<Rightarrow>
         bindE (catchE (bindE (run_cmd w [adb, ''version'']) (\<lambda>r.
                  if tool_ok r then bindE (modify (\<lambda>s. s\<lparr>su_adb_path := Some adb\<rparr>)) (\<lambda>_. ret True)
                  else ret False)) (\<lambda>_. ret False)) (\<lambda>ok.
         if \<not> ok then ret False else
         bindE (catch_fnf (bindE (run_cmd w [''frida'', ''--version'']) (\<lambda>r. ret (tool_ok r))) (ret False)) (\<lambda>fok.
         if \<not> fok then ret False else
         ret (wf_exists w (path_join frida_scripts_dir ''ble_hook.js'') \<and>
              wf_exists w (path_join frida_scripts_dir ''net_hook.js'')))))"

text \<open>
  The adb path as \<open>str(self.adb_path)\<close>: reading the attribute before
  \<open>check_prerequisites\<close> set it raises \<open>AttributeError\<close>.
\<close>

definition adb_of :: "(setup_state, string) pyop" where
  "adb_of s = (case su_adb_path s of None \<Rightarrow> (Inl (AttributeError ''adb_path''), s) | Some a \<Rightarrow> (Inr a, s))"

text \<open>
  \<open>check_device_connection\<close> of the setup: the lines after the first of the
  stripped output that are not blank and contain \<open>device\<close>.
\<close>

definition setup_devices :: "string \<Rightarrow> string list" where
  "setup_devices out = filter (\<lambda>l. py_strip l \<noteq> [] \<and> str_contains ''device'' l) (drop 1 (split_char (CHR 0x0A) (py_strip out)))"

definition setup_check_device_connection :: "wf_world \<Rightarrow> (setup_state, bool) pyop" where
  "setup_check_device_connection w =
     catchE (bindE adb_of (\<lambda>adb. bindE (run_cmd w [adb, ''devices'']) (\<lambda>r.
       ret (tool_ok r \<and> setup_devices (proc_stdout r) \<noteq> []))))
       (\<lambda>_. ret False)"

definition check_frida_server :: "wf_world \<Rightarrow> (setup_state, bool) pyop" where
  "check_frida_server w =
     catchE (bindE adb_of (\<lambda>adb. bindE (run_cmd w [adb, ''shell'', ''ps | grep frida'']) (\<lambda>r.
       ret (str_contains ''frida-server'' (proc_stdout r)))))
       (\<lambda>_. ret False)"

text \<open>
  \<open>install_frida_server\<close> checks for root with \<open>su -c 'id'\<close> and then only logs
  the manual steps: it reports \<open>False\<close> in every case.
\<close>

definition install_frida_server :: "wf_world \<Rightarrow> (setup_state, bool) pyop" where
  "install_frida_server w =
     catchE (bindE adb_of (\<lambda>adb. bindE (run_cmd w [adb, ''shell'', ''su -c '' @ SQ @ ''id'' @ SQ]) (\<lambda>_. ret False)))
       (\<lambda>_. ret False)"

text \<open>
  The file operations of the setup's writers: \<open>mkdir(exist_ok=True)\<close> and a file
  opened for writing and written, each raising the world's \<open>OSError\<close> for its path.
\<close>

definition su_mkdir :: "wf_world \<Rightarrow> string \<Rightarrow> ('a wf_state_scheme, unit) pyop" where
  "su_mkdir w p s = (case wf_write_error w p of Some e \<Rightarrow> (Inl e, s) | None \<Rightarrow> (Inr (), s))"

definition su_write :: "wf_world \<Rightarrow> string \<Rightarrow> out_file \<Rightarrow> ('a wf_state_scheme, unit) pyop" where
  "su_write w p c s = (case wf_write_error w p of Some e \<Rightarrow> (Inl e, s) | None \<Rightarrow> (Inr (), write_file p c s))"

text \<open>
  The three writers: each body is one \<open>try\<close> whose \<open>except Exception\<close> logs and
  returns \<open>False\<close>; a file written before the failing one stays.
\<close>

definition setup_network_monitoring :: "wf_world \<Rightarrow> ('a wf_state_scheme, bool) pyop" where
  "setup_network_monitoring w =
     catchE (bindE (su_mkdir w ''output/network_capture'') (\<lambda>_.
             bindE (su_write w ''output/network_capture/start_monitoring.bat'' (TextFile [FLit start_monitoring_bat]))
               (\<lambda>_. ret True)))
       (\<lambda>_. ret False)"

definition create_analysis_scripts :: "wf_world \<Rightarrow> ('a wf_state_scheme, bool) pyop" where
  "create_analysis_scripts w =
     catchE (bindE (su_write w ''scripts/analyze_ble.py'' (TextFile [FLit analyze_ble_py])) (\<lambda>_.
             bindE (su_write w ''scripts/analyze_network.py'' (TextFile [FLit analyze_network_py])) (\<lambda>_. ret True)))
       (\<lambda>_. ret False)"

definition create_protocol_documentation_template :: "wf_world \<Rightarrow> ('a wf_state_scheme, bool) pyop" where
  "create_protocol_documentation_template w =
     catchE (bindE (su_write w (analysis_file ''protocol_discovery_template.md'') (TextFile [FLit protocol_template_md]))
               (\<lambda>_. ret True))
       (\<lambda>_. ret False)"

text \<open>
  \<open>run_setup\<close>: the prerequisites decide; a missing phone is only a warning, a
  missing Frida server leads to \<open>install_frida_server\<close>, whose result is ignored;
  then the three writers run in turn, the first that fails ending the setup with
  \<open>False\<close>.
\<close>

definition run_setup :: "wf_world \<Rightarrow> (setup_state, bool) pyop" where
  "run_setup w =
     bindE (check_prerequisites w) (\<lambda>ok.
     if \<not> ok then ret False else
     bindE (setup_check_device_connection w) (\<lambda>_.
     bindE (check_frida_server w) (\<lambda>f.
     bindE (if f then ret False else install_frida_server w) (\<lambda>_.
     bindE (setup_network_monitoring w) (\<lambda>n.
     if \<not> n then ret False else
     bindE (create_analysis_scripts w) (\<lambda>a.
     if \<not> a then ret False else
     create_protocol_documentation_template w))))))"

section \<open>A sample output\<close>

text \<open>
  What \<open>adb devices\<close> prints when its server was not yet running and no phone is
  attached: two lines about starting the daemon before the header.
\<close>

definition adb_daemon_start_output :: string where
  "adb_daemon_start_output = unlines [''* daemon not running; starting now at tcp:5037'', ''* daemon started successfully'',
     ''List of devices attached'', '''']"

section \<open>Lemmas\<close>

text \<open>
  The two device checks disagree on that output: the setup's, which skips only
  the first line, counts the header as a device; the analyzer's finds none.
\<close>

lemma device_checks_disagree:
  "setup_devices adb_daemon_start_output = [''List of devices attached''] \<and> da_devices adb_daemon_start_output = []"
  by (simp add: adb_daemon_start_output_def unlines_def setup_devices_def da_devices_def py_strip_def py_isspace_def)

lemma catchE_ret_Inr: "\<exists>x s'. catchE m (\<lambda>_. ret b) s = (Inr x, s')"
  by (cases "m s") (auto simp: catchE_def ret_def split: sum.splits)

lemma setup_checks_total:
  "\<exists>b s'. setup_check_device_connection w s = (Inr b, s')"
  "\<exists>b s'. check_frida_server w s = (Inr b, s')"
  "\<exists>b s'. install_frida_server w s = (Inr b, s')"
  unfolding setup_check_device_connection_def check_frida_server_def install_frida_server_def
  by (rule catchE_ret_Inr)+

text \<open>
  Each writer returns normally and reports whether all of its file operations
  succeeded.
\<close>

lemma setup_writes_ok:
  "\<exists>s'. setup_network_monitoring w s =
     (Inr (wf_write_error w ''output/network_capture'' = None \<and>
           wf_write_error w ''output/network_capture/start_monitoring.bat'' = None), s')"
  "\<exists>s'. create_analysis_scripts w s =
     (Inr (wf_write_error w ''scripts/analyze_ble.py'' = None \<and> wf_write_error w ''scripts/analyze_network.py'' = None), s')"
  "\<exists>s'. create_protocol_documentation_template w s =
     (Inr (wf_write_error w (analysis_file ''protocol_discovery_template.md'') = None), s')"
  by (auto simp: setup_network_monitoring_def create_analysis_scripts_def create_protocol_documentation_template_def
      su_mkdir_def su_write_def catchE_def bindE_def ret_def split: option.splits)

section \<open>Properties of the setup\<close>

text \<open>
  C38: \<open>run_setup\<close> raises exactly when \<open>check_prerequisites\<close> does, and otherwise
  reports success exactly when the prerequisites hold and every directory and file
  the three writers create can be created: whether a phone is connected, whether
  the Frida server runs and what the installation attempt does never change its
  outcome.
\<close>

theorem run_setup_prerequisites_decide:
  "fst (run_setup w st) =
     (case fst (check_prerequisites w st) of
        Inl e \<Rightarrow> Inl e
      | Inr ok \<Rightarrow> Inr (ok \<and> wf_write_error w ''output/network_capture'' = None
                          \<and> wf_write_error w ''output/network_capture/start_monitoring.bat'' = None
                          \<and> wf_write_error w ''scripts/analyze_ble.py'' = None
                          \<and> wf_write_error w ''scripts/analyze_network.py'' = None
                          \<and> wf_write_error w (analysis_file ''protocol_discovery_template.md'') = None))"
proof (cases "check_prerequisites w st")
  case (Pair r s1)
  show ?thesis
  proof (cases r)
    case (Inl e)
    then show ?thesis using Pair by (simp add: run_setup_def bindE_def)
  next
    case (Inr ok)
    show ?thesis
    proof (cases ok)
      case False
      then show ?thesis using Pair Inr by (simp add: run_setup_def bindE_def ret_def)
    next
      case True
      obtain b1 s2 where c1: "setup_check_device_connection w s1 = (Inr b1, s2)" using setup_checks_total(1) by blast
      obtain f s3 where c2: "check_frida_server w s2 = (Inr f, s3)" using setup_checks_total(2) by blast
      obtain b3 s4 where c3: "(if f then ret False else install_frida_server w) s3 = (Inr b3, s4)"
        using setup_checks_total(3) [of w s3] by (cases f) (auto simp: ret_def)
      obtain s5 where c4: "setup_network_monitoring w s4 = (Inr (wf_write_error w ''output/network_capture'' = None \<and>
           wf_write_error w ''output/network_capture/start_monitoring.bat'' = None), s5)"
        using setup_writes_ok(1) by blast
      obtain s6 where c5: "create_analysis_scripts w s5 = (Inr (wf_write_error w ''scripts/analyze_ble.py'' = None
           \<and> wf_write_error w ''scripts/analyze_network.py'' = None), s6)"
        using setup_writes_ok(2) by blast
      obtain s7 where c6: "create_protocol_documentation_template w s6 =
           (Inr (wf_write_error w (analysis_file ''protocol_discovery_template.md'') = None), s7)"
        using setup_writes_ok(3) by blast
      show ?thesis
        using Pair Inr True c1 c2 c3 c4 c5 c6
        by (simp add: run_setup_def bindE_def ret_def del: if_split)
    qed
  qed
qed

end
