(* ===== verification/ToolSetup.thy ===== *)
theory ToolSetup
  imports DynamicAnalysis
begin

text \<open>
  The tool installers under \<open>scripts/utilities\<close>:
  \<open>setup_reverse_engineering_tools.py\<close> (apktool, jadx, Frida and the PATH
  scripts, after a Java check) and \<open>setup_android_tools.py\<close> (the Android
  platform tools, their PATH scripts and the dynamic analysis guide).  Both run
  against the working tree, so this theory first gives a small model of the
  file system the scripts touch through \<open>pathlib\<close>, \<open>urllib\<close>,
  \<open>zipfile\<close> and \<open>shutil\<close>: a tree of directories and files keyed by
  relative path, with the POSIX behaviour of \<open>mkdir\<close>, \<open>write_text\<close>,
  \<open>unlink\<close>, \<open>rmdir\<close>, \<open>iterdir\<close>, \<open>ZipFile.extractall\<close> and
  \<open>shutil.move\<close>, each raising the \<open>OSError\<close> the library raises.
\<close>

section \<open>File system\<close>

text \<open>
  A path is relative to the working directory, written with \<open>/\<close> and without
  \<open>.\<close> or \<open>..\<close> components; the empty path is the working directory
  itself, which always exists.  The tree is an association list in creation
  order, which is also the order \<open>iterdir\<close> lists a directory in (the order
  of \<open>os.listdir\<close> is the file system's; this model fixes one).
\<close>

datatype fentry = FDir | FFile string

type_synonym fsys = "(string \<times> fentry) list"

definition path_parent :: "string \<Rightarrow> string" where
  "path_parent p = rev (drop 1 (dropWhile (\<lambda>c. c \<noteq> CHR ''/'') (rev p)))"

definition fs_is_dir :: "fsys \<Rightarrow> string \<Rightarrow> bool" where
  "fs_is_dir fs p = (p = [] \<or> map_of fs p = Some FDir)"

definition fs_exists :: "fsys \<Rightarrow> string \<Rightarrow> bool" where
  "fs_exists fs p = (p = [] \<or> map_of fs p \<noteq> None)"

definition fs_children :: "fsys \<Rightarrow> string \<Rightarrow> string list" where
  "fs_children fs d = filter (\<lambda>q. q \<noteq> [] \<and> path_parent q = d) (map fst fs)"

text \<open>\<open>q\<close> lies strictly inside the directory \<open>p\<close>.\<close>

definition strictly_under :: "string \<Rightarrow> string \<Rightarrow> bool" where
  "strictly_under p q = (take (length p + 1) q = p @ ''/'')"

text \<open>The ancestors of a path and the path itself, shortest first, as \<open>os.makedirs\<close> creates them.\<close>

definition path_prefixes :: "string \<Rightarrow> string list" where
  "path_prefixes p = map (\<lambda>i. take i p) (filter (\<lambda>i. p ! i = CHR ''/'') [0..<length p]) @ [p]"

text \<open>Renaming a subtree: the entries at or below \<open>src\<close> move below \<open>dst\<close>; what was at \<open>dst\<close> is replaced.\<close>

definition fs_rename :: "string \<Rightarrow> string \<Rightarrow> fsys \<Rightarrow> fsys" where
  "fs_rename src dst fs =
     (if src = dst then fs
      else map (\<lambda>(q, e). (if q = src \<or> strictly_under src q then dst @ drop (length src) q else q, e))
             (filter (\<lambda>(q, e). q \<noteq> dst \<and> \<not> strictly_under dst q) fs))"

text \<open>The messages of the \<open>OSError\<close>s, as \<open>str(e)\<close> prints them.\<close>

definition err_noent :: "string \<Rightarrow> exn" where
  "err_noent p = FileNotFoundError (''[Errno 2] No such file or directory: '' @ SQ @ p @ SQ)"

definition err_os :: "nat \<Rightarrow> string \<Rightarrow> string \<Rightarrow> exn" where
  "err_os n m p = OSError (''[Errno '' @ nat_str n @ ''] '' @ m @ '': '' @ SQ @ p @ SQ)"

record ts_state =
  ts_fs :: fsys
  ts_fetched :: "string list"
  ts_commands :: "string list list"

definition fs_upd :: "(fsys \<Rightarrow> fsys) \<Rightarrow> (ts_state, unit) pyop" where
  "fs_upd f = modify (\<lambda>s. s\<lparr>ts_fs := f (ts_fs s)\<rparr>)"

definition path_exists :: "string \<Rightarrow> (ts_state, bool) pyop" where
  "path_exists p = gets (\<lambda>s. fs_exists (ts_fs s) p)"

text \<open>
  The error a call that needs the parent directory of \<open>p\<close> raises when that
  parent is missing (\<open>ENOENT\<close>) or is a file (\<open>ENOTDIR\<close>).
\<close>

definition parent_error :: "fsys \<Rightarrow> string \<Rightarrow> exn" where
  "parent_error fs p = (if fs_exists fs (path_parent p) then err_os 20 ''Not a directory'' p else err_noent p)"

text \<open>\<open>Path.mkdir(exist_ok=True)\<close>, without \<open>parents\<close>.\<close>

definition path_mkdir :: "string \<Rightarrow> (ts_state, unit) pyop" where
  "path_mkdir p st =
     (let fs = ts_fs st in
      if fs_is_dir fs p then (Inr (), st)
      else if fs_exists fs p then (Inl (err_os 17 ''File exists'' p), st)
      else if fs_is_dir fs (path_parent p) then (Inr (), st\<lparr>ts_fs := AList.update p FDir fs\<rparr>)
      else (Inl (parent_error fs p), st))"

text \<open>\<open>Path.write_text\<close> and \<open>open(p, "w")\<close>: create or truncate the file.\<close>

definition write_text :: "string \<Rightarrow> string \<Rightarrow> (ts_state, unit) pyop" where
  "write_text p c st =
     (let fs = ts_fs st in
      if fs_is_dir fs p then (Inl (err_os 21 ''Is a directory'' p), st)
      else if fs_is_dir fs (path_parent p) then (Inr (), st\<lparr>ts_fs := AList.update p (FFile c) fs\<rparr>)
      else (Inl (parent_error fs p), st))"

definition read_file :: "string \<Rightarrow> (ts_state, string) pyop" where
  "read_file p st =
     (case map_of (ts_fs st) p of
        Some (FFile c) \<Rightarrow> (Inr c, st)
      | Some FDir \<Rightarrow> (Inl (err_os 21 ''Is a directory'' p), st)
      | None \<Rightarrow> (Inl (if p = [] then err_os 21 ''Is a directory'' p else err_noent p), st))"

text \<open>\<open>Path.unlink\<close>: only a file; a directory gives \<open>EISDIR\<close> on Linux.\<close>

definition path_unlink :: "string \<Rightarrow> (ts_state, unit) pyop" where
  "path_unlink p st =
     (case map_of (ts_fs st) p of
        Some (FFile _) \<Rightarrow> (Inr (), st\<lparr>ts_fs := AList.delete p (ts_fs st)\<rparr>)
      | Some FDir \<Rightarrow> (Inl (err_os 21 ''Is a directory'' p), st)
      | None \<Rightarrow> (Inl (err_noent p), st))"

text \<open>\<open>Path.rmdir\<close>: only an empty directory.\<close>

definition path_rmdir :: "string \<Rightarrow> (ts_state, unit) pyop" where
  "path_rmdir p st =
     (case map_of (ts_fs st) p of
        Some FDir \<Rightarrow>
          (if fs_children (ts_fs st) p = [] then (Inr (), st\<lparr>ts_fs := AList.delete p (ts_fs st)\<rparr>)
           else (Inl (err_os 39 ''Directory not empty'' p), st))
      | Some (FFile _) \<Rightarrow> (Inl (err_os 20 ''Not a directory'' p), st)
      | None \<Rightarrow> (Inl (err_noent p), st))"

text \<open>
  \<open>os.makedirs(p)\<close> where \<open>p\<close> does not exist: every missing ancestor and
  \<open>p\<close> itself, shortest first; an existing ancestor is passed over, and a
  file among them makes the next \<open>mkdir\<close> fail.
\<close>

fun mk_chain :: "string list \<Rightarrow> (ts_state, unit) pyop" where
  "mk_chain [] = ret ()"
| "mk_chain (q # qs) = bindE (\<lambda>st. if fs_exists (ts_fs st) q then (Inr (), st) else path_mkdir q st) (\<lambda>_. mk_chain qs)"

definition makedirs :: "string \<Rightarrow> (ts_state, unit) pyop" where
  "makedirs p = mk_chain (path_prefixes p)"

text \<open>
  \<open>shutil.move(src, dst)\<close> as CPython implements it: into \<open>dst\<close> when
  that is a directory (refusing an existing target), else onto \<open>dst\<close>;
  \<open>os.rename\<close> when POSIX allows it; otherwise the fallback, which for a
  directory refuses a move into itself and copies the tree (creating the
  missing parents of the target, failing on an existing one) and for a file
  copies it (failing when the target's parent is missing).
\<close>

definition rename_ok :: "fsys \<Rightarrow> string \<Rightarrow> string \<Rightarrow> bool" where
  "rename_ok fs src real =
     (src \<noteq> [] \<and> fs_exists fs src \<and> fs_is_dir fs (path_parent real) \<and> \<not> strictly_under src real \<and>
      (real = src \<or> \<not> fs_exists fs real \<or> (\<not> fs_is_dir fs src \<and> \<not> fs_is_dir fs real)))"

definition path_move :: "string \<Rightarrow> string \<Rightarrow> (ts_state, unit) pyop" where
  "path_move src dst st =
     (let fs = ts_fs st; isd = fs_is_dir fs dst;
          real = (if isd then path_join dst (path_name src) else dst) in
      if isd \<and> src = dst then (Inr (), st)
      else if isd \<and> fs_exists fs real then
        (Inl (OSError (''Destination path '' @ SQ @ real @ SQ @ '' already exists'')), st)
      else if rename_ok fs src real then (Inr (), st\<lparr>ts_fs := fs_rename src real fs\<rparr>)
      else if fs_is_dir fs src then
        (if strictly_under src dst
         then (Inl (OSError (''Cannot move a directory '' @ SQ @ src @ SQ @ '' into itself '' @ SQ @ dst @ SQ @ ''.'')), st)
         else if fs_exists fs real then (Inl (err_os 17 ''File exists'' real), st)
         else bindE (makedirs real) (\<lambda>_. fs_upd (fs_rename src real)) st)
      else if \<not> fs_exists fs src then (Inl (err_noent src), st)
      else (Inl (parent_error fs real), st))"

section \<open>Downloads and archives\<close>

text \<open>
  The network and the archive format are the world's: the body a URL serves
  (\<open>None\<close> when \<open>urlretrieve\<close> raises), the members of a file's content read
  as a zip archive (\<open>None\<close> when \<open>zipfile\<close> rejects it), with their names
  relative and sanitised; the programs' results; and the absolute path of the
  working directory.
\<close>

record ts_world =
  ts_cwd :: string
  ts_url :: "string \<Rightarrow> string option"
  ts_zip :: "string \<Rightarrow> (string \<times> fentry) list option"
  ts_run :: "string list \<Rightarrow> proc_result"

definition ts_run_cmd :: "ts_world \<Rightarrow> string list \<Rightarrow> (ts_state, proc_result) pyop" where
  "ts_run_cmd w c st =
     (let st' = st\<lparr>ts_commands := ts_commands st @ [c]\<rparr> in
      case ts_run w c of
        ProcNotFound \<Rightarrow> (Inl (FileNotFoundError ''No such file or directory''), st')
      | ProcError m \<Rightarrow> (Inl (OSError m), st')
      | ProcTimeout \<Rightarrow> (Inl TimeoutError, st')
      | r \<Rightarrow> (Inr r, st'))"

definition fetch_url :: "ts_world \<Rightarrow> string \<Rightarrow> (ts_state, string) pyop" where
  "fetch_url w url st =
     (let st' = st\<lparr>ts_fetched := ts_fetched st @ [url]\<rparr> in
      case ts_url w url of
        None \<Rightarrow> (Inl (GenericException (''HTTP Error 404: Not Found'')), st')
      | Some body \<Rightarrow> (Inr body, st'))"

text \<open>\<open>download_file\<close>: any exception is reported and gives \<open>False\<close>.\<close>

definition download_file :: "ts_world \<Rightarrow> string \<Rightarrow> string \<Rightarrow> (ts_state, bool) pyop" where
  "download_file w url dest =
     catchE (bindE (fetch_url w url) (\<lambda>body. bindE (write_text dest body) (\<lambda>_. ret True))) (\<lambda>_. ret False)"

text \<open>
  One member of \<open>extractall\<close>: the missing parents of the target are
  created, a directory member becomes a directory unless one is there, a file
  member is written over whatever file is there.
\<close>

definition extract_member :: "string \<Rightarrow> string \<times> fentry \<Rightarrow> (ts_state, unit) pyop" where
  "extract_member d m =
     (let t = path_join d (fst m); up = path_parent t in
      bindE (\<lambda>st. if up \<noteq> [] \<and> \<not> fs_exists (ts_fs st) up then makedirs up st else (Inr (), st)) (\<lambda>_.
      case snd m of
        FDir \<Rightarrow> (\<lambda>st. if fs_is_dir (ts_fs st) t then (Inr (), st) else path_mkdir t st)
      | FFile c \<Rightarrow> write_text t c))"

fun extract_all :: "string \<Rightarrow> (string \<times> fentry) list \<Rightarrow> (ts_state, unit) pyop" where
  "extract_all d [] = ret ()"
| "extract_all d (m # ms) = bindE (extract_member d m) (\<lambda>_. extract_all d ms)"

text \<open>\<open>extract_zip\<close>: any exception, a bad archive included, gives \<open>False\<close>; what was extracted before it stays.\<close>

definition extract_zip :: "ts_world \<Rightarrow> string \<Rightarrow> string \<Rightarrow> (ts_state, bool) pyop" where
  "extract_zip w zp d =
     catchE (bindE (read_file zp) (\<lambda>c.
       case ts_zip w c of
         None \<Rightarrow> throw (GenericException ''File is not a zip file'')
       | Some ms \<Rightarrow> bindE (extract_all d ms) (\<lambda>_. ret True))) (\<lambda>_. ret False)"

section \<open>setup_reverse_engineering_tools.py\<close>

definition tools_dir :: string where
  "tools_dir = ''assets/tools''"

definition apktool_dir :: string where
  "apktool_dir = path_join tools_dir ''apktool''"

definition apktool_jar_url :: string where
  "apktool_jar_url = ''https://bitbucket.org/iBotPeaches/apktool/downloads/apktool_2.9.3.jar''"

definition apktool_bat :: string where
  "apktool_bat = unlines
      [''@echo off'', ''java -jar '' @ DQ @ ''%~dp0apktool.jar'' @ DQ @ '' %*'']"

definition apktool_sh :: string where
  "apktool_sh = unlines
      [''#!/bin/bash'',
       ''java -jar '' @ DQ @ ''$(dirname '' @ DQ @ ''$0'' @ DQ @ '')/apktool.jar'' @ DQ @ '' '' @ DQ @ ''$@'' @ DQ]"

text \<open>
  \<open>setup_apktool\<close>: the directories (without parents), the jar unless it is
  there, then the two launchers.
\<close>

definition setup_apktool :: "ts_world \<Rightarrow> (ts_state, bool) pyop" where
  "setup_apktool w =
     bindE (path_mkdir tools_dir) (\<lambda>_.
     bindE (path_mkdir apktool_dir) (\<lambda>_.
     bindE (path_exists (path_join apktool_dir ''apktool.jar'')) (\<lambda>ex.
     bindE (if ex then ret True else download_file w apktool_jar_url (path_join apktool_dir ''apktool.jar'')) (\<lambda>ok.
     if \<not> ok then ret False else
     bindE (write_text (path_join apktool_dir ''apktool.bat'') apktool_bat) (\<lambda>_.
     bindE (write_text (path_join apktool_dir ''apktool.sh'') apktool_sh) (\<lambda>_. ret True))))))"

text \<open>
  Moving the contents of the first extracted directory whose name starts with
  \<open>pre\<close> up into \<open>d\<close>, then removing it; the directory listings are taken
  before anything moves.
\<close>

fun move_all :: "string list \<Rightarrow> string \<Rightarrow> (ts_state, unit) pyop" where
  "move_all [] d = ret ()"
| "move_all (i # its) d = bindE (path_move i (path_join d (path_name i))) (\<lambda>_. move_all its d)"

definition flatten_extracted :: "string \<Rightarrow> string \<Rightarrow> (ts_state, unit) pyop" where
  "flatten_extracted pre d st =
     (let fs = ts_fs st;
          ds = filter (\<lambda>q. fs_is_dir fs q \<and> starts_with (path_name q) pre) (fs_children fs d) in
      case ds of
        [] \<Rightarrow> (Inr (), st)
      | x # _ \<Rightarrow> bindE (move_all (fs_children fs x) d) (\<lambda>_. path_rmdir x) st)"

text \<open>
  The part \<open>setup_jadx\<close> and \<open>setup_android_platform_tools\<close> share, line for
  line, each calling its own script's \<open>download_file\<close> (\<open>dl\<close>) and
  \<open>extract_zip\<close> (\<open>ex\<close>): fetch the archive unless it is there, extract it
  into \<open>d\<close>, delete it, flatten the extracted directory.
\<close>

definition fetch_and_unpack ::
  "(string \<Rightarrow> string \<Rightarrow> (ts_state, bool) pyop) \<Rightarrow> (string \<Rightarrow> string \<Rightarrow> (ts_state, bool) pyop) \<Rightarrow>
     string \<Rightarrow> string \<Rightarrow> string \<Rightarrow> string \<Rightarrow> (ts_state, bool) pyop" where
  "fetch_and_unpack dl ex url zp d pre =
     bindE (path_exists zp) (\<lambda>e.
     bindE (if e then ret True else dl url zp) (\<lambda>ok.
     if \<not> ok then ret False else
     bindE (ex zp d) (\<lambda>ok2.
     if \<not> ok2 then ret False else
     bindE (path_unlink zp) (\<lambda>_.
     bindE (flatten_extracted pre d) (\<lambda>_. ret True)))))"

definition jadx_dir :: string where
  "jadx_dir = path_join tools_dir ''jadx''"

definition jadx_url :: string where
  "jadx_url = ''https://github.com/skylot/jadx/releases/download/v1.4.7/jadx-1.4.7.zip''"

definition setup_jadx :: "ts_world \<Rightarrow> (ts_state, bool) pyop" where
  "setup_jadx w =
     bindE (path_mkdir jadx_dir) (\<lambda>_. fetch_and_unpack (download_file w) (extract_zip w) jadx_url (path_join jadx_dir ''jadx.zip'') jadx_dir ''jadx'')"

text \<open>\<open>setup_frida\<close>: \<open>frida --version\<close>; a missing program gives \<open>False\<close>.\<close>

definition setup_frida :: "ts_world \<Rightarrow> (ts_state, bool) pyop" where
  "setup_frida w = catch_fnf (bindE (ts_run_cmd w [''frida'', ''--version'']) (\<lambda>r. ret (tool_ok r))) (ret False)"

definition rt_ps_script :: "string \<Rightarrow> string" where
  "rt_ps_script t = ((unlines
      [''# PowerShell script to add reverse engineering tools to PATH'']) @ ''$toolsDir = '' @ DQ) @ t @ unlines
      [DQ, '''', ''# Add apktool to PATH'',
       ''$apktoolDir = Join-Path $toolsDir '' @ DQ @ ''apktool'' @ DQ, ''if (Test-Path $apktoolDir) {'',
       ''    $env:PATH = '' @ DQ @ ''$apktoolDir;$env:PATH'' @ DQ,
       ''    Write-Host '' @ DQ @ ''Added apktool to PATH: $apktoolDir'' @ DQ, ''}'', '''',
       ''# Add jadx to PATH'', ''$jadxDir = Join-Path $toolsDir '' @ DQ @ ''jadx'' @ BSL @ ''bin'' @ DQ,
       ''if (Test-Path $jadxDir) {'', ''    $env:PATH = '' @ DQ @ ''$jadxDir;$env:PATH'' @ DQ,
       ''    Write-Host '' @ DQ @ ''Added jadx to PATH: $jadxDir'' @ DQ, ''}'', '''',
       ''Write-Host '' @ DQ @ ''Reverse engineering tools are now available in this session'' @ DQ,
       ''Write-Host '' @ DQ @ ''To make permanent, add these paths to your system PATH environment variable'' @ DQ]"

definition rt_bat_script :: "string \<Rightarrow> string" where
  "rt_bat_script t = ((unlines
      [''@echo off'', ''REM Batch script to add reverse engineering tools to PATH'']) @ ''set TOOLS_DIR='') @ t @ unlines
      ['''', '''', ''REM Add apktool to PATH'', ''set APKTOOL_DIR=%TOOLS_DIR%'' @ BSL @ ''apktool'',
       ''if exist '' @ DQ @ ''%APKTOOL_DIR%'' @ DQ @ '' ('', ''    set PATH=%APKTOOL_DIR%;%PATH%'',
       ''    echo Added apktool to PATH: %APKTOOL_DIR%'', '')'', '''', ''REM Add jadx to PATH'',
       ''set JADX_DIR=%TOOLS_DIR%'' @ BSL @ ''jadx'' @ BSL @ ''bin'',
       ''if exist '' @ DQ @ ''%JADX_DIR%'' @ DQ @ '' ('', ''    set PATH=%JADX_DIR%;%PATH%'',
       ''    echo Added jadx to PATH: %JADX_DIR%'', '')'', '''',
       ''echo Reverse engineering tools are now available in this session'',
       ''echo To make permanent, add these paths to your system PATH environment variable'']"

definition create_path_script :: "ts_world \<Rightarrow> (ts_state, bool) pyop" where
  "create_path_script w =
     (let t = path_join (ts_cwd w) tools_dir in
      bindE (path_mkdir ''scripts/utilities'') (\<lambda>_.
      bindE (write_text ''scripts/utilities/setup_path.ps1'' (rt_ps_script t)) (\<lambda>_.
      bindE (write_text ''scripts/utilities/setup_path.bat'' (rt_bat_script t)) (\<lambda>_. ret True))))"

text \<open>
  \<open>main\<close>: the Java check, then every step in turn, their results combined
  with \<open>&=\<close>, which evaluates every step whatever the earlier ones gave.
\<close>

definition rt_main :: "ts_world \<Rightarrow> (ts_state, bool) pyop" where
  "rt_main w =
     bindE (catch_fnf (bindE (ts_run_cmd w [''java'', ''-version'']) (\<lambda>r. ret (tool_ok r))) (ret False)) (\<lambda>java.
     if \<not> java then ret False else
     bindE (setup_apktool w) (\<lambda>a.
     bindE (setup_jadx w) (\<lambda>b.
     bindE (setup_frida w) (\<lambda>c.
     bindE (create_path_script w) (\<lambda>d. ret (a \<and> b \<and> c \<and> d))))))"

section \<open>setup_android_tools.py\<close>

definition android_tools_dir :: string where
  "android_tools_dir = path_join tools_dir ''android-platform-tools''"

definition platform_tools_url :: string where
  "platform_tools_url = ''https://dl.google.com/android/repository/platform-tools-latest-windows.zip''"

text \<open>The script's own \<open>download_file\<close> and \<open>extract_zip\<close>, the same code as the installer's.\<close>

definition an_download_file :: "ts_world \<Rightarrow> string \<Rightarrow> string \<Rightarrow> (ts_state, bool) pyop" where
  "an_download_file w url dest =
     catchE (bindE (fetch_url w url) (\<lambda>body. bindE (write_text dest body) (\<lambda>_. ret True))) (\<lambda>_. ret False)"

definition an_extract_zip :: "ts_world \<Rightarrow> string \<Rightarrow> string \<Rightarrow> (ts_state, bool) pyop" where
  "an_extract_zip w zp d =
     catchE (bindE (read_file zp) (\<lambda>c.
       case ts_zip w c of
         None \<Rightarrow> throw (GenericException ''File is not a zip file'')
       | Some ms \<Rightarrow> bindE (extract_all d ms) (\<lambda>_. ret True))) (\<lambda>_. ret False)"

definition setup_android_platform_tools :: "ts_world \<Rightarrow> (ts_state, bool) pyop" where
  "setup_android_platform_tools w =
     bindE (path_mkdir tools_dir) (\<lambda>_.
     bindE (path_mkdir android_tools_dir) (\<lambda>_.
       fetch_and_unpack (an_download_file w) (an_extract_zip w) platform_tools_url (path_join android_tools_dir ''platform-tools.zip'')
         android_tools_dir ''platform-tools''))"

definition an_ps_script :: "string \<Rightarrow> string" where
  "an_ps_script t = ((unlines
      [''# PowerShell script to add Android tools to PATH'']) @ ''$toolsDir = '' @ DQ) @ t @ unlines
      [DQ, '''', ''# Add Android Platform Tools to PATH'',
       ''$androidToolsDir = Join-Path $toolsDir '' @ DQ @ ''android-platform-tools'' @ DQ,
       ''if (Test-Path $androidToolsDir) {'',
       ''    $env:PATH = '' @ DQ @ ''$androidToolsDir;$env:PATH'' @ DQ,
       ''    Write-Host '' @ DQ @ ''Added Android Platform Tools to PATH: $androidToolsDir'' @ DQ, ''}'',
       '''', ''Write-Host '' @ DQ @ ''Android development tools are now available in this session'' @ DQ,
       ''Write-Host '' @ DQ @ ''To make permanent, add these paths to your system PATH environment variable'' @ DQ]"

definition an_bat_script :: "string \<Rightarrow> string" where
  "an_bat_script t = ((unlines
      [''@echo off'', ''REM Batch script to add Android tools to PATH'']) @ ''set TOOLS_DIR='') @ t @ unlines
      ['''', '''', ''REM Add Android Platform Tools to PATH'',
       ''set ANDROID_TOOLS_DIR=%TOOLS_DIR%'' @ BSL @ ''android-platform-tools'',
       ''if exist '' @ DQ @ ''%ANDROID_TOOLS_DIR%'' @ DQ @ '' ('',
       ''    set PATH=%ANDROID_TOOLS_DIR%;%PATH%'',
       ''    echo Added Android Platform Tools to PATH: %ANDROID_TOOLS_DIR%'', '')'', '''',
       ''echo Android development tools are now available in this session'',
       ''echo To make permanent, add these paths to your system PATH environment variable'']"

definition create_android_path_script :: "ts_world \<Rightarrow> (ts_state, bool) pyop" where
  "create_android_path_script w =
     (let t = path_join (ts_cwd w) tools_dir in
      bindE (path_mkdir ''scripts/utilities'') (\<lambda>_.
      bindE (write_text ''scripts/utilities/setup_android_path.ps1'' (an_ps_script t)) (\<lambda>_.
      bindE (write_text ''scripts/utilities/setup_android_path.bat'' (an_bat_script t)) (\<lambda>_. ret True))))"

definition dynamic_analysis_guide :: string where
  "dynamic_analysis_guide = unlines
      [''# MarsPro Dynamic Analysis Guide'', '''', ''## Prerequisites'', '''', ''### Required Hardware'',
       ''1. **Rooted Android Device**'', ''   - Android 7.0 or higher recommended'',
       ''   - Root access required for Frida server'', ''   - USB debugging enabled'', '''',
       ''2. **Physical MarsPro Device**'', ''   - Any MarsPro hydroponics controller'',
       ''   - Powered on and in range'', ''   - Bluetooth enabled'', '''', ''3. **Computer**'',
       ''   - Windows/Linux/macOS'', ''   - USB cable for device connection'',
       ''   - Internet connection for tool downloads'', '''', ''### Required Software'',
       ''1. **Android SDK Platform Tools (ADB)**'', ''   - Installed via setup script'',
       ''   - Added to system PATH'', '''', ''2. **Frida**'',
       ''   - Python package: `pip install frida-tools`'',
       ''   - Frida server for Android (requires root)'', '''', ''3. **Network Monitoring Tools**'',
       ''   - Wireshark or similar'', ''   - Burp Suite (optional)'', '''', ''## Setup Instructions'',
       '''', ''### Step 1: Install Android Tools'', ''```bash'',
       ''python scripts/utilities/setup_android_tools.py'', ''```'', '''', ''### Step 2: Setup PATH'',
       ''```bash'', ''# PowerShell'',
       ''.'' @ BSL @ ''scripts'' @ BSL @ ''utilities'' @ BSL @ ''setup_android_path.ps1'', '''',
       ''# Batch'', ''.'' @ BSL @ ''scripts'' @ BSL @ ''utilities'' @ BSL @ ''setup_android_path.bat'',
       ''```'', '''', ''### Step 3: Install Frida Server on Android Device'',
       ''1. Download Frida server for your Android architecture'',
       ''2. Push to device: `adb push frida-server /data/local/tmp/`'',
       ''3. Make executable: `adb shell chmod 755 /data/local/tmp/frida-server`'',
       ''4. Start server: `adb shell su -c '' @ SQ @ ''/data/local/tmp/frida-server &'' @ SQ @ ''`'',
       '''', ''### Step 4: Verify Setup'', ''```bash'', ''# Check ADB'', ''adb devices'', '''',
       ''# Check Frida'', ''frida --version'', '''', ''# Check device connection'',
       ''adb shell ps | grep frida'', ''```'', '''', ''## Dynamic Analysis Workflow'', '''',
       ''### Phase 1: Device Discovery'', ''1. **Scan for BLE devices**'', ''   ```bash'',
       ''   frida -U -f com.marspro.meizhi -l scripts/frida/enhanced_ble_hook.js'', ''   ```'', '''',
       ''2. **Monitor device discovery**'', ''   - Look for BLE scanning operations'',
       ''   - Note device addresses and names'', ''   - Document advertising data'', '''',
       ''### Phase 2: Connection Analysis'', ''1. **Connect to MarsPro device**'',
       ''   - Use the MarsPro app to connect'', ''   - Monitor connection establishment'',
       ''   - Document service discovery'', '''', ''2. **Service enumeration**'',
       ''   - Capture all service UUIDs'', ''   - Document characteristic UUIDs'',
       ''   - Note property flags (read/write/notify)'', '''', ''### Phase 3: Protocol Analysis'',
       ''1. **Command sending**'', ''   - Use app to control devices'',
       ''   - Monitor characteristic writes'', ''   - Document command formats'', '''',
       ''2. **Data reading**'', ''   - Monitor characteristic reads'',
       ''   - Capture sensor data formats'', ''   - Document notification patterns'', '''',
       ''### Phase 4: Network Analysis'', ''1. **API endpoint discovery**'',
       ''   - Monitor HTTP requests'', ''   - Document Firebase endpoints'',
       ''   - Capture authentication flows'', '''', ''2. **Data synchronization**'',
       ''   - Monitor cloud sync operations'', ''   - Document data formats'',
       ''   - Understand update mechanisms'', '''', ''## Expected Findings'', '''',
       ''### BLE Communication'', ''- **Service UUIDs**: Main control service'',
       ''- **Characteristic UUIDs**: Commands, data, configuration'',
       ''- **Data Formats**: Binary command structures'', ''- **Security**: Authentication mechanisms'',
       '''', ''### Network Communication'', ''- **Firebase Endpoints**: Authentication, data sync'',
       ''- **API Formats**: JSON request/response structures'',
       ''- **Authentication**: Token-based or certificate-based'',
       ''- **Data Flow**: Real-time vs batch synchronization'', '''', ''## Documentation'', '''',
       ''### Required Outputs'', ''1. **BLE Protocol Specification**'',
       ''   - Service and characteristic UUIDs'', ''   - Command formats and structures'',
       ''   - Data formats and parsing'', ''   - Error handling'', '''', ''2. **API Documentation**'',
       ''   - Endpoint URLs and methods'', ''   - Request/response formats'',
       ''   - Authentication mechanisms'', ''   - Rate limiting'', '''', ''3. **Implementation Guide**'',
       ''   - Python BLE client example'', ''   - Home Assistant integration'',
       ''   - Error handling patterns'', ''   - Testing procedures'', '''', ''## Troubleshooting'', '''',
       ''### Common Issues'', ''1. **Device not detected**'', ''   - Check Bluetooth permissions'',
       ''   - Verify device is advertising'', ''   - Check Frida server is running'', '''',
       ''2. **Connection failures**'', ''   - Verify device is in range'',
       ''   - Check authentication requirements'', ''   - Monitor error messages'', '''',
       ''3. **No data captured**'', ''   - Verify hooks are installed'',
       ''   - Check characteristic properties'', ''   - Monitor notification subscriptions'', '''',
       ''### Debug Commands'', ''```bash'', ''# Check device status'', ''adb shell dumpsys bluetooth'',
       '''', ''# Monitor BLE logs'', ''adb logcat | grep -i bluetooth'', '''', ''# Check Frida server'',
       ''adb shell ps | grep frida'', '''', ''# Monitor network'',
       ''adb shell tcpdump -i any -w /sdcard/capture.pcap'', ''```'', '''', ''## Next Steps'', '''',
       ''### After Dynamic Analysis'', ''1. **Implement BLE Client**'', ''   - Create Python library'',
       ''   - Support device discovery'', ''   - Implement command sending'', '''',
       ''2. **Develop Home Assistant Integration**'', ''   - Create custom component'',
       ''   - Implement device entities'', ''   - Add configuration flow'', '''',
       ''3. **Testing and Validation**'', ''   - Test with real devices'', ''   - Validate all features'',
       ''   - Performance testing'', '''', ''---'', '''', ''**Version**: 1.0  '',
       ''**Last Updated**: [Date]  '', ''**Status**: Ready for Implementation'']"

definition create_dynamic_analysis_guide :: "(ts_state, bool) pyop" where
  "create_dynamic_analysis_guide =
     bindE (write_text ''analysis/dynamic_analysis_guide.md'' dynamic_analysis_guide) (\<lambda>_. ret True)"

definition an_main :: "ts_world \<Rightarrow> (ts_state, bool) pyop" where
  "an_main w =
     bindE (setup_android_platform_tools w) (\<lambda>a.
     bindE (create_android_path_script w) (\<lambda>b.
     bindE create_dynamic_analysis_guide (\<lambda>c. ret (a \<and> b \<and> c))))"

section \<open>Sample world\<close>

text \<open>
  A checkout with \<open>assets\<close> and \<open>scripts/utilities\<close> and no tools yet;
  Java answers, Frida is not installed and both downloads fail.
\<close>

definition demo_tree :: ts_state where
  "demo_tree = \<lparr>ts_fs = [(''assets'', FDir), (''scripts'', FDir), (''scripts/utilities'', FDir)],
                 ts_fetched = [], ts_commands = []\<rparr>"

definition demo_ts_world :: ts_world where
  "demo_ts_world = \<lparr>ts_cwd = ''/home/user/MarsPro'', ts_url = (\<lambda>_. None), ts_zip = (\<lambda>_. None),
                     ts_run = (\<lambda>c. if c = [''java'', ''-version''] then ProcExit 0 [] ''openjdk version 17'' else ProcNotFound)\<rparr>"

text \<open>No entry of the tree lies at or below \<open>assets/tools\<close>.\<close>

definition fresh_tools :: "fsys \<Rightarrow> bool" where
  "fresh_tools fs = list_all (\<lambda>(p, _). p \<noteq> tools_dir \<and> \<not> strictly_under tools_dir p) fs"

text \<open>A program result \<open>subprocess\<close> returns or reports as a missing program, rather than another \<open>OSError\<close>.\<close>

definition proc_plain :: "proc_result \<Rightarrow> bool" where
  "proc_plain r = (case r of ProcExit _ _ _ \<Rightarrow> True | ProcNotFound \<Rightarrow> True | _ \<Rightarrow> False)"

section \<open>File system lemmas\<close>

lemma path_parent_join [simp]:
  "CHR ''/'' \<notin> set b \<Longrightarrow> path_parent (a @ CHR ''/'' # b) = a"
proof -
  assume "CHR ''/'' \<notin> set b"
  then have "dropWhile (\<lambda>c. c \<noteq> CHR ''/'') (rev b) = []" by (auto simp: dropWhile_eq_Nil_conv)
  then show ?thesis by (simp add: path_parent_def dropWhile_append)
qed

lemma map_of_update_conv [simp]: "map_of (AList.update k v al) = (map_of al)(k \<mapsto> v)"
  by (rule update_conv')

text \<open>The two scripts' helpers are the same operations.\<close>

lemma an_helpers_same: "an_download_file = download_file" "an_extract_zip = extract_zip"
  unfolding fun_eq_iff an_download_file_def download_file_def an_extract_zip_def extract_zip_def by simp_all

lemma fresh_tools_None:
  assumes "fresh_tools fs" "p = tools_dir \<or> strictly_under tools_dir p"
  shows "map_of fs p = None"
  using assms by (induction fs) (auto simp: fresh_tools_def)

section \<open>Installer lemmas\<close>

text \<open>On a fresh tree a failed jar download leaves the two directories and no launcher.\<close>

lemma setup_apktool_download_fails:
  assumes "fresh_tools (ts_fs st)" "map_of (ts_fs st) ''assets'' = Some FDir" "ts_url w apktool_jar_url = None"
  shows "setup_apktool w st =
           (Inr False, st\<lparr>ts_fs := AList.update apktool_dir FDir (AList.update tools_dir FDir (ts_fs st)),
                          ts_fetched := ts_fetched st @ [apktool_jar_url]\<rparr>)"
proof -
  have n: "map_of (ts_fs st) tools_dir = None" "map_of (ts_fs st) apktool_dir = None"
      "map_of (ts_fs st) (path_join apktool_dir ''apktool.jar'') = None"
    using fresh_tools_None [OF assms(1)] by (simp_all add: apktool_dir_def tools_dir_def path_join_def strictly_under_def)
  show ?thesis
    using assms(2,3) n
    by (simp add: setup_apktool_def bindE_def path_mkdir_def path_exists_def gets_def download_file_def
        catchE_def fetch_url_def ret_def fs_is_dir_def fs_exists_def apktool_dir_def tools_dir_def path_join_def
        path_parent_def Let_def)
qed

text \<open>\<open>assets/tools\<close> is made without \<open>parents\<close>: without \<open>assets\<close> the installer raises.\<close>

lemma setup_apktool_needs_assets:
  "\<not> fs_exists (ts_fs st) ''assets'' \<Longrightarrow> \<not> fs_exists (ts_fs st) tools_dir \<Longrightarrow>
     setup_apktool w st = (Inl (err_noent tools_dir), st)"
  by (simp add: setup_apktool_def bindE_def path_mkdir_def parent_error_def fs_is_dir_def fs_exists_def tools_dir_def
      path_parent_def Let_def)

lemma setup_jadx_download_fails:
  assumes "map_of (ts_fs st) tools_dir = Some FDir" "map_of (ts_fs st) jadx_dir = None"
    "map_of (ts_fs st) (path_join jadx_dir ''jadx.zip'') = None" "ts_url w jadx_url = None"
  shows "setup_jadx w st =
           (Inr False, st\<lparr>ts_fs := AList.update jadx_dir FDir (ts_fs st), ts_fetched := ts_fetched st @ [jadx_url]\<rparr>)"
  using assms
  by (simp add: setup_jadx_def fetch_and_unpack_def bindE_def path_mkdir_def path_exists_def gets_def download_file_def
      catchE_def fetch_url_def ret_def fs_is_dir_def fs_exists_def jadx_dir_def tools_dir_def path_join_def
      path_parent_def Let_def)

lemma setup_frida_plain:
  assumes "proc_plain (ts_run w [''frida'', ''--version''])"
  shows "setup_frida w st =
           (Inr (tool_ok (ts_run w [''frida'', ''--version''])),
            st\<lparr>ts_commands := ts_commands st @ [[''frida'', ''--version'']]\<rparr>)"
  using assms
  by (cases "ts_run w [''frida'', ''--version'']")
     (simp_all add: proc_plain_def setup_frida_def catch_fnf_def catchE_def bindE_def ts_run_cmd_def ret_def tool_ok_def)

lemma create_path_script_writes:
  assumes "map_of (ts_fs st) ''scripts/utilities'' = Some FDir"
    "map_of (ts_fs st) ''scripts/utilities/setup_path.ps1'' \<noteq> Some FDir"
    "map_of (ts_fs st) ''scripts/utilities/setup_path.bat'' \<noteq> Some FDir"
  shows "create_path_script w st =
           (Inr True, st\<lparr>ts_fs := AList.update ''scripts/utilities/setup_path.bat'' (FFile (rt_bat_script (path_join (ts_cwd w) tools_dir)))
                          (AList.update ''scripts/utilities/setup_path.ps1'' (FFile (rt_ps_script (path_join (ts_cwd w) tools_dir))) (ts_fs st))\<rparr>)"
  using assms
  by (simp add: create_path_script_def bindE_def path_mkdir_def write_text_def ret_def fs_is_dir_def
      path_parent_def Let_def)

text \<open>The guide goes into \<open>analysis/\<close>, which nothing creates: without it the write raises.\<close>

lemma create_dynamic_analysis_guide_result:
  "fst (create_dynamic_analysis_guide st) =
     (if map_of (ts_fs st) ''analysis/dynamic_analysis_guide.md'' = Some FDir
      then Inl (err_os 21 ''Is a directory'' ''analysis/dynamic_analysis_guide.md'')
      else if map_of (ts_fs st) ''analysis'' = Some FDir then Inr True
      else Inl (parent_error (ts_fs st) ''analysis/dynamic_analysis_guide.md''))"
  by (simp add: create_dynamic_analysis_guide_def bindE_def write_text_def ret_def fs_is_dir_def path_parent_def Let_def)

text \<open>
  C40: \<open>main\<close> combines the steps with \<open>&=\<close>, so a failed apktool download
  does not stop the later steps: with Java present, on a checkout without
  tools where both downloads fail and Frida answers or is missing, \<open>main\<close>
  returns \<open>False\<close> having still run \<open>frida --version\<close> and written the
  PowerShell PATH script.
\<close>

theorem rt_main_runs_every_step:
  assumes "ts_run w [''java'', ''-version''] = ProcExit 0 out err"
    and "fresh_tools (ts_fs st)" "map_of (ts_fs st) ''assets'' = Some FDir"
    and "map_of (ts_fs st) ''scripts/utilities'' = Some FDir"
    "map_of (ts_fs st) ''scripts/utilities/setup_path.ps1'' \<noteq> Some FDir"
    "map_of (ts_fs st) ''scripts/utilities/setup_path.bat'' \<noteq> Some FDir"
    and "ts_url w apktool_jar_url = None" "ts_url w jadx_url = None"
    and "proc_plain (ts_run w [''frida'', ''--version''])"
  shows "\<exists>st'. rt_main w st = (Inr False, st') \<and>
           map_of (ts_fs st') ''scripts/utilities/setup_path.ps1'' = Some (FFile (rt_ps_script (path_join (ts_cwd w) tools_dir))) \<and>
           [''frida'', ''--version''] \<in> set (ts_commands st')"
proof -
  have n: "map_of (ts_fs st) jadx_dir = None" "map_of (ts_fs st) (path_join jadx_dir ''jadx.zip'') = None"
    using fresh_tools_None [OF assms(2)] by (simp_all add: jadx_dir_def tools_dir_def path_join_def strictly_under_def)
  have d: "apktool_dir \<noteq> jadx_dir" "tools_dir \<noteq> jadx_dir" "path_join jadx_dir ''jadx.zip'' \<noteq> apktool_dir"
    "path_join jadx_dir ''jadx.zip'' \<noteq> tools_dir" "''scripts/utilities'' \<noteq> apktool_dir" "''scripts/utilities'' \<noteq> tools_dir"
    "''scripts/utilities'' \<noteq> jadx_dir"
    "''scripts/utilities/setup_path.ps1'' \<noteq> apktool_dir" "''scripts/utilities/setup_path.ps1'' \<noteq> tools_dir"
    "''scripts/utilities/setup_path.ps1'' \<noteq> jadx_dir"
    "''scripts/utilities/setup_path.bat'' \<noteq> apktool_dir" "''scripts/utilities/setup_path.bat'' \<noteq> tools_dir"
    "''scripts/utilities/setup_path.bat'' \<noteq> jadx_dir"
    by (simp_all add: apktool_dir_def jadx_dir_def tools_dir_def path_join_def)
  show ?thesis
    using assms n d
    by (simp add: rt_main_def bindE_def catch_fnf_def catchE_def ts_run_cmd_def ret_def tool_ok_def
        setup_apktool_download_fails setup_jadx_download_fails setup_frida_plain create_path_script_writes)
qed

theorem rt_main_runs_every_step_witness:
  "\<exists>st'. rt_main demo_ts_world demo_tree = (Inr False, st') \<and>
     map_of (ts_fs st') ''scripts/utilities/setup_path.ps1'' = Some (FFile (rt_ps_script (path_join ''/home/user/MarsPro'' tools_dir))) \<and>
     [''frida'', ''--version''] \<in> set (ts_commands st')"
proof -
  have f: "fresh_tools (ts_fs demo_tree)"
    by (simp add: fresh_tools_def demo_tree_def tools_dir_def strictly_under_def)
  show ?thesis
    using rt_main_runs_every_step [of demo_ts_world "[]" "''openjdk version 17''" demo_tree, OF _ f]
    by (simp add: demo_ts_world_def demo_tree_def proc_plain_def)
qed

end
