(* ===== verification/RepoScripts.thy ===== *)
theory RepoScripts
  imports ToolSetup Json
begin

text \<open>
  The remaining helper scripts of the repository: \<open>push_to_github.py\<close> (a
  guarded \<open>git push\<close>), \<open>setup_github_mcp.py\<close> (the repository and release
  configuration written as JSON, with a model of \<open>json.dump(indent=2)\<close>),
  \<open>decompile_apk.py\<close> (three calls to the jadx MCP server),
  \<open>analyze_ble.py\<close> and \<open>analyze_network.py\<close> (one Frida run each) and the
  constants of \<open>src/review_gate/config.py\<close>.  The scripts that touch files
  use the file system of \<open>ToolSetup\<close>.
\<close>

section \<open>push_to_github.py\<close>

text \<open>
  The world: whether \<open>.git\<close> exists, what each shell command gives, and the
  line \<open>input()\<close> reads (\<open>None\<close> at end of input, where \<open>input\<close> raises
  \<open>EOFError\<close>).  The state is the list of shell commands run.
\<close>

record gh_world =
  gh_git_dir :: bool
  gh_shell :: "string \<Rightarrow> proc_result"
  gh_input :: "string option"

text \<open>
  \<open>run_command\<close>: \<open>subprocess.run(shell=True, check=True)\<close>; a non-zero exit
  raises \<open>CalledProcessError\<close>, which gives \<open>None\<close>; any other exception of
  \<open>subprocess\<close> passes through.
\<close>

definition gh_run_command :: "gh_world \<Rightarrow> string \<Rightarrow> (string list, string option) pyop" where
  "gh_run_command w c cs =
     (let cs' = cs @ [c] in
      case gh_shell w c of
        ProcExit rc out _ \<Rightarrow> (Inr (if rc = 0 then Some out else None), cs')
      | ProcNotFound \<Rightarrow> (Inl (FileNotFoundError ''No such file or directory''), cs')
      | ProcError m \<Rightarrow> (Inl (OSError m), cs')
      | ProcTimeout \<Rightarrow> (Inl TimeoutError, cs'))"

definition gh_read_input :: "gh_world \<Rightarrow> (string list, string) pyop" where
  "gh_read_input w cs =
     (case gh_input w of None \<Rightarrow> (Inl (GenericException ''EOF when reading a line''), cs) | Some l \<Rightarrow> (Inr l, cs))"

text \<open>\<open>main\<close>: every check returns early; only an answer \<open>y\<close> or \<open>yes\<close> pushes.\<close>

definition push_main :: "gh_world \<Rightarrow> (string list, unit) pyop" where
  "push_main w =
     (if \<not> gh_git_dir w then ret () else
      bindE (gh_run_command w ''git status --porcelain'') (\<lambda>so.
      case so of None \<Rightarrow> ret () | Some s \<Rightarrow>
      if py_strip s \<noteq> [] then ret () else
      bindE (gh_run_command w ''git remote -v'') (\<lambda>ro.
      case ro of None \<Rightarrow> ret () | Some r \<Rightarrow>
      if \<not> str_contains ''origin'' r then ret () else
      bindE (gh_run_command w ''git branch --show-current'') (\<lambda>bo.
      case bo of None \<Rightarrow> ret () | Some b \<Rightarrow>
      bindE (gh_read_input w) (\<lambda>resp.
      if py_lower (py_strip resp) \<notin> set [''y'', ''yes''] then ret () else
      bindE (gh_run_command w (''git push -u origin '' @ py_strip b)) (\<lambda>_. ret ()))))))"

section \<open>setup_github_mcp.py\<close>

subsection \<open>JSON text as json.dump writes it\<close>

text \<open>
  The JSON values the script dumps.  A string of the model is the UTF-8
  encoding of the Python \<open>str\<close>; \<open>json.dump\<close> with its default
  \<open>ensure_ascii=True\<close> writes every code point outside \<open>' '..'~'\<close> as a
  \<open>\u\<close> escape, a code point above \<open>0xFFFF\<close> as a surrogate pair.
\<close>

datatype jsonv = JNull | JBool bool | JInt int | JStr string | JList "jsonv list" | JObj "(string \<times> jsonv) list"

text \<open>The quoting of strings and \<open>sep.join\<close> are those of \<open>Json\<close>.\<close>

definition json_nl :: "nat \<Rightarrow> string" where
  "json_nl l = CHR 0x0A # replicate (2 * l) CHR '' ''"

text \<open>
  \<open>_iterencode\<close> at nesting level \<open>l\<close> with \<open>indent=2\<close>: an empty
  container is \<open>[]\<close> or \<open>{}\<close>, items are separated by \<open>,\<close> and a new
  line indented one level deeper, keys by \<open>": "\<close>.
\<close>

fun json_enc :: "nat \<Rightarrow> jsonv \<Rightarrow> string" where
  "json_enc l JNull = ''null''"
| "json_enc l (JBool b) = (if b then ''true'' else ''false'')"
| "json_enc l (JInt i) = int_str i"
| "json_enc l (JStr s) = json_quote s"
| "json_enc l (JList vs) =
     (if vs = [] then ''[]''
      else ''['' @ json_nl (Suc l) @ join_str ('','' @ json_nl (Suc l)) (map (json_enc (Suc l)) vs) @
           json_nl l @ '']'')"
| "json_enc l (JObj kvs) =
     (if kvs = [] then ''{}''
      else ''{'' @ json_nl (Suc l) @
           join_str ('','' @ json_nl (Suc l)) (map (\<lambda>kv. json_quote (fst kv) @ '': '' @ json_enc (Suc l) (snd kv)) kvs) @
           json_nl l @ ''}'')"

definition json_dump :: "jsonv \<Rightarrow> string" where
  "json_dump v = json_enc 0 v"

subsection \<open>The script\<close>

definition repo_config :: jsonv where
  "repo_config = JObj
     [(''name'', (JStr (''marspro-analysis''))),
      (''description'', (JStr (''MarsPro reverse engineering and Home Assistant integration for local device control without cloud dependency''))),
      (''private'', (JBool False)),
      (''topics'', JList [(JStr (''home-assistant'')), (JStr (''reverse-engineering'')), (JStr (''ble'')), (JStr (''iot'')), (JStr (''smart-home'')), (JStr (''python'')), (JStr (''marspro'')), (JStr (''frida'')), (JStr (''apk-analysis''))]),
      (''homepage'', (JStr [])),
      (''has_issues'', (JBool True)),
      (''has_projects'', (JBool True)),
      (''has_wiki'', (JBool True)),
      (''auto_init'', (JBool False))]"

definition release_body :: string where
  "release_body = unlines
      [''# MarsPro Analysis v1.0.0'', '''',
       ''## '' @ [CHR 0xF0, CHR 0x9F, CHR 0x8E, CHR 0x89] @ '' Initial Release'', '''',
       ''This release marks the completion of the major project reorganization and modernization of the MarsPro reverse engineering project.'',
       '''', ''### '' @ [CHR 0xE2, CHR 0x9C, CHR 0xA8] @ '' What'' @ SQ @ ''s New'', '''',
       ''- **Modern Project Structure**: Reorganized with clear separation of concerns'',
       ''- **Source Code Organization**: Moved to `src/` directory (Home Assistant + Review Gate)'',
       ''- **Asset Management**: Organized APKs, tools, and extensions in `assets/` directory'',
       ''- **Configuration Centralization**: All configs in `config/` directory'',
       ''- **Tool Consolidation**: MCP servers and external tools properly organized'',
       ''- **Comprehensive Testing**: Full test suite with unit and integration tests'',
       ''- **Modern Python Packaging**: Added `pyproject.toml` and proper dependency management'',
       ''- **Code Quality Tools**: Black, flake8, mypy, and pre-commit hooks'',
       ''- **Enhanced Documentation**: Updated README and project structure docs'', '''',
       ''### '' @ [CHR 0xF0, CHR 0x9F, CHR 0x8F, CHR 0x97] @ [CHR 0xEF, CHR 0xB8, CHR 0x8F] @ '' Project Structure'',
       '''', ''```'', ''MarsPro/'',
       [CHR 0xE2, CHR 0x94, CHR 0x9C] @ [CHR 0xE2, CHR 0x94, CHR 0x80] @ [CHR 0xE2, CHR 0x94, CHR 0x80] @ '' src/                    # Source code (Home Assistant + Review Gate)'',
       [CHR 0xE2, CHR 0x94, CHR 0x9C] @ [CHR 0xE2, CHR 0x94, CHR 0x80] @ [CHR 0xE2, CHR 0x94, CHR 0x80] @ '' assets/                 # Static assets (APKs, tools, extensions)'',
       [CHR 0xE2, CHR 0x94, CHR 0x9C] @ [CHR 0xE2, CHR 0x94, CHR 0x80] @ [CHR 0xE2, CHR 0x94, CHR 0x80] @ '' config/                 # Configuration files'',
       [CHR 0xE2, CHR 0x94, CHR 0x9C] @ [CHR 0xE2, CHR 0x94, CHR 0x80] @ [CHR 0xE2, CHR 0x94, CHR 0x80] @ '' tools/                  # Analysis tools and MCP servers'',
       [CHR 0xE2, CHR 0x94, CHR 0x9C] @ [CHR 0xE2, CHR 0x94, CHR 0x80] @ [CHR 0xE2, CHR 0x94, CHR 0x80] @ '' tests/                  # Comprehensive test suite'',
       [CHR 0xE2, CHR 0x94, CHR 0x9C] @ [CHR 0xE2, CHR 0x94, CHR 0x80] @ [CHR 0xE2, CHR 0x94, CHR 0x80] @ '' scripts/                # Automation scripts'',
       [CHR 0xE2, CHR 0x94, CHR 0x9C] @ [CHR 0xE2, CHR 0x94, CHR 0x80] @ [CHR 0xE2, CHR 0x94, CHR 0x80] @ '' analysis/               # Analysis documentation'',
       [CHR 0xE2, CHR 0x94, CHR 0x94] @ [CHR 0xE2, CHR 0x94, CHR 0x80] @ [CHR 0xE2, CHR 0x94, CHR 0x80] @ '' output/                 # Analysis output files'',
       ''```'', '''', ''### '' @ [CHR 0xF0, CHR 0x9F, CHR 0x9A, CHR 0x80] @ '' Features'', '''',
       ''- **Home Assistant Integration**: Local control of MarsPro devices'',
       ''- **BLE Communication**: Direct Bluetooth Low Energy communication'',
       ''- **Cloud API Support**: Fallback to cloud API when needed'',
       ''- **Analysis Tools**: Frida scripts and utilities for protocol discovery'',
       ''- **MCP Server Integration**: Review Gate V2 and analysis tools'',
       ''- **Modern Development**: Professional Python project standards'', '''',
       ''### '' @ [CHR 0xF0, CHR 0x9F, CHR 0x93, CHR 0x8B] @ '' Requirements'', '''', ''- Python 3.8+'',
       ''- Home Assistant 2024.1+'', ''- Git'',
       ''- Android device with MarsPro app (for dynamic analysis)'', '''',
       ''### '' @ [CHR 0xF0, CHR 0x9F, CHR 0x94, CHR 0xA7] @ '' Installation'', '''', ''```bash'',
       ''# Clone the repository'', ''git clone https://github.com/YOUR_USERNAME/marspro-analysis.git'',
       ''cd marspro-analysis'', '''', ''# Install dependencies'', ''pip install -r requirements.txt'',
       ''pip install -r requirements-dev.txt'', '''', ''# Install Home Assistant integration'',
       ''cp -r src/marspro /path/to/homeassistant/config/custom_components/'', ''```'', '''',
       ''### '' @ [CHR 0xF0, CHR 0x9F, CHR 0xA7, CHR 0xAA] @ '' Testing'', '''', ''```bash'',
       ''# Run all tests'', ''pytest'', '''', ''# Run with coverage'',
       ''pytest --cov=src --cov-report=html'', ''```'', '''',
       ''### '' @ [CHR 0xF0, CHR 0x9F, CHR 0x93, CHR 0x9A] @ '' Documentation'', '''',
       ''- [README.md](README.md) - Project overview and setup guide'',
       ''- [PROJECT_STRUCTURE.md](PROJECT_STRUCTURE.md) - Detailed project structure'',
       ''- [REORGANIZATION_SUMMARY.md](REORGANIZATION_SUMMARY.md) - Reorganization details'',
       ''- [CONTRIBUTING.md](CONTRIBUTING.md) - Contribution guidelines'', '''',
       ''### '' @ [CHR 0xF0, CHR 0x9F, CHR 0x94, CHR 0xAE] @ '' Next Steps'', '''',
       ''- Phase 2: Dynamic analysis with Frida hooks'', ''- Protocol discovery and documentation'',
       ''- Enhanced Home Assistant integration'', ''- Community contributions and feedback'', '''',
       ''### '' @ [CHR 0xF0, CHR 0x9F, CHR 0x99, CHR 0x8F] @ '' Acknowledgments'', '''',
       ''- MarsPro team for creating the original app'',
       ''- Home Assistant community for integration patterns'',
       ''- Frida team for dynamic analysis tools'', ''- JADX team for APK decompilation tools'', '''',
       ''---'', '''',
       ''**Note**: This project is for educational and research purposes. Please respect the terms of service of the original MarsPro application and use this integration responsibly.'']"

definition release_config :: jsonv where
  "release_config = JObj
     [(''tag_name'', (JStr (''v1.0.0''))),
      (''name'', (JStr (''Initial Release - Project Reorganization Complete''))),
      (''body'', (JStr release_body)),
      (''draft'', (JBool False)),
      (''prerelease'', (JBool False))]"

text \<open>
  \<open>main\<close>: both configurations are built without effects, then written below
  \<open>config/github\<close> of the project root (the directory made without
  \<open>parents\<close>).
\<close>

definition github_main :: "(ts_state, unit) pyop" where
  "github_main =
     bindE (path_mkdir ''config/github'') (\<lambda>_.
     bindE (write_text ''config/github/repository_config.json'' (json_dump repo_config)) (\<lambda>_.
     bindE (write_text ''config/github/release_config.json'' (json_dump release_config)) (\<lambda>_. ret ())))"

section \<open>decompile_apk.py\<close>

text \<open>
  The jadx MCP server (\<open>SimpleJadxMCPServer\<close>, outside the repository) is the
  world: the result of each tool for its arguments, and whether the output
  directory exists once decompilation returned.  The state is the list of
  calls made.
\<close>

record jx_world =
  jx_tool :: "string \<Rightarrow> pyval \<Rightarrow> exn + pyval"
  jx_output_exists :: bool

definition jx_call :: "jx_world \<Rightarrow> string \<Rightarrow> pyval \<Rightarrow> ((string \<times> pyval) list, pyval) pyop" where
  "jx_call w t a cs = (jx_tool w t a, cs @ [(t, a)])"

text \<open>
  \<open>print(result.get("text", str(result)))\<close>: the printed text is not modelled,
  only the \<open>AttributeError\<close> that \<open>.get\<close> raises on a result that is not a
  dictionary.
\<close>

definition show_result :: "pyval \<Rightarrow> ('s, unit) pyop" where
  "show_result r = bindE (liftE (py_get r (PStr ''text'') r)) (\<lambda>_. ret ())"

definition decompile_main :: "jx_world \<Rightarrow> ((string \<times> pyval) list, unit) pyop" where
  "decompile_main w =
     bindE (jx_call w ''decompile_apk''
       (PDict [(PStr ''apk_path'', PStr ''apks/MarsPro_1.3.2_APKPure.xapk''), (PStr ''output_dir'', PStr ''output/jadx_output''),
               (PStr ''format'', PStr ''java'')])) (\<lambda>r.
     bindE (show_result r) (\<lambda>_.
     if \<not> jx_output_exists w then ret () else
     bindE (jx_call w ''analyze_java_files'' (PDict [(PStr ''decompiled_dir'', PStr ''output/jadx_output'')])) (\<lambda>a.
     bindE (show_result a) (\<lambda>_.
     bindE (jx_call w ''find_classes'' (PDict [(PStr ''decompiled_dir'', PStr ''output/jadx_output''), (PStr ''pattern'', PStr ''api'')]))
       show_result))))"

section \<open>analyze_ble.py and analyze_network.py\<close>

definition frida_spawn_cmd :: "string \<Rightarrow> string list" where
  "frida_spawn_cmd hook = [''frida'', ''-U'', ''-f'', ''com.marspro.meizhi'', ''-l'', hook, ''--no-pause'']"

text \<open>Both scripts run Frida once and report any exception, \<open>KeyboardInterrupt\<close> included.\<close>

definition start_ble_analysis :: "ts_world \<Rightarrow> (ts_state, unit) pyop" where
  "start_ble_analysis w =
     catchE (bindE (ts_run_cmd w (frida_spawn_cmd ''scripts/frida/ble_hook.js'')) (\<lambda>_. ret ())) (\<lambda>_. ret ())"

definition start_network_analysis :: "ts_world \<Rightarrow> (ts_state, unit) pyop" where
  "start_network_analysis w =
     catchE (bindE (ts_run_cmd w (frida_spawn_cmd ''scripts/frida/net_hook.js'')) (\<lambda>_. ret ())) (\<lambda>_. ret ())"

section \<open>src/review_gate/config.py\<close>

record rg_config =
  rg_server_name :: string
  rg_server_version :: string
  rg_server_description :: string
  rg_assets_dir :: string
  rg_cursor_extension_dir :: string
  rg_installers_dir :: string
  rg_default_timeout :: nat
  rg_max_file_size :: nat
  rg_image_formats :: "string list"
  rg_popup_title :: string
  rg_default_message :: string
  rg_whisper_model :: string
  rg_whisper_device :: string
  rg_whisper_compute_type :: string
  rg_debug_mode :: bool
  rg_log_level :: string

text \<open>
  The module's constants, its directories relative to the repository root
  (\<open>Path(__file__).parent.parent.parent\<close>); the last two read the
  environment when the module is imported.
\<close>

definition review_gate_config :: "(string \<Rightarrow> string option) \<Rightarrow> rg_config" where
  "review_gate_config env =
     \<lparr>rg_server_name = ''review-gate-v2'', rg_server_version = ''2.0.0'',
      rg_server_description = ''Review Gate V2 MCP Server for interactive development reviews'',
      rg_assets_dir = ''assets/review_gate'', rg_cursor_extension_dir = ''assets/review_gate/cursor-extension'',
      rg_installers_dir = ''assets/review_gate/installers'', rg_default_timeout = 300,
      rg_max_file_size = 10 * 1024 * 1024,
      rg_image_formats = [''.png'', ''.jpg'', ''.jpeg'', ''.gif'', ''.bmp'', ''.webp''],
      rg_popup_title = ''Review Gate V2 - Final Review'',
      rg_default_message = ''Please review the work and provide feedback or type '' @ SQ @ ''TASK_COMPLETE'' @ SQ @ '' when satisfied.'',
      rg_whisper_model = ''base'', rg_whisper_device = ''cpu'', rg_whisper_compute_type = ''int8'',
      rg_debug_mode = (py_lower (case env ''REVIEW_GATE_DEBUG'' of None \<Rightarrow> ''false'' | Some v \<Rightarrow> v) = ''true''),
      rg_log_level = (case env ''REVIEW_GATE_LOG_LEVEL'' of None \<Rightarrow> ''INFO'' | Some v \<Rightarrow> v)\<rparr>"

section \<open>Sample worlds\<close>

text \<open>A clean tree with an \<open>origin\<close> remote on \<open>main\<close>, confirmed with \<open>y\<close>.\<close>

definition demo_gh_world :: gh_world where
  "demo_gh_world =
     \<lparr>gh_git_dir = True,
      gh_shell = (\<lambda>c. if c = ''git remote -v'' then ProcExit 0 (''origin'' @ [CHR 0x09] @ ''https://github.com/me/marspro-analysis.git (fetch)'') []
                      else if c = ''git branch --show-current'' then ProcExit 0 (''main'' @ NL) []
                      else ProcExit 0 [] []),
      gh_input = Some ''y''\<rparr>"

text \<open>The same, except that the only remote is \<open>upstream\<close>, whose URL contains \<open>origin\<close>.\<close>

definition upstream_gh_world :: gh_world where
  "upstream_gh_world =
     demo_gh_world\<lparr>gh_shell := (\<lambda>c. if c = ''git remote -v'' then ProcExit 0 (''upstream'' @ [CHR 0x09] @ ''https://github.com/me/origin-mirror.git (fetch)'') []
                                  else gh_shell demo_gh_world c)\<rparr>"

text \<open>The tree of \<open>ToolSetup.demo_tree\<close> with a \<open>config\<close> directory.\<close>

definition demo_checkout :: ts_state where
  "demo_checkout = demo_tree\<lparr>ts_fs := ts_fs demo_tree @ [(''config'', FDir)]\<rparr>"

section \<open>Lemmas\<close>

lemma gh_run_command_snd [simp]: "snd (gh_run_command w c cs) = cs @ [c]"
  by (simp add: gh_run_command_def Let_def split: proc_result.splits)

lemma snd_case_ret_unit [simp]:
  "snd (case p of (Inl e, s') \<Rightarrow> (Inl e, s') | (Inr x, s') \<Rightarrow> ret () s') = snd p"
  by (cases p) (simp add: ret_def split: sum.splits)

lemma gh_run_command_results:
  "gh_shell w c = ProcExit rc out e \<Longrightarrow> gh_run_command w c cs = (Inr (if rc = 0 then Some out else None), cs @ [c])"
  "gh_shell w c = ProcNotFound \<Longrightarrow> gh_run_command w c cs = (Inl (FileNotFoundError ''No such file or directory''), cs @ [c])"
  "gh_shell w c = ProcError m \<Longrightarrow> gh_run_command w c cs = (Inl (OSError m), cs @ [c])"
  "gh_shell w c = ProcTimeout \<Longrightarrow> gh_run_command w c cs = (Inl TimeoutError, cs @ [c])"
  by (simp_all add: gh_run_command_def)

text \<open>
  C39: \<open>push_to_github.py\<close> runs \<open>git push\<close> only in a git checkout whose
  \<open>git status --porcelain\<close> succeeded with blank output, whose remote list
  mentions \<open>origin\<close>, after the user answered \<open>y\<close> or \<open>yes\<close> (any
  case, surrounding blanks ignored), and it pushes the branch \<open>git branch
  --show-current\<close> printed.
\<close>

theorem push_requires_checks:
  assumes "c \<in> set (snd (push_main w []))" "starts_with c ''git push''"
  shows "gh_git_dir w \<and>
         (\<exists>s e. gh_shell w ''git status --porcelain'' = ProcExit 0 s e \<and> py_strip s = []) \<and>
         (\<exists>r e. gh_shell w ''git remote -v'' = ProcExit 0 r e \<and> str_contains ''origin'' r) \<and>
         (\<exists>a. gh_input w = Some a \<and> py_lower (py_strip a) \<in> {''y'', ''yes''}) \<and>
         (\<exists>b e. gh_shell w ''git branch --show-current'' = ProcExit 0 b e \<and> c = ''git push -u origin '' @ py_strip b)"
  using assms
  by (cases "gh_shell w ''git status --porcelain''"; cases "gh_shell w ''git remote -v''";
      cases "gh_shell w ''git branch --show-current''"; cases "gh_input w")
     (auto simp: push_main_def bindE_def gh_run_command_results gh_read_input_def ret_def starts_with_def Let_def
      split: if_splits)

lemma json_nl_ascii: "set (json_nl l) \<subseteq> ascii_chars"
  by (auto simp: json_nl_def ascii_chars_def)

theorem push_requires_checks_witness:
  "''git push -u origin main'' \<in> set (snd (push_main demo_gh_world [])) \<and>
   (\<exists>a. gh_input demo_gh_world = Some a \<and> py_lower (py_strip a) \<in> {''y'', ''yes''})"
proof -
  have m: "''git push -u origin main'' \<in> set (snd (push_main demo_gh_world []))"
    by (simp add: push_main_def demo_gh_world_def bindE_def gh_run_command_def gh_read_input_def
        ret_def Let_def py_strip_def py_isspace_def py_lower_def py_lower_char_def)
  have "starts_with ''git push -u origin main'' ''git push''" by (simp add: starts_with_def)
  with m show ?thesis using push_requires_checks by blast
qed

text \<open>With no \<open>origin\<close> remote the substring test still passes and the push is issued.\<close>

lemma push_without_origin_remote:
  "snd (push_main upstream_gh_world []) =
     [''git status --porcelain'', ''git remote -v'', ''git branch --show-current'', ''git push -u origin main'']"
  by (simp add: push_main_def upstream_gh_world_def demo_gh_world_def bindE_def gh_run_command_def gh_read_input_def
      ret_def Let_def py_strip_def py_isspace_def py_lower_def py_lower_char_def)

text \<open>\<open>config/github\<close> is made without \<open>parents\<close>: on a tree without \<open>config\<close> the script raises before writing.\<close>

lemma github_main_needs_config:
  "\<not> fs_exists (ts_fs st) ''config'' \<Longrightarrow> \<not> fs_exists (ts_fs st) ''config/github'' \<Longrightarrow>
     github_main st = (Inl (err_noent ''config/github''), st)"
  by (simp add: github_main_def bindE_def path_mkdir_def parent_error_def fs_is_dir_def fs_exists_def path_parent_def Let_def)

lemma github_main_writes:
  assumes "map_of (ts_fs st) ''config'' = Some FDir" "map_of (ts_fs st) ''config/github'' \<in> {None, Some FDir}"
    "map_of (ts_fs st) ''config/github/repository_config.json'' \<noteq> Some FDir"
    "map_of (ts_fs st) ''config/github/release_config.json'' \<noteq> Some FDir"
  shows "\<exists>st'. github_main st = (Inr (), st') \<and>
           map_of (ts_fs st') ''config/github/repository_config.json'' = Some (FFile (json_dump repo_config)) \<and>
           map_of (ts_fs st') ''config/github/release_config.json'' = Some (FFile (json_dump release_config))"
  using assms
  by (auto simp: github_main_def bindE_def path_mkdir_def write_text_def ret_def fs_is_dir_def fs_exists_def
      path_parent_def Let_def)

text \<open>
  \<open>json.dump\<close> with \<open>ensure_ascii\<close> writes ASCII only, whatever text the
  value holds: every other code point becomes a \<open>\\u\<close> escape.
\<close>

theorem json_dump_ascii: "set (json_dump v) \<subseteq> ascii_chars"
proof -
  have "set (json_enc l v) \<subseteq> ascii_chars" for l
  proof (induction l v rule: json_enc.induct)
    case (5 l vs)
    show ?case
    proof (cases "vs = []")
      case False
      have "set (join_str ('','' @ json_nl (Suc l)) (map (json_enc (Suc l)) vs)) \<subseteq> ascii_chars"
        by (rule join_str_subset) (use 5 False json_nl_ascii in \<open>auto simp: ascii_chars_def\<close>)
      then show ?thesis
        using json_nl_ascii [of l] json_nl_ascii [of "Suc l"] by (auto simp: ascii_chars_def)
    qed (simp add: ascii_chars_def)
  next
    case (6 l kvs)
    show ?case
    proof (cases "kvs = []")
      case False
      have "set (join_str ('','' @ json_nl (Suc l)) (map (\<lambda>kv. json_quote (fst kv) @ '': '' @ json_enc (Suc l) (snd kv)) kvs))
              \<subseteq> ascii_chars"
        by (rule join_str_subset) (use 6 False json_nl_ascii json_quote_ascii in \<open>auto simp: ascii_chars_def; blast\<close>)+
      then show ?thesis
        using json_nl_ascii [of l] json_nl_ascii [of "Suc l"] by (auto simp: ascii_chars_def)
    qed (simp add: ascii_chars_def)
  qed (use int_str_ascii json_quote_ascii in \<open>auto simp: ascii_chars_def\<close>)
  then show ?thesis by (simp add: json_dump_def)
qed
text \<open>
  On a checkout with a \<open>config\<close> directory, \<open>setup_github_mcp.py\<close>
  returns normally having written \<open>repository_config.json\<close> and
  \<open>release_config.json\<close> below \<open>config/github\<close> as the JSON text of the
  repository and release configurations, and both files are pure ASCII
  although the release notes contain emoji and box-drawing characters.
\<close>

theorem github_main_writes_ascii_json:
  assumes "map_of (ts_fs st) ''config'' = Some FDir" "map_of (ts_fs st) ''config/github'' \<in> {None, Some FDir}"
    "map_of (ts_fs st) ''config/github/repository_config.json'' \<noteq> Some FDir"
    "map_of (ts_fs st) ''config/github/release_config.json'' \<noteq> Some FDir"
  shows "\<exists>st'. github_main st = (Inr (), st') \<and>
           map_of (ts_fs st') ''config/github/repository_config.json'' = Some (FFile (json_dump repo_config)) \<and>
           map_of (ts_fs st') ''config/github/release_config.json'' = Some (FFile (json_dump release_config)) \<and>
           set (json_dump repo_config) \<subseteq> ascii_chars \<and> set (json_dump release_config) \<subseteq> ascii_chars"
  using github_main_writes [OF assms] json_dump_ascii by blast

theorem github_main_writes_ascii_json_witness:
  "\<exists>st'. github_main demo_checkout = (Inr (), st') \<and>
     map_of (ts_fs st') ''config/github/repository_config.json'' = Some (FFile (json_dump repo_config)) \<and>
     map_of (ts_fs st') ''config/github/release_config.json'' = Some (FFile (json_dump release_config)) \<and>
     set (json_dump repo_config) \<subseteq> ascii_chars \<and> set (json_dump release_config) \<subseteq> ascii_chars"
  by (rule github_main_writes_ascii_json) (simp_all add: demo_checkout_def demo_tree_def)

end
