(* ===== verification/Spec2Isabelle.thy ===== *)
theory Spec2Isabelle
  imports Setup BleClient ReviewGate BleAnalyzer RepoScripts
begin

text \<open>
  A verification development of the MarsPro Home Assistant integration
  (\<open>src/src/marspro\<close>, \<open>src/custom_components/marspro\<close>): a grow-light controller that
  talks to the vendor cloud over HTTP or to the lamp over Bluetooth LE, with the
  repository's Review Gate server and its analysis scripts.

  \<^bold>\<open>Parts and how they interact.\<close>  The integration's entry points
  (\<open>src/src/marspro/__init__.py\<close>) build the facade \<open>MarsProAPI\<close>
  (\<open>src/src/marspro/api.py\<close>) from a config entry, test it, hand it to the coordinator
  \<open>MarsProDataUpdateCoordinator\<close> (\<open>src/custom_components/marspro/coordinator.py\<close>),
  run its first refresh and set up the light platform
  (\<open>src/custom_components/marspro/light.py\<close>), whose entities read the coordinator's
  registry and send commands through it.  The config flow
  (\<open>src/src/marspro/config_flow.py\<close>) creates and re-authenticates entries.  The
  facade owns one transport, chosen at construction: the cloud (login, device
  listing, status and control requests) or a BLE link (connect, read the status
  characteristic, write command frames built by its codec).  The standalone client
  (\<open>src/src/marspro/ble_client_standalone.py\<close>) and the placeholder client
  (\<open>src/src/marspro/ble_client.py\<close>) are a second BLE stack the integration does not
  call.  The Review Gate server (\<open>src/assets/review_gate/review_gate_v2_simple.py\<close>)
  stands alone, as do the analysis scripts under \<open>src/scripts\<close>: the BLE analyzer
  \<open>marspro_ble_analyzer.py\<close>, the APK analyzer \<open>reverse_engineering_analysis.py\<close>,
  the five-phase drivers \<open>analyze.py\<close> and \<open>analyze_mcp.py\<close> (the latter through
  MCP servers), and the dynamic-analysis helpers \<open>dynamic_analysis.py\<close> and
  \<open>dynamic_analysis_setup.py\<close>, the two Frida launchers \<open>analyze_ble.py\<close> and
  \<open>analyze_network.py\<close>, \<open>decompile_apk.py\<close>, and under \<open>scripts/utilities\<close> the
  tool installers and the GitHub helpers; these scripts drive external tools
  (apktool, jadx, aapt, adb, frida, git, MCP servers) and write files.

  \<^bold>\<open>Theories.\<close>
  \<^item> \<open>Prelude\<close>: the Python values the code handles (\<open>pyval\<close>: None, bool, int,
    binary floats \<open>Flt m e\<close> = \<open>m * 2 ^ e\<close>, str, list, dict), hashing and key equality
    of dictionaries, the dictionary operations (\<open>dict_lookup\<close>, \<open>dict_store\<close>,
    \<open>py_dict_get\<close>, \<open>py_dict_set\<close>, \<open>py_dict_update\<close> with CPython's partial update),
    \<open>str(n)\<close>, \<open>str.lower\<close>, \<open>in\<close> on strings, formatted strings kept as their parts
    (\<open>fpart\<close>), the exceptions (\<open>exn\<close>) and the exception-and-state operations
    \<open>('s,'a) pyop\<close> with \<open>ret\<close>, \<open>throw\<close>, \<open>bindE\<close>, \<open>catchE\<close> and \<open>on_part\<close>.
    Dictionaries with string keys that are only updated use \<open>AList\<close>.
  \<^item> \<open>PyStruct\<close>, \<open>PyFloat\<close>: \<open>struct.pack\<close> and binary64 arithmetic (division,
    multiplication, \<open>int()\<close>) with round-to-nearest-even, subnormals and overflow, as
    the code's conversions use them.  \<open>BrightnessScale\<close> evaluates the two brightness
    conversions of the light entity on every input 0..255 and proves them equal to
    integer division.
  \<^item> \<open>Const\<close>: every constant of \<open>const.py\<close>.
  \<^item> \<open>Json\<close>: \<open>json.dumps\<close> with its default separators and
    \<open>ensure_ascii\<close> escapes (\<open>py_json\<close>, over UTF-8 decoded code points, with the
    4300-digit limit of \<open>str(int)\<close>), and the values \<open>json.loads\<close> returns
    (\<open>json_loaded\<close>); its lemmas show that \<open>json.dumps\<close> succeeds on every loaded
    value and writes printable ASCII, no line break.
  \<^item> \<open>Codec\<close>: the facade's BLE frames and the standalone client's packets.
  \<^item> \<open>Api\<close>: the facade; state \<open>api_state\<close> (the fields of \<open>__init__\<close> plus the
    request trace), world \<open>api_world\<close>, one definition per method, the URL of
    each request (\<open>request_url\<close>), and the steps of \<open>api_reachable\<close>.
  \<^item> \<open>BleLink\<close>, \<open>BleClient\<close>: the standalone client and scanner (state \<open>link_state\<close>,
    world \<open>link_world\<close>, reachable states \<open>link_reachable\<close>; a client that
    \<open>connect\<close> replaces is not disconnected, and its live subscription, kept as
    \<open>stale_subscribed\<close>, still delivers notifications; whether a failing
    \<open>disconnect\<close> took the link down is the world's \<open>lw_down_on_error\<close>) and the placeholder
    client with its projection \<open>abs_pc\<close> onto the standalone client; each
    module's example \<open>main\<close> (\<open>link_main\<close>, \<open>pc_main\<close>).
  \<^item> \<open>Coordinator\<close>: \<open>coord_state\<close>, \<open>async_update_data\<close> with its loop
    \<open>refresh_loop\<close>, \<open>async_refresh\<close>, \<open>coord_send_command\<close>, the views, the abstract
    refresh \<open>refresh_pure\<close>, and \<open>coord_reachable\<close>.
  \<^item> \<open>Light\<close>: the entity \<open>light_state\<close> with \<open>update_from_device_data\<close>,
    \<open>handle_coordinator_update\<close>, \<open>light_turn_on\<close>, \<open>light_turn_off\<close>, and the
    platform's \<open>light_setup_entry\<close>.
  \<^item> \<open>Setup\<close>: config entries, \<open>async_setup_entry\<close>, \<open>async_unload_entry\<close>,
    \<open>async_migrate_entry\<close>; the flow's \<open>async_step_user\<close> and \<open>async_step_reauth\<close>.
  \<^item> \<open>ReviewGate\<close>: \<open>handle_request\<close>, the tool table \<open>tools_table\<close>, the two
    tools, the trigger files, the response dictionaries \<open>rpc_value\<close> and the line
    \<open>response_line\<close> written for each (\<open>json.dumps\<close> and a newline), and
    \<open>main\<close> as \<open>main_loop\<close>, a \<open>partial_function (option)\<close> over standard input,
    with the reference loop \<open>serve\<close> over a finite session; the loop ends
    when its input ends (\<open>main_loop_terminates\<close>) and has no result on a stream
    of requests that never closes (\<open>main_loop_runs_forever\<close>).
  \<^item> \<open>BleAnalyzer\<close>: \<open>MarsProBLEAnalyzer\<close>: scan, connect and capture, the traffic
    log and the report; the module import and \<open>main\<close> (\<open>ble_an_import\<close>,
    \<open>ble_an_main\<close>).
  \<^item> \<open>ApkAnalysis\<close>: \<open>validate_apk\<close>, \<open>_parse_aapt_output\<close>, \<open>analyze_manifest\<close>
    over a parsed XML tree, \<open>search_for_strings\<close> and the lists built on it,
    \<open>generate_security_report\<close>; its lemmas show the search sound (every reported
    path is a file containing the pattern) and the report's permission findings
    exactly the dangerous permissions the manifest requests.
  \<^item> \<open>ApkPipeline\<close>: the rest of that script over the world \<open>apk_world\<close> (tool
    outcomes \<open>proc_result\<close>, the XAPK members, directory trees \<open>fs_node\<close>, the
    outcome of hashing the input, which fails on a directory or an unreadable file): metadata
    extraction, the decompilers, libraries and assets (\<open>rglob_files\<close>), the Markdown
    report as its written parts, and \<open>run_complete_analysis\<close> over the state
    \<open>re_state\<close> (the \<open>analysis_results\<close> record, \<open>extracted.apk\<close>, the reports).
  \<^item> \<open>Workflow\<close>: \<open>analyze.py\<close> and \<open>analyze_mcp.py\<close> over \<open>wf_world\<close> and
    \<open>wf_state\<close> (files written, commands run, phases started): \<open>run_cmd\<close>, the
    phases as exception-and-state operations under \<open>phase_guard\<close>, \<open>run_phases\<close>,
    \<open>call_mcp_server\<close>, the MCP analyzer's copies of the direct analyzer's methods
    (proved equal to them), and both scripts' \<open>main\<close> behind the module-level
    log setup \<open>log_setup\<close>.
  \<^item> \<open>DynamicAnalysis\<close>: \<open>dynamic_analysis.py\<close> and \<open>dynamic_analysis_setup.py\<close>
    in the same world and state (the setup's state extends it with the adb path);
    the texts they write are constants equal to the source's literals; the
    setup's writers catch the \<open>OSError\<close> of a \<open>mkdir\<close> or \<open>open\<close>
    (\<open>wf_write_error\<close>, by path) and return \<open>False\<close>.
  \<^item> \<open>ToolSetup\<close>: a model of the working tree (\<open>fsys\<close>: directories and files by
    relative path, in creation order) with \<open>Path.mkdir\<close> without parents,
    \<open>write_text\<close>, \<open>unlink\<close>, \<open>rmdir\<close>, \<open>ZipFile.extractall\<close> and
    \<open>shutil.move\<close> raising the library's \<open>OSError\<close>s, and over it the two
    installers \<open>setup_reverse_engineering_tools.py\<close> (\<open>rt_main\<close>) and
    \<open>setup_android_tools.py\<close> (\<open>an_main\<close>), with downloads, archive contents
    and programs as the world \<open>ts_world\<close>.
  \<^item> \<open>RepoScripts\<close>: \<open>push_to_github.py\<close> (\<open>push_main\<close> over a shell and
    input world), \<open>setup_github_mcp.py\<close> (the two configurations as JSON values,
    \<open>json.dump(indent=2)\<close> as \<open>json_dump\<close> with the string escapes of
    \<open>Json\<close>, \<open>github_main\<close> on the working tree; a lemma shows both files ASCII),
    \<open>decompile_apk.py\<close> over the jadx MCP server as a world, the Frida launchers,
    and the constants of \<open>src/review_gate/config.py\<close>.

  \<^bold>\<open>What the lemmas show.\<close>
  \<^item> Coordinator (C1--C7): keep-last-good on a failed status read; a failed
    listing raises \<open>UpdateFailed\<close>; a command's result survives a failed refresh;
    the refresh refines \<open>refresh_pure\<close> and its contract; unlisted devices are
    dropped; the registry invariant over \<open>coord_reachable\<close>.
  \<^item> Facade (C8--C12): one transport for life (an invariant over \<open>api_reachable\<close>);
    \<open>test_connection\<close> never raises and answers exactly whether the transport
    works; lazy authentication; no re-authentication on
    401; a disconnected cloud object is dead.  A further lemma shows that BLE
    writes exactly the codec's frame.
  \<^item> Codec (C13--C15): packet layout, round trips of the light packet and of the
    facade's frames; a lemma gives the BLE status fields.
  \<^item> BLE clients (C16--C18): the client invariant over \<open>link_reachable\<close>; the failed
    reconnect that reports connected; the placeholder client's connect, disconnect
    and ready test refine the standalone one's (its \<open>send_command\<close>, which issues
    no request, is a separate lemma, \<open>pc_send_command_no_request\<close>).  Further lemmas of \<open>BleLink\<close> cover connect, a failing
    disconnect, the written packet, the climate helper, notification order and
    the scanner.
  \<^item> Light (C19--C22): the platform creates well-typed entities in every reachable
    state; brightness bounds (a device byte above 100 gives more than 255); the
    percent round trip loses at most 3; colour over BLE fails after powering on.
  \<^item> Across components (C23, below): once the lamp answers, the next refresh makes
    the entity available and shows the lamp's state.
  \<^item> Setup and flow (C24--C25): setup succeeds exactly when the first refresh does;
    the flow creates an entry whatever the connection test says.
  \<^item> Review Gate (C26--C29): every request of a well-formed session is answered in
    order; the loop ends on every finite session; trigger files collide within one
    second; standard output gets exactly one printable line of JSON per request,
    the framing line-delimited JSON-RPC needs.
  \<^item> BLE analyzer (C30): the report groups every traffic entry under its
    characteristic.
  \<^item> APK analyzer (C31--C34): an XAPK with a manifest member is never decompiled;
    the complete analysis succeeds under the stated conditions and its permission
    findings are those of the manifest; \<open>analyze_assets\<close> reports each file below
    \<open>assets\<close> once (as a multiset, a depth-first walk) and stores that list.
  \<^item> Drivers (C35--C38): the device check of phase 2 never skips; a failed APKTool
    stops the workflow after phase 1; \<open>call_mcp_server\<close> returns only a successful,
    error-free answer's result; \<open>run_setup\<close>'s outcome is that of its prerequisites and of its three
    writers' file operations.
  \<^item> Utilities (C39--C40): \<open>git push\<close> runs only after every check and the
    user's confirmation; the tool installer's \<open>&=\<close> runs every step after a failed
    download.  Lemmas show that the GitHub helper writes both configurations as
    ASCII JSON, and the installers' and the helper's missing-parent failures.
  \<^item> Entry points (lemmas): both drivers and the BLE analyzer die at import unless
    started where an \<open>analysis\<close> directory exists
    (\<open>drivers_need_cwd_analysis\<close>, \<open>ble_an_main_needs_cwd_analysis\<close>); the
    placeholder client's example never writes the \<open>uv\<close> command it sends
    (\<open>pc_main_run\<close>); the standalone example leaves the client marked connected
    when \<open>disconnect\<close> fails (\<open>link_main_disconnect_error\<close>); the API client
    requests none of the endpoint paths of \<open>const.py\<close> (\<open>request_url_endpoints\<close>).

  \<^bold>\<open>Modelling choices.\<close>  Awaiting is sequential composition: the integration runs
  on one event loop and each method awaits its I/O in order; interleavings between
  calls are the sequences of \<open>api_reachable\<close>, \<open>coord_reachable\<close> and
  \<open>link_reachable\<close>.  Worlds are stateless (an answer depends on the request only);
  properties that depend on a history say so in their hypotheses.  Clocks are
  inputs.  Loops over lists are structural recursion, so those operations are total
  and need no fuel; the one unbounded loop, Review Gate's \<open>while True\<close> over standard
  input, is a \<open>partial_function (option)\<close> whose value \<open>None\<close> is running forever,
  and C27 proves it returns on every finite session.  The brightness conversions are
  binary64 computations, checked exhaustively on 0..255 (\<open>BrightnessScale\<close>).  Home
  Assistant's \<open>DataUpdateCoordinator\<close> (\<open>async_refresh\<close>,
  \<open>async_config_entry_first_refresh\<close>), its config entries and flow results are
  modelled from their documented behaviour; its debouncer is not modelled.  The
  setup is modelled as if the package were assembled: \<open>src/src/marspro\<close> imports a
  \<open>.coordinator\<close> that lives in \<open>src/custom_components/marspro\<close>, and the fan and
  sensor platforms of \<open>PLATFORMS\<close> have no module.

  \<^bold>\<open>Not modelled.\<close>  Entity metadata (names, unique ids, device info), the
  voluptuous schemas, logging (but the log files the scripts open at import
  are modelled, since opening them can fail); the float \<open>repr\<close> and the \<open>str\<close> of an f-string field, which are
  parameters (\<open>fr\<close>, \<open>txt\<close>) of the Review Gate model; the package
  \<open>src/src/review_gate/__init__.py\<close> (it imports a module that does not exist;
  its \<open>config.py\<close> is modelled); the SHA-256 computation (its digest or
    its \<open>OSError\<close> is a world input), the parsing of zip archives and of JSON
  (a request line is the value \<open>json.loads\<close> returns), whose results are world
  inputs; \<open>scripts/utilities/test_mcp_servers.py\<close>, which
  only reports which server files exist; \<open>setup.py\<close>; the manual test scripts
  and the test suite.
\<close>

section \<open>Properties across components\<close>

text \<open>
  C23: From any coordinator state in BLE mode, once the lamp accepts the connection
  and answers the status read, the next refresh succeeds, the light entity becomes
  available, and its coordinator update shows the lamp's power byte and its
  brightness byte scaled by \<open>255 / 100\<close>.
\<close>

theorem ble_status_reaches_light:
  assumes "\<not> use_cloud (api s)" and "ble_mac (api s) = Some m" and "m \<noteq> []"
    and "ble_connect w m = None" and "ble_read w BLE_CHARACTERISTIC_UUID = Inr (b0 # rest)"
    and "l_device_id l = PStr m"
  shows "\<exists>s'. async_refresh w now s = (Inr (), s') \<and> light_available s'
     \<and> handle_coordinator_update s' l =
         (Inr (), l\<lparr>l_is_on := (b0 = 1),
                    l_brightness := (if rest \<noteq> [] then uint (hd rest) else 100) * 255 div 100\<rparr>)"
proof -
  obtain s' where r: "async_refresh w now s = (Inr (), s')" and ok: "last_update_success s'"
    and reg: "devices s' = [(PStr m, PDict
          [(PStr ''id'', PStr m), (PStr ''name'', PStr (''MarsPro Device ('' @ m @ '')'')),
           (PStr ''type'', PStr ''light''), (PStr ''status'', PStr ''online''), (PStr ''mac'', PStr m),
           (PStr ''power'', PStr (if b0 = 1 then ''on'' else ''off'')),
           (PStr ''brightness'', PInt (if rest \<noteq> [] then uint (hd rest) else 100)),
           (PStr ''online'', PBool True)])]"
    using ble_refresh_registry [OF assms(1-5)] by blast
  have b: "0 \<le> (if rest \<noteq> [] then uint (hd rest) else 100)" "(if rest \<noteq> [] then uint (hd rest) else 100) \<le> 255"
    using uint_lt2p [of "hd rest"] by auto
  have "handle_coordinator_update s' l =
         (Inr (), l\<lparr>l_is_on := (b0 = 1),
                    l_brightness := (if rest \<noteq> [] then uint (hd rest) else 100) * 255 div 100\<rparr>)"
    using update_from_device_data_scaled [OF _ b] assms(6)
    by (simp add: handle_coordinator_update_def get_device_def reg dict_get_or_def STATUS_ON_def STATUS_OFF_def)
  then show ?thesis using r ok by (auto simp: light_available_def)
qed

theorem ble_status_reaches_light_witness:
  "\<not> use_cloud (api (coord_init (api_init (PStr ''u@x'') (PStr ''pw'') False (Some ''AA:BB''))))
   \<and> ble_mac (api (coord_init (api_init (PStr ''u@x'') (PStr ''pw'') False (Some ''AA:BB'')))) = Some ''AA:BB''
   \<and> ''AA:BB'' \<noteq> [] \<and> ble_connect demo_login_world ''AA:BB'' = None
   \<and> ble_read demo_login_world BLE_CHARACTERISTIC_UUID = Inr [1, 80]
   \<and> l_device_id (light_init [(PStr ''id'', PStr ''AA:BB'')]) = PStr ''AA:BB''
   \<and> (\<exists>s'. async_refresh demo_login_world (Flt 0 0)
              (coord_init (api_init (PStr ''u@x'') (PStr ''pw'') False (Some ''AA:BB''))) = (Inr (), s')
         \<and> light_available s'
         \<and> handle_coordinator_update s' (light_init [(PStr ''id'', PStr ''AA:BB'')]) =
             (Inr (), (light_init [(PStr ''id'', PStr ''AA:BB'')])\<lparr>l_is_on := True, l_brightness := 204\<rparr>))"
  using ble_status_reaches_light [of "coord_init (api_init (PStr ''u@x'') (PStr ''pw'') False (Some ''AA:BB''))"
      "''AA:BB''" demo_login_world 1 "[80]" "light_init [(PStr ''id'', PStr ''AA:BB'')]" "Flt 0 0"]
  by (simp add: coord_init_def api_init_def demo_login_world_def light_init_def dict_get_or_def)

end
